(* ===== verification/Prelude.thy ===== *)
theory Prelude
  imports Main "HOL-Library.Word" "HOL-Library.State_Monad"
    "HOL-Library.Code_Target_Nat" "HOL-Library.Code_Target_Int"
begin

text \<open>
  What every component of the development shares: the names of the machine types of the C
  and Go sources, the little-endian representation of machine words (the only byte order
  the repository targets, \<^verbatim>\<open>gen.go\<close>), C strings in byte buffers, the overwriting of a prefix
  of a buffer, and the theorem collections that carry the component proofs.
\<close>

unbundle bit_operations_syntax

section \<open>Machine types\<close>

type_synonym byte = "8 word"
type_synonym u8 = "8 word"
type_synonym u16 = "16 word"
type_synonym u32 = "32 word"
type_synonym u64 = "64 word"

text \<open>
  Collections: \<open>layout_eval\<close> holds the evaluated layouts of concrete C types,
  \<open>prog_defs\<close> the definitions a symbolic run of a program unfolds.
\<close>

named_theorems layout_eval "sizes, alignments and field offsets of concrete C types"
named_theorems prog_defs "definitions unfolded when a program is run symbolically"

section \<open>Little-endian bytes\<close>

fun le_bytes :: "nat \<Rightarrow> 'a::len word \<Rightarrow> byte list" where
  "le_bytes 0 w = []"
| "le_bytes (Suc n) w = ucast w # le_bytes n (drop_bit 8 w)"

fun le_word :: "byte list \<Rightarrow> 'a::len word" where
  "le_word [] = 0"
| "le_word (b # bs) = ucast b OR push_bit 8 (le_word bs)"

lemma length_le_bytes [simp]: "length (le_bytes n w) = n"
  by (induction n arbitrary: w) auto

lemma byte_split:
  fixes w :: "'a::len word"
  shows "ucast (ucast w :: byte) OR push_bit 8 (take_bit n (drop_bit 8 w)) = take_bit (8 + n) w"
  by (rule bit_word_eqI)
    (auto simp: bit_or_iff bit_ucast_iff bit_push_bit_iff bit_take_bit_iff bit_drop_bit_eq
       dest: bit_imp_le_length)

lemma le_word_le_bytes_take: "le_word (le_bytes n w) = take_bit (8 * n) w"
proof (induction n arbitrary: w)
  case 0
  show ?case by simp
next
  case (Suc n)
  have "le_word (le_bytes (Suc n) w) = ucast (ucast w :: byte) OR push_bit 8 (take_bit (8 * n) (drop_bit 8 w))"
    by (simp add: Suc.IH)
  also have "\<dots> = take_bit (8 + 8 * n) w"
    by (rule byte_split)
  finally show ?case by simp
qed

lemma le_word_le_bytes [simp]:
  fixes w :: "'a::len word"
  assumes "LENGTH('a) \<le> 8 * n"
  shows "le_word (le_bytes n w) = w"
  unfolding le_word_le_bytes_take using assms by (simp add: take_bit_word_eq_self)

lemma unat_byte: "unat (b :: byte) < 256"
  using unsigned_less [of b, where ?'a = nat] by simp

text \<open>A cast to a shorter word keeps a value that fits.\<close>

lemma unat_ucast_fits:
  "unat w < 2 ^ LENGTH('b) \<Longrightarrow> unat (ucast (w :: 'a::len word) :: 'b::len word) = unat w"
  by (simp add: unsigned_ucast_eq take_bit_nat_eq_self)

lemma le_word_pair: "le_word [a, b] = (ucast a OR push_bit 8 (ucast b) :: u16)"
  by simp

lemma unat_le_word_pair: "unat (le_word [a, b] :: u16) = unat a + 256 * unat b"
proof -
  have "(ucast a :: u16) AND push_bit 8 (ucast b) = 0"
    by (rule bit_word_eqI) (auto simp: bit_ucast_iff bit_and_iff bit_push_bit_iff dest: bit_imp_le_length)
  then have "le_word [a, b] = (ucast a :: u16) + push_bit 8 (ucast b)"
    unfolding le_word_pair by (simp add: disjunctive_add_eq_or)
  moreover have "unat a < 256" "unat b < 256" by (rule unat_byte)+
  ultimately show ?thesis
    by (simp add: push_bit_eq_mult unat_word_ariths unat_ucast_fits)
qed

section \<open>C strings in buffers\<close>

text \<open>The string a C buffer holds: the bytes before its first NUL, all of it when it has none.\<close>

definition c_string :: "byte list \<Rightarrow> byte list" where
  "c_string bs = takeWhile (\<lambda>b. b \<noteq> 0) bs"

text \<open>A write to the first bytes of a buffer leaves the rest as it was.\<close>

definition overwrite :: "byte list \<Rightarrow> byte list \<Rightarrow> byte list" where
  "overwrite new old = new @ drop (length new) old"

lemma length_overwrite [simp]:
  "length new \<le> length old \<Longrightarrow> length (overwrite new old) = length old"
  by (simp add: overwrite_def)

lemma c_string_terminated [simp]:
  "0 \<notin> set s \<Longrightarrow> c_string (s @ 0 # rest) = s"
  unfolding c_string_def by (subst takeWhile_append2) auto

lemma c_string_overwrite [simp]:
  "0 \<notin> set s \<Longrightarrow> c_string (overwrite (s @ [0]) old) = s"
  by (simp add: overwrite_def)

lemma c_string_zeroes [simp]: "c_string (replicate n 0) = []"
  by (cases n) (simp_all add: c_string_def)

lemma c_string_no_nul: "0 \<notin> set (c_string bs)"
  unfolding c_string_def by (induction bs) auto

lemma length_c_string: "length (c_string bs) \<le> length bs"
  unfolding c_string_def by (rule length_takeWhile_le)

lemma length_c_string_less: "0 \<in> set bs \<Longrightarrow> length (c_string bs) < length bs"
  unfolding c_string_def by (induction bs) auto

end
