(* ===== verification/C_Layout.thy ===== *)
theory C_Layout
  imports Prelude
begin

text \<open>
  The part of the C language the sources rest on when they take \<open>sizeof\<close>, \<open>offsetof\<close> or the
  address of a field: aggregate types and their layout under the System V ABI that clang
  uses for its BPF target (64-bit pointers, natural alignment, bit-fields allocated in the
  storage unit of their declared type and never crossing it, unnamed bit-fields without
  influence on the alignment). Positions are counted in bits, as bit-fields need.
\<close>

section \<open>Types\<close>

text \<open>
  \<open>CInt n\<close> is a scalar of \<open>n\<close> bytes (an integer, an enum or a Boolean); \<open>Fld name type\<close> a
  member, anonymous when its name is empty; \<open>Bits name n w\<close> a bit-field of width \<open>w\<close>
  declared with a type of \<open>n\<close> bytes.
\<close>

datatype ctype =
    CInt nat
  | CPtr
  | CArr ctype nat
  | CStruct "cfield list"
  | CUnion "cfield list"
and cfield =
    Fld string ctype
  | Bits string nat nat

section \<open>Size and alignment\<close>

definition round_up :: "nat \<Rightarrow> nat \<Rightarrow> nat" where
  "round_up n a = (n + (a - 1)) div a * a"

fun alignof :: "ctype \<Rightarrow> nat" and align_fields :: "cfield list \<Rightarrow> nat" where
  "alignof (CInt n) = n"
| "alignof CPtr = 8"
| "alignof (CArr t n) = alignof t"
| "alignof (CStruct fs) = align_fields fs"
| "alignof (CUnion fs) = align_fields fs"
| "align_fields [] = 1"
| "align_fields (Fld nm t # fs) = max (alignof t) (align_fields fs)"
| "align_fields (Bits nm u w # fs) = (if nm = [] then align_fields fs else max u (align_fields fs))"

text \<open>Where a bit-field of a given width starts, when the previous member ends at bit \<open>off\<close>.\<close>

definition bits_start :: "nat \<Rightarrow> nat \<Rightarrow> nat \<Rightarrow> nat" where
  "bits_start off u w = (if w = 0 \<or> 8 * u < off mod (8 * u) + w then round_up off (8 * u) else off)"

fun sizeof :: "ctype \<Rightarrow> nat" and struct_bits :: "nat \<Rightarrow> cfield list \<Rightarrow> nat"
  and union_bits :: "cfield list \<Rightarrow> nat" where
  "sizeof (CInt n) = n"
| "sizeof CPtr = 8"
| "sizeof (CArr t n) = n * sizeof t"
| "sizeof (CStruct fs) = round_up ((struct_bits 0 fs + 7) div 8) (align_fields fs)"
| "sizeof (CUnion fs) = round_up ((union_bits fs + 7) div 8) (align_fields fs)"
| "struct_bits off [] = off"
| "struct_bits off (Fld nm t # fs) = struct_bits (round_up off (8 * alignof t) + 8 * sizeof t) fs"
| "struct_bits off (Bits nm u w # fs) = struct_bits (bits_start off u w + w) fs"
| "union_bits [] = 0"
| "union_bits (Fld nm t # fs) = max (8 * sizeof t) (union_bits fs)"
| "union_bits (Bits nm u w # fs) = max w (union_bits fs)"

section \<open>Members\<close>

text \<open>
  The position (in bits) and the type of a named member. Members of an anonymous struct or
  union are members of the enclosing one. A bit-field has no address, so it is skipped.
\<close>

fun member :: "ctype \<Rightarrow> string \<Rightarrow> (nat \<times> ctype) option"
  and struct_member :: "nat \<Rightarrow> cfield list \<Rightarrow> string \<Rightarrow> (nat \<times> ctype) option"
  and union_member :: "cfield list \<Rightarrow> string \<Rightarrow> (nat \<times> ctype) option" where
  "member (CInt n) x = None"
| "member CPtr x = None"
| "member (CArr t n) x = None"
| "member (CStruct fs) x = struct_member 0 fs x"
| "member (CUnion fs) x = union_member fs x"
| "struct_member off [] x = None"
| "struct_member off (Fld nm t # fs) x =
     (let s = round_up off (8 * alignof t) in
      if nm = x then Some (s, t)
      else case (if nm = [] then member t x else None) of
             Some (p, t') \<Rightarrow> Some (s + p, t')
           | None \<Rightarrow> struct_member (s + 8 * sizeof t) fs x)"
| "struct_member off (Bits nm u w # fs) x = struct_member (bits_start off u w + w) fs x"
| "union_member [] x = None"
| "union_member (Fld nm t # fs) x =
     (if nm = x then Some (0, t)
      else case (if nm = [] then member t x else None) of
             Some (p, t') \<Rightarrow> Some (p, t')
           | None \<Rightarrow> union_member fs x)"
| "union_member (Bits nm u w # fs) x = union_member fs x"

text \<open>\<open>offsetof\<close> along a path of member names, in bytes.\<close>

fun offsetof :: "ctype \<Rightarrow> string list \<Rightarrow> nat option" where
  "offsetof t [] = Some 0"
| "offsetof t (x # xs) =
     (case member t x of
        None \<Rightarrow> None
      | Some (p, t') \<Rightarrow> map_option (\<lambda>o'. p div 8 + o') (offsetof t' xs))"

fun type_at :: "ctype \<Rightarrow> string list \<Rightarrow> ctype option" where
  "type_at t [] = Some t"
| "type_at t (x # xs) = (case member t x of None \<Rightarrow> None | Some (p, t') \<Rightarrow> type_at t' xs)"

section \<open>Well-formed types\<close>

definition scalar_size :: "nat \<Rightarrow> bool" where
  "scalar_size n \<longleftrightarrow> n = 1 \<or> n = 2 \<or> n = 4 \<or> n = 8"

fun wf_ctype :: "ctype \<Rightarrow> bool" and wf_fields :: "cfield list \<Rightarrow> bool" where
  "wf_ctype (CInt n) = scalar_size n"
| "wf_ctype CPtr = True"
| "wf_ctype (CArr t n) = wf_ctype t"
| "wf_ctype (CStruct fs) = wf_fields fs"
| "wf_ctype (CUnion fs) = wf_fields fs"
| "wf_fields [] = True"
| "wf_fields (Fld nm t # fs) = (wf_ctype t \<and> wf_fields fs)"
| "wf_fields (Bits nm u w # fs) = (scalar_size u \<and> w \<le> 8 * u \<and> wf_fields fs)"

lemma scalar_size_simps [simp]: "scalar_size (Suc 0)" "scalar_size 8"
  by (simp_all add: scalar_size_def)

lemma scalar_size_pos: "scalar_size a \<Longrightarrow> 0 < a"
  by (auto simp: scalar_size_def)

lemma scalar_size_max: "scalar_size a \<Longrightarrow> scalar_size b \<Longrightarrow> scalar_size (max a b)"
  by (auto simp: scalar_size_def)

lemma scalar_size_dvd: "scalar_size a \<Longrightarrow> scalar_size b \<Longrightarrow> a \<le> b \<Longrightarrow> a dvd b"
  by (auto simp: scalar_size_def)

lemma round_up_ge:
  assumes "0 < a"
  shows "n \<le> round_up n a"
proof -
  have "(n + (a - 1)) mod a < a" using assms by simp
  moreover have "(n + (a - 1)) div a * a + (n + (a - 1)) mod a = n + (a - 1)"
    by (rule div_mult_mod_eq)
  ultimately show ?thesis using assms unfolding round_up_def by linarith
qed

lemma round_up_dvd [simp]: "a dvd round_up n a"
  by (simp add: round_up_def)


lemma scalar_alignof:
  "wf_ctype t \<Longrightarrow> scalar_size (alignof t)"
  "wf_fields fs \<Longrightarrow> scalar_size (align_fields fs)"
proof (induction t and fs rule: alignof_align_fields.induct)
  case (8 nm u w fs)
  then show ?case by (auto intro: scalar_size_max)
qed (auto intro: scalar_size_max)

lemma alignof_dvd_sizeof:
  "wf_ctype t \<Longrightarrow> alignof t dvd sizeof t"
  by (induction t) auto

lemma bits_start_ge: "0 < u \<Longrightarrow> off \<le> bits_start off u w"
  by (simp add: bits_start_def round_up_ge)

lemma field_start_ge: "wf_ctype t \<Longrightarrow> off \<le> round_up off (8 * alignof t)"
  by (intro round_up_ge) (simp add: scalar_size_pos scalar_alignof)

lemma struct_bits_ge: "wf_fields fs \<Longrightarrow> off \<le> struct_bits off fs"
proof (induction fs arbitrary: off)
  case Nil
  show ?case by simp
next
  case (Cons f fs)
  show ?case
  proof (cases f)
    case (Fld nm t)
    with Cons.prems have "off \<le> round_up off (8 * alignof t) + 8 * sizeof t"
      using field_start_ge [of t off] by simp
    also have "\<dots> \<le> struct_bits (round_up off (8 * alignof t) + 8 * sizeof t) fs"
      using Cons Fld by simp
    finally show ?thesis using Fld by simp
  next
    case (Bits nm u w)
    with Cons.prems have "off \<le> bits_start off u w + w"
      using bits_start_ge [of u off w] scalar_size_pos by force
    also have "\<dots> \<le> struct_bits (bits_start off u w + w) fs"
      using Cons Bits by simp
    finally show ?thesis using Bits by simp
  qed
qed

lemma sizeof_struct_ge:
  assumes "wf_fields fs"
  shows "struct_bits 0 fs \<le> 8 * sizeof (CStruct fs)"
proof -
  have "(struct_bits 0 fs + 7) div 8 \<le> sizeof (CStruct fs)"
    using assms by (simp add: round_up_ge scalar_size_pos scalar_alignof)
  then show ?thesis by linarith
qed

lemma sizeof_union_ge:
  assumes "wf_fields fs"
  shows "union_bits fs \<le> 8 * sizeof (CUnion fs)"
proof -
  have "(union_bits fs + 7) div 8 \<le> sizeof (CUnion fs)"
    using assms by (simp add: round_up_ge scalar_size_pos scalar_alignof)
  then show ?thesis by linarith
qed


text \<open>
  A member lies inside its aggregate, starts at a multiple of its alignment, and its
  alignment divides that of the aggregate.
\<close>

definition placed :: "nat \<Rightarrow> ctype \<Rightarrow> nat \<Rightarrow> nat \<Rightarrow> nat \<Rightarrow> bool" where
  "placed p t lo hi al \<longleftrightarrow>
     wf_ctype t \<and> lo \<le> p \<and> p + 8 * sizeof t \<le> hi \<and> 8 * alignof t dvd p \<and> alignof t dvd al"

lemma alignof_dvd_fields:
  assumes "wf_ctype t" "wf_fields fs"
  shows "alignof t dvd max (alignof t) (align_fields fs)"
    and "align_fields fs dvd max (alignof t) (align_fields fs)"
  using assms by (auto intro!: scalar_size_dvd scalar_size_max scalar_alignof)

lemma placed_anonymous:
  assumes "placed p t' 0 (8 * sizeof t) (alignof t)" "wf_ctype t" "8 * alignof t dvd s"
    and "lo \<le> s" "s + 8 * sizeof t \<le> hi" "alignof t dvd al"
  shows "placed (s + p) t' lo hi al"
proof -
  from assms(1) have t': "wf_ctype t'" "p + 8 * sizeof t' \<le> 8 * sizeof t"
    "8 * alignof t' dvd p" "alignof t' dvd alignof t"
    by (auto simp: placed_def)
  have "8 * alignof t' dvd 8 * alignof t" using t'(4) by simp
  then have "8 * alignof t' dvd s" using assms(3) by (rule dvd_trans)
  with t'(3) have "8 * alignof t' dvd s + p" by simp
  moreover have "alignof t' dvd al" using t'(4) assms(6) by (rule dvd_trans)
  ultimately show ?thesis using t' assms by (simp add: placed_def)
qed

lemma placed_mono:
  "placed p t lo hi al \<Longrightarrow> lo' \<le> lo \<Longrightarrow> hi \<le> hi' \<Longrightarrow> al dvd al' \<Longrightarrow> placed p t lo' hi' al'"
  by (auto simp: placed_def intro: dvd_trans)

lemma struct_member_FldE:
  assumes "struct_member off (Fld nm t # fs) x = Some (p, t')"
  obtains (here) "nm = x" "p = round_up off (8 * alignof t)" "t' = t"
  | (inner) q where "nm \<noteq> x" "nm = []" "member t x = Some (q, t')" "p = round_up off (8 * alignof t) + q"
  | (later) "nm \<noteq> x" "(if nm = [] then member t x else None) = None"
      "struct_member (round_up off (8 * alignof t) + 8 * sizeof t) fs x = Some (p, t')"
proof (cases "nm = x")
  case True
  then show thesis using assms by (intro here) (auto simp: Let_def)
next
  case False
  show thesis
  proof (cases "if nm = [] then member t x else None")
    case None
    then show thesis using False assms by (intro later) (simp_all add: Let_def)
  next
    case (Some qt)
    then have "nm = []" "member t x = Some qt" by (simp_all split: if_splits)
    moreover from this False assms have "p = round_up off (8 * alignof t) + fst qt" "t' = snd qt"
      by (simp_all add: Let_def split_beta)
    ultimately show thesis using False by (intro inner [of "fst qt"]) simp_all
  qed
qed

lemma union_member_FldE:
  assumes "union_member (Fld nm t # fs) x = Some (p, t')"
  obtains (here) "nm = x" "p = 0" "t' = t"
  | (inner) "nm \<noteq> x" "nm = []" "member t x = Some (p, t')"
  | (later) "nm \<noteq> x" "(if nm = [] then member t x else None) = None" "union_member fs x = Some (p, t')"
proof (cases "nm = x")
  case True
  then show thesis using assms by (intro here) simp_all
next
  case False
  show thesis
  proof (cases "if nm = [] then member t x else None")
    case None
    then show thesis using False assms by (intro later) simp_all
  next
    case (Some qt)
    then have "nm = []" "member t x = Some qt" by (simp_all split: if_splits)
    then show thesis using False assms by (intro inner) (simp_all add: split_beta)
  qed
qed

lemma member_placed:
  "wf_ctype t \<Longrightarrow> member t x = Some (p, t') \<Longrightarrow> placed p t' 0 (8 * sizeof t) (alignof t)"
  "wf_fields fs \<Longrightarrow> struct_member off fs x = Some (p, t') \<Longrightarrow>
     placed p t' off (struct_bits off fs) (align_fields fs)"
  "wf_fields fs' \<Longrightarrow> union_member fs' x = Some (p, t') \<Longrightarrow>
     placed p t' 0 (union_bits fs') (align_fields fs')"
proof (induction t x and off fs x and fs' x arbitrary: p t' and p t' and p t'
    rule: member_struct_member_union_member.induct)
  case (4 fs x)
  then show ?case using sizeof_struct_ge [of fs] by (auto elim!: placed_mono)
next
  case (5 fs x)
  then show ?case using sizeof_union_ge [of fs] by (auto elim!: placed_mono)
next
  case (7 off nm t fs x)
  let ?s = "round_up off (8 * alignof t)"
  have wf: "wf_ctype t" "wf_fields fs" using "7.prems"(1) by auto
  have s: "off \<le> ?s" "8 * alignof t dvd ?s" using wf field_start_ge by auto
  have hi: "?s + 8 * sizeof t \<le> struct_bits off (Fld nm t # fs)"
    using struct_bits_ge [OF wf(2)] by simp
  note al = alignof_dvd_fields [OF wf]
  from "7.prems"(2) show ?case
  proof (cases rule: struct_member_FldE)
    case here
    then show ?thesis using wf s hi al by (auto simp: placed_def)
  next
    case (inner q)
    then have "placed q t' 0 (8 * sizeof t) (alignof t)" using "7.IH"(1) wf by auto
    then show ?thesis using inner wf s hi al(1) by (auto intro: placed_anonymous)
  next
    case later
    then have "placed p t' (?s + 8 * sizeof t) (struct_bits (?s + 8 * sizeof t) fs) (align_fields fs)"
      using "7.IH"(2) wf by (auto split: if_splits)
    then show ?thesis using s al(2) by (auto elim!: placed_mono)
  qed
next
  case (8 off nm u w fs x)
  then have "placed p t' (bits_start off u w + w) (struct_bits (bits_start off u w + w) fs) (align_fields fs)"
    by simp
  moreover have "off \<le> bits_start off u w" using 8 by (auto intro: bits_start_ge scalar_size_pos)
  moreover have "align_fields fs dvd align_fields (Bits nm u w # fs)"
    using 8 by (auto intro!: scalar_size_dvd scalar_size_max scalar_alignof)
  ultimately show ?case by (auto elim!: placed_mono)
next
  case (10 nm t fs x)
  have wf: "wf_ctype t" "wf_fields fs" using "10.prems"(1) by auto
  note al = alignof_dvd_fields [OF wf]
  from "10.prems"(2) show ?case
  proof (cases rule: union_member_FldE)
    case here
    then show ?thesis using wf al by (auto simp: placed_def)
  next
    case inner
    then have "placed p t' 0 (8 * sizeof t) (alignof t)" using "10.IH"(1) wf by auto
    then show ?thesis using al(1) by (auto elim!: placed_mono)
  next
    case later
    then have "placed p t' 0 (union_bits fs) (align_fields fs)" using "10.IH"(2) wf by auto
    then show ?thesis using al(2) by (auto elim!: placed_mono)
  qed
next
  case (11 nm u w fs x)
  then have "placed p t' 0 (union_bits fs) (align_fields fs)" by simp
  moreover have "align_fields fs dvd align_fields (Bits nm u w # fs)"
    using 11 by (auto intro!: scalar_size_dvd scalar_size_max scalar_alignof)
  ultimately show ?case by (auto elim!: placed_mono)
qed auto


text \<open>The same along a path of members, in bytes.\<close>

lemma offsetof_sound:
  "wf_ctype t \<Longrightarrow> offsetof t xs = Some k \<Longrightarrow> type_at t xs = Some t' \<Longrightarrow>
     k + sizeof t' \<le> sizeof t \<and> alignof t' dvd k \<and> alignof t' dvd alignof t"
proof (induction xs arbitrary: t k)
  case Nil
  then show ?case by simp
next
  case (Cons x xs)
  from Cons.prems(2) obtain p t1 k1 where m: "member t x = Some (p, t1)"
    and k1: "offsetof t1 xs = Some k1" "k = p div 8 + k1"
    by (auto split: option.splits)
  from member_placed(1) [OF Cons.prems(1) m]
  have t1: "wf_ctype t1" "p + 8 * sizeof t1 \<le> 8 * sizeof t" "8 * alignof t1 dvd p" "alignof t1 dvd alignof t"
    by (auto simp: placed_def)
  from Cons.IH [OF t1(1) k1(1)] Cons.prems(3) m
  have ih: "k1 + sizeof t' \<le> sizeof t1" "alignof t' dvd k1" "alignof t' dvd alignof t1"
    by auto
  have "alignof t1 dvd p div 8" using t1(3) by (auto elim!: dvdE)
  then have "alignof t' dvd k" using ih k1(2) by (auto intro: dvd_trans)
  moreover have "k + sizeof t' \<le> sizeof t" using ih(1) t1(2) k1(2) by linarith
  ultimately show ?case using ih(3) t1(4) by (auto intro: dvd_trans)
qed

section \<open>Members do not overlap\<close>

text \<open>The first bit of every member of a struct and the first bit after it, in order.\<close>

fun places :: "nat \<Rightarrow> cfield list \<Rightarrow> (nat \<times> nat) list" where
  "places off [] = []"
| "places off (Fld nm t # fs) =
     (let s = round_up off (8 * alignof t); e = s + 8 * sizeof t in (s, e) # places e fs)"
| "places off (Bits nm u w # fs) =
     (let s = bits_start off u w; e = s + w in (s, e) # places e fs)"

lemma places_lower: "wf_fields fs \<Longrightarrow> (a, b) \<in> set (places off fs) \<Longrightarrow> off \<le> a \<and> a \<le> b"
proof (induction off fs rule: places.induct)
  case (2 off nm t fs)
  then show ?case using field_start_ge [of t off] by (fastforce simp: Let_def)
next
  case (3 off nm u w fs)
  then show ?case using bits_start_ge [OF scalar_size_pos, of u off w] by (fastforce simp: Let_def)
qed simp

lemma places_disjoint:
  "wf_fields fs \<Longrightarrow> sorted_wrt (\<lambda>(a, b) (c, d). b \<le> c) (places off fs)"
  by (induction off fs rule: places.induct) (auto simp: Let_def dest: places_lower)

section \<open>Memory images of structs\<close>

text \<open>
  The bytes of a struct whose members are all plain and named: each member's bytes at its
  offset, and in the gaps whatever the memory held before (\<open>g\<close>, by position).
\<close>

definition bytes_at :: "nat \<Rightarrow> nat \<Rightarrow> byte list \<Rightarrow> byte list" where
  "bytes_at k n bs = take n (drop k bs)"

text \<open>The bytes of a field in an image of the type.\<close>

definition field_bytes :: "ctype \<Rightarrow> string list \<Rightarrow> byte list \<Rightarrow> byte list" where
  "field_bytes t path bs =
     (case (offsetof t path, type_at t path) of
        (Some k, Some u) \<Rightarrow> bytes_at k (sizeof u) bs
      | _ \<Rightarrow> [])"

fun flat :: "cfield list \<Rightarrow> bool" where
  "flat [] = True"
| "flat (Fld nm t # fs) = (nm \<noteq> [] \<and> wf_ctype t \<and> flat fs)"
| "flat (Bits nm u w # fs) = False"

fun fits :: "cfield list \<Rightarrow> (string \<Rightarrow> byte list) \<Rightarrow> bool" where
  "fits [] val = True"
| "fits (Fld nm t # fs) val = (length (val nm) = sizeof t \<and> fits fs val)"
| "fits (Bits nm u w # fs) val = False"

fun image_from :: "(nat \<Rightarrow> byte) \<Rightarrow> nat \<Rightarrow> cfield list \<Rightarrow> (string \<Rightarrow> byte list) \<Rightarrow> byte list" where
  "image_from g k [] val = []"
| "image_from g k (Fld nm t # fs) val =
     map g [k..<round_up k (alignof t)] @ val nm @
     image_from g (round_up k (alignof t) + sizeof t) fs val"
| "image_from g k (Bits nm u w # fs) val = image_from g k fs val"

definition image :: "(nat \<Rightarrow> byte) \<Rightarrow> cfield list \<Rightarrow> (string \<Rightarrow> byte list) \<Rightarrow> byte list" where
  "image g fs val =
     (let b = image_from g 0 fs val in b @ map g [length b..<sizeof (CStruct fs)])"

lemma field_bytes_at:
  "offsetof t p = Some k \<Longrightarrow> map_option sizeof (type_at t p) = Some n \<Longrightarrow> field_bytes t p bs = bytes_at k n bs"
  by (auto simp: field_bytes_def)

lemma round_up_scale: "round_up (8 * k) (8 * a) = 8 * round_up k a"
proof (cases "a = 0")
  case False
  then have "8 * k + (8 * a - 1) = 8 * (k + (a - 1)) + 7" by simp
  then have "(8 * k + (8 * a - 1)) div (8 * a) = (k + (a - 1)) div a"
    by (simp add: div_mult2_eq)
  then show ?thesis by (simp add: round_up_def)
qed (simp add: round_up_def)

lemma flat_wf: "flat fs \<Longrightarrow> wf_fields fs"
  by (induction fs rule: flat.induct) auto

lemma image_from_length:
  "flat fs \<Longrightarrow> fits fs val \<Longrightarrow> 8 * (k + length (image_from g k fs val)) = struct_bits (8 * k) fs"
proof (induction g k fs val rule: image_from.induct)
  case (2 g k nm t fs val)
  have "k \<le> round_up k (alignof t)"
    using 2 by (intro round_up_ge scalar_size_pos scalar_alignof) simp
  then show ?case using 2 by (simp add: round_up_scale add_mult_distrib2)
qed auto

lemma image_length:
  assumes "flat fs" "fits fs val"
  shows "length (image g fs val) = sizeof (CStruct fs)"
proof -
  have "8 * length (image_from g 0 fs val) = struct_bits 0 fs"
    using image_from_length [OF assms, of 0 g] by simp
  also have "\<dots> \<le> 8 * sizeof (CStruct fs)"
    by (rule sizeof_struct_ge) (rule flat_wf [OF assms(1)])
  finally show ?thesis by (simp add: image_def Let_def del: sizeof.simps)
qed

lemma bytes_at_append: "length xs \<le> k \<Longrightarrow> bytes_at k n (xs @ ys) = bytes_at (k - length xs) n ys"
  by (simp add: bytes_at_def)

lemma image_from_bytes:
  "flat fs \<Longrightarrow> fits fs val \<Longrightarrow> struct_member (8 * k) fs x = Some (p, t') \<Longrightarrow>
     bytes_at (p div 8 - k) (sizeof t') (image_from g k fs val @ rest) = val x \<and> k \<le> p div 8"
proof (induction g k fs val rule: image_from.induct)
  case (2 g k nm t fs val)
  let ?s = "round_up k (alignof t)"
  have s: "k \<le> ?s" using 2 by (intro round_up_ge scalar_size_pos scalar_alignof) simp
  show ?case
  proof (cases "nm = x")
    case True
    then have "p = 8 * ?s" "t' = t" using 2 by (auto simp: Let_def round_up_scale)
    then show ?thesis using True s 2 by (simp add: bytes_at_def)
  next
    case False
    then have m: "struct_member (8 * (?s + sizeof t)) fs x = Some (p, t')"
      using 2 by (auto simp: Let_def round_up_scale add_mult_distrib2)
    then have ih: "bytes_at (p div 8 - (?s + sizeof t)) (sizeof t')
        (image_from g (?s + sizeof t) fs val @ rest) = val x" "?s + sizeof t \<le> p div 8"
      using 2 by auto
    have "length (map g [k..<?s] @ val nm) = ?s + sizeof t - k" using 2 s by simp
    then have "bytes_at (p div 8 - k) (sizeof t') ((map g [k..<?s] @ val nm) @
        (image_from g (?s + sizeof t) fs val @ rest)) = val x"
      using ih s by (subst bytes_at_append) auto
    then show ?thesis using ih s by simp
  qed
qed auto

lemma image_bytes:
  assumes "flat fs" "fits fs val" "offsetof (CStruct fs) [x] = Some k" "type_at (CStruct fs) [x] = Some t"
  shows "bytes_at k (sizeof t) (image g fs val) = val x"
proof -
  from assms(3,4) obtain p where m: "struct_member (8 * 0) fs x = Some (p, t)" "k = p div 8"
    by (auto split: option.splits)
  from image_from_bytes [OF assms(1,2) m(1)] show ?thesis
    unfolding image_def m(2) by (simp add: Let_def)
qed

end
