(* ===== verification/Vmlinux_Base.thy ===== *)
theory Vmlinux_Base
  imports C_Layout
begin

text \<open>
  Types of \<^verbatim>\<open>agent/internal/bpf/src/headers/vmlinux.h\<close>, first part: the scalar typedefs, the
  saved registers a kprobe or uprobe receives (\<open>pt_regs\<close>) and the contexts of the tracepoints
  the programs attach to. Every struct and union is transcribed member by member, in the
  order of the header.
\<close>

section \<open>C scalars\<close>

abbreviation c_char :: ctype where "c_char \<equiv> CInt 1"
abbreviation c_bool :: ctype where "c_bool \<equiv> CInt 1"
abbreviation c_short :: ctype where "c_short \<equiv> CInt 2"
abbreviation c_int :: ctype where "c_int \<equiv> CInt 4"
abbreviation c_long :: ctype where "c_long \<equiv> CInt 8"

section \<open>Registers and tracepoint contexts\<close>

definition t___u16 :: "ctype" where
  "t___u16 = c_short"

definition t_u16 :: "ctype" where
  "t_u16 = t___u16"

definition t___u64 :: "ctype" where
  "t___u64 = c_long"

definition t_u64 :: "ctype" where
  "t_u64 = t___u64"

definition struct_fred_cs :: "ctype" where
  "struct_fred_cs = CStruct
    [Bits ''cs'' 8 16, Bits ''sl'' 8 2, Bits ''wfe'' 8 1]"

definition struct_fred_ss :: "ctype" where
  "struct_fred_ss = CStruct
    [Bits ''ss'' 8 16, Bits ''sti'' 8 1, Bits ''swevent'' 8 1, Bits ''nmi'' 8 1, Bits [] 4 13,
     Bits ''vector'' 8 8, Bits [] 2 8, Bits ''type'' 8 4, Bits [] 1 4, Bits ''enclave'' 8 1,
     Bits ''lm'' 8 1, Bits ''nested'' 8 1, Bits [] 1 1, Bits ''insnlen'' 8 4]"

definition struct_pt_regs :: "ctype" where
  "struct_pt_regs = CStruct
    [Fld ''r15'' c_long, Fld ''r14'' c_long, Fld ''r13'' c_long, Fld ''r12'' c_long,
     Fld ''bp'' c_long, Fld ''bx'' c_long, Fld ''r11'' c_long, Fld ''r10'' c_long, Fld ''r9'' c_long,
     Fld ''r8'' c_long, Fld ''ax'' c_long, Fld ''cx'' c_long, Fld ''dx'' c_long, Fld ''si'' c_long,
     Fld ''di'' c_long, Fld ''orig_ax'' c_long, Fld ''ip'' c_long,
     Fld [] (CUnion [Fld ''cs'' t_u16, Fld ''csx'' t_u64, Fld ''fred_cs'' struct_fred_cs]),
     Fld ''flags'' c_long, Fld ''sp'' c_long,
     Fld [] (CUnion [Fld ''ss'' t_u16, Fld ''ssx'' t_u64, Fld ''fred_ss'' struct_fred_ss])]"

definition struct_trace_entry :: "ctype" where
  "struct_trace_entry = CStruct
    [Fld ''type'' c_short, Fld ''flags'' c_char, Fld ''preempt_count'' c_char, Fld ''pid'' c_int]"

definition t___u32 :: "ctype" where
  "t___u32 = c_int"

definition t_u32 :: "ctype" where
  "t_u32 = t___u32"

definition t___kernel_pid_t :: "ctype" where
  "t___kernel_pid_t = c_int"

definition t_pid_t :: "ctype" where
  "t_pid_t = t___kernel_pid_t"

definition struct_trace_event_raw_sched_process_exec :: "ctype" where
  "struct_trace_event_raw_sched_process_exec = CStruct
    [Fld ''ent'' struct_trace_entry, Fld ''__data_loc_filename'' t_u32, Fld ''pid'' t_pid_t,
     Fld ''old_pid'' t_pid_t, Fld ''__data'' (CArr c_char 0)]"

definition struct_trace_event_raw_sched_process_exit :: "ctype" where
  "struct_trace_event_raw_sched_process_exit = CStruct
    [Fld ''ent'' struct_trace_entry, Fld ''comm'' (CArr c_char 16), Fld ''pid'' t_pid_t,
     Fld ''prio'' c_int, Fld ''group_dead'' c_bool, Fld ''__data'' (CArr c_char 0)]"

definition struct_trace_event_raw_sched_process_fork :: "ctype" where
  "struct_trace_event_raw_sched_process_fork = CStruct
    [Fld ''ent'' struct_trace_entry, Fld ''__data_loc_parent_comm'' t_u32, Fld ''parent_pid'' t_pid_t,
     Fld ''__data_loc_child_comm'' t_u32, Fld ''child_pid'' t_pid_t, Fld ''__data'' (CArr c_char 0)]"

definition struct_trace_event_raw_module_load :: "ctype" where
  "struct_trace_event_raw_module_load = CStruct
    [Fld ''ent'' struct_trace_entry, Fld ''taints'' c_int, Fld ''__data_loc_name'' t_u32,
     Fld ''__data'' (CArr c_char 0)]"

definition struct_trace_event_raw_module_free :: "ctype" where
  "struct_trace_event_raw_module_free = CStruct
    [Fld ''ent'' struct_trace_entry, Fld ''__data_loc_name'' t_u32, Fld ''__data'' (CArr c_char 0)]"

definition struct_trace_event_raw_sys_enter :: "ctype" where
  "struct_trace_event_raw_sys_enter = CStruct
    [Fld ''ent'' struct_trace_entry, Fld ''id'' c_long, Fld ''args'' (CArr c_long 6),
     Fld ''__data'' (CArr c_char 0)]"

definition struct_trace_event_raw_sys_exit :: "ctype" where
  "struct_trace_event_raw_sys_exit = CStruct
    [Fld ''ent'' struct_trace_entry, Fld ''id'' c_long, Fld ''ret'' c_long,
     Fld ''__data'' (CArr c_char 0)]"

definition struct_trace_event_raw_cgroup :: "ctype" where
  "struct_trace_event_raw_cgroup = CStruct
    [Fld ''ent'' struct_trace_entry, Fld ''root'' c_int, Fld ''level'' c_int, Fld ''id'' t_u64,
     Fld ''__data_loc_path'' t_u32, Fld ''__data'' (CArr c_char 0)]"

end
