(* ===== verification/Bpf_Helpers.thy ===== *)
theory Bpf_Helpers
  imports Vmlinux_Base Vmlinux_Enums
begin

text \<open>
  \<^verbatim>\<open>agent/internal/bpf/src/headers/bpf_helpers.h\<close>: the helper table, the map types, the CO-RE
  read macros and the register accessors every program uses.

  The helpers themselves are kernel code, which is not part of the repository. They are
  parameters of the model: \<open>bpf_env\<close> holds the ones that read the context a program runs in,
  \<open>bpf_ringbuf\<close> those of a ring buffer map. What the programs rely on is stated as the
  assumptions of the locales \<open>bpf_reads\<close> and \<open>ringbuf_laws\<close>: the behaviour the helpers'
  documentation (\<^verbatim>\<open>bpf-helpers(7)\<close> and the argument contract \<open>ARG_PTR_TO_UNINIT_MEM\<close>) gives.
\<close>

section \<open>Helper numbers and map types\<close>

definition helper_ids :: "(string \<times> int) list" where
  "helper_ids =
    [(''ringbuf_reserve'', 131), (''ringbuf_submit'', 132), (''ringbuf_discard'', 133),
     (''get_current_pid_tgid'', 14), (''get_current_uid_gid'', 15), (''get_current_comm'', 16),
     (''ktime_get_ns'', 5), (''probe_read_user'', 112), (''get_current_task'', 35),
     (''probe_read_user_str'', 114), (''probe_read_kernel_str'', 115), (''probe_read_kernel'', 113),
     (''map_lookup_elem'', 1), (''map_update_elem'', 2), (''map_delete_elem'', 3),
     (''get_current_cgroup_id'', 80)]"

definition map_type_ids :: "(string \<times> int) list" where
  "map_type_ids =
    [(''BPF_MAP_TYPE_RINGBUF'', 27), (''BPF_MAP_TYPE_HASH'', 1), (''BPF_MAP_TYPE_LPM_TRIE'', 11)]"

text \<open>A map as the loader creates it: the type number, the sizes of key and value, the capacity.\<close>

record bpf_map_def =
  map_type :: int
  map_key_size :: nat
  map_value_size :: nat
  map_max_entries :: nat

definition ringbuf_map :: "nat \<Rightarrow> bpf_map_def" where
  "ringbuf_map n = \<lparr>map_type = the (map_of map_type_ids ''BPF_MAP_TYPE_RINGBUF''),
     map_key_size = 0, map_value_size = 0, map_max_entries = n\<rparr>"

section \<open>The context of a run\<close>

text \<open>
  The helpers that read. A read names the number of bytes and the source address and yields
  the return value and the bytes it leaves in the destination: all of them for the plain
  reads, which fill the destination or clear it; the bytes written (the rest of the
  destination stays) for the string reads. Nothing a program reads changes during one run
  of it, and no program reads an address twice, so that a concurrent writer is a choice of
  the memory. \<open>field_off\<close> is the offset the loader's CO-RE relocation gives a field path of a
  kernel struct on the running kernel.
\<close>

record bpf_env =
  bpf_get_current_pid_tgid :: u64
  bpf_get_current_uid_gid :: u64
  bpf_ktime_get_ns :: u64
  bpf_get_current_task :: u64
  bpf_get_current_cgroup_id :: u64
  bpf_get_current_comm :: "u32 \<Rightarrow> int \<times> byte list"
  bpf_probe_read_user :: "u32 \<Rightarrow> u64 \<Rightarrow> int \<times> byte list"
  bpf_probe_read_kernel :: "u32 \<Rightarrow> u64 \<Rightarrow> int \<times> byte list"
  bpf_probe_read_user_str :: "u32 \<Rightarrow> u64 \<Rightarrow> int \<times> byte list"
  bpf_probe_read_kernel_str :: "u32 \<Rightarrow> u64 \<Rightarrow> int \<times> byte list"
  field_off :: "string \<Rightarrow> string list \<Rightarrow> u64"

text \<open>\<open>BPF_CORE_READ_INTO\<close> and its two-hop form, for a destination of \<open>n\<close> bytes.\<close>

definition BPF_CORE_READ_INTO :: "bpf_env \<Rightarrow> u32 \<Rightarrow> u64 \<Rightarrow> string \<Rightarrow> string \<Rightarrow> int \<times> byte list" where
  "BPF_CORE_READ_INTO K n src ty a = bpf_probe_read_kernel K n (src + field_off K ty [a])"

definition BPF_CORE_READ_INTO2 ::
    "bpf_env \<Rightarrow> u32 \<Rightarrow> u64 \<Rightarrow> string \<Rightarrow> string \<Rightarrow> string \<Rightarrow> int \<times> byte list" where
  "BPF_CORE_READ_INTO2 K n src ty a b = bpf_probe_read_kernel K n (src + field_off K ty [a, b])"

text \<open>The casts \<open>(__u32)x\<close> and \<open>(__u32)(x >> 32)\<close> that take the packed ids apart.\<close>

definition lo32 :: "u64 \<Rightarrow> u32" where "lo32 w = ucast w"
definition hi32 :: "u64 \<Rightarrow> u32" where "hi32 w = ucast (drop_bit 32 w)"

section \<open>Registers\<close>

record pt_regs =
  regs_r15 :: u64
  regs_r14 :: u64
  regs_r13 :: u64
  regs_r12 :: u64
  regs_bp :: u64
  regs_bx :: u64
  regs_r11 :: u64
  regs_r10 :: u64
  regs_r9 :: u64
  regs_r8 :: u64
  regs_ax :: u64
  regs_cx :: u64
  regs_dx :: u64
  regs_si :: u64
  regs_di :: u64
  regs_orig_ax :: u64
  regs_ip :: u64
  regs_csx :: u64
  regs_flags :: u64
  regs_sp :: u64
  regs_ssx :: u64

definition PT_REGS_PARM1 :: "pt_regs \<Rightarrow> u64" where "PT_REGS_PARM1 x = regs_di x"
definition PT_REGS_PARM2 :: "pt_regs \<Rightarrow> u64" where "PT_REGS_PARM2 x = regs_si x"
definition PT_REGS_PARM3 :: "pt_regs \<Rightarrow> u64" where "PT_REGS_PARM3 x = regs_dx x"
definition PT_REGS_RC :: "pt_regs \<Rightarrow> u64" where "PT_REGS_RC x = regs_ax x"

lemmas core_read_defs [prog_defs] = BPF_CORE_READ_INTO_def BPF_CORE_READ_INTO2_def
  PT_REGS_PARM1_def PT_REGS_PARM2_def PT_REGS_PARM3_def PT_REGS_RC_def

text \<open>The length of \<open>comm\<close> in every record.\<close>

abbreviation COMM_LEN :: "'a::numeral" where "COMM_LEN \<equiv> 16"

section \<open>Tracepoint contexts\<close>

text \<open>The contexts of the system-call tracepoints, without the common header of every trace event.\<close>

record trace_event_raw_sys_enter =
  enter_id :: u64
  enter_args :: "u64 list"

record trace_event_raw_sys_exit =
  exit_id :: u64
  exit_ret :: u64

section \<open>The ring buffer\<close>

text \<open>
  Reserving yields no record when the buffer is full; otherwise a record whose memory holds
  whatever was there before. The program owns it until it submits or discards it, so the
  model passes its contents along.
\<close>

record ('r, 'e) bpf_ringbuf =
  bpf_ringbuf_reserve :: "u64 \<Rightarrow> u64 \<Rightarrow> ('r, 'e option) state"
  bpf_ringbuf_submit :: "'e \<Rightarrow> u64 \<Rightarrow> ('r, unit) state"
  bpf_ringbuf_discard :: "'e \<Rightarrow> u64 \<Rightarrow> ('r, unit) state"

text \<open>
  The three ways a program of the agent runs: it touches nothing; it reserves one record of
  \<open>n\<close> bytes and, when it gets one, submits it filled as \<open>f\<close> of its old contents; it
  reserves one and discards it. Each returns 0.
\<close>

definition skips :: "('r, int) state \<Rightarrow> bool" where
  "skips p \<longleftrightarrow> (\<forall>r. run_state p r = (0, r))"

definition emits :: "('r, 'e) bpf_ringbuf \<Rightarrow> nat \<Rightarrow> ('e \<Rightarrow> 'e) \<Rightarrow> ('r, int) state \<Rightarrow> bool" where
  "emits R n f p \<longleftrightarrow>
     (\<forall>r. run_state p r =
        (case run_state (bpf_ringbuf_reserve R (of_nat n) 0) r of
           (None, r') \<Rightarrow> (0, r')
         | (Some e, r') \<Rightarrow> (0, snd (run_state (bpf_ringbuf_submit R (f e) 0) r'))))"

definition discards :: "('r, 'e) bpf_ringbuf \<Rightarrow> nat \<Rightarrow> ('r, int) state \<Rightarrow> bool" where
  "discards R n p \<longleftrightarrow>
     (\<forall>r. \<exists>f. run_state p r =
        (case run_state (bpf_ringbuf_reserve R (of_nat n) 0) r of
           (None, r') \<Rightarrow> (0, r')
         | (Some e, r') \<Rightarrow> (0, snd (run_state (bpf_ringbuf_discard R (f e) 0) r'))))"

lemma skips_outcome: "skips p \<Longrightarrow> run_state p r = (0, r)"
  by (simp add: skips_def)

text \<open>The buffer has room for a record of \<open>n\<close> bytes.\<close>

definition grants :: "('r, 'e) bpf_ringbuf \<Rightarrow> nat \<Rightarrow> 'r \<Rightarrow> bool" where
  "grants R n r = (fst (run_state (bpf_ringbuf_reserve R (of_nat n) 0) r) \<noteq> None)"

text \<open>
  The ring buffer's contract: \<open>contents\<close> is the sequence of records submitted so far,
  \<open>busy\<close> the number of records reserved and not yet submitted or discarded.
\<close>

locale ringbuf_laws =
  fixes R :: "('r, 'e) bpf_ringbuf"
    and contents :: "'r \<Rightarrow> 'e list"
    and busy :: "'r \<Rightarrow> nat"
  assumes reserve_None: "run_state (bpf_ringbuf_reserve R n fl) r = (None, r') \<Longrightarrow>
      contents r' = contents r \<and> busy r' = busy r"
    and reserve_Some: "run_state (bpf_ringbuf_reserve R n fl) r = (Some e, r') \<Longrightarrow>
      contents r' = contents r \<and> busy r' = Suc (busy r)"
    and submit: "0 < busy r \<Longrightarrow> run_state (bpf_ringbuf_submit R e fl) r = (u, r') \<Longrightarrow>
      contents r' = contents r @ [e] \<and> busy r' = busy r - 1"
    and discard: "0 < busy r \<Longrightarrow> run_state (bpf_ringbuf_discard R e fl) r = (u, r') \<Longrightarrow>
      contents r' = contents r \<and> busy r' = busy r - 1"
begin

definition balanced :: "('r, int) state \<Rightarrow> bool" where
  "balanced p \<longleftrightarrow> (\<forall>r. fst (run_state p r) = 0 \<and> busy (snd (run_state p r)) = busy r)"

lemma emits_outcome:
  assumes "emits R n f p"
  shows "fst (run_state p r) = 0 \<and> busy (snd (run_state p r)) = busy r \<and>
    (contents (snd (run_state p r)) = contents r \<or>
     (\<exists>e. contents (snd (run_state p r)) = contents r @ [f e]))"
proof -
  obtain x r1 where res: "run_state (bpf_ringbuf_reserve R (of_nat n) 0) r = (x, r1)"
    by (cases "run_state (bpf_ringbuf_reserve R (of_nat n) 0) r")
  show ?thesis
  proof (cases x)
    case None
    then show ?thesis using assms res reserve_None by (auto simp: emits_def)
  next
    case (Some e)
    obtain u r2 where sub: "run_state (bpf_ringbuf_submit R (f e) 0) r1 = (u, r2)"
      by (cases "run_state (bpf_ringbuf_submit R (f e) 0) r1")
    have "run_state p r = (0, r2)" using assms res sub Some by (auto simp: emits_def)
    then show ?thesis using reserve_Some [OF res [unfolded Some]] submit [OF _ sub] by auto
  qed
qed

lemma emits_granted:
  assumes "emits R n f p" and "run_state (bpf_ringbuf_reserve R (of_nat n) 0) r = (Some e, r1)"
  shows "contents (snd (run_state p r)) = contents r @ [f e]"
proof -
  obtain u r2 where sub: "run_state (bpf_ringbuf_submit R (f e) 0) r1 = (u, r2)"
    by (cases "run_state (bpf_ringbuf_submit R (f e) 0) r1")
  have "run_state p r = (0, r2)" using assms sub by (auto simp: emits_def)
  then show ?thesis using reserve_Some [OF assms(2)] submit [OF _ sub] by auto
qed

lemma emits_grants:
  assumes "emits R n f p" "grants R n r"
  shows "\<exists>old. contents (snd (run_state p r)) = contents r @ [f old]"
proof -
  obtain old r1 where "run_state (bpf_ringbuf_reserve R (of_nat n) 0) r = (Some old, r1)"
    using assms(2) by (cases "run_state (bpf_ringbuf_reserve R (of_nat n) 0) r") (auto simp: grants_def)
  then show ?thesis using emits_granted [OF assms(1)] by blast
qed

lemma emits_grants_const: "emits R n (\<lambda>_. x) p \<Longrightarrow> grants R n r \<Longrightarrow> contents (snd (run_state p r)) = contents r @ [x]"
  using emits_grants by blast

text \<open>Whatever a run of \<open>emits\<close> appends satisfies what every record it could submit does.\<close>

lemma emits_invariant:
  assumes "emits R n f p" "\<And>old. P (f old)" "list_all P (contents r)"
  shows "list_all P (contents (snd (run_state p r)))"
  using emits_outcome [OF assms(1), of r] assms(2,3) by auto

lemma emits_balanced: "emits R n f p \<Longrightarrow> balanced p"
  using emits_outcome by (auto simp: balanced_def)

lemma skips_balanced: "skips p \<Longrightarrow> balanced p"
  by (simp add: balanced_def skips_def)

lemma discards_outcome:
  assumes "discards R n p"
  shows "fst (run_state p r) = 0 \<and> busy (snd (run_state p r)) = busy r \<and>
    contents (snd (run_state p r)) = contents r"
proof -
  from assms obtain f where f: "run_state p r =
        (case run_state (bpf_ringbuf_reserve R (of_nat n) 0) r of
           (None, r') \<Rightarrow> (0, r')
         | (Some e, r') \<Rightarrow> (0, snd (run_state (bpf_ringbuf_discard R (f e) 0) r')))"
    unfolding discards_def by blast
  obtain x r1 where res: "run_state (bpf_ringbuf_reserve R (of_nat n) 0) r = (x, r1)"
    by (cases "run_state (bpf_ringbuf_reserve R (of_nat n) 0) r")
  show ?thesis
  proof (cases x)
    case None
    then show ?thesis using f res reserve_None by auto
  next
    case (Some e)
    obtain u r2 where dis: "run_state (bpf_ringbuf_discard R (f e) 0) r1 = (u, r2)"
      by (cases "run_state (bpf_ringbuf_discard R (f e) 0) r1")
    have "run_state p r = (0, r2)" using f res dis Some by auto
    then show ?thesis using reserve_Some [OF res [unfolded Some]] discard [OF _ dis] by auto
  qed
qed

lemma discards_balanced: "discards R n p \<Longrightarrow> balanced p"
  using discards_outcome by (auto simp: balanced_def)

end

section \<open>Hash maps\<close>

text \<open>
  A lookup gives the value, if the key has one; the program then holds a pointer into the map,
  and \<open>value_store\<close> is what its writes through that pointer come to: the value of that key in
  place. An update under \<open>BPF_ANY\<close> replaces or inserts, and may fail.
\<close>

record ('m, 'k, 'v) bpf_hash =
  bpf_map_lookup_elem :: "'k \<Rightarrow> ('m, 'v option) state"
  bpf_map_update_elem :: "'k \<Rightarrow> 'v \<Rightarrow> u64 \<Rightarrow> ('m, int) state"
  bpf_map_delete_elem :: "'k \<Rightarrow> ('m, int) state"
  value_store :: "'k \<Rightarrow> 'v \<Rightarrow> ('m, unit) state"

definition BPF_ANY :: u64 where
  "BPF_ANY = word_of_int (the (map_of enum_bpf_map_update_flags ''BPF_ANY''))"

locale hash_laws =
  fixes H :: "('m, 'k, 'v) bpf_hash"
    and entries :: "'m \<Rightarrow> 'k \<rightharpoonup> 'v"
  assumes lookup: "run_state (bpf_map_lookup_elem H k) m = (x, m') \<Longrightarrow> x = entries m k \<and> entries m' = entries m"
    and update_ok: "run_state (bpf_map_update_elem H k v BPF_ANY) m = (0, m') \<Longrightarrow> entries m' = (entries m)(k \<mapsto> v)"
    and update_fails: "run_state (bpf_map_update_elem H k v BPF_ANY) m = (rc, m') \<Longrightarrow> rc \<noteq> 0 \<Longrightarrow> entries m' = entries m"
    and delete: "run_state (bpf_map_delete_elem H k) m = (rc, m') \<Longrightarrow> entries m' = (entries m)(k := None)"
    and store: "k \<in> dom (entries m) \<Longrightarrow> run_state (value_store H k v) m = (u, m') \<Longrightarrow>
      entries m' = (entries m)(k \<mapsto> v)"
begin

text \<open>Whatever an update does, every other key keeps its value.\<close>

lemma update_cases:
  assumes "run_state (bpf_map_update_elem H k v BPF_ANY) m = (rc, m')"
  shows "entries m' = (if rc = 0 then (entries m)(k \<mapsto> v) else entries m)"
  using assms update_ok update_fails by (cases "rc = 0") auto

lemma lookup_value: "fst (run_state (bpf_map_lookup_elem H k) m) = entries m k"
  and lookup_entries: "entries (snd (run_state (bpf_map_lookup_elem H k) m)) = entries m"
  using lookup [of k m] by (cases "run_state (bpf_map_lookup_elem H k) m"; simp)+

end

section \<open>What the read helpers promise\<close>

text \<open>
  Memory as the helpers see it: a byte at every readable address. \<open>mem_bytes\<close> is a range that
  is readable as a whole, \<open>str_at\<close> a NUL-terminated string.
\<close>

type_synonym memory = "u64 \<Rightarrow> byte option"

fun mem_bytes :: "memory \<Rightarrow> u64 \<Rightarrow> nat \<Rightarrow> byte list option" where
  "mem_bytes m a 0 = Some []"
| "mem_bytes m a (Suc n) =
     (case m a of
        None \<Rightarrow> None
      | Some b \<Rightarrow> map_option (Cons b) (mem_bytes m (a + 1) n))"

definition str_at :: "memory \<Rightarrow> u64 \<Rightarrow> byte list \<Rightarrow> bool" where
  "str_at m a s \<longleftrightarrow> 0 \<notin> set s \<and> mem_bytes m a (length s + 1) = Some (s @ [0])"

lemma length_mem_bytes: "mem_bytes m a n = Some bs \<Longrightarrow> length bs = n"
  by (induction m a n arbitrary: bs rule: mem_bytes.induct) (auto split: option.splits)

lemma mem_bytes_prefix: "k \<le> n \<Longrightarrow> mem_bytes m a n \<noteq> None \<Longrightarrow> mem_bytes m a k \<noteq> None"
proof (induction n arbitrary: a k)
  case (Suc n)
  then show ?case by (cases k) (auto split: option.splits)
qed simp

text \<open>A 64-bit word in memory.\<close>

definition holds_u64 :: "memory \<Rightarrow> u64 \<Rightarrow> u64 \<Rightarrow> bool" where
  "holds_u64 m a w \<longleftrightarrow> mem_bytes m a 8 = Some (le_bytes 8 w)"

text \<open>The result of a string read of \<open>s\<close> into \<open>n\<close> bytes: at most \<open>n - 1\<close> bytes of it and a NUL.\<close>

definition str_result :: "nat \<Rightarrow> byte list \<Rightarrow> int \<times> byte list" where
  "str_result n s = (int (min (length s) (n - 1)) + 1, take (n - 1) s @ [0])"

definition read_law :: "memory \<Rightarrow> (u32 \<Rightarrow> u64 \<Rightarrow> int \<times> byte list) \<Rightarrow> bool" where
  "read_law m rd \<longleftrightarrow>
     (\<forall>n a. case mem_bytes m a (unat n) of
        Some bs \<Rightarrow> rd n a = (0, bs)
      | None \<Rightarrow> fst (rd n a) < 0 \<and> snd (rd n a) = replicate (unat n) 0)"

definition str_law :: "memory \<Rightarrow> (u32 \<Rightarrow> u64 \<Rightarrow> int \<times> byte list) \<Rightarrow> bool" where
  "str_law m rd \<longleftrightarrow>
     (\<forall>n a. 0 < n \<longrightarrow>
        (\<forall>s. str_at m a s \<longrightarrow> rd n a = str_result (unat n) s) \<and>
        (m a = None \<longrightarrow> fst (rd n a) < 0) \<and>
        (if fst (rd n a) < 0 then snd (rd n a) = replicate (unat n) 0
         else \<exists>s. 0 \<notin> set s \<and> length s < unat n \<and> rd n a = (int (length s) + 1, s @ [0])))"

lemma read_law_value: "read_law m rd \<Longrightarrow> mem_bytes m a (unat n) = Some bs \<Longrightarrow> rd n a = (0, bs)"
  by (auto simp: read_law_def dest!: spec [of _ n] spec [of _ a])

lemma read_law_fault:
  "read_law m rd \<Longrightarrow> mem_bytes m a (unat n) = None \<Longrightarrow>
     fst (rd n a) < 0 \<and> snd (rd n a) = replicate (unat n) 0"
  by (auto simp: read_law_def dest!: spec [of _ n] spec [of _ a])

lemma read_law_length: "read_law m rd \<Longrightarrow> length (snd (rd n a)) = unat n"
  using length_mem_bytes [of m a "unat n"]
  by (cases "mem_bytes m a (unat n)") (auto simp: read_law_value [of m rd] read_law_fault [of m rd])

lemma str_law_value: "str_law m rd \<Longrightarrow> 0 < n \<Longrightarrow> str_at m a s \<Longrightarrow> rd n a = str_result (unat n) s"
  by (auto simp: str_law_def)

lemma str_law_error:
  "str_law m rd \<Longrightarrow> 0 < n \<Longrightarrow> fst (rd n a) < 0 \<Longrightarrow> snd (rd n a) = replicate (unat n) 0"
  by (auto simp: str_law_def)

lemma str_law_null: "str_law m rd \<Longrightarrow> 0 < n \<Longrightarrow> m a = None \<Longrightarrow> fst (rd n a) < 0"
  by (auto simp: str_law_def)

lemma str_law_shape:
  assumes "str_law m rd" "0 < n"
  shows "length (snd (rd n a)) \<le> unat n \<and> 0 \<in> set (snd (rd n a))"
proof -
  have c: "if fst (rd n a) < 0 then snd (rd n a) = replicate (unat n) 0
     else \<exists>s. 0 \<notin> set s \<and> length s < unat n \<and> rd n a = (int (length s) + 1, s @ [0])"
    using assms unfolding str_law_def by blast
  show ?thesis
  proof (cases "fst (rd n a) < 0")
    case True
    then show ?thesis using c assms(2) by (simp add: unat_gt_0 word_gt_0)
  next
    case False
    then obtain s where "length s < unat n" "rd n a = (int (length s) + 1, s @ [0])"
      using c by auto
    then show ?thesis by simp
  qed
qed

locale bpf_reads =
  fixes K :: bpf_env
    and umem :: memory
    and kmem :: memory
  assumes read_user: "read_law umem (bpf_probe_read_user K)"
    and read_kernel: "read_law kmem (bpf_probe_read_kernel K)"
    and read_user_str: "str_law umem (bpf_probe_read_user_str K)"
    and read_kernel_str: "str_law kmem (bpf_probe_read_kernel_str K)"
    and comm_length: "length (snd (bpf_get_current_comm K n)) = unat n"
begin

lemmas user_value = read_law_value [OF read_user]
lemmas user_fault = read_law_fault [OF read_user]
lemmas user_length [simp] = read_law_length [OF read_user]
lemmas kernel_value = read_law_value [OF read_kernel]
lemmas kernel_fault = read_law_fault [OF read_kernel]
lemmas kernel_length [simp] = read_law_length [OF read_kernel]
lemmas user_str_value = str_law_value [OF read_user_str]
lemmas user_str_error = str_law_error [OF read_user_str]
lemmas user_str_null = str_law_null [OF read_user_str]
lemmas user_str_shape = str_law_shape [OF read_user_str]
lemmas kernel_str_value = str_law_value [OF read_kernel_str]
lemmas kernel_str_shape = str_law_shape [OF read_kernel_str]

lemma kernel_u64: "holds_u64 kmem a w \<Longrightarrow> bpf_probe_read_kernel K 8 a = (0, le_bytes 8 w)"
  using kernel_value [of a 8] by (simp add: holds_u64_def)

lemma user_u64: "holds_u64 umem a w \<Longrightarrow> bpf_probe_read_user K 8 a = (0, le_bytes 8 w)"
  using user_value [of a 8] by (simp add: holds_u64_def)

text \<open>A string read into a cleared array leaves the string there, cut to fit, or none.\<close>

lemma str_array:
  assumes "0 \<notin> set s"
  shows "c_string (overwrite (snd (str_result n s)) dst) = take (n - 1) s"
proof -
  have "0 \<notin> set (take (n - 1) s)" using assms by (auto dest: in_set_takeD)
  then show ?thesis by (simp add: str_result_def)
qed

lemma kernel_str_array:
  "0 < n \<Longrightarrow> str_at kmem a s \<Longrightarrow> c_string (overwrite (snd (bpf_probe_read_kernel_str K n a)) dst) = take (unat n - 1) s"
  using str_array [of s "unat n"] kernel_str_value [of n a s] by (simp add: str_at_def)

lemma user_str_array:
  "0 < n \<Longrightarrow> str_at umem a s \<Longrightarrow> c_string (overwrite (snd (bpf_probe_read_user_str K n a)) dst) = take (unat n - 1) s"
  using str_array [of s "unat n"] user_str_value [of n a s] by (simp add: str_at_def)

lemma kernel_str_array_length:
  "0 < n \<Longrightarrow> unat n \<le> length dst \<Longrightarrow> length (overwrite (snd (bpf_probe_read_kernel_str K n a)) dst) = length dst"
  using kernel_str_shape [of n a] by simp

lemma user_str_array_length:
  "0 < n \<Longrightarrow> unat n \<le> length dst \<Longrightarrow> length (overwrite (snd (bpf_probe_read_user_str K n a)) dst) = length dst"
  using user_str_shape [of n a] by simp

lemma kernel_str_array_terminated:
  "0 < n \<Longrightarrow> 0 \<in> set (overwrite (snd (bpf_probe_read_kernel_str K n a)) dst)"
  using kernel_str_shape [of n a] by (simp add: overwrite_def)

lemma user_str_array_terminated:
  "0 < n \<Longrightarrow> 0 \<in> set (overwrite (snd (bpf_probe_read_user_str K n a)) dst)"
  using user_str_shape [of n a] by (simp add: overwrite_def)

lemma user_str_array_fault:
  assumes "0 < n" "umem a = None"
  shows "c_string (overwrite (snd (bpf_probe_read_user_str K n a)) dst) = []"
proof -
  have "snd (bpf_probe_read_user_str K n a) = replicate (unat n) 0"
    using user_str_error [OF assms(1) user_str_null [OF assms]] .
  then show ?thesis using assms(1) by (cases "unat n") (auto simp: overwrite_def c_string_def word_less_nat_alt)
qed

end

end
