(* ===== verification/Vmlinux_Net.thy ===== *)
theory Vmlinux_Net
  imports Vmlinux_Base
begin

text \<open>
  Types of \<^verbatim>\<open>vmlinux.h\<close>, second part: the protocol headers \<open>udphdr\<close>, \<open>iphdr\<close> and \<open>ipv6hdr\<close>
  and the socket and socket buffer (\<open>sock\<close>, \<open>sk_buff\<close>) that \<^verbatim>\<open>net.bpf.c\<close> and \<^verbatim>\<open>dns.bpf.c\<close> read.
\<close>

definition t___be16 :: "ctype" where
  "t___be16 = t___u16"

definition t___sum16 :: "ctype" where
  "t___sum16 = t___u16"

definition struct_udphdr :: "ctype" where
  "struct_udphdr = CStruct
    [Fld ''source'' t___be16, Fld ''dest'' t___be16, Fld ''len'' t___be16, Fld ''check'' t___sum16]"

definition t___u8 :: "ctype" where
  "t___u8 = c_char"

definition t___be32 :: "ctype" where
  "t___be32 = t___u32"

definition struct_iphdr :: "ctype" where
  "struct_iphdr = CStruct
    [Bits ''ihl'' 1 4, Bits ''version'' 1 4, Fld ''tos'' t___u8, Fld ''tot_len'' t___be16,
     Fld ''id'' t___be16, Fld ''frag_off'' t___be16, Fld ''ttl'' t___u8, Fld ''protocol'' t___u8,
     Fld ''check'' t___sum16,
     Fld [] (CUnion [Fld [] (CStruct [Fld ''saddr'' t___be32, Fld ''daddr'' t___be32]), Fld ''addrs'' (CStruct [Fld ''saddr'' t___be32, Fld ''daddr'' t___be32])])]"

definition struct_in6_addr :: "ctype" where
  "struct_in6_addr = CStruct
    [Fld ''in6_u'' (CUnion [Fld ''u6_addr8'' (CArr t___u8 16), Fld ''u6_addr16'' (CArr t___be16 8), Fld ''u6_addr32'' (CArr t___be32 4)])]"

definition struct_ipv6hdr :: "ctype" where
  "struct_ipv6hdr = CStruct
    [Bits ''priority'' 1 4, Bits ''version'' 1 4, Fld ''flow_lbl'' (CArr t___u8 3),
     Fld ''payload_len'' t___be16, Fld ''nexthdr'' t___u8, Fld ''hop_limit'' t___u8,
     Fld [] (CUnion [Fld [] (CStruct [Fld ''saddr'' struct_in6_addr, Fld ''daddr'' struct_in6_addr]), Fld ''addrs'' (CStruct [Fld ''saddr'' struct_in6_addr, Fld ''daddr'' struct_in6_addr])])]"

definition t___addrpair :: "ctype" where
  "t___addrpair = t___u64"

definition t___portpair :: "ctype" where
  "t___portpair = t___u32"

definition struct_hlist_node :: "ctype" where
  "struct_hlist_node = CStruct
    [Fld ''next'' CPtr, Fld ''pprev'' CPtr]"

definition t_possible_net_t :: "ctype" where
  "t_possible_net_t = CStruct [Fld ''net'' CPtr]"

definition t___s64 :: "ctype" where
  "t___s64 = c_long"

definition t_s64 :: "ctype" where
  "t_s64 = t___s64"

definition t_atomic64_t :: "ctype" where
  "t_atomic64_t = CStruct [Fld ''counter'' t_s64]"

definition struct_hlist_nulls_node :: "ctype" where
  "struct_hlist_nulls_node = CStruct
    [Fld ''next'' CPtr, Fld ''pprev'' CPtr]"

definition t_atomic_t :: "ctype" where
  "t_atomic_t = CStruct [Fld ''counter'' c_int]"

definition struct_refcount_struct :: "ctype" where
  "struct_refcount_struct = CStruct
    [Fld ''refs'' t_atomic_t]"

definition t_refcount_t :: "ctype" where
  "t_refcount_t = struct_refcount_struct"

definition struct_sock_common :: "ctype" where
  "struct_sock_common = CStruct
    [Fld [] (CUnion [Fld ''skc_addrpair'' t___addrpair, Fld [] (CStruct [Fld ''skc_daddr'' t___be32, Fld ''skc_rcv_saddr'' t___be32])]),
     Fld [] (CUnion [Fld ''skc_hash'' c_int, Fld ''skc_u16hashes'' (CArr t___u16 2)]),
     Fld [] (CUnion [Fld ''skc_portpair'' t___portpair, Fld [] (CStruct [Fld ''skc_dport'' t___be16, Fld ''skc_num'' t___u16])]),
     Fld ''skc_family'' c_short, Fld ''skc_state'' c_char, Bits ''skc_reuse'' 1 4,
     Bits ''skc_reuseport'' 1 1, Bits ''skc_ipv6only'' 1 1, Bits ''skc_net_refcnt'' 1 1,
     Fld ''skc_bound_dev_if'' c_int,
     Fld [] (CUnion [Fld ''skc_bind_node'' struct_hlist_node, Fld ''skc_portaddr_node'' struct_hlist_node]),
     Fld ''skc_prot'' CPtr, Fld ''skc_net'' t_possible_net_t, Fld ''skc_v6_daddr'' struct_in6_addr,
     Fld ''skc_v6_rcv_saddr'' struct_in6_addr, Fld ''skc_cookie'' t_atomic64_t,
     Fld [] (CUnion [Fld ''skc_flags'' c_long, Fld ''skc_listener'' CPtr, Fld ''skc_tw_dr'' CPtr]),
     Fld ''skc_dontcopy_begin'' (CArr c_int 0),
     Fld [] (CUnion [Fld ''skc_node'' struct_hlist_node, Fld ''skc_nulls_node'' struct_hlist_nulls_node]),
     Fld ''skc_tx_queue_mapping'' c_short, Fld ''skc_rx_queue_mapping'' c_short,
     Fld [] (CUnion [Fld ''skc_incoming_cpu'' c_int, Fld ''skc_rcv_wnd'' t_u32, Fld ''skc_tw_rcv_nxt'' t_u32]),
     Fld ''skc_refcnt'' t_refcount_t, Fld ''skc_dontcopy_end'' (CArr c_int 0),
     Fld [] (CUnion [Fld ''skc_rxhash'' t_u32, Fld ''skc_window_clamp'' t_u32, Fld ''skc_tw_snd_nxt'' t_u32])]"

definition t___s32 :: "ctype" where
  "t___s32 = c_int"

definition struct_sk_buff_list :: "ctype" where
  "struct_sk_buff_list = CStruct
    [Fld ''next'' CPtr, Fld ''prev'' CPtr]"

definition t_u8 :: "ctype" where
  "t_u8 = t___u8"

definition struct_qspinlock :: "ctype" where
  "struct_qspinlock = CStruct
    [Fld [] (CUnion [Fld ''val'' t_atomic_t, Fld [] (CStruct [Fld ''locked'' t_u8, Fld ''pending'' t_u8]), Fld [] (CStruct [Fld ''locked_pending'' t_u16, Fld ''tail'' t_u16])])]"

definition t_arch_spinlock_t :: "ctype" where
  "t_arch_spinlock_t = struct_qspinlock"

definition struct_raw_spinlock :: "ctype" where
  "struct_raw_spinlock = CStruct
    [Fld ''raw_lock'' t_arch_spinlock_t]"

definition struct_spinlock :: "ctype" where
  "struct_spinlock = CStruct
    [Fld [] (CUnion [Fld ''rlock'' struct_raw_spinlock])]"

definition t_spinlock_t :: "ctype" where
  "t_spinlock_t = struct_spinlock"

definition struct_sk_buff_head :: "ctype" where
  "struct_sk_buff_head = CStruct
    [Fld [] (CUnion [Fld [] (CStruct [Fld ''next'' CPtr, Fld ''prev'' CPtr]), Fld ''list'' struct_sk_buff_list]),
     Fld ''qlen'' t___u32, Fld ''lock'' t_spinlock_t]"

definition struct_list_head :: "ctype" where
  "struct_list_head = CStruct
    [Fld ''next'' CPtr, Fld ''prev'' CPtr]"

definition struct_wait_queue_head :: "ctype" where
  "struct_wait_queue_head = CStruct
    [Fld ''lock'' t_spinlock_t, Fld ''head'' struct_list_head]"

definition t_wait_queue_head_t :: "ctype" where
  "t_wait_queue_head_t = struct_wait_queue_head"

definition t_socket_lock_t :: "ctype" where
  "t_socket_lock_t = CStruct [Fld ''slock'' t_spinlock_t, Fld ''owned'' c_int, Fld ''wq'' t_wait_queue_head_t]"

definition struct_rb_root :: "ctype" where
  "struct_rb_root = CStruct
    [Fld ''rb_node'' CPtr]"

definition struct_page_frag :: "ctype" where
  "struct_page_frag = CStruct
    [Fld ''page'' CPtr, Fld ''offset'' t___u32, Fld ''size'' t___u32]"

definition struct_timer_list :: "ctype" where
  "struct_timer_list = CStruct
    [Fld ''entry'' struct_hlist_node, Fld ''expires'' c_long, Fld ''function'' CPtr,
     Fld ''flags'' t_u32]"

definition t_netdev_features_t :: "ctype" where
  "t_netdev_features_t = t_u64"

definition t_gfp_t :: "ctype" where
  "t_gfp_t = c_int"

definition struct_qrwlock :: "ctype" where
  "struct_qrwlock = CStruct
    [Fld [] (CUnion [Fld ''cnts'' t_atomic_t, Fld [] (CStruct [Fld ''wlocked'' t_u8, Fld ''__lstate'' (CArr t_u8 3)])]),
     Fld ''wait_lock'' t_arch_spinlock_t]"

definition t_arch_rwlock_t :: "ctype" where
  "t_arch_rwlock_t = struct_qrwlock"

definition t_rwlock_t :: "ctype" where
  "t_rwlock_t = CStruct [Fld ''raw_lock'' t_arch_rwlock_t]"

definition t___kernel_uid32_t :: "ctype" where
  "t___kernel_uid32_t = c_int"

definition t_uid_t :: "ctype" where
  "t_uid_t = t___kernel_uid32_t"

definition t_kuid_t :: "ctype" where
  "t_kuid_t = CStruct [Fld ''val'' t_uid_t]"

definition t_ktime_t :: "ctype" where
  "t_ktime_t = t_s64"

definition struct_sock_cgroup_data :: "ctype" where
  "struct_sock_cgroup_data = CStruct
    [Fld ''cgroup'' CPtr, Fld ''classid'' t_u32, Fld ''prioidx'' t_u16]"

definition struct_callback_head :: "ctype" where
  "struct_callback_head = CStruct
    [Fld ''next'' CPtr, Fld ''func'' CPtr]"

definition t_netns_tracker :: "ctype" where
  "t_netns_tracker = CStruct []"

definition struct_xarray :: "ctype" where
  "struct_xarray = CStruct
    [Fld ''xa_lock'' t_spinlock_t, Fld ''xa_flags'' t_gfp_t, Fld ''xa_head'' CPtr]"

definition struct_sock :: "ctype" where
  "struct_sock = CStruct
    [Fld ''__sk_common'' struct_sock_common,
     Fld ''__cacheline_group_begin__sock_write_rx'' (CArr t___u8 0), Fld ''sk_drops'' t_atomic_t,
     Fld ''sk_peek_off'' t___s32, Fld ''sk_error_queue'' struct_sk_buff_head,
     Fld ''sk_receive_queue'' struct_sk_buff_head,
     Fld ''sk_backlog'' (CStruct [Fld ''rmem_alloc'' t_atomic_t, Fld ''len'' c_int, Fld ''head'' CPtr, Fld ''tail'' CPtr]),
     Fld ''__cacheline_group_end__sock_write_rx'' (CArr t___u8 0),
     Fld ''__cacheline_group_begin__sock_read_rx'' (CArr t___u8 0), Fld ''sk_rx_dst'' CPtr,
     Fld ''sk_rx_dst_ifindex'' c_int, Fld ''sk_rx_dst_cookie'' t_u32, Fld ''sk_ll_usec'' c_int,
     Fld ''sk_napi_id'' c_int, Fld ''sk_busy_poll_budget'' t_u16, Fld ''sk_prefer_busy_poll'' t_u8,
     Fld ''sk_userlocks'' t_u8, Fld ''sk_rcvbuf'' c_int, Fld ''sk_filter'' CPtr,
     Fld [] (CUnion [Fld ''sk_wq'' CPtr, Fld ''sk_wq_raw'' CPtr]), Fld ''sk_data_ready'' CPtr,
     Fld ''sk_rcvtimeo'' c_long, Fld ''sk_rcvlowat'' c_int,
     Fld ''__cacheline_group_end__sock_read_rx'' (CArr t___u8 0),
     Fld ''__cacheline_group_begin__sock_read_rxtx'' (CArr t___u8 0), Fld ''sk_err'' c_int,
     Fld ''sk_socket'' CPtr, Fld ''sk_memcg'' CPtr, Fld ''sk_policy'' (CArr CPtr 2),
     Fld ''__cacheline_group_end__sock_read_rxtx'' (CArr t___u8 0),
     Fld ''__cacheline_group_begin__sock_write_rxtx'' (CArr t___u8 0),
     Fld ''sk_lock'' t_socket_lock_t, Fld ''sk_reserved_mem'' t_u32, Fld ''sk_forward_alloc'' c_int,
     Fld ''sk_tsflags'' t_u32, Fld ''__cacheline_group_end__sock_write_rxtx'' (CArr t___u8 0),
     Fld ''__cacheline_group_begin__sock_write_tx'' (CArr t___u8 0), Fld ''sk_write_pending'' c_int,
     Fld ''sk_omem_alloc'' t_atomic_t, Fld ''sk_sndbuf'' c_int, Fld ''sk_wmem_queued'' c_int,
     Fld ''sk_wmem_alloc'' t_refcount_t, Fld ''sk_tsq_flags'' c_long,
     Fld [] (CUnion [Fld ''sk_send_head'' CPtr, Fld ''tcp_rtx_queue'' struct_rb_root]),
     Fld ''sk_write_queue'' struct_sk_buff_head, Fld ''sk_dst_pending_confirm'' t_u32,
     Fld ''sk_pacing_status'' t_u32, Fld ''sk_frag'' struct_page_frag,
     Fld ''sk_timer'' struct_timer_list, Fld ''sk_pacing_rate'' c_long, Fld ''sk_zckey'' t_atomic_t,
     Fld ''sk_tskey'' t_atomic_t, Fld ''__cacheline_group_end__sock_write_tx'' (CArr t___u8 0),
     Fld ''__cacheline_group_begin__sock_read_tx'' (CArr t___u8 0), Fld ''sk_max_pacing_rate'' c_long,
     Fld ''sk_sndtimeo'' c_long, Fld ''sk_priority'' t_u32, Fld ''sk_mark'' t_u32,
     Fld ''sk_dst_cache'' CPtr, Fld ''sk_route_caps'' t_netdev_features_t,
     Fld ''sk_validate_xmit_skb'' CPtr, Fld ''sk_gso_type'' t_u16, Fld ''sk_gso_max_segs'' t_u16,
     Fld ''sk_gso_max_size'' c_int, Fld ''sk_allocation'' t_gfp_t, Fld ''sk_txhash'' t_u32,
     Fld ''sk_pacing_shift'' t_u8, Fld ''sk_use_task_frag'' c_bool,
     Fld ''__cacheline_group_end__sock_read_tx'' (CArr t___u8 0), Bits ''sk_gso_disabled'' 1 1,
     Bits ''sk_kern_sock'' 1 1, Bits ''sk_no_check_tx'' 1 1, Bits ''sk_no_check_rx'' 1 1,
     Fld ''sk_shutdown'' t_u8, Fld ''sk_type'' t_u16, Fld ''sk_protocol'' t_u16,
     Fld ''sk_lingertime'' c_long, Fld ''sk_prot_creator'' CPtr, Fld ''sk_callback_lock'' t_rwlock_t,
     Fld ''sk_err_soft'' c_int, Fld ''sk_ack_backlog'' t_u32, Fld ''sk_max_ack_backlog'' t_u32,
     Fld ''sk_uid'' t_kuid_t, Fld ''sk_ino'' c_long, Fld ''sk_peer_lock'' t_spinlock_t,
     Fld ''sk_bind_phc'' c_int, Fld ''sk_peer_pid'' CPtr, Fld ''sk_peer_cred'' CPtr,
     Fld ''sk_stamp'' t_ktime_t, Fld ''sk_disconnects'' c_int,
     Fld [] (CUnion [Fld ''sk_txrehash'' t_u8, Fld ''sk_scm_recv_flags'' t_u8, Fld [] (CStruct [Bits ''sk_scm_credentials'' 1 1, Bits ''sk_scm_security'' 1 1, Bits ''sk_scm_pidfd'' 1 1, Bits ''sk_scm_rights'' 1 1, Bits ''sk_scm_unused'' 1 4])]),
     Fld ''sk_clockid'' t_u8, Bits ''sk_txtime_deadline_mode'' 1 1,
     Bits ''sk_txtime_report_errors'' 1 1, Bits ''sk_txtime_unused'' 1 6,
     Fld ''sk_bpf_cb_flags'' t_u8, Fld ''sk_user_data'' CPtr, Fld ''sk_security'' CPtr,
     Fld ''sk_cgrp_data'' struct_sock_cgroup_data, Fld ''sk_state_change'' CPtr,
     Fld ''sk_write_space'' CPtr, Fld ''sk_error_report'' CPtr, Fld ''sk_backlog_rcv'' CPtr,
     Fld ''sk_destruct'' CPtr, Fld ''sk_reuseport_cb'' CPtr, Fld ''sk_bpf_storage'' CPtr,
     Fld ''sk_rcu'' struct_callback_head, Fld ''ns_tracker'' t_netns_tracker,
     Fld ''sk_user_frags'' struct_xarray]"

definition struct_rb_node :: "ctype" where
  "struct_rb_node = CStruct
    [Fld ''__rb_parent_color'' c_long, Fld ''rb_right'' CPtr, Fld ''rb_left'' CPtr]"

definition struct_llist_node :: "ctype" where
  "struct_llist_node = CStruct
    [Fld ''next'' CPtr]"

definition t___wsum :: "ctype" where
  "t___wsum = t___u32"

definition t_sk_buff_data_t :: "ctype" where
  "t_sk_buff_data_t = c_int"

definition sk_buff_members_1 :: "cfield list" where
  "sk_buff_members_1 = 
    [Fld [] (CUnion [Fld [] (CStruct [Fld ''next'' CPtr, Fld ''prev'' CPtr, Fld [] (CUnion [Fld ''dev'' CPtr, Fld ''dev_scratch'' c_long])]), Fld ''rbnode'' struct_rb_node, Fld ''list'' struct_list_head, Fld ''ll_node'' struct_llist_node]),
     Fld ''sk'' CPtr, Fld [] (CUnion [Fld ''tstamp'' t_ktime_t, Fld ''skb_mstamp_ns'' t_u64]),
     Fld ''cb'' (CArr c_char 48),
     Fld [] (CUnion [Fld [] (CStruct [Fld ''_skb_refdst'' c_long, Fld ''destructor'' CPtr]), Fld ''tcp_tsorted_anchor'' struct_list_head, Fld ''_sk_redir'' c_long]),
     Fld ''_nfct'' c_long, Fld ''len'' c_int, Fld ''data_len'' c_int, Fld ''mac_len'' t___u16,
     Fld ''hdr_len'' t___u16, Fld ''queue_mapping'' t___u16, Fld ''__cloned_offset'' (CArr t___u8 0),
     Bits ''cloned'' 1 1, Bits ''nohdr'' 1 1, Bits ''fclone'' 1 2, Bits ''peeked'' 1 1,
     Bits ''head_frag'' 1 1, Bits ''pfmemalloc'' 1 1, Bits ''pp_recycle'' 1 1,
     Fld ''active_extensions'' t___u8]"

definition sk_buff_members_2 :: "cfield list" where
  "sk_buff_members_2 = 
    [Fld [] (CUnion [Fld [] (CStruct [Fld ''__pkt_type_offset'' (CArr t___u8 0), Bits ''pkt_type'' 1 3, Bits ''ignore_df'' 1 1, Bits ''dst_pending_confirm'' 1 1, Bits ''ip_summed'' 1 2, Bits ''ooo_okay'' 1 1, Fld ''__mono_tc_offset'' (CArr t___u8 0), Bits ''tstamp_type'' 1 2, Bits ''tc_at_ingress'' 1 1, Bits ''tc_skip_classify'' 1 1, Bits ''remcsum_offload'' 1 1, Bits ''csum_complete_sw'' 1 1, Bits ''csum_level'' 1 2, Bits ''inner_protocol_type'' 1 1, Bits ''l4_hash'' 1 1, Bits ''sw_hash'' 1 1, Bits ''wifi_acked_valid'' 1 1, Bits ''wifi_acked'' 1 1, Bits ''no_fcs'' 1 1, Bits ''encapsulation'' 1 1, Bits ''encap_hdr_csum'' 1 1, Bits ''csum_valid'' 1 1, Bits ''ndisc_nodetype'' 1 2, Bits ''ipvs_property'' 1 1, Bits ''nf_trace'' 1 1, Bits ''offload_fwd_mark'' 1 1, Bits ''offload_l3_fwd_mark'' 1 1, Bits ''redirected'' 1 1, Bits ''from_ingress'' 1 1, Bits ''nf_skip_egress'' 1 1, Bits ''decrypted'' 1 1, Bits ''slow_gro'' 1 1, Bits ''csum_not_inet'' 1 1, Bits ''unreadable'' 1 1, Fld ''tc_index'' t___u16, Fld ''alloc_cpu'' t_u16, Fld [] (CUnion [Fld ''csum'' t___wsum, Fld [] (CStruct [Fld ''csum_start'' t___u16, Fld ''csum_offset'' t___u16])]), Fld ''priority'' t___u32, Fld ''skb_iif'' c_int, Fld ''hash'' t___u32, Fld [] (CUnion [Fld ''vlan_all'' t_u32, Fld [] (CStruct [Fld ''vlan_proto'' t___be16, Fld ''vlan_tci'' t___u16])]), Fld [] (CUnion [Fld ''napi_id'' c_int, Fld ''sender_cpu'' c_int]), Fld ''secmark'' t___u32, Fld [] (CUnion [Fld ''mark'' t___u32, Fld ''reserved_tailroom'' t___u32]), Fld [] (CUnion [Fld ''inner_protocol'' t___be16, Fld ''inner_ipproto'' t___u8]), Fld ''inner_transport_header'' t___u16, Fld ''inner_network_header'' t___u16, Fld ''inner_mac_header'' t___u16, Fld ''protocol'' t___be16, Fld ''transport_header'' t___u16, Fld ''network_header'' t___u16, Fld ''mac_header'' t___u16]), Fld ''headers'' (CStruct [Fld ''__pkt_type_offset'' (CArr t___u8 0), Bits ''pkt_type'' 1 3, Bits ''ignore_df'' 1 1, Bits ''dst_pending_confirm'' 1 1, Bits ''ip_summed'' 1 2, Bits ''ooo_okay'' 1 1, Fld ''__mono_tc_offset'' (CArr t___u8 0), Bits ''tstamp_type'' 1 2, Bits ''tc_at_ingress'' 1 1, Bits ''tc_skip_classify'' 1 1, Bits ''remcsum_offload'' 1 1, Bits ''csum_complete_sw'' 1 1, Bits ''csum_level'' 1 2, Bits ''inner_protocol_type'' 1 1, Bits ''l4_hash'' 1 1, Bits ''sw_hash'' 1 1, Bits ''wifi_acked_valid'' 1 1, Bits ''wifi_acked'' 1 1, Bits ''no_fcs'' 1 1, Bits ''encapsulation'' 1 1, Bits ''encap_hdr_csum'' 1 1, Bits ''csum_valid'' 1 1, Bits ''ndisc_nodetype'' 1 2, Bits ''ipvs_property'' 1 1, Bits ''nf_trace'' 1 1, Bits ''offload_fwd_mark'' 1 1, Bits ''offload_l3_fwd_mark'' 1 1, Bits ''redirected'' 1 1, Bits ''from_ingress'' 1 1, Bits ''nf_skip_egress'' 1 1, Bits ''decrypted'' 1 1, Bits ''slow_gro'' 1 1, Bits ''csum_not_inet'' 1 1, Bits ''unreadable'' 1 1, Fld ''tc_index'' t___u16, Fld ''alloc_cpu'' t_u16, Fld [] (CUnion [Fld ''csum'' t___wsum, Fld [] (CStruct [Fld ''csum_start'' t___u16, Fld ''csum_offset'' t___u16])]), Fld ''priority'' t___u32, Fld ''skb_iif'' c_int, Fld ''hash'' t___u32, Fld [] (CUnion [Fld ''vlan_all'' t_u32, Fld [] (CStruct [Fld ''vlan_proto'' t___be16, Fld ''vlan_tci'' t___u16])]), Fld [] (CUnion [Fld ''napi_id'' c_int, Fld ''sender_cpu'' c_int]), Fld ''secmark'' t___u32, Fld [] (CUnion [Fld ''mark'' t___u32, Fld ''reserved_tailroom'' t___u32]), Fld [] (CUnion [Fld ''inner_protocol'' t___be16, Fld ''inner_ipproto'' t___u8]), Fld ''inner_transport_header'' t___u16, Fld ''inner_network_header'' t___u16, Fld ''inner_mac_header'' t___u16, Fld ''protocol'' t___be16, Fld ''transport_header'' t___u16, Fld ''network_header'' t___u16, Fld ''mac_header'' t___u16])])]"

definition sk_buff_members_3 :: "cfield list" where
  "sk_buff_members_3 = 
    [Fld ''tail'' t_sk_buff_data_t, Fld ''end'' t_sk_buff_data_t, Fld ''head'' CPtr,
     Fld ''data'' CPtr, Fld ''truesize'' c_int, Fld ''users'' t_refcount_t, Fld ''extensions'' CPtr]"

definition struct_sk_buff :: "ctype" where
  "struct_sk_buff = CStruct (sk_buff_members_1 @ sk_buff_members_2 @ sk_buff_members_3)"

end
