(* ===== verification/Vmlinux_Attr.thy ===== *)
theory Vmlinux_Attr
  imports Vmlinux_Net
begin

text \<open>
  Types of \<^verbatim>\<open>vmlinux.h\<close>, third part: the two system-call argument blocks \<^verbatim>\<open>kernel.bpf.c\<close> reads,
  \<open>union bpf_attr\<close> and \<open>struct perf_event_attr\<close>.
\<close>

definition bpf_attr_members_1 :: "cfield list" where
  "bpf_attr_members_1 = 
    [Fld [] (CStruct [Fld ''map_type'' t___u32, Fld ''key_size'' t___u32, Fld ''value_size'' t___u32, Fld ''max_entries'' t___u32, Fld ''map_flags'' t___u32, Fld ''inner_map_fd'' t___u32, Fld ''numa_node'' t___u32, Fld ''map_name'' (CArr c_char 16), Fld ''map_ifindex'' t___u32, Fld ''btf_fd'' t___u32, Fld ''btf_key_type_id'' t___u32, Fld ''btf_value_type_id'' t___u32, Fld ''btf_vmlinux_value_type_id'' t___u32, Fld ''map_extra'' t___u64, Fld ''value_type_btf_obj_fd'' t___s32, Fld ''map_token_fd'' t___s32]),
     Fld [] (CStruct [Fld ''map_fd'' t___u32, Fld ''key'' t___u64, Fld [] (CUnion [Fld ''value'' t___u64, Fld ''next_key'' t___u64]), Fld ''flags'' t___u64]),
     Fld ''batch'' (CStruct [Fld ''in_batch'' t___u64, Fld ''out_batch'' t___u64, Fld ''keys'' t___u64, Fld ''values'' t___u64, Fld ''count'' t___u32, Fld ''map_fd'' t___u32, Fld ''elem_flags'' t___u64, Fld ''flags'' t___u64]),
     Fld [] (CStruct [Fld ''prog_type'' t___u32, Fld ''insn_cnt'' t___u32, Fld ''insns'' t___u64, Fld ''license'' t___u64, Fld ''log_level'' t___u32, Fld ''log_size'' t___u32, Fld ''log_buf'' t___u64, Fld ''kern_version'' t___u32, Fld ''prog_flags'' t___u32, Fld ''prog_name'' (CArr c_char 16), Fld ''prog_ifindex'' t___u32, Fld ''expected_attach_type'' t___u32, Fld ''prog_btf_fd'' t___u32, Fld ''func_info_rec_size'' t___u32, Fld ''func_info'' t___u64, Fld ''func_info_cnt'' t___u32, Fld ''line_info_rec_size'' t___u32, Fld ''line_info'' t___u64, Fld ''line_info_cnt'' t___u32, Fld ''attach_btf_id'' t___u32, Fld [] (CUnion [Fld ''attach_prog_fd'' t___u32, Fld ''attach_btf_obj_fd'' t___u32]), Fld ''core_relo_cnt'' t___u32, Fld ''fd_array'' t___u64, Fld ''core_relos'' t___u64, Fld ''core_relo_rec_size'' t___u32, Fld ''log_true_size'' t___u32, Fld ''prog_token_fd'' t___s32, Fld ''fd_array_cnt'' t___u32]),
     Fld [] (CStruct [Fld ''pathname'' t___u64, Fld ''bpf_fd'' t___u32, Fld ''file_flags'' t___u32, Fld ''path_fd'' t___s32]),
     Fld [] (CStruct [Fld [] (CUnion [Fld ''target_fd'' t___u32, Fld ''target_ifindex'' t___u32]), Fld ''attach_bpf_fd'' t___u32, Fld ''attach_type'' t___u32, Fld ''attach_flags'' t___u32, Fld ''replace_bpf_fd'' t___u32, Fld [] (CUnion [Fld ''relative_fd'' t___u32, Fld ''relative_id'' t___u32]), Fld ''expected_revision'' t___u64]),
     Fld ''test'' (CStruct [Fld ''prog_fd'' t___u32, Fld ''retval'' t___u32, Fld ''data_size_in'' t___u32, Fld ''data_size_out'' t___u32, Fld ''data_in'' t___u64, Fld ''data_out'' t___u64, Fld ''repeat'' t___u32, Fld ''duration'' t___u32, Fld ''ctx_size_in'' t___u32, Fld ''ctx_size_out'' t___u32, Fld ''ctx_in'' t___u64, Fld ''ctx_out'' t___u64, Fld ''flags'' t___u32, Fld ''cpu'' t___u32, Fld ''batch_size'' t___u32]),
     Fld [] (CStruct [Fld [] (CUnion [Fld ''start_id'' t___u32, Fld ''prog_id'' t___u32, Fld ''map_id'' t___u32, Fld ''btf_id'' t___u32, Fld ''link_id'' t___u32]), Fld ''next_id'' t___u32, Fld ''open_flags'' t___u32, Fld ''fd_by_id_token_fd'' t___s32]),
     Fld ''info'' (CStruct [Fld ''bpf_fd'' t___u32, Fld ''info_len'' t___u32, Fld ''info'' t___u64]),
     Fld ''query'' (CStruct [Fld [] (CUnion [Fld ''target_fd'' t___u32, Fld ''target_ifindex'' t___u32]), Fld ''attach_type'' t___u32, Fld ''query_flags'' t___u32, Fld ''attach_flags'' t___u32, Fld ''prog_ids'' t___u64, Fld [] (CUnion [Fld ''prog_cnt'' t___u32, Fld ''count'' t___u32]), Fld ''prog_attach_flags'' t___u64, Fld ''link_ids'' t___u64, Fld ''link_attach_flags'' t___u64, Fld ''revision'' t___u64])]"

definition bpf_attr_members_2 :: "cfield list" where
  "bpf_attr_members_2 = 
    [Fld ''raw_tracepoint'' (CStruct [Fld ''name'' t___u64, Fld ''prog_fd'' t___u32, Fld ''cookie'' t___u64]),
     Fld [] (CStruct [Fld ''btf'' t___u64, Fld ''btf_log_buf'' t___u64, Fld ''btf_size'' t___u32, Fld ''btf_log_size'' t___u32, Fld ''btf_log_level'' t___u32, Fld ''btf_log_true_size'' t___u32, Fld ''btf_flags'' t___u32, Fld ''btf_token_fd'' t___s32]),
     Fld ''task_fd_query'' (CStruct [Fld ''pid'' t___u32, Fld ''fd'' t___u32, Fld ''flags'' t___u32, Fld ''buf_len'' t___u32, Fld ''buf'' t___u64, Fld ''prog_id'' t___u32, Fld ''fd_type'' t___u32, Fld ''probe_offset'' t___u64, Fld ''probe_addr'' t___u64]),
     Fld ''link_create'' (CStruct [Fld [] (CUnion [Fld ''prog_fd'' t___u32, Fld ''map_fd'' t___u32]), Fld [] (CUnion [Fld ''target_fd'' t___u32, Fld ''target_ifindex'' t___u32]), Fld ''attach_type'' t___u32, Fld ''flags'' t___u32, Fld [] (CUnion [Fld ''target_btf_id'' t___u32, Fld [] (CStruct [Fld ''iter_info'' t___u64, Fld ''iter_info_len'' t___u32]), Fld ''perf_event'' (CStruct [Fld ''bpf_cookie'' t___u64]), Fld ''kprobe_multi'' (CStruct [Fld ''flags'' t___u32, Fld ''cnt'' t___u32, Fld ''syms'' t___u64, Fld ''addrs'' t___u64, Fld ''cookies'' t___u64]), Fld ''tracing'' (CStruct [Fld ''target_btf_id'' t___u32, Fld ''cookie'' t___u64]), Fld ''netfilter'' (CStruct [Fld ''pf'' t___u32, Fld ''hooknum'' t___u32, Fld ''priority'' t___s32, Fld ''flags'' t___u32]), Fld ''tcx'' (CStruct [Fld [] (CUnion [Fld ''relative_fd'' t___u32, Fld ''relative_id'' t___u32]), Fld ''expected_revision'' t___u64]), Fld ''uprobe_multi'' (CStruct [Fld ''path'' t___u64, Fld ''offsets'' t___u64, Fld ''ref_ctr_offsets'' t___u64, Fld ''cookies'' t___u64, Fld ''cnt'' t___u32, Fld ''flags'' t___u32, Fld ''pid'' t___u32]), Fld ''netkit'' (CStruct [Fld [] (CUnion [Fld ''relative_fd'' t___u32, Fld ''relative_id'' t___u32]), Fld ''expected_revision'' t___u64]), Fld ''cgroup'' (CStruct [Fld [] (CUnion [Fld ''relative_fd'' t___u32, Fld ''relative_id'' t___u32]), Fld ''expected_revision'' t___u64])])]),
     Fld ''link_update'' (CStruct [Fld ''link_fd'' t___u32, Fld [] (CUnion [Fld ''new_prog_fd'' t___u32, Fld ''new_map_fd'' t___u32]), Fld ''flags'' t___u32, Fld [] (CUnion [Fld ''old_prog_fd'' t___u32, Fld ''old_map_fd'' t___u32])]),
     Fld ''link_detach'' (CStruct [Fld ''link_fd'' t___u32]),
     Fld ''enable_stats'' (CStruct [Fld ''type'' t___u32]),
     Fld ''iter_create'' (CStruct [Fld ''link_fd'' t___u32, Fld ''flags'' t___u32]),
     Fld ''prog_bind_map'' (CStruct [Fld ''prog_fd'' t___u32, Fld ''map_fd'' t___u32, Fld ''flags'' t___u32]),
     Fld ''token_create'' (CStruct [Fld ''flags'' t___u32, Fld ''bpffs_fd'' t___u32]),
     Fld ''prog_stream_read'' (CStruct [Fld ''stream_buf'' t___u64, Fld ''stream_buf_len'' t___u32, Fld ''stream_id'' t___u32, Fld ''prog_fd'' t___u32])]"

definition union_bpf_attr :: "ctype" where
  "union_bpf_attr = CUnion (bpf_attr_members_1 @ bpf_attr_members_2)"

definition struct_perf_event_attr :: "ctype" where
  "struct_perf_event_attr = CStruct
    [Fld ''type'' t___u32, Fld ''size'' t___u32, Fld ''config'' t___u64,
     Fld [] (CUnion [Fld ''sample_period'' t___u64, Fld ''sample_freq'' t___u64]),
     Fld ''sample_type'' t___u64, Fld ''read_format'' t___u64, Bits ''disabled'' 8 1,
     Bits ''inherit'' 8 1, Bits ''pinned'' 8 1, Bits ''exclusive'' 8 1, Bits ''exclude_user'' 8 1,
     Bits ''exclude_kernel'' 8 1, Bits ''exclude_hv'' 8 1, Bits ''exclude_idle'' 8 1,
     Bits ''mmap'' 8 1, Bits ''comm'' 8 1, Bits ''freq'' 8 1, Bits ''inherit_stat'' 8 1,
     Bits ''enable_on_exec'' 8 1, Bits ''task'' 8 1, Bits ''watermark'' 8 1, Bits ''precise_ip'' 8 2,
     Bits ''mmap_data'' 8 1, Bits ''sample_id_all'' 8 1, Bits ''exclude_host'' 8 1,
     Bits ''exclude_guest'' 8 1, Bits ''exclude_callchain_kernel'' 8 1,
     Bits ''exclude_callchain_user'' 8 1, Bits ''mmap2'' 8 1, Bits ''comm_exec'' 8 1,
     Bits ''use_clockid'' 8 1, Bits ''context_switch'' 8 1, Bits ''write_backward'' 8 1,
     Bits ''namespaces'' 8 1, Bits ''ksymbol'' 8 1, Bits ''bpf_event'' 8 1, Bits ''aux_output'' 8 1,
     Bits ''cgroup'' 8 1, Bits ''text_poke'' 8 1, Bits ''build_id'' 8 1, Bits ''inherit_thread'' 8 1,
     Bits ''remove_on_exec'' 8 1, Bits ''sigtrap'' 8 1, Bits ''__reserved_1'' 8 26,
     Fld [] (CUnion [Fld ''wakeup_events'' t___u32, Fld ''wakeup_watermark'' t___u32]),
     Fld ''bp_type'' t___u32,
     Fld [] (CUnion [Fld ''bp_addr'' t___u64, Fld ''kprobe_func'' t___u64, Fld ''uprobe_path'' t___u64, Fld ''config1'' t___u64]),
     Fld [] (CUnion [Fld ''bp_len'' t___u64, Fld ''kprobe_addr'' t___u64, Fld ''probe_offset'' t___u64, Fld ''config2'' t___u64]),
     Fld ''branch_sample_type'' t___u64, Fld ''sample_regs_user'' t___u64,
     Fld ''sample_stack_user'' t___u32, Fld ''clockid'' t___s32, Fld ''sample_regs_intr'' t___u64,
     Fld ''aux_watermark'' t___u32, Fld ''sample_max_stack'' t___u16, Fld ''__reserved_2'' t___u16,
     Fld ''aux_sample_size'' t___u32,
     Fld [] (CUnion [Fld ''aux_action'' t___u32, Fld [] (CStruct [Bits ''aux_start_paused'' 4 1, Bits ''aux_pause'' 4 1, Bits ''aux_resume'' 4 1, Bits ''__reserved_3'' 4 29])]),
     Fld ''sig_data'' t___u64, Fld ''config3'' t___u64]"

end
