(* ===== verification/Vmlinux_Task.thy ===== *)
theory Vmlinux_Task
  imports Vmlinux_Net
begin

text \<open>
  Types of \<^verbatim>\<open>vmlinux.h\<close>, last part: \<open>mm_struct\<close> and \<open>task_struct\<close>, which \<^verbatim>\<open>process.bpf.c\<close> follows
  from the current task to its argument area, with every type they embed.
\<close>

definition t_lockdep_map_p :: "ctype" where
  "t_lockdep_map_p = CStruct []"

definition struct_maple_tree :: "ctype" where
  "struct_maple_tree = CStruct
    [Fld [] (CUnion [Fld ''ma_lock'' t_spinlock_t, Fld ''ma_external_lock'' t_lockdep_map_p]),
     Fld ''ma_flags'' c_int, Fld ''ma_root'' CPtr]"

definition t_raw_spinlock_t :: "ctype" where
  "t_raw_spinlock_t = struct_raw_spinlock"

definition t_atomic_long_t :: "ctype" where
  "t_atomic_long_t = t_atomic64_t"

definition struct_optimistic_spin_queue :: "ctype" where
  "struct_optimistic_spin_queue = CStruct
    [Fld ''tail'' t_atomic_t]"

definition struct_rw_semaphore :: "ctype" where
  "struct_rw_semaphore = CStruct
    [Fld ''count'' t_atomic_long_t, Fld ''owner'' t_atomic_long_t,
     Fld ''osq'' struct_optimistic_spin_queue, Fld ''wait_lock'' t_raw_spinlock_t,
     Fld ''wait_list'' struct_list_head]"

definition struct_rcuwait :: "ctype" where
  "struct_rcuwait = CStruct
    [Fld ''task'' CPtr]"

definition struct_seqcount :: "ctype" where
  "struct_seqcount = CStruct
    [Fld ''sequence'' c_int]"

definition t_seqcount_t :: "ctype" where
  "t_seqcount_t = struct_seqcount"

definition struct_mutex :: "ctype" where
  "struct_mutex = CStruct
    [Fld ''owner'' t_atomic_long_t, Fld ''wait_lock'' t_raw_spinlock_t,
     Fld ''osq'' struct_optimistic_spin_queue, Fld ''wait_list'' struct_list_head]"

definition t_vm_flags_t :: "ctype" where
  "t_vm_flags_t = c_long"

definition struct_percpu_counter :: "ctype" where
  "struct_percpu_counter = CStruct
    [Fld ''lock'' t_raw_spinlock_t, Fld ''count'' t_s64, Fld ''list'' struct_list_head,
     Fld ''counters'' CPtr]"

definition t___s16 :: "ctype" where
  "t___s16 = c_short"

definition t_s16 :: "ctype" where
  "t_s16 = t___s16"

definition t_mm_context_t :: "ctype" where
  "t_mm_context_t = CStruct [Fld ''ctx_id'' t_u64, Fld ''tlb_gen'' t_atomic64_t, Fld ''next_trim_cpumask'' c_long, Fld ''ldt_usr_sem'' struct_rw_semaphore, Fld ''ldt'' CPtr, Fld ''flags'' c_long, Fld ''lock'' struct_mutex, Fld ''vdso'' CPtr, Fld ''vdso_image'' CPtr, Fld ''perf_rdpmc_allowed'' t_atomic_t, Fld ''pkey_allocation_map'' t_u16, Fld ''execute_only_pkey'' t_s16, Fld ''global_asid'' t_u16, Fld ''asid_transition'' c_bool]"

definition struct_uprobes_state :: "ctype" where
  "struct_uprobes_state = CStruct
    [Fld ''xol_area'' CPtr]"

definition t_work_func_t :: "ctype" where
  "t_work_func_t = CPtr"

definition struct_work_struct :: "ctype" where
  "struct_work_struct = CStruct
    [Fld ''data'' t_atomic_long_t, Fld ''entry'' struct_list_head, Fld ''func'' t_work_func_t]"

definition t_mm_id_t :: "ctype" where
  "t_mm_id_t = c_int"

definition struct_mm_struct :: "ctype" where
  "struct_mm_struct = CStruct
    [Fld [] (CStruct [Fld [] (CStruct [Fld ''mm_count'' t_atomic_t, Bits [] 8 64, Bits [] 8 64, Bits [] 8 64, Bits [] 8 64, Bits [] 8 64, Bits [] 8 64, Bits [] 8 64]), Fld ''mm_mt'' struct_maple_tree, Fld ''mmap_base'' c_long, Fld ''mmap_legacy_base'' c_long, Fld ''mmap_compat_base'' c_long, Fld ''mmap_compat_legacy_base'' c_long, Fld ''task_size'' c_long, Fld ''pgd'' CPtr, Fld ''membarrier_state'' t_atomic_t, Fld ''mm_users'' t_atomic_t, Fld ''pcpu_cid'' CPtr, Fld ''mm_cid_next_scan'' c_long, Fld ''nr_cpus_allowed'' c_int, Fld ''max_nr_cid'' t_atomic_t, Fld ''cpus_allowed_lock'' t_raw_spinlock_t, Fld ''pgtables_bytes'' t_atomic_long_t, Fld ''map_count'' c_int, Fld ''page_table_lock'' t_spinlock_t, Fld ''mmap_lock'' struct_rw_semaphore, Fld ''mmlist'' struct_list_head, Fld ''vma_writer_wait'' struct_rcuwait, Fld ''mm_lock_seq'' t_seqcount_t, Fld ''futex_hash_lock'' struct_mutex, Fld ''futex_phash'' CPtr, Fld ''futex_phash_new'' CPtr, Fld ''futex_batches'' c_long, Fld ''futex_rcu'' struct_callback_head, Fld ''futex_atomic'' t_atomic_long_t, Fld ''futex_ref'' CPtr, Fld ''hiwater_rss'' c_long, Fld ''hiwater_vm'' c_long, Fld ''total_vm'' c_long, Fld ''locked_vm'' c_long, Fld ''pinned_vm'' t_atomic64_t, Fld ''data_vm'' c_long, Fld ''exec_vm'' c_long, Fld ''stack_vm'' c_long, Fld ''def_flags'' t_vm_flags_t, Fld ''write_protect_seq'' t_seqcount_t, Fld ''arg_lock'' t_spinlock_t, Fld ''start_code'' c_long, Fld ''end_code'' c_long, Fld ''start_data'' c_long, Fld ''end_data'' c_long, Fld ''start_brk'' c_long, Fld ''brk'' c_long, Fld ''start_stack'' c_long, Fld ''arg_start'' c_long, Fld ''arg_end'' c_long, Fld ''env_start'' c_long, Fld ''env_end'' c_long, Fld ''saved_auxv'' (CArr c_long 52), Fld ''rss_stat'' (CArr struct_percpu_counter 4), Fld ''binfmt'' CPtr, Fld ''context'' t_mm_context_t, Fld ''flags'' c_long, Fld ''ioctx_lock'' t_spinlock_t, Fld ''ioctx_table'' CPtr, Fld ''owner'' CPtr, Fld ''user_ns'' CPtr, Fld ''exe_file'' CPtr, Fld ''notifier_subscriptions'' CPtr, Fld ''numa_next_scan'' c_long, Fld ''numa_scan_offset'' c_long, Fld ''numa_scan_seq'' c_int, Fld ''tlb_flush_pending'' t_atomic_t, Fld ''tlb_flush_batched'' t_atomic_t, Fld ''uprobes_state'' struct_uprobes_state, Fld ''hugetlb_usage'' t_atomic_long_t, Fld ''async_put_work'' struct_work_struct, Fld ''iommu_mm'' CPtr, Fld ''ksm_merging_pages'' c_long, Fld ''ksm_rmap_items'' c_long, Fld ''ksm_zero_pages'' t_atomic_long_t, Fld ''lru_gen'' (CStruct [Fld ''list'' struct_list_head, Fld ''bitmap'' c_long, Fld ''memcg'' CPtr]), Fld ''mm_id'' t_mm_id_t, Bits [] 8 64, Bits [] 8 64, Bits [] 8 64]),
     Fld ''cpu_bitmap'' (CArr c_long 0)]"

definition struct_thread_info :: "ctype" where
  "struct_thread_info = CStruct
    [Fld ''flags'' c_long, Fld ''syscall_work'' c_long, Fld ''status'' t_u32, Fld ''cpu'' t_u32]"

definition struct___call_single_node :: "ctype" where
  "struct___call_single_node = CStruct
    [Fld ''llist'' struct_llist_node,
     Fld [] (CUnion [Fld ''u_flags'' c_int, Fld ''a_flags'' t_atomic_t]), Fld ''src'' t_u16,
     Fld ''dst'' t_u16]"

definition struct_load_weight :: "ctype" where
  "struct_load_weight = CStruct
    [Fld ''weight'' c_long, Fld ''inv_weight'' t_u32]"

definition struct_sched_avg :: "ctype" where
  "struct_sched_avg = CStruct
    [Fld ''last_update_time'' t_u64, Fld ''load_sum'' t_u64, Fld ''runnable_sum'' t_u64,
     Fld ''util_sum'' t_u32, Fld ''period_contrib'' t_u32, Fld ''load_avg'' c_long,
     Fld ''runnable_avg'' c_long, Fld ''util_avg'' c_long, Fld ''util_est'' c_int]"

definition struct_sched_entity :: "ctype" where
  "struct_sched_entity = CStruct
    [Fld ''load'' struct_load_weight, Fld ''run_node'' struct_rb_node, Fld ''deadline'' t_u64,
     Fld ''min_vruntime'' t_u64, Fld ''min_slice'' t_u64, Fld ''group_node'' struct_list_head,
     Fld ''on_rq'' c_char, Fld ''sched_delayed'' c_char, Fld ''rel_deadline'' c_char,
     Fld ''custom_slice'' c_char, Fld ''exec_start'' t_u64, Fld ''sum_exec_runtime'' t_u64,
     Fld ''prev_sum_exec_runtime'' t_u64, Fld ''vruntime'' t_u64,
     Fld [] (CUnion [Fld ''vlag'' t_s64, Fld ''vprot'' t_u64]), Fld ''slice'' t_u64,
     Fld ''nr_migrations'' t_u64, Fld ''depth'' c_int, Fld ''parent'' CPtr, Fld ''cfs_rq'' CPtr,
     Fld ''my_q'' CPtr, Fld ''runnable_weight'' c_long, Bits [] 8 64, Fld ''avg'' struct_sched_avg]"

definition struct_sched_rt_entity :: "ctype" where
  "struct_sched_rt_entity = CStruct
    [Fld ''run_list'' struct_list_head, Fld ''timeout'' c_long, Fld ''watchdog_stamp'' c_long,
     Fld ''time_slice'' c_int, Fld ''on_rq'' c_short, Fld ''on_list'' c_short, Fld ''back'' CPtr]"

definition struct_timerqueue_node :: "ctype" where
  "struct_timerqueue_node = CStruct
    [Fld ''node'' struct_rb_node, Fld ''expires'' t_ktime_t]"

definition struct_hrtimer :: "ctype" where
  "struct_hrtimer = CStruct
    [Fld ''node'' struct_timerqueue_node, Fld ''_softexpires'' t_ktime_t, Fld ''function'' CPtr,
     Fld ''base'' CPtr, Fld ''state'' t_u8, Fld ''is_rel'' t_u8, Fld ''is_soft'' t_u8,
     Fld ''is_hard'' t_u8]"

definition t_dl_server_pick_f :: "ctype" where
  "t_dl_server_pick_f = CPtr"

definition struct_sched_dl_entity :: "ctype" where
  "struct_sched_dl_entity = CStruct
    [Fld ''rb_node'' struct_rb_node, Fld ''dl_runtime'' t_u64, Fld ''dl_deadline'' t_u64,
     Fld ''dl_period'' t_u64, Fld ''dl_bw'' t_u64, Fld ''dl_density'' t_u64, Fld ''runtime'' t_s64,
     Fld ''deadline'' t_u64, Fld ''flags'' c_int, Bits ''dl_throttled'' 4 1, Bits ''dl_yielded'' 4 1,
     Bits ''dl_non_contending'' 4 1, Bits ''dl_overrun'' 4 1, Bits ''dl_server'' 4 1,
     Bits ''dl_server_active'' 4 1, Bits ''dl_defer'' 4 1, Bits ''dl_defer_armed'' 4 1,
     Bits ''dl_defer_running'' 4 1, Fld ''dl_timer'' struct_hrtimer,
     Fld ''inactive_timer'' struct_hrtimer, Fld ''rq'' CPtr,
     Fld ''server_pick_task'' t_dl_server_pick_f, Fld ''pi_se'' CPtr]"

definition struct_scx_dsq_list_node :: "ctype" where
  "struct_scx_dsq_list_node = CStruct
    [Fld ''node'' struct_list_head, Fld ''flags'' t_u32, Fld ''priv'' t_u32]"

definition t_s32 :: "ctype" where
  "t_s32 = t___s32"

definition struct_sched_ext_entity :: "ctype" where
  "struct_sched_ext_entity = CStruct
    [Fld ''dsq'' CPtr, Fld ''dsq_list'' struct_scx_dsq_list_node, Fld ''dsq_priq'' struct_rb_node,
     Fld ''dsq_seq'' t_u32, Fld ''dsq_flags'' t_u32, Fld ''flags'' t_u32, Fld ''weight'' t_u32,
     Fld ''sticky_cpu'' t_s32, Fld ''holding_cpu'' t_s32, Fld ''selected_cpu'' t_s32,
     Fld ''kf_mask'' t_u32, Fld ''kf_tasks'' (CArr CPtr 2), Fld ''ops_state'' t_atomic_long_t,
     Fld ''runnable_node'' struct_list_head, Fld ''runnable_at'' c_long, Fld ''core_sched_at'' t_u64,
     Fld ''ddsp_dsq_id'' t_u64, Fld ''ddsp_enq_flags'' t_u64, Fld ''slice'' t_u64,
     Fld ''dsq_vtime'' t_u64, Fld ''disallow'' c_bool, Fld ''cgrp_moving_from'' CPtr,
     Fld ''tasks_node'' struct_list_head]"

definition struct_uclamp_se :: "ctype" where
  "struct_uclamp_se = CStruct
    [Bits ''value'' 4 11, Bits ''bucket_id'' 4 3, Bits ''active'' 4 1, Bits ''user_defined'' 4 1]"

definition struct_sched_statistics :: "ctype" where
  "struct_sched_statistics = CStruct
    [Fld ''wait_start'' t_u64, Fld ''wait_max'' t_u64, Fld ''wait_count'' t_u64,
     Fld ''wait_sum'' t_u64, Fld ''iowait_count'' t_u64, Fld ''iowait_sum'' t_u64,
     Fld ''sleep_start'' t_u64, Fld ''sleep_max'' t_u64, Fld ''sum_sleep_runtime'' t_s64,
     Fld ''block_start'' t_u64, Fld ''block_max'' t_u64, Fld ''sum_block_runtime'' t_s64,
     Fld ''exec_max'' t_s64, Fld ''slice_max'' t_u64, Fld ''nr_migrations_cold'' t_u64,
     Fld ''nr_failed_migrations_affine'' t_u64, Fld ''nr_failed_migrations_running'' t_u64,
     Fld ''nr_failed_migrations_hot'' t_u64, Fld ''nr_forced_migrations'' t_u64,
     Fld ''nr_wakeups'' t_u64, Fld ''nr_wakeups_sync'' t_u64, Fld ''nr_wakeups_migrate'' t_u64,
     Fld ''nr_wakeups_local'' t_u64, Fld ''nr_wakeups_remote'' t_u64, Fld ''nr_wakeups_affine'' t_u64,
     Fld ''nr_wakeups_affine_attempts'' t_u64, Fld ''nr_wakeups_passive'' t_u64,
     Fld ''nr_wakeups_idle'' t_u64, Fld ''core_forceidle_sum'' t_u64, Bits [] 8 64, Bits [] 8 64,
     Bits [] 8 64]"

definition struct_hlist_head :: "ctype" where
  "struct_hlist_head = CStruct
    [Fld ''first'' CPtr]"

definition struct_cpumask :: "ctype" where
  "struct_cpumask = CStruct
    [Fld ''bits'' (CArr c_long 128)]"

definition t_cpumask_t :: "ctype" where
  "t_cpumask_t = struct_cpumask"

definition union_rcu_special :: "ctype" where
  "union_rcu_special = CUnion
    [Fld ''b'' (CStruct [Fld ''blocked'' t_u8, Fld ''need_qs'' t_u8, Fld ''exp_hint'' t_u8, Fld ''need_mb'' t_u8]),
     Fld ''s'' t_u32]"

definition struct_sched_info :: "ctype" where
  "struct_sched_info = CStruct
    [Fld ''pcount'' c_long, Fld ''run_delay'' c_long, Fld ''max_run_delay'' c_long,
     Fld ''min_run_delay'' c_long, Fld ''last_arrival'' c_long, Fld ''last_queued'' c_long]"

definition struct_plist_node :: "ctype" where
  "struct_plist_node = CStruct
    [Fld ''prio'' c_int, Fld ''prio_list'' struct_list_head, Fld ''node_list'' struct_list_head]"

definition t___kernel_clockid_t :: "ctype" where
  "t___kernel_clockid_t = c_int"

definition t_clockid_t :: "ctype" where
  "t_clockid_t = t___kernel_clockid_t"

definition enum_timespec_type :: "ctype" where
  "enum_timespec_type = c_int"

definition struct_restart_block :: "ctype" where
  "struct_restart_block = CStruct
    [Fld ''arch_data'' c_long, Fld ''fn'' CPtr,
     Fld [] (CUnion [Fld ''futex'' (CStruct [Fld ''uaddr'' CPtr, Fld ''val'' t_u32, Fld ''flags'' t_u32, Fld ''bitset'' t_u32, Fld ''time'' t_u64, Fld ''uaddr2'' CPtr]), Fld ''nanosleep'' (CStruct [Fld ''clockid'' t_clockid_t, Fld ''type'' enum_timespec_type, Fld [] (CUnion [Fld ''rmtp'' CPtr, Fld ''compat_rmtp'' CPtr]), Fld ''expires'' t_u64]), Fld ''poll'' (CStruct [Fld ''ufds'' CPtr, Fld ''nfds'' c_int, Fld ''has_timeout'' c_int, Fld ''tv_sec'' c_long, Fld ''tv_nsec'' c_long])])]"

definition struct_prev_cputime :: "ctype" where
  "struct_prev_cputime = CStruct
    [Fld ''utime'' t_u64, Fld ''stime'' t_u64, Fld ''lock'' t_raw_spinlock_t]"

definition enum_vtime_state :: "ctype" where
  "enum_vtime_state = c_int"

definition struct_vtime :: "ctype" where
  "struct_vtime = CStruct
    [Fld ''seqcount'' t_seqcount_t, Fld ''starttime'' c_long, Fld ''state'' enum_vtime_state,
     Fld ''cpu'' c_int, Fld ''utime'' t_u64, Fld ''stime'' t_u64, Fld ''gtime'' t_u64]"

definition struct_rb_root_cached :: "ctype" where
  "struct_rb_root_cached = CStruct
    [Fld ''rb_root'' struct_rb_root, Fld ''rb_leftmost'' CPtr]"

definition struct_timerqueue_head :: "ctype" where
  "struct_timerqueue_head = CStruct
    [Fld ''rb_root'' struct_rb_root_cached]"

definition struct_posix_cputimer_base :: "ctype" where
  "struct_posix_cputimer_base = CStruct
    [Fld ''nextevt'' t_u64, Fld ''tqhead'' struct_timerqueue_head]"

definition struct_posix_cputimers :: "ctype" where
  "struct_posix_cputimers = CStruct
    [Fld ''bases'' (CArr struct_posix_cputimer_base 3), Fld ''timers_active'' c_int,
     Fld ''expiry_active'' c_int]"

definition struct_posix_cputimers_work :: "ctype" where
  "struct_posix_cputimers_work = CStruct
    [Fld ''work'' struct_callback_head, Fld ''mutex'' struct_mutex, Fld ''scheduled'' c_int]"

definition struct_sysv_sem :: "ctype" where
  "struct_sysv_sem = CStruct
    [Fld ''undo_list'' CPtr]"

definition struct_sysv_shm :: "ctype" where
  "struct_sysv_shm = CStruct
    [Fld ''shm_clist'' struct_list_head]"

definition t_sigset_t :: "ctype" where
  "t_sigset_t = CStruct [Fld ''sig'' (CArr c_long 1)]"

definition struct_sigpending :: "ctype" where
  "struct_sigpending = CStruct
    [Fld ''list'' struct_list_head, Fld ''signal'' t_sigset_t]"

definition t___kernel_ulong_t :: "ctype" where
  "t___kernel_ulong_t = c_long"

definition t___kernel_size_t :: "ctype" where
  "t___kernel_size_t = t___kernel_ulong_t"

definition t_size_t :: "ctype" where
  "t_size_t = t___kernel_size_t"

definition struct_seccomp :: "ctype" where
  "struct_seccomp = CStruct
    [Fld ''mode'' c_int, Fld ''filter_count'' t_atomic_t, Fld ''filter'' CPtr]"

definition struct_syscall_user_dispatch :: "ctype" where
  "struct_syscall_user_dispatch = CStruct
    [Fld ''selector'' CPtr, Fld ''offset'' c_long, Fld ''len'' c_long, Fld ''on_dispatch'' c_bool]"

definition struct_wake_q_node :: "ctype" where
  "struct_wake_q_node = CStruct
    [Fld ''next'' CPtr]"

definition struct_task_io_accounting :: "ctype" where
  "struct_task_io_accounting = CStruct
    [Fld ''rchar'' t_u64, Fld ''wchar'' t_u64, Fld ''syscr'' t_u64, Fld ''syscw'' t_u64,
     Fld ''read_bytes'' t_u64, Fld ''write_bytes'' t_u64, Fld ''cancelled_write_bytes'' t_u64]"

definition t_nodemask_t :: "ctype" where
  "t_nodemask_t = CStruct [Fld ''bits'' (CArr c_long 16)]"

definition struct_seqcount_spinlock :: "ctype" where
  "struct_seqcount_spinlock = CStruct
    [Fld ''seqcount'' t_seqcount_t]"

definition t_seqcount_spinlock_t :: "ctype" where
  "t_seqcount_spinlock_t = struct_seqcount_spinlock"

definition struct_arch_tlbflush_unmap_batch :: "ctype" where
  "struct_arch_tlbflush_unmap_batch = CStruct
    [Fld ''cpumask'' struct_cpumask, Fld ''unmapped_pages'' c_bool]"

definition struct_tlbflush_unmap_batch :: "ctype" where
  "struct_tlbflush_unmap_batch = CStruct
    [Fld ''arch'' struct_arch_tlbflush_unmap_batch, Fld ''flush_required'' c_bool,
     Fld ''writable'' c_bool]"

definition struct_latency_record :: "ctype" where
  "struct_latency_record = CStruct
    [Fld ''backtrace'' (CArr c_long 12), Fld ''count'' c_int, Fld ''time'' c_long, Fld ''max'' c_long]"

definition struct_kmap_ctrl :: "ctype" where
  "struct_kmap_ctrl = CStruct
    []"

definition struct_llist_head :: "ctype" where
  "struct_llist_head = CStruct
    [Fld ''first'' CPtr]"

definition struct_da_monitor :: "ctype" where
  "struct_da_monitor = CStruct
    [Fld ''monitoring'' c_bool, Fld ''curr_state'' c_int]"

definition struct_ltl_monitor :: "ctype" where
  "struct_ltl_monitor = CStruct
    []"

definition union_rv_task_monitor :: "ctype" where
  "union_rv_task_monitor = CUnion
    [Fld ''da_mon'' struct_da_monitor, Fld ''ltl_mon'' struct_ltl_monitor]"

definition struct_desc_struct :: "ctype" where
  "struct_desc_struct = CStruct
    [Fld ''limit0'' t_u16, Fld ''base0'' t_u16, Bits ''base1'' 2 8, Bits ''type'' 2 4, Bits ''s'' 2 1,
     Bits ''dpl'' 2 2, Bits ''p'' 2 1, Bits ''limit1'' 2 4, Bits ''avl'' 2 1, Bits ''l'' 2 1,
     Bits ''d'' 2 1, Bits ''g'' 2 1, Bits ''base2'' 2 8]"

definition struct_thread_shstk :: "ctype" where
  "struct_thread_shstk = CStruct
    [Fld ''base'' t_u64, Fld ''size'' t_u64]"

definition struct_thread_struct :: "ctype" where
  "struct_thread_struct = CStruct
    [Fld ''tls_array'' (CArr struct_desc_struct 3), Fld ''sp'' c_long, Fld ''es'' c_short,
     Fld ''ds'' c_short, Fld ''fsindex'' c_short, Fld ''gsindex'' c_short, Fld ''fsbase'' c_long,
     Fld ''gsbase'' c_long, Fld ''ptrace_bps'' (CArr CPtr 4), Fld ''virtual_dr6'' c_long,
     Fld ''ptrace_dr7'' c_long, Fld ''cr2'' c_long, Fld ''trap_nr'' c_long, Fld ''error_code'' c_long,
     Fld ''io_bitmap'' CPtr, Fld ''iopl_emul'' c_long, Bits ''iopl_warn'' 4 1, Fld ''pkru'' t_u32,
     Fld ''features'' c_long, Fld ''features_locked'' c_long, Fld ''shstk'' struct_thread_shstk]"

definition task_struct_members_1 :: "cfield list" where
  "task_struct_members_1 = 
    [Fld ''thread_info'' struct_thread_info, Fld ''__state'' c_int, Fld ''saved_state'' c_int,
     Fld ''stack'' CPtr, Fld ''usage'' t_refcount_t, Fld ''flags'' c_int, Fld ''ptrace'' c_int,
     Fld ''on_cpu'' c_int, Fld ''wake_entry'' struct___call_single_node, Fld ''wakee_flips'' c_int,
     Fld ''wakee_flip_decay_ts'' c_long, Fld ''last_wakee'' CPtr, Fld ''recent_used_cpu'' c_int,
     Fld ''wake_cpu'' c_int, Fld ''on_rq'' c_int, Fld ''prio'' c_int, Fld ''static_prio'' c_int,
     Fld ''normal_prio'' c_int, Fld ''rt_priority'' c_int, Fld ''se'' struct_sched_entity,
     Fld ''rt'' struct_sched_rt_entity, Fld ''dl'' struct_sched_dl_entity, Fld ''dl_server'' CPtr,
     Fld ''scx'' struct_sched_ext_entity, Fld ''sched_class'' CPtr, Fld ''core_node'' struct_rb_node,
     Fld ''core_cookie'' c_long, Fld ''core_occupation'' c_int, Fld ''sched_task_group'' CPtr,
     Fld ''uclamp_req'' (CArr struct_uclamp_se 2), Fld ''uclamp'' (CArr struct_uclamp_se 2),
     Fld ''stats'' struct_sched_statistics, Fld ''preempt_notifiers'' struct_hlist_head,
     Fld ''btrace_seq'' c_int, Fld ''policy'' c_int, Fld ''max_allowed_capacity'' c_long,
     Fld ''nr_cpus_allowed'' c_int, Fld ''cpus_ptr'' CPtr, Fld ''user_cpus_ptr'' CPtr,
     Fld ''cpus_mask'' t_cpumask_t, Fld ''migration_pending'' CPtr,
     Fld ''migration_disabled'' c_short, Fld ''migration_flags'' c_short,
     Fld ''rcu_read_lock_nesting'' c_int, Fld ''rcu_read_unlock_special'' union_rcu_special,
     Fld ''rcu_node_entry'' struct_list_head, Fld ''rcu_blocked_node'' CPtr,
     Fld ''rcu_tasks_nvcsw'' c_long, Fld ''rcu_tasks_holdout'' t_u8, Fld ''rcu_tasks_idx'' t_u8,
     Fld ''rcu_tasks_idle_cpu'' c_int, Fld ''rcu_tasks_holdout_list'' struct_list_head,
     Fld ''rcu_tasks_exit_cpu'' c_int, Fld ''rcu_tasks_exit_list'' struct_list_head,
     Fld ''trc_reader_nesting'' c_int, Fld ''trc_ipi_to_cpu'' c_int,
     Fld ''trc_reader_special'' union_rcu_special, Fld ''trc_holdout_list'' struct_list_head,
     Fld ''trc_blkd_node'' struct_list_head, Fld ''trc_blkd_cpu'' c_int,
     Fld ''sched_info'' struct_sched_info, Fld ''tasks'' struct_list_head,
     Fld ''pushable_tasks'' struct_plist_node, Fld ''pushable_dl_tasks'' struct_rb_node,
     Fld ''mm'' CPtr, Fld ''active_mm'' CPtr, Fld ''faults_disabled_mapping'' CPtr,
     Fld ''exit_state'' c_int, Fld ''exit_code'' c_int, Fld ''exit_signal'' c_int,
     Fld ''pdeath_signal'' c_int, Fld ''jobctl'' c_long, Fld ''personality'' c_int,
     Bits ''sched_reset_on_fork'' 4 1, Bits ''sched_contributes_to_load'' 4 1,
     Bits ''sched_migrated'' 4 1, Bits ''sched_task_hot'' 4 1, Bits [] 8 28,
     Bits ''sched_remote_wakeup'' 4 1, Bits ''sched_rt_mutex'' 4 1, Bits ''in_execve'' 4 1,
     Bits ''in_iowait'' 4 1, Bits ''restore_sigmask'' 4 1, Bits ''in_lru_fault'' 4 1,
     Bits ''no_cgroup_migration'' 4 1, Bits ''frozen'' 4 1, Bits ''use_memdelay'' 4 1,
     Bits ''in_memstall'' 4 1, Bits ''in_eventfd'' 4 1, Bits ''pasid_activated'' 4 1,
     Bits ''reported_split_lock'' 4 1, Bits ''in_thrashing'' 4 1, Bits ''in_nf_duplicate'' 4 1,
     Fld ''atomic_flags'' c_long, Fld ''restart_block'' struct_restart_block, Fld ''pid'' t_pid_t,
     Fld ''tgid'' t_pid_t, Fld ''stack_canary'' c_long, Fld ''real_parent'' CPtr, Fld ''parent'' CPtr,
     Fld ''children'' struct_list_head, Fld ''sibling'' struct_list_head, Fld ''group_leader'' CPtr,
     Fld ''ptraced'' struct_list_head, Fld ''ptrace_entry'' struct_list_head, Fld ''thread_pid'' CPtr,
     Fld ''pid_links'' (CArr struct_hlist_node 4), Fld ''thread_node'' struct_list_head,
     Fld ''vfork_done'' CPtr, Fld ''set_child_tid'' CPtr, Fld ''clear_child_tid'' CPtr,
     Fld ''worker_private'' CPtr, Fld ''utime'' t_u64, Fld ''stime'' t_u64, Fld ''gtime'' t_u64,
     Fld ''prev_cputime'' struct_prev_cputime, Fld ''vtime'' struct_vtime,
     Fld ''tick_dep_mask'' t_atomic_t, Fld ''nvcsw'' c_long, Fld ''nivcsw'' c_long,
     Fld ''start_time'' t_u64, Fld ''start_boottime'' t_u64, Fld ''min_flt'' c_long,
     Fld ''maj_flt'' c_long, Fld ''posix_cputimers'' struct_posix_cputimers,
     Fld ''posix_cputimers_work'' struct_posix_cputimers_work, Fld ''ptracer_cred'' CPtr,
     Fld ''real_cred'' CPtr, Fld ''cred'' CPtr, Fld ''cached_requested_key'' CPtr,
     Fld ''comm'' (CArr c_char 16), Fld ''nameidata'' CPtr, Fld ''sysvsem'' struct_sysv_sem,
     Fld ''sysvshm'' struct_sysv_shm, Fld ''last_switch_count'' c_long,
     Fld ''last_switch_time'' c_long, Fld ''fs'' CPtr, Fld ''files'' CPtr, Fld ''io_uring'' CPtr,
     Fld ''nsproxy'' CPtr, Fld ''signal'' CPtr, Fld ''sighand'' CPtr, Fld ''blocked'' t_sigset_t,
     Fld ''real_blocked'' t_sigset_t]"

definition task_struct_members_2 :: "cfield list" where
  "task_struct_members_2 = 
    [Fld ''saved_sigmask'' t_sigset_t, Fld ''pending'' struct_sigpending, Fld ''sas_ss_sp'' c_long,
     Fld ''sas_ss_size'' t_size_t, Fld ''sas_ss_flags'' c_int, Fld ''task_works'' CPtr,
     Fld ''audit_context'' CPtr, Fld ''loginuid'' t_kuid_t, Fld ''sessionid'' c_int,
     Fld ''seccomp'' struct_seccomp, Fld ''syscall_dispatch'' struct_syscall_user_dispatch,
     Fld ''parent_exec_id'' t_u64, Fld ''self_exec_id'' t_u64, Fld ''alloc_lock'' t_spinlock_t,
     Fld ''pi_lock'' t_raw_spinlock_t, Fld ''wake_q'' struct_wake_q_node,
     Fld ''pi_waiters'' struct_rb_root_cached, Fld ''pi_top_task'' CPtr, Fld ''pi_blocked_on'' CPtr,
     Fld ''blocked_on'' CPtr, Fld ''blocker'' c_long, Fld ''in_ubsan'' c_int,
     Fld ''journal_info'' CPtr, Fld ''bio_list'' CPtr, Fld ''plug'' CPtr, Fld ''reclaim_state'' CPtr,
     Fld ''io_context'' CPtr, Fld ''capture_control'' CPtr, Fld ''ptrace_message'' c_long,
     Fld ''last_siginfo'' CPtr, Fld ''ioac'' struct_task_io_accounting, Fld ''psi_flags'' c_int,
     Fld ''acct_rss_mem1'' t_u64, Fld ''acct_vm_mem1'' t_u64, Fld ''acct_timexpd'' t_u64,
     Fld ''mems_allowed'' t_nodemask_t, Fld ''mems_allowed_seq'' t_seqcount_spinlock_t,
     Fld ''cpuset_mem_spread_rotor'' c_int, Fld ''cgroups'' CPtr, Fld ''cg_list'' struct_list_head,
     Fld ''closid'' t_u32, Fld ''rmid'' t_u32, Fld ''robust_list'' CPtr,
     Fld ''compat_robust_list'' CPtr, Fld ''pi_state_list'' struct_list_head,
     Fld ''pi_state_cache'' CPtr, Fld ''futex_exit_mutex'' struct_mutex, Fld ''futex_state'' c_int,
     Fld ''perf_recursion'' (CArr t_u8 4), Fld ''perf_event_ctxp'' CPtr,
     Fld ''perf_event_mutex'' struct_mutex, Fld ''perf_event_list'' struct_list_head,
     Fld ''perf_ctx_data'' CPtr, Fld ''mempolicy'' CPtr, Fld ''il_prev'' c_short,
     Fld ''il_weight'' t_u8, Fld ''pref_node_fork'' c_short, Fld ''numa_scan_seq'' c_int,
     Fld ''numa_scan_period'' c_int, Fld ''numa_scan_period_max'' c_int,
     Fld ''numa_preferred_nid'' c_int, Fld ''numa_migrate_retry'' c_long, Fld ''node_stamp'' t_u64,
     Fld ''last_task_numa_placement'' t_u64, Fld ''last_sum_exec_runtime'' t_u64,
     Fld ''numa_work'' struct_callback_head, Fld ''numa_group'' CPtr, Fld ''numa_faults'' CPtr,
     Fld ''total_numa_faults'' c_long, Fld ''numa_faults_locality'' (CArr c_long 3),
     Fld ''numa_pages_migrated'' c_long, Fld ''rseq'' CPtr, Fld ''rseq_len'' t_u32,
     Fld ''rseq_sig'' t_u32, Fld ''rseq_event_mask'' c_long, Fld ''mm_cid'' c_int,
     Fld ''last_mm_cid'' c_int, Fld ''migrate_from_cpu'' c_int, Fld ''mm_cid_active'' c_int,
     Fld ''cid_work'' struct_callback_head, Fld ''tlb_ubc'' struct_tlbflush_unmap_batch,
     Fld ''splice_pipe'' CPtr, Fld ''task_frag'' struct_page_frag, Fld ''delays'' CPtr,
     Fld ''nr_dirtied'' c_int, Fld ''nr_dirtied_pause'' c_int, Fld ''dirty_paused_when'' c_long,
     Fld ''latency_record_count'' c_int, Fld ''latency_record'' (CArr struct_latency_record 32),
     Fld ''timer_slack_ns'' t_u64, Fld ''default_timer_slack_ns'' t_u64, Fld ''curr_ret_stack'' c_int,
     Fld ''curr_ret_depth'' c_int, Fld ''ret_stack'' CPtr, Fld ''ftrace_timestamp'' c_long,
     Fld ''ftrace_sleeptime'' c_long, Fld ''trace_overrun'' t_atomic_t,
     Fld ''tracing_graph_pause'' t_atomic_t, Fld ''trace_recursion'' c_long,
     Fld ''memcg_nr_pages_over_high'' c_int, Fld ''active_memcg'' CPtr, Fld ''objcg'' CPtr,
     Fld ''throttle_disk'' CPtr, Fld ''utask'' CPtr, Fld ''sequential_io'' c_int,
     Fld ''sequential_io_avg'' c_int, Fld ''kmap_ctrl'' struct_kmap_ctrl,
     Fld ''rcu'' struct_callback_head, Fld ''rcu_users'' t_refcount_t,
     Fld ''pagefault_disabled'' c_int, Fld ''oom_reaper_list'' CPtr,
     Fld ''oom_reaper_timer'' struct_timer_list, Fld ''stack_vm_area'' CPtr,
     Fld ''stack_refcount'' t_refcount_t, Fld ''patch_state'' c_int, Fld ''security'' CPtr,
     Fld ''bpf_storage'' CPtr, Fld ''bpf_ctx'' CPtr, Fld ''bpf_net_context'' CPtr,
     Fld ''mce_vaddr'' CPtr, Fld ''mce_kflags'' t___u64, Fld ''mce_addr'' t_u64,
     Bits ''mce_ripv'' 8 1, Bits ''mce_whole_page'' 8 1, Bits ''__mce_reserved'' 8 62,
     Fld ''mce_kill_me'' struct_callback_head, Fld ''mce_count'' c_int,
     Fld ''kretprobe_instances'' struct_llist_head, Fld ''rethooks'' struct_llist_head,
     Fld ''l1d_flush_kill'' struct_callback_head, Fld ''rv'' (CArr union_rv_task_monitor 2),
     Fld ''user_event_mm'' CPtr, Fld ''thread'' struct_thread_struct, Bits [] 8 64, Bits [] 8 64]"

definition struct_task_struct :: "ctype" where
  "struct_task_struct = CStruct (task_struct_members_1 @ task_struct_members_2)"

end
