(* ===== verification/Kernel_Instance.thy ===== *)
theory Kernel_Instance
  imports Bpf_Helpers Vmlinux_Net Vmlinux_Attr Vmlinux_Task "HOL-Library.AList"
begin

text \<open>
  A concrete instance of the helper parameters, on which the locales of \<^verbatim>\<open>Bpf_Helpers\<close> are
  interpreted and the witnesses of the properties are evaluated: reads from a memory given
  as a map from addresses to bytes, a ring buffer that grants a reservation while it has
  room for the record and its 8-byte header, and the field offsets of \<^verbatim>\<open>vmlinux.h\<close>.
\<close>

section \<open>Reads\<close>

definition mem_read :: "memory \<Rightarrow> u32 \<Rightarrow> u64 \<Rightarrow> int \<times> byte list" where
  "mem_read m n a =
     (case mem_bytes m a (unat n) of
        Some bs \<Rightarrow> (0, bs)
      | None \<Rightarrow> (-14, replicate (unat n) 0))"

fun mem_scan :: "memory \<Rightarrow> u64 \<Rightarrow> nat \<Rightarrow> byte list option" where
  "mem_scan m a 0 = Some []"
| "mem_scan m a (Suc n) =
     (case m a of
        None \<Rightarrow> None
      | Some b \<Rightarrow> if b = 0 then Some [] else map_option (Cons b) (mem_scan m (a + 1) n))"

definition mem_read_str :: "memory \<Rightarrow> u32 \<Rightarrow> u64 \<Rightarrow> int \<times> byte list" where
  "mem_read_str m n a =
     (case (if m a = None then None else mem_scan m a (unat n - 1)) of
        Some s \<Rightarrow> (int (length s) + 1, s @ [0])
      | None \<Rightarrow> (-14, replicate (unat n) 0))"

lemma mem_scan_shape: "mem_scan m a n = Some s \<Longrightarrow> 0 \<notin> set s \<and> length s \<le> n"
  by (induction m a n arbitrary: s rule: mem_scan.induct) (auto split: option.splits if_splits)

lemma mem_scan_string:
  "0 \<notin> set s \<Longrightarrow> mem_bytes m a (length s + 1) = Some (s @ [0]) \<Longrightarrow> mem_scan m a n = Some (take n s)"
proof (induction s arbitrary: a n)
  case Nil
  then show ?case by (cases n) (auto split: option.splits)
next
  case (Cons b s)
  then show ?case by (cases n) (auto split: option.splits)
qed

lemma read_law_mem: "read_law m (mem_read m)"
  by (auto simp: read_law_def mem_read_def split: option.splits)

lemma str_law_mem: "str_law m (mem_read_str m)"
proof -
  have 1: "mem_read_str m n a = str_result (unat n) s" if "str_at m a s" for n :: u32 and a s
  proof -
    have "m a \<noteq> None" using that by (cases s) (auto simp: str_at_def split: option.splits)
    then show ?thesis
      using that mem_scan_string [of s m a "unat n - 1"]
      by (auto simp: mem_read_str_def str_result_def str_at_def)
  qed
  have 2: "\<exists>s. 0 \<notin> set s \<and> length s < unat n \<and> mem_read_str m n a = (int (length s) + 1, s @ [0])"
    if "\<not> fst (mem_read_str m n a) < 0" "0 < n" for n :: u32 and a
  proof -
    from that(1) obtain s where s: "mem_scan m a (unat n - 1) = Some s" "m a \<noteq> None"
      by (auto simp: mem_read_str_def split: option.splits if_splits)
    then show ?thesis using mem_scan_shape [OF s(1)] that(2)
      by (intro exI [of _ s]) (auto simp: mem_read_str_def word_less_nat_alt)
  qed
  have 3: "snd (mem_read_str m n a) = replicate (unat n) 0" if "fst (mem_read_str m n a) < 0"
    for n :: u32 and a
    using that by (auto simp: mem_read_str_def split: option.splits if_splits)
  show ?thesis unfolding str_law_def using 1 2 3 by (auto simp: mem_read_str_def)
qed

definition mem_env :: "memory \<Rightarrow> memory \<Rightarrow> byte list \<Rightarrow> bpf_env \<Rightarrow> bpf_env" where
  "mem_env um km cm K =
     K\<lparr>bpf_get_current_comm := (\<lambda>n. (0, take (unat n) (cm @ replicate (unat n) 0))),
       bpf_probe_read_user := mem_read um,
       bpf_probe_read_kernel := mem_read km,
       bpf_probe_read_user_str := mem_read_str um,
       bpf_probe_read_kernel_str := mem_read_str km\<rparr>"

interpretation mem_env: bpf_reads "mem_env um km cm K" um km
  by unfold_locales (simp_all add: mem_env_def read_law_mem str_law_mem)

section \<open>The ring buffer\<close>

record 'e ring =
  ring_free :: nat
  ring_memory :: 'e
  ring_busy :: nat
  ring_out :: "'e list"

definition ring_buffer :: "('e ring, 'e) bpf_ringbuf" where
  "ring_buffer =
     \<lparr>bpf_ringbuf_reserve = (\<lambda>n fl. State (\<lambda>r.
        if round_up (unat n + 8) 8 \<le> ring_free r
        then (Some (ring_memory r),
              r\<lparr>ring_free := ring_free r - round_up (unat n + 8) 8, ring_busy := Suc (ring_busy r)\<rparr>)
        else (None, r))),
      bpf_ringbuf_submit = (\<lambda>e fl. State (\<lambda>r.
        ((), r\<lparr>ring_busy := ring_busy r - 1, ring_out := ring_out r @ [e]\<rparr>))),
      bpf_ringbuf_discard = (\<lambda>e fl. State (\<lambda>r. ((), r\<lparr>ring_busy := ring_busy r - 1\<rparr>)))\<rparr>"

interpretation ring_buffer: ringbuf_laws ring_buffer ring_out ring_busy
  by unfold_locales (auto simp: ring_buffer_def split: if_splits)

section \<open>A hash map\<close>

text \<open>An association list that refuses a new key once it holds \<open>n\<close> of them (\<open>-E2BIG\<close>).\<close>

definition hash_map :: "nat \<Rightarrow> (('k \<times> 'v) list, 'k, 'v) bpf_hash" where
  "hash_map n =
     \<lparr>bpf_map_lookup_elem = (\<lambda>k. State (\<lambda>m. (map_of m k, m))),
      bpf_map_update_elem = (\<lambda>k v fl. State (\<lambda>m.
        if k \<in> set (map fst m) \<or> length m < n then (0, AList.update k v m) else (-7, m))),
      bpf_map_delete_elem = (\<lambda>k. State (\<lambda>m. (0, AList.delete k m))),
      value_store = (\<lambda>k v. State (\<lambda>m. ((), AList.update k v m)))\<rparr>"

interpretation hash_map: hash_laws "hash_map n" map_of
  by unfold_locales (auto simp: hash_map_def update_conv' delete_conv' split: if_splits)

section \<open>Field offsets\<close>

definition vmlinux_type :: "string \<Rightarrow> ctype option" where
  "vmlinux_type = map_of
     [(''sock'', struct_sock), (''sk_buff'', struct_sk_buff),
      (''task_struct'', struct_task_struct), (''mm_struct'', struct_mm_struct)]"

definition vmlinux_off :: "string \<Rightarrow> string list \<Rightarrow> u64" where
  "vmlinux_off ty path =
     (case vmlinux_type ty of
        None \<Rightarrow> 0
      | Some t \<Rightarrow> (case offsetof t path of None \<Rightarrow> 0 | Some k \<Rightarrow> of_nat k))"

lemma sock_offsets [layout_eval]:
  "offsetof struct_sock [''__sk_common'', ''skc_family''] = Some 16"
  "offsetof struct_sock [''__sk_common'', ''skc_dport''] = Some 12"
  "offsetof struct_sock [''__sk_common'', ''skc_num''] = Some 14"
  "offsetof struct_sock [''__sk_common'', ''skc_daddr''] = Some 0"
  "offsetof struct_sock [''__sk_common'', ''skc_rcv_saddr''] = Some 4"
  "offsetof struct_sock [''__sk_common'', ''skc_v6_daddr''] = Some 56"
  "offsetof struct_sock [''__sk_common'', ''skc_v6_rcv_saddr''] = Some 72"
  by code_simp+

lemma sk_buff_offsets [layout_eval]:
  "offsetof struct_sk_buff [''head''] = Some 200"
  "offsetof struct_sk_buff [''data''] = Some 208"
  "offsetof struct_sk_buff [''len''] = Some 112"
  "offsetof struct_sk_buff [''data_len''] = Some 116"
  "offsetof struct_sk_buff [''transport_header''] = Some 182"
  "offsetof struct_sk_buff [''network_header''] = Some 184"
  "offsetof struct_sk_buff [''protocol''] = Some 180"
  by code_simp+

lemma task_offsets [layout_eval]:
  "offsetof struct_task_struct [''mm''] = Some 2576"
  "offsetof struct_mm_struct [''arg_start''] = Some 480"
  "offsetof struct_mm_struct [''arg_end''] = Some 488"
  by code_simp+

lemma vmlinux_off_eval [layout_eval]:
  "vmlinux_off ''sock'' p = (case offsetof struct_sock p of None \<Rightarrow> 0 | Some k \<Rightarrow> of_nat k)"
  "vmlinux_off ''sk_buff'' p = (case offsetof struct_sk_buff p of None \<Rightarrow> 0 | Some k \<Rightarrow> of_nat k)"
  "vmlinux_off ''task_struct'' p = (case offsetof struct_task_struct p of None \<Rightarrow> 0 | Some k \<Rightarrow> of_nat k)"
  "vmlinux_off ''mm_struct'' p = (case offsetof struct_mm_struct p of None \<Rightarrow> 0 | Some k \<Rightarrow> of_nat k)"
  by (simp_all add: vmlinux_off_def vmlinux_type_def)

section \<open>A sample context\<close>

text \<open>Memory holding \<open>bs\<close> at address \<open>a\<close>; a process 42 of user 1000 on a kernel laid out as \<^verbatim>\<open>vmlinux.h\<close> says.\<close>

definition mem_at :: "u64 \<Rightarrow> byte list \<Rightarrow> memory" where
  "mem_at a bs = (\<lambda>x. if unat (x - a) < length bs then Some (bs ! unat (x - a)) else None)"

lemma mem_at_in: "k < length bs \<Longrightarrow> length bs < 2 ^ 64 \<Longrightarrow> mem_at a bs (a + of_nat k) = Some (bs ! k)"
  by (simp add: mem_at_def unat_of_nat)

lemma mem_bytes_off:
  "k + n \<le> length bs \<Longrightarrow> length bs < 2 ^ 64 \<Longrightarrow>
     mem_bytes (mem_at a bs) (a + of_nat k) n = Some (take n (drop k bs))"
proof (induction n arbitrary: k)
  case 0
  show ?case by simp
next
  case (Suc n)
  have "mem_bytes (mem_at a bs) (a + of_nat k + 1) n = Some (take n (drop (Suc k) bs))"
    using Suc.IH [of "Suc k"] Suc.prems by (simp add: ac_simps)
  moreover have "drop k bs = bs ! k # drop (Suc k) bs" using Suc.prems by (simp add: Cons_nth_drop_Suc)
  moreover have "mem_at a bs (a + of_nat k) = Some (bs ! k)" using Suc.prems by (intro mem_at_in) simp_all
  ultimately show ?case by simp
qed

lemma mem_bytes_at: "n \<le> length bs \<Longrightarrow> length bs < 2 ^ 64 \<Longrightarrow> mem_bytes (mem_at a bs) a n = Some (take n bs)"
  using mem_bytes_off [of 0 n bs a] by simp

text \<open>Blocks of memory joined in descending order of their addresses are all readable.\<close>

lemma mem_bytes_last: "mem_bytes m2 a n = Some bs \<Longrightarrow> mem_bytes (m1 ++ m2) a n = Some bs"
  by (induction m2 a n arbitrary: bs rule: mem_bytes.induct) (auto simp: map_add_def split: option.splits)

lemma mem_bytes_before:
  "mem_bytes m1 a n = Some bs \<Longrightarrow> length cs \<le> unat (a - b) \<Longrightarrow> unat (a - b) + n \<le> 2 ^ 64 \<Longrightarrow>
     mem_bytes (m1 ++ mem_at b cs) a n = Some bs"
proof (induction n arbitrary: a bs)
  case 0
  then show ?case by simp
next
  case (Suc n)
  then obtain c ds where c: "m1 a = Some c" "mem_bytes m1 (a + 1) n = Some ds" "bs = c # ds"
    by (auto split: option.splits)
  have "mem_at b cs a = None" using Suc.prems(2) by (simp add: mem_at_def)
  then have m: "(m1 ++ mem_at b cs) a = Some c" using c(1) by (simp add: map_add_def)
  show ?case
  proof (cases "n = 0")
    case True
    then show ?thesis using c m by simp
  next
    case False
    have "unat (a - b) + 1 < 2 ^ 64" using Suc.prems(3) False by simp
    then have "unat (a - b + 1) = unat (a - b) + 1" using unat_add_lem [of "a - b" 1] by simp
    moreover have "a + 1 - b = a - b + 1" by simp
    ultimately have u: "unat (a + 1 - b) = unat (a - b) + 1" by metis
    have "mem_bytes (m1 ++ mem_at b cs) (a + 1) n = Some ds"
      using Suc.prems u by (intro Suc.IH c(2)) simp_all
    then show ?thesis using c m by simp
  qed
qed

lemma str_atI: "mem_bytes m a n = Some (s @ [0]) \<Longrightarrow> 0 \<notin> set s \<Longrightarrow> n = length s + 1 \<Longrightarrow> str_at m a s"
  by (simp add: str_at_def del: mem_bytes.simps)

definition base_env :: bpf_env where
  "base_env =
     \<lparr>bpf_get_current_pid_tgid = 0x0000002A0000002B, bpf_get_current_uid_gid = 0x000003E9000003E8,
      bpf_ktime_get_ns = 7, bpf_get_current_task = 0x1000, bpf_get_current_cgroup_id = 9,
      bpf_get_current_comm = (\<lambda>n. (0, replicate (unat n) 0)),
      bpf_probe_read_user = (\<lambda>n a. (-14, replicate (unat n) 0)),
      bpf_probe_read_kernel = (\<lambda>n a. (-14, replicate (unat n) 0)),
      bpf_probe_read_user_str = (\<lambda>n a. (-14, replicate (unat n) 0)),
      bpf_probe_read_kernel_str = (\<lambda>n a. (-14, replicate (unat n) 0)),
      field_off = vmlinux_off\<rparr>"

definition sample_env :: "memory \<Rightarrow> memory \<Rightarrow> bpf_env" where
  "sample_env um km = mem_env um km [115, 104] base_env"

lemma sample_env_reads: "bpf_reads (sample_env um km) um km"
  unfolding sample_env_def by (rule mem_env.bpf_reads_axioms)

lemma sample_env_simps [simp]:
  "bpf_get_current_task (sample_env um km) = 0x1000"
  "bpf_get_current_pid_tgid (sample_env um km) = 0x0000002A0000002B"
  "bpf_get_current_uid_gid (sample_env um km) = 0x000003E9000003E8"
  "field_off (sample_env um km) = vmlinux_off"
  by (simp_all add: sample_env_def mem_env_def base_env_def)

definition empty_ring :: "'e \<Rightarrow> nat \<Rightarrow> 'e ring" where
  "empty_ring old n = \<lparr>ring_free = n, ring_memory = old, ring_busy = 0, ring_out = []\<rparr>"

lemma empty_ring_out [simp]: "ring_out (empty_ring old n) = []"
  by (simp add: empty_ring_def)

lemma empty_ring_grants:
  "n < 2 ^ 32 \<Longrightarrow> round_up (n + 8) 8 \<le> k \<Longrightarrow> grants ring_buffer n (empty_ring old k)"
  by (simp add: grants_def ring_buffer_def empty_ring_def unat_of_nat)

end
