(* ===== verification/Process_Bpf.thy ===== *)
theory Process_Bpf
  imports Kernel_Instance
begin

text \<open>
  \<^verbatim>\<open>agent/internal/bpf/src/process.bpf.c\<close>: the programs on the scheduler tracepoints
  \<open>sched_process_exec\<close>, \<open>sched_process_exit\<close> and \<open>sched_process_fork\<close>. Each handler is the
  state-monad program over the ring buffer that the C function is; the lemmas say what
  record a run submits and that it is a well-formed one.
\<close>

section \<open>The record\<close>

abbreviation EXE_LEN :: "'a::numeral" where "EXE_LEN \<equiv> 128"
abbreviation CMDLINE_LEN :: "'a::numeral" where "CMDLINE_LEN \<equiv> 256"

definition SL_PROC_EXEC :: u32 where "SL_PROC_EXEC = 1"
definition SL_PROC_EXIT :: u32 where "SL_PROC_EXIT = 2"
definition SL_PROC_FORK :: u32 where "SL_PROC_FORK = 3"

record process_event =
  pe_ts_ns :: u64
  pe_kind :: u32
  pe_pid :: u32
  pe_tgid :: u32
  pe_ppid :: u32
  pe_uid :: u32
  pe_gid :: u32
  pe_exit_code :: u32
  pe_cmdline_len :: u32
  pe_pad0 :: u32
  pe_cgroup_id :: u64
  pe_comm :: "byte list"
  pe_exe :: "byte list"
  pe_cmdline :: "byte list"

text \<open>The same struct as the compiler lays it out.\<close>

definition struct_process_event :: "cfield list" where
  "struct_process_event =
    [Fld ''ts_ns'' t___u64, Fld ''kind'' t___u32, Fld ''pid'' t___u32, Fld ''tgid'' t___u32,
     Fld ''ppid'' t___u32, Fld ''uid'' t___u32, Fld ''gid'' t___u32, Fld ''exit_code'' t___u32,
     Fld ''cmdline_len'' t___u32, Fld ''_pad0'' t___u32, Fld ''cgroup_id'' t___u64,
     Fld ''comm'' (CArr c_char COMM_LEN), Fld ''exe'' (CArr c_char EXE_LEN),
     Fld ''cmdline'' (CArr c_char CMDLINE_LEN)]"

definition events_process :: bpf_map_def where
  "events_process = ringbuf_map (4 * 1024 * 1024)"

section \<open>Tracepoint contexts\<close>

text \<open>\<open>exec_ctx\<close> is the address of the context, from which the \<open>__data_loc\<close> offset counts.\<close>

record trace_event_raw_sched_process_exec =
  exec_ctx :: u64
  exec_data_loc_filename :: u32
  exec_pid :: u32
  exec_old_pid :: u32

record trace_event_raw_sched_process_fork =
  fork_parent_pid :: u32
  fork_child_pid :: u32

record trace_event_raw_sched_process_exit =
  exit_pid :: u32
  exit_prio :: u32

section \<open>The programs\<close>

definition reserve_process :: "('r, process_event) bpf_ringbuf \<Rightarrow> ('r, process_event option) state" where
  "reserve_process R = bpf_ringbuf_reserve R (of_nat (sizeof (CStruct struct_process_event))) 0"

definition fill_common_process :: "bpf_env \<Rightarrow> process_event \<Rightarrow> process_event" where
  "fill_common_process K e =
     (let pid_tgid = bpf_get_current_pid_tgid K;
          uid_gid = bpf_get_current_uid_gid K
      in e\<lparr>pe_ts_ns := bpf_ktime_get_ns K,
           pe_pid := lo32 pid_tgid,
           pe_tgid := hi32 pid_tgid,
           pe_uid := lo32 uid_gid,
           pe_gid := hi32 uid_gid,
           pe_ppid := 0,
           pe_exit_code := 0,
           pe_cmdline_len := 0,
           pe_pad0 := 0,
           pe_cgroup_id := bpf_get_current_cgroup_id K,
           pe_comm := snd (bpf_get_current_comm K COMM_LEN),
           pe_exe := replicate EXE_LEN 0,
           pe_cmdline := replicate CMDLINE_LEN 0\<rparr>)"

text \<open>The part of \<open>handle_exec\<close> that follows \<open>current->mm->arg_start\<close> to the argument area.\<close>

definition exec_cmdline :: "bpf_env \<Rightarrow> process_event \<Rightarrow> process_event" where
  "exec_cmdline K e =
     (let task = bpf_get_current_task K in
      if task \<noteq> 0 then
        let mm = le_word (snd (bpf_probe_read_kernel K 8 (task + field_off K ''task_struct'' [''mm'']))) :: u64 in
        if mm \<noteq> 0 then
          let arg_start = le_word (snd (bpf_probe_read_kernel K 8 (mm + field_off K ''mm_struct'' [''arg_start'']))) :: u64;
              arg_end = le_word (snd (bpf_probe_read_kernel K 8 (mm + field_off K ''mm_struct'' [''arg_end'']))) :: u64;
              len = arg_end - arg_start
          in if arg_end > arg_start \<and> len \<le> CMDLINE_LEN then
               e\<lparr>pe_cmdline := overwrite (snd (bpf_probe_read_user K (ucast len) arg_start)) (pe_cmdline e),
                 pe_cmdline_len := ucast len\<rparr>
             else if arg_end > arg_start then
               e\<lparr>pe_cmdline := overwrite (snd (bpf_probe_read_user K CMDLINE_LEN arg_start)) (pe_cmdline e),
                 pe_cmdline_len := CMDLINE_LEN\<rparr>
             else e
        else e
      else e)"

definition handle_exec ::
    "('r, process_event) bpf_ringbuf \<Rightarrow> bpf_env \<Rightarrow> trace_event_raw_sched_process_exec \<Rightarrow> ('r, int) state" where
  "handle_exec R K ctx = do {
     e \<leftarrow> reserve_process R;
     case e of
       None \<Rightarrow> State_Monad.return 0
     | Some e \<Rightarrow> do {
         let e = fill_common_process K e;
         let e = e\<lparr>pe_kind := SL_PROC_EXEC\<rparr>;
         let loc = exec_data_loc_filename ctx;
         let off = (ucast (loc AND 0xFFFF) :: u16);
         let filename = exec_ctx ctx + ucast off;
         let e = e\<lparr>pe_exe := overwrite (snd (bpf_probe_read_kernel_str K EXE_LEN filename)) (pe_exe e)\<rparr>;
         let e = exec_cmdline K e;
         bpf_ringbuf_submit R e 0;
         State_Monad.return 0
       }
   }"

definition handle_exit ::
    "('r, process_event) bpf_ringbuf \<Rightarrow> bpf_env \<Rightarrow> trace_event_raw_sched_process_exit \<Rightarrow> ('r, int) state" where
  "handle_exit R K ctx = do {
     e \<leftarrow> reserve_process R;
     case e of
       None \<Rightarrow> State_Monad.return 0
     | Some e \<Rightarrow> do {
         let e = fill_common_process K e;
         let e = e\<lparr>pe_kind := SL_PROC_EXIT\<rparr>;
         bpf_ringbuf_submit R e 0;
         State_Monad.return 0
       }
   }"

definition handle_fork ::
    "('r, process_event) bpf_ringbuf \<Rightarrow> bpf_env \<Rightarrow> trace_event_raw_sched_process_fork \<Rightarrow> ('r, int) state" where
  "handle_fork R K ctx = do {
     e \<leftarrow> reserve_process R;
     case e of
       None \<Rightarrow> State_Monad.return 0
     | Some e \<Rightarrow> do {
         let e = fill_common_process K e;
         let e = e\<lparr>pe_kind := SL_PROC_FORK\<rparr>;
         let e = e\<lparr>pe_ppid := fork_parent_pid ctx\<rparr>;
         let e = e\<lparr>pe_pid := fork_child_pid ctx\<rparr>;
         bpf_ringbuf_submit R e 0;
         State_Monad.return 0
       }
   }"

section \<open>What a run submits\<close>

text \<open>The record of each handler, built from the context alone.\<close>

definition blank_process :: "bpf_env \<Rightarrow> process_event" where
  "blank_process K =
     \<lparr>pe_ts_ns = bpf_ktime_get_ns K, pe_kind = 0,
      pe_pid = lo32 (bpf_get_current_pid_tgid K), pe_tgid = hi32 (bpf_get_current_pid_tgid K), pe_ppid = 0,
      pe_uid = lo32 (bpf_get_current_uid_gid K), pe_gid = hi32 (bpf_get_current_uid_gid K),
      pe_exit_code = 0, pe_cmdline_len = 0, pe_pad0 = 0,
      pe_cgroup_id = bpf_get_current_cgroup_id K, pe_comm = snd (bpf_get_current_comm K COMM_LEN),
      pe_exe = replicate EXE_LEN 0, pe_cmdline = replicate CMDLINE_LEN 0\<rparr>"

definition exec_filename :: "trace_event_raw_sched_process_exec \<Rightarrow> u64" where
  "exec_filename ctx = exec_ctx ctx + ucast (ucast (exec_data_loc_filename ctx AND 0xFFFF) :: u16)"

definition exec_record :: "bpf_env \<Rightarrow> trace_event_raw_sched_process_exec \<Rightarrow> process_event" where
  "exec_record K ctx = exec_cmdline K ((blank_process K)\<lparr>pe_kind := SL_PROC_EXEC,
     pe_exe := overwrite (snd (bpf_probe_read_kernel_str K EXE_LEN (exec_filename ctx))) (replicate EXE_LEN 0)\<rparr>)"

text \<open>\<open>fill_common\<close> leaves nothing of the reserved memory but \<open>kind\<close>, which every handler sets.\<close>

lemma fill_common_process: "fill_common_process K e = (blank_process K)\<lparr>pe_kind := pe_kind e\<rparr>"
  by (cases e) (simp add: fill_common_process_def blank_process_def Let_def)

lemma blank_process_arrays [simp]:
  "pe_exe (blank_process K) = replicate EXE_LEN 0"
  "pe_cmdline (blank_process K) = replicate CMDLINE_LEN 0"
  "pe_comm (blank_process K) = snd (bpf_get_current_comm K COMM_LEN)"
  by (simp_all add: blank_process_def)

lemmas process_run_defs = emits_def reserve_process_def fill_common_process Let_def

lemma handle_exec_emits:
  "emits R (sizeof (CStruct struct_process_event)) (\<lambda>_. exec_record K ctx) (handle_exec R K ctx)"
  by (auto simp: process_run_defs handle_exec_def exec_record_def exec_filename_def split: prod.splits option.splits)

lemma handle_exit_emits:
  "emits R (sizeof (CStruct struct_process_event)) (\<lambda>_. (blank_process K)\<lparr>pe_kind := SL_PROC_EXIT\<rparr>)
     (handle_exit R K ctx)"
  by (auto simp: process_run_defs handle_exit_def split: prod.splits option.splits)

lemma handle_fork_emits:
  "emits R (sizeof (CStruct struct_process_event))
     (\<lambda>_. (blank_process K)\<lparr>pe_kind := SL_PROC_FORK, pe_ppid := fork_parent_pid ctx, pe_pid := fork_child_pid ctx\<rparr>)
     (handle_fork R K ctx)"
  by (auto simp: process_run_defs handle_fork_def split: prod.splits option.splits)

section \<open>The argument area\<close>

lemma process_size: "sizeof (CStruct struct_process_event) = 456"
  by code_simp

text \<open>The kernel's pointers to the arguments of the current process: \<open>arg_start\<close> and \<open>arg_end\<close>.\<close>

definition args_at :: "bpf_env \<Rightarrow> memory \<Rightarrow> u64 \<Rightarrow> u64 \<Rightarrow> bool" where
  "args_at K kmem a b \<longleftrightarrow>
     bpf_get_current_task K \<noteq> 0 \<and>
     (\<exists>mm. mm \<noteq> 0 \<and> holds_u64 kmem (bpf_get_current_task K + field_off K ''task_struct'' [''mm'']) mm \<and>
        holds_u64 kmem (mm + field_off K ''mm_struct'' [''arg_start'']) a \<and>
        holds_u64 kmem (mm + field_off K ''mm_struct'' [''arg_end'']) b)"

definition args_len :: "u64 \<Rightarrow> u64 \<Rightarrow> nat" where
  "args_len a b = min (unat (b - a)) CMDLINE_LEN"

lemma exec_cmdline_frame:
  "pe_kind (exec_cmdline K e) = pe_kind e" "pe_pid (exec_cmdline K e) = pe_pid e"
  "pe_tgid (exec_cmdline K e) = pe_tgid e" "pe_ppid (exec_cmdline K e) = pe_ppid e"
  "pe_uid (exec_cmdline K e) = pe_uid e" "pe_gid (exec_cmdline K e) = pe_gid e"
  "pe_exit_code (exec_cmdline K e) = pe_exit_code e" "pe_pad0 (exec_cmdline K e) = pe_pad0 e"
  "pe_comm (exec_cmdline K e) = pe_comm e" "pe_exe (exec_cmdline K e) = pe_exe e"
  "pe_cgroup_id (exec_cmdline K e) = pe_cgroup_id e" "pe_ts_ns (exec_cmdline K e) = pe_ts_ns e"
  by (simp_all add: exec_cmdline_def Let_def)

lemma exec_cmdline_args:
  assumes "bpf_reads K umem kmem" "args_at K kmem a b" "a < b"
  shows "exec_cmdline K e = e\<lparr>pe_cmdline :=
      overwrite (snd (bpf_probe_read_user K (of_nat (args_len a b)) a)) (pe_cmdline e),
    pe_cmdline_len := of_nat (args_len a b)\<rparr>"
proof -
  from assms(2) obtain mm where mm: "mm \<noteq> 0" "bpf_get_current_task K \<noteq> 0"
    and rd: "holds_u64 kmem (bpf_get_current_task K + field_off K ''task_struct'' [''mm'']) mm"
      "holds_u64 kmem (mm + field_off K ''mm_struct'' [''arg_start'']) a"
      "holds_u64 kmem (mm + field_off K ''mm_struct'' [''arg_end'']) b"
    by (auto simp: args_at_def)
  have le: "b - a \<le> 256 \<longleftrightarrow> unat (b - a) \<le> 256" by (simp add: word_le_nat_alt)
  have len: "of_nat (unat (b - a)) = (ucast (b - a) :: u32)" by simp
  show ?thesis
    using mm rd [THEN bpf_reads.kernel_u64 [OF assms(1)]] assms(3) le len
    by (simp add: exec_cmdline_def args_len_def min_def Let_def)
qed

lemma args_len_bounds: "a < b \<Longrightarrow> 0 < args_len a b" "args_len a b \<le> 256"
  by (auto simp: args_len_def word_less_nat_alt unat_gt_0 intro!: Nat.gr0I)

text \<open>A run that finds no argument area leaves the record's as it was.\<close>

lemma exec_cmdline_none:
  assumes "bpf_reads K umem kmem"
    "bpf_get_current_task K = 0 \<or> args_at K kmem a b \<and> b \<le> a \<or>
     mem_bytes kmem (bpf_get_current_task K + field_off K ''task_struct'' [''mm'']) 8 = None"
  shows "exec_cmdline K e = e"
  using assms(2)
proof (elim disjE conjE)
  assume a: "args_at K kmem a b" "b \<le> a"
  then show ?thesis
    by (auto simp: args_at_def exec_cmdline_def Let_def dest!: bpf_reads.kernel_u64 [OF assms(1)])
next
  assume "mem_bytes kmem (bpf_get_current_task K + field_off K ''task_struct'' [''mm'']) 8 = None"
  then have "snd (bpf_probe_read_kernel K 8 (bpf_get_current_task K + field_off K ''task_struct'' [''mm''])) = replicate 8 0"
    using bpf_reads.kernel_fault [OF assms(1), of _ 8] by simp
  moreover have "le_word (replicate 8 0) = (0 :: u64)" by (simp add: numeral_eq_Suc)
  ultimately show ?thesis by (simp add: exec_cmdline_def Let_def)
qed (simp add: exec_cmdline_def)

section \<open>Properties\<close>

text \<open>The shape of every record the programs submit.\<close>

definition wf_process :: "process_event \<Rightarrow> bool" where
  "wf_process e \<longleftrightarrow>
     length (pe_comm e) = COMM_LEN \<and> length (pe_exe e) = EXE_LEN \<and> length (pe_cmdline e) = CMDLINE_LEN \<and>
     0 \<in> set (pe_exe e) \<and> unat (pe_cmdline_len e) \<le> CMDLINE_LEN \<and> pe_pad0 e = 0 \<and> pe_exit_code e = 0 \<and>
     pe_kind e \<in> {SL_PROC_EXEC, SL_PROC_EXIT, SL_PROC_FORK}"

lemma wf_exec_cmdline:
  assumes "bpf_reads K umem kmem" "wf_process e"
  shows "wf_process (exec_cmdline K e)"
proof -
  have small: "unat (ucast len :: u32) \<le> 256" if "len \<le> 256" for len :: u64
    using that by (simp add: word_le_nat_alt unat_ucast_fits)
  then have "length (overwrite (snd (bpf_probe_read_user K (ucast len) a)) (pe_cmdline e)) = 256"
    if "len \<le> 256" for len a :: u64
    using that assms by (simp add: wf_process_def bpf_reads.user_length)
  then show ?thesis using assms small
    by (auto simp: exec_cmdline_def wf_process_def bpf_reads.user_length Let_def)
qed

lemma wf_blank_process:
  "bpf_reads K umem kmem \<Longrightarrow> k \<in> {SL_PROC_EXEC, SL_PROC_EXIT, SL_PROC_FORK} \<Longrightarrow>
     wf_process ((blank_process K)\<lparr>pe_kind := k\<rparr>)"
  by (simp add: wf_process_def blank_process_def bpf_reads.comm_length)

lemma wf_exec_record:
  assumes "bpf_reads K umem kmem"
  shows "wf_process (exec_record K ctx)"
  unfolding exec_record_def using wf_blank_process [OF assms, of SL_PROC_EXEC]
  by (intro wf_exec_cmdline [OF assms])
    (simp add: wf_process_def bpf_reads.kernel_str_array_length [OF assms]
      bpf_reads.kernel_str_array_terminated [OF assms])

text \<open>When the ring has room, an exec is reported by one record that names the program by the
  tracepoint's file name (cut to 127 bytes) and carries the bytes of the process's argument
  area, the first 256 of them if it is longer, with their number; it carries the ids of the
  process, and nothing of what the ring's memory held before.\<close>

theorem exec_reports_program_and_arguments:
  assumes ring: "ringbuf_laws R contents busy" "grants R 456 r"
    and reads: "bpf_reads K umem kmem"
    and path: "str_at kmem (exec_filename ctx) path"
    and args: "args_at K kmem a b" "a < b" "mem_bytes umem a (args_len a b) = Some bytes"
  shows "\<exists>e. contents (snd (run_state (handle_exec R K ctx) r)) = contents r @ [e] \<and>
    pe_kind e = SL_PROC_EXEC \<and> pe_tgid e = hi32 (bpf_get_current_pid_tgid K) \<and>
    pe_pid e = lo32 (bpf_get_current_pid_tgid K) \<and> pe_uid e = lo32 (bpf_get_current_uid_gid K) \<and>
    c_string (pe_exe e) = take 127 path \<and>
    unat (pe_cmdline_len e) = args_len a b \<and>
    pe_cmdline e = bytes @ replicate (256 - args_len a b) 0"
proof -
  have n: "unat (of_nat (args_len a b) :: u32) = args_len a b"
    using args_len_bounds(2) [of a b] by (simp add: unat_of_nat)
  have rd: "bpf_probe_read_user K (of_nat (args_len a b)) a = (0, bytes)"
    using args(3) n bpf_reads.user_value [OF reads, of a "of_nat (args_len a b)"] by simp
  have len: "length bytes = args_len a b" using length_mem_bytes [OF args(3)] .
  have "contents (snd (run_state (handle_exec R K ctx) r)) = contents r @ [exec_record K ctx]"
    using ringbuf_laws.emits_grants_const [OF ring(1) handle_exec_emits [unfolded process_size] ring(2)] .
  moreover have "c_string (pe_exe (exec_record K ctx)) = take 127 path"
    using bpf_reads.kernel_str_array [OF reads _ path, of 128] by (simp add: exec_record_def exec_cmdline_frame)
  moreover have "pe_cmdline (exec_record K ctx) = bytes @ replicate (256 - args_len a b) 0"
    "pe_cmdline_len (exec_record K ctx) = of_nat (args_len a b)"
    using len args_len_bounds(2) [of a b]
    by (simp_all add: exec_record_def exec_cmdline_args [OF reads args(1,2)] rd overwrite_def)
  ultimately show ?thesis using n
    by (auto simp: exec_record_def exec_cmdline_frame blank_process_def)
qed

definition exec_sample_kmem :: memory where
  "exec_sample_kmem = mem_at 0x91E0 (le_bytes 8 (0x5000 :: u64) @ le_bytes 8 (0x5005 :: u64)) ++
     mem_at 0x2010 [47, 105, 100, 0] ++ mem_at 0x1A10 (le_bytes 8 (0x9000 :: u64))"

definition exec_sample_umem :: memory where
  "exec_sample_umem = mem_at 0x5000 [105, 100, 0, 45, 0]"

definition exec_sample_ctx :: trace_event_raw_sched_process_exec where
  "exec_sample_ctx = \<lparr>exec_ctx = 0x2000, exec_data_loc_filename = 0x00040010, exec_pid = 42, exec_old_pid = 42\<rparr>"

lemma exec_sample_words:
  "holds_u64 exec_sample_kmem 0x1A10 0x9000" "holds_u64 exec_sample_kmem 0x91E0 0x5000"
  "holds_u64 exec_sample_kmem 0x91E8 0x5005"
proof -
  let ?bs = "le_bytes 8 (0x5000 :: u64) @ le_bytes 8 (0x5005 :: u64)"
  have "mem_bytes (mem_at 0x91E0 ?bs) 0x91E8 8 = Some (le_bytes 8 (0x5005 :: u64))"
    using mem_bytes_off [of 8 8 ?bs "0x91E0"] by simp
  then show "holds_u64 exec_sample_kmem 0x91E8 0x5005"
    unfolding holds_u64_def exec_sample_kmem_def by (intro mem_bytes_before) simp_all
  show "holds_u64 exec_sample_kmem 0x91E0 0x5000" "holds_u64 exec_sample_kmem 0x1A10 0x9000"
    unfolding holds_u64_def exec_sample_kmem_def
    by (intro mem_bytes_before mem_bytes_last; simp add: mem_bytes_at)+
qed

lemma exec_sample:
  "str_at exec_sample_kmem (exec_filename exec_sample_ctx) [47, 105, 100]"
  "args_at (sample_env exec_sample_umem exec_sample_kmem) exec_sample_kmem 0x5000 0x5005"
  "mem_bytes exec_sample_umem 0x5000 (args_len 0x5000 0x5005) = Some [105, 100, 0, 45, 0]"
proof -
  have "exec_filename exec_sample_ctx = 0x2010" by (simp add: exec_filename_def exec_sample_ctx_def)
  moreover have "mem_bytes exec_sample_kmem 0x2010 4 = Some [47, 105, 100, 0]"
    unfolding exec_sample_kmem_def by (intro mem_bytes_before mem_bytes_last) (simp_all add: mem_bytes_at)
  ultimately show "str_at exec_sample_kmem (exec_filename exec_sample_ctx) [47, 105, 100]"
    by (intro str_atI [of _ _ 4]) simp_all
  have "vmlinux_off ''task_struct'' [''mm''] = 2576" "vmlinux_off ''mm_struct'' [''arg_start''] = 480"
    "vmlinux_off ''mm_struct'' [''arg_end''] = 488"
    by (simp_all only: vmlinux_off_eval task_offsets option.case of_nat_numeral)
  then show "args_at (sample_env exec_sample_umem exec_sample_kmem) exec_sample_kmem 0x5000 0x5005"
    unfolding args_at_def using exec_sample_words by (intro conjI exI [of _ "0x9000"]) simp_all
  show "mem_bytes exec_sample_umem 0x5000 (args_len 0x5000 0x5005) = Some [105, 100, 0, 45, 0]"
    by (simp add: exec_sample_umem_def args_len_def mem_bytes_at)
qed

theorem exec_reports_program_and_arguments_witness:
  "\<exists>e. ring_out (snd (run_state (handle_exec ring_buffer (sample_env exec_sample_umem exec_sample_kmem) exec_sample_ctx)
        (empty_ring undefined 1024))) = [e] \<and>
    pe_kind e = SL_PROC_EXEC \<and> c_string (pe_exe e) = [47, 105, 100] \<and>
    pe_cmdline e = [105, 100, 0, 45, 0] @ replicate 251 0"
proof -
  have "grants ring_buffer 456 (empty_ring undefined 1024)"
    by (rule empty_ring_grants) (simp_all add: round_up_def)
  from exec_reports_program_and_arguments [OF ring_buffer.ringbuf_laws_axioms this sample_env_reads exec_sample(1,2) _ exec_sample(3)]
  show ?thesis by (auto simp: args_len_def)
qed

text \<open>Whatever the memory the programs read holds and whether reads fail or not, every record the
  three handlers submit has arrays of the declared sizes, a terminated file name, a command
  line no longer than its array and one of the three kinds.\<close>

theorem process_records_well_formed:
  assumes "ringbuf_laws R contents busy" "bpf_reads K umem kmem" "list_all wf_process (contents r)"
  shows "list_all wf_process (contents (snd (run_state (handle_exec R K ctx1) r))) \<and>
    list_all wf_process (contents (snd (run_state (handle_exit R K ctx2) r))) \<and>
    list_all wf_process (contents (snd (run_state (handle_fork R K ctx3) r)))"
proof -
  note inv = ringbuf_laws.emits_invariant [OF assms(1) _ _ assms(3)]
  have "wf_process ((blank_process K)\<lparr>pe_kind := SL_PROC_FORK, pe_ppid := a, pe_pid := b\<rparr>)" for a b
    using wf_blank_process [OF assms(2), of SL_PROC_FORK] by (simp add: wf_process_def)
  then show ?thesis
    using inv [OF handle_exec_emits wf_exec_record [OF assms(2)]]
      inv [OF handle_exit_emits wf_blank_process [OF assms(2)]] inv [OF handle_fork_emits] by simp
qed

theorem process_records_well_formed_witness:
  "list_all wf_process (ring_out (snd (run_state (handle_fork ring_buffer (sample_env (mem_at 0 []) (mem_at 0 []))
     \<lparr>fork_parent_pid = 7, fork_child_pid = 8\<rparr>) (empty_ring undefined 1024))))"
  using process_records_well_formed [OF ring_buffer.ringbuf_laws_axioms sample_env_reads, of "empty_ring undefined 1024"]
  by simp

text \<open>When the ring has room, a fork is reported by one record with the child's pid, the parent's
  pid and the ids of the calling process, and an exit by one with the ids of the exiting
  process; both have empty strings and an exit code of 0.\<close>

theorem fork_and_exit_reports:
  assumes "ringbuf_laws R contents busy" "grants R 456 r"
  shows "\<exists>e f. contents (snd (run_state (handle_fork R K fc) r)) = contents r @ [e] \<and>
    contents (snd (run_state (handle_exit R K xc) r)) = contents r @ [f] \<and>
    pe_kind e = SL_PROC_FORK \<and> pe_pid e = fork_child_pid fc \<and> pe_ppid e = fork_parent_pid fc \<and>
    pe_tgid e = hi32 (bpf_get_current_pid_tgid K) \<and>
    pe_kind f = SL_PROC_EXIT \<and> pe_pid f = lo32 (bpf_get_current_pid_tgid K) \<and> pe_ppid f = 0 \<and>
    pe_tgid f = hi32 (bpf_get_current_pid_tgid K) \<and>
    list_all (\<lambda>x. pe_exit_code x = 0 \<and> pe_cmdline_len x = 0 \<and> c_string (pe_exe x) = [] \<and>
      c_string (pe_cmdline x) = [] \<and> pe_ts_ns x = bpf_ktime_get_ns K) [e, f]"
  using ringbuf_laws.emits_grants_const [OF assms(1) handle_fork_emits [unfolded process_size] assms(2)]
    ringbuf_laws.emits_grants_const [OF assms(1) handle_exit_emits [unfolded process_size] assms(2)]
  by (auto simp: blank_process_def)

theorem fork_and_exit_reports_witness:
  "\<exists>e. ring_out (snd (run_state (handle_fork ring_buffer (sample_env (mem_at 0 []) (mem_at 0 []))
      \<lparr>fork_parent_pid = 7, fork_child_pid = 8\<rparr>) (empty_ring undefined 1024))) = [e] \<and>
    pe_pid e = 8 \<and> pe_ppid e = 7 \<and> pe_tgid e = 42"
proof -
  have "grants ring_buffer 456 (empty_ring undefined 1024)"
    by (rule empty_ring_grants) (simp_all add: round_up_def)
  from fork_and_exit_reports [OF ring_buffer.ringbuf_laws_axioms this, of "sample_env (mem_at 0 []) (mem_at 0 [])"
      "\<lparr>fork_parent_pid = 7, fork_child_pid = 8\<rparr>"]
  show ?thesis by (auto simp: hi32_def)
qed

end
