(* ===== verification/File_Bpf.thy ===== *)
theory File_Bpf
  imports Kernel_Instance
begin

text \<open>
  \<^verbatim>\<open>agent/internal/bpf/src/file.bpf.c\<close>: the programs on the entry tracepoints of \<open>openat\<close>,
  \<open>unlinkat\<close>, \<open>renameat2\<close>, \<open>fchmodat\<close> and \<open>fchownat\<close>. Only opens with write intent are
  reported; the other four calls always are.
\<close>

section \<open>The record\<close>

abbreviation PATH_BYTES :: "'a::numeral" where "PATH_BYTES \<equiv> 256"

definition O_WRONLY :: u32 where "O_WRONLY = 0x1"
definition O_RDWR :: u32 where "O_RDWR = 0x2"
definition O_CREAT :: u32 where "O_CREAT = 0x40"
definition O_TRUNC :: u32 where "O_TRUNC = 0x200"

definition SL_FILE_OPEN_CREATE :: u32 where "SL_FILE_OPEN_CREATE = 1"
definition SL_FILE_OPEN_WRITE :: u32 where "SL_FILE_OPEN_WRITE = 2"
definition SL_FILE_UNLINK :: u32 where "SL_FILE_UNLINK = 3"
definition SL_FILE_RENAME :: u32 where "SL_FILE_RENAME = 4"
definition SL_FILE_CHMOD :: u32 where "SL_FILE_CHMOD = 5"
definition SL_FILE_CHOWN :: u32 where "SL_FILE_CHOWN = 6"

record file_event =
  fe_ts_ns :: u64
  fe_kind :: u32
  fe_pid :: u32
  fe_tgid :: u32
  fe_uid :: u32
  fe_gid :: u32
  fe_flags :: u32
  fe_mode :: u32
  fe_extra :: u32
  fe_pad :: u32
  fe_comm :: "byte list"
  fe_path :: "byte list"
  fe_newpath :: "byte list"

definition struct_file_event :: "cfield list" where
  "struct_file_event =
    [Fld ''ts_ns'' t___u64, Fld ''kind'' t___u32, Fld ''pid'' t___u32, Fld ''tgid'' t___u32,
     Fld ''uid'' t___u32, Fld ''gid'' t___u32, Fld ''flags'' t___u32, Fld ''mode'' t___u32,
     Fld ''extra'' t___u32, Fld ''_pad'' t___u32, Fld ''comm'' (CArr c_char COMM_LEN),
     Fld ''path'' (CArr c_char PATH_BYTES), Fld ''newpath'' (CArr c_char PATH_BYTES)]"

definition events_file :: bpf_map_def where
  "events_file = ringbuf_map (4 * 1024 * 1024)"

section \<open>The programs\<close>

definition reserve_file :: "('r, file_event) bpf_ringbuf \<Rightarrow> ('r, file_event option) state" where
  "reserve_file R = bpf_ringbuf_reserve R (of_nat (sizeof (CStruct struct_file_event))) 0"

definition fill_common_file :: "bpf_env \<Rightarrow> file_event \<Rightarrow> file_event" where
  "fill_common_file K e =
     (let pid_tgid = bpf_get_current_pid_tgid K;
          uid_gid = bpf_get_current_uid_gid K
      in e\<lparr>fe_ts_ns := bpf_ktime_get_ns K,
           fe_pid := lo32 pid_tgid,
           fe_tgid := hi32 pid_tgid,
           fe_uid := lo32 uid_gid,
           fe_gid := hi32 uid_gid,
           fe_flags := 0,
           fe_mode := 0,
           fe_extra := 0,
           fe_pad := 0,
           fe_comm := snd (bpf_get_current_comm K COMM_LEN),
           fe_path := replicate PATH_BYTES 0,
           fe_newpath := replicate PATH_BYTES 0\<rparr>)"

definition handle_openat ::
    "('r, file_event) bpf_ringbuf \<Rightarrow> bpf_env \<Rightarrow> trace_event_raw_sys_enter \<Rightarrow> ('r, int) state" where
  "handle_openat R K ctx = (
     let flags = ucast (enter_args ctx ! 2) :: u32 in
     if flags AND (O_CREAT OR O_WRONLY OR O_RDWR OR O_TRUNC) = 0 then State_Monad.return 0
     else do {
       e \<leftarrow> reserve_file R;
       case e of
         None \<Rightarrow> State_Monad.return 0
       | Some e \<Rightarrow> do {
           let e = fill_common_file K e;
           let e = e\<lparr>fe_kind := (if flags AND O_CREAT \<noteq> 0 then SL_FILE_OPEN_CREATE else SL_FILE_OPEN_WRITE)\<rparr>;
           let e = e\<lparr>fe_flags := flags\<rparr>;
           let e = e\<lparr>fe_mode := ucast (enter_args ctx ! 3)\<rparr>;
           let e = e\<lparr>fe_path := overwrite (snd (bpf_probe_read_user_str K PATH_BYTES (enter_args ctx ! 1))) (fe_path e)\<rparr>;
           bpf_ringbuf_submit R e 0;
           State_Monad.return 0
         }
     })"

definition handle_unlinkat ::
    "('r, file_event) bpf_ringbuf \<Rightarrow> bpf_env \<Rightarrow> trace_event_raw_sys_enter \<Rightarrow> ('r, int) state" where
  "handle_unlinkat R K ctx = do {
     e \<leftarrow> reserve_file R;
     case e of
       None \<Rightarrow> State_Monad.return 0
     | Some e \<Rightarrow> do {
         let e = fill_common_file K e;
         let e = e\<lparr>fe_kind := SL_FILE_UNLINK\<rparr>;
         let e = e\<lparr>fe_flags := ucast (enter_args ctx ! 2)\<rparr>;
         let e = e\<lparr>fe_path := overwrite (snd (bpf_probe_read_user_str K PATH_BYTES (enter_args ctx ! 1))) (fe_path e)\<rparr>;
         bpf_ringbuf_submit R e 0;
         State_Monad.return 0
       }
   }"

definition handle_renameat2 ::
    "('r, file_event) bpf_ringbuf \<Rightarrow> bpf_env \<Rightarrow> trace_event_raw_sys_enter \<Rightarrow> ('r, int) state" where
  "handle_renameat2 R K ctx = do {
     e \<leftarrow> reserve_file R;
     case e of
       None \<Rightarrow> State_Monad.return 0
     | Some e \<Rightarrow> do {
         let e = fill_common_file K e;
         let e = e\<lparr>fe_kind := SL_FILE_RENAME\<rparr>;
         let e = e\<lparr>fe_flags := ucast (enter_args ctx ! 4)\<rparr>;
         let e = e\<lparr>fe_path := overwrite (snd (bpf_probe_read_user_str K PATH_BYTES (enter_args ctx ! 1))) (fe_path e)\<rparr>;
         let e = e\<lparr>fe_newpath := overwrite (snd (bpf_probe_read_user_str K PATH_BYTES (enter_args ctx ! 3))) (fe_newpath e)\<rparr>;
         bpf_ringbuf_submit R e 0;
         State_Monad.return 0
       }
   }"

definition handle_fchmodat ::
    "('r, file_event) bpf_ringbuf \<Rightarrow> bpf_env \<Rightarrow> trace_event_raw_sys_enter \<Rightarrow> ('r, int) state" where
  "handle_fchmodat R K ctx = do {
     e \<leftarrow> reserve_file R;
     case e of
       None \<Rightarrow> State_Monad.return 0
     | Some e \<Rightarrow> do {
         let e = fill_common_file K e;
         let e = e\<lparr>fe_kind := SL_FILE_CHMOD\<rparr>;
         let e = e\<lparr>fe_mode := ucast (enter_args ctx ! 2)\<rparr>;
         let e = e\<lparr>fe_path := overwrite (snd (bpf_probe_read_user_str K PATH_BYTES (enter_args ctx ! 1))) (fe_path e)\<rparr>;
         bpf_ringbuf_submit R e 0;
         State_Monad.return 0
       }
   }"

definition handle_fchownat ::
    "('r, file_event) bpf_ringbuf \<Rightarrow> bpf_env \<Rightarrow> trace_event_raw_sys_enter \<Rightarrow> ('r, int) state" where
  "handle_fchownat R K ctx = do {
     e \<leftarrow> reserve_file R;
     case e of
       None \<Rightarrow> State_Monad.return 0
     | Some e \<Rightarrow> do {
         let e = fill_common_file K e;
         let e = e\<lparr>fe_kind := SL_FILE_CHOWN\<rparr>;
         let e = e\<lparr>fe_mode := ucast (enter_args ctx ! 2)\<rparr>;
         let e = e\<lparr>fe_extra := ucast (enter_args ctx ! 3)\<rparr>;
         let e = e\<lparr>fe_flags := ucast (enter_args ctx ! 4)\<rparr>;
         let e = e\<lparr>fe_path := overwrite (snd (bpf_probe_read_user_str K PATH_BYTES (enter_args ctx ! 1))) (fe_path e)\<rparr>;
         bpf_ringbuf_submit R e 0;
         State_Monad.return 0
       }
   }"

section \<open>What a run submits\<close>

definition user_path :: "bpf_env \<Rightarrow> u64 \<Rightarrow> byte list" where
  "user_path K a = overwrite (snd (bpf_probe_read_user_str K PATH_BYTES a)) (replicate PATH_BYTES 0)"

definition file_record :: "bpf_env \<Rightarrow> u32 \<Rightarrow> u32 \<Rightarrow> u32 \<Rightarrow> u32 \<Rightarrow> byte list \<Rightarrow> byte list \<Rightarrow> file_event" where
  "file_record K kind flags mode extra path newpath =
     \<lparr>fe_ts_ns = bpf_ktime_get_ns K, fe_kind = kind,
      fe_pid = lo32 (bpf_get_current_pid_tgid K), fe_tgid = hi32 (bpf_get_current_pid_tgid K),
      fe_uid = lo32 (bpf_get_current_uid_gid K), fe_gid = hi32 (bpf_get_current_uid_gid K),
      fe_flags = flags, fe_mode = mode, fe_extra = extra, fe_pad = 0,
      fe_comm = snd (bpf_get_current_comm K COMM_LEN), fe_path = path, fe_newpath = newpath\<rparr>"

lemma fill_common_file:
  "fill_common_file K e = file_record K (fe_kind e) 0 0 0 (replicate PATH_BYTES 0) (replicate PATH_BYTES 0)"
  by (cases e) (simp add: fill_common_file_def file_record_def Let_def)

lemma file_record_updates [simp]:
  "(file_record K k f m x p q)\<lparr>fe_kind := k'\<rparr> = file_record K k' f m x p q"
  "(file_record K k f m x p q)\<lparr>fe_flags := f'\<rparr> = file_record K k f' m x p q"
  "(file_record K k f m x p q)\<lparr>fe_mode := m'\<rparr> = file_record K k f m' x p q"
  "(file_record K k f m x p q)\<lparr>fe_extra := x'\<rparr> = file_record K k f m x' p q"
  "(file_record K k f m x p q)\<lparr>fe_path := p'\<rparr> = file_record K k f m x p' q"
  "(file_record K k f m x p q)\<lparr>fe_newpath := q'\<rparr> = file_record K k f m x p q'"
  "fe_path (file_record K k f m x p q) = p"
  "fe_newpath (file_record K k f m x p q) = q"
  by (simp_all add: file_record_def)

lemmas file_run_defs = emits_def skips_def reserve_file_def fill_common_file user_path_def Let_def

text \<open>The open filter, bit by bit: the access mode or \<open>O_CREAT\<close> or \<open>O_TRUNC\<close>.\<close>

definition write_intent :: "u32 \<Rightarrow> bool" where
  "write_intent flags \<longleftrightarrow> bit flags 0 \<or> bit flags 1 \<or> bit flags 6 \<or> bit flags 9"

lemma open_flag_bits:
  "O_WRONLY = 2 ^ 0" "O_RDWR = 2 ^ 1" "O_CREAT = 2 ^ 6" "O_TRUNC = 2 ^ 9"
  by (simp_all add: O_WRONLY_def O_RDWR_def O_CREAT_def O_TRUNC_def)

lemma open_filter: "flags AND (O_CREAT OR O_WRONLY OR O_RDWR OR O_TRUNC) = 0 \<longleftrightarrow> \<not> write_intent flags"
  unfolding open_flag_bits write_intent_def bit.conj_disj_distrib or_eq_0_iff and_exp_eq_0_iff_not_bit
  by blast

lemma creates: "flags AND O_CREAT = 0 \<longleftrightarrow> \<not> bit flags 6"
  unfolding open_flag_bits and_exp_eq_0_iff_not_bit ..

lemma handle_openat_skips: "\<not> write_intent (ucast (enter_args ctx ! 2)) \<Longrightarrow> skips (handle_openat R K ctx)"
  by (simp add: file_run_defs handle_openat_def open_filter)

lemma handle_openat_emits:
  assumes "write_intent (ucast (enter_args ctx ! 2))"
  shows "emits R (sizeof (CStruct struct_file_event))
    (\<lambda>_. let flags = ucast (enter_args ctx ! 2) in
       file_record K (if bit flags 6 then SL_FILE_OPEN_CREATE else SL_FILE_OPEN_WRITE)
         flags (ucast (enter_args ctx ! 3)) 0 (user_path K (enter_args ctx ! 1)) (replicate PATH_BYTES 0))
    (handle_openat R K ctx)"
  using assms by (auto simp: file_run_defs handle_openat_def open_filter creates split: prod.splits option.splits)

lemma handle_unlinkat_emits:
  "emits R (sizeof (CStruct struct_file_event))
    (\<lambda>_. file_record K SL_FILE_UNLINK (ucast (enter_args ctx ! 2)) 0 0
       (user_path K (enter_args ctx ! 1)) (replicate PATH_BYTES 0))
    (handle_unlinkat R K ctx)"
  by (auto simp: file_run_defs handle_unlinkat_def split: prod.splits option.splits)

lemma handle_renameat2_emits:
  "emits R (sizeof (CStruct struct_file_event))
    (\<lambda>_. file_record K SL_FILE_RENAME (ucast (enter_args ctx ! 4)) 0 0
       (user_path K (enter_args ctx ! 1)) (user_path K (enter_args ctx ! 3)))
    (handle_renameat2 R K ctx)"
  by (auto simp: file_run_defs handle_renameat2_def split: prod.splits option.splits)

lemma handle_fchmodat_emits:
  "emits R (sizeof (CStruct struct_file_event))
    (\<lambda>_. file_record K SL_FILE_CHMOD 0 (ucast (enter_args ctx ! 2)) 0
       (user_path K (enter_args ctx ! 1)) (replicate PATH_BYTES 0))
    (handle_fchmodat R K ctx)"
  by (auto simp: file_run_defs handle_fchmodat_def split: prod.splits option.splits)

lemma handle_fchownat_emits:
  "emits R (sizeof (CStruct struct_file_event))
    (\<lambda>_. file_record K SL_FILE_CHOWN (ucast (enter_args ctx ! 4)) (ucast (enter_args ctx ! 2))
       (ucast (enter_args ctx ! 3)) (user_path K (enter_args ctx ! 1)) (replicate PATH_BYTES 0))
    (handle_fchownat R K ctx)"
  by (auto simp: file_run_defs handle_fchownat_def split: prod.splits option.splits)

section \<open>Properties\<close>

lemma file_size: "sizeof (CStruct struct_file_event) = 576"
  by code_simp

lemma user_path_string:
  "bpf_reads K umem kmem \<Longrightarrow> str_at umem a s \<Longrightarrow> c_string (user_path K a) = take 255 s"
  using bpf_reads.user_str_array [of K umem kmem 256 a s] by (simp add: user_path_def)

lemma user_path_array:
  assumes "bpf_reads K umem kmem"
  shows "length (user_path K a) = 256" "0 \<in> set (user_path K a)"
  using bpf_reads.user_str_array_length [OF assms, of 256 "replicate 256 0" a]
    bpf_reads.user_str_array_terminated [OF assms, of 256 a]
  by (simp_all add: user_path_def)

definition wf_file :: "file_event \<Rightarrow> bool" where
  "wf_file e \<longleftrightarrow>
     length (fe_comm e) = COMM_LEN \<and> length (fe_path e) = PATH_BYTES \<and> length (fe_newpath e) = PATH_BYTES \<and>
     0 \<in> set (fe_path e) \<and> 0 \<in> set (fe_newpath e) \<and> fe_pad e = 0 \<and>
     fe_kind e \<in> {SL_FILE_OPEN_CREATE, SL_FILE_OPEN_WRITE, SL_FILE_UNLINK, SL_FILE_RENAME, SL_FILE_CHMOD, SL_FILE_CHOWN}"

lemma wf_file_record:
  assumes "bpf_reads K umem kmem" "p \<in> {user_path K a, replicate PATH_BYTES 0}" "q \<in> {user_path K b, replicate PATH_BYTES 0}"
    "k \<in> {SL_FILE_OPEN_CREATE, SL_FILE_OPEN_WRITE, SL_FILE_UNLINK, SL_FILE_RENAME, SL_FILE_CHMOD, SL_FILE_CHOWN}"
  shows "wf_file (file_record K k f m x p q)"
  using assms by (auto simp: wf_file_def file_record_def user_path_array bpf_reads.comm_length)

text \<open>C3. An \<open>openat\<close> is reported exactly when its flags ask for writing, creating or truncating, as a
  creation exactly when \<open>O_CREAT\<close> is set, with its flags, its mode and its path (cut to 255
  bytes); an open without write intent leaves the ring as it was.\<close>

theorem openat_reports_write_intent:
  assumes "ringbuf_laws R contents busy" "grants R 576 r" "bpf_reads K umem kmem"
    and "str_at umem (enter_args ctx ! 1) path"
  shows "let flags = ucast (enter_args ctx ! 2) :: u32 in
    if bit flags 0 \<or> bit flags 1 \<or> bit flags 6 \<or> bit flags 9
    then \<exists>e. contents (snd (run_state (handle_openat R K ctx) r)) = contents r @ [e] \<and>
      fe_kind e = (if bit flags 6 then SL_FILE_OPEN_CREATE else SL_FILE_OPEN_WRITE) \<and>
      fe_flags e = flags \<and> fe_mode e = ucast (enter_args ctx ! 3) \<and>
      c_string (fe_path e) = take 255 path \<and> c_string (fe_newpath e) = [] \<and>
      fe_tgid e = hi32 (bpf_get_current_pid_tgid K)
    else run_state (handle_openat R K ctx) r = (0, r)"
proof (cases "write_intent (ucast (enter_args ctx ! 2))")
  case True
  note emit = ringbuf_laws.emits_grants_const [OF assms(1) handle_openat_emits [OF True, unfolded file_size] assms(2)]
  show ?thesis using True emit user_path_string [OF assms(3,4)]
    by (auto simp: write_intent_def file_record_def Let_def)
next
  case False
  then show ?thesis using skips_outcome [OF handle_openat_skips [OF False, of R K]]
    by (auto simp: write_intent_def Let_def)
qed

definition open_sample_umem :: memory where
  "open_sample_umem = mem_at 0x5000 [47, 116, 0]"

lemma open_sample: "str_at open_sample_umem 0x5000 [47, 116]"
  unfolding open_sample_umem_def by (intro str_atI [of _ _ 3]) (simp_all add: mem_bytes_at)

definition sys_enter_sample :: "u64 list \<Rightarrow> trace_event_raw_sys_enter" where
  "sys_enter_sample args = \<lparr>enter_id = 0, enter_args = args\<rparr>"

theorem openat_reports_write_intent_witness:
  "\<exists>e. ring_out (snd (run_state (handle_openat ring_buffer (sample_env open_sample_umem (mem_at 0 []))
      (sys_enter_sample [0, 0x5000, 0x41, 0x1A4, 0, 0])) (empty_ring undefined 1024))) = [e] \<and>
    fe_kind e = SL_FILE_OPEN_CREATE \<and> fe_flags e = 0x41 \<and> c_string (fe_path e) = [47, 116]"
proof -
  have "grants ring_buffer 576 (empty_ring undefined 1024)"
    by (rule empty_ring_grants) (simp_all add: round_up_def)
  from openat_reports_write_intent [OF ring_buffer.ringbuf_laws_axioms this sample_env_reads,
      where ctx = "sys_enter_sample [0, 0x5000, 0x41, 0x1A4, 0, 0]" and path = "[47, 116]"] open_sample
  show ?thesis by (auto simp: sys_enter_sample_def Let_def)
qed

text \<open>Every \<open>unlinkat\<close>, \<open>renameat2\<close>, \<open>fchmodat\<close> and \<open>fchownat\<close> is reported while the ring has room,
  with the paths it names (cut to 255 bytes) and its own flags, mode, user and group.\<close>

theorem path_calls_reported:
  assumes "ringbuf_laws R contents busy" "grants R 576 r" "bpf_reads K umem kmem"
    and "str_at umem (enter_args ctx ! 1) path" "str_at umem (enter_args ctx ! 3) newpath"
  shows "\<exists>u n m w.
    contents (snd (run_state (handle_unlinkat R K ctx) r)) = contents r @ [u] \<and>
    contents (snd (run_state (handle_renameat2 R K ctx) r)) = contents r @ [n] \<and>
    contents (snd (run_state (handle_fchmodat R K ctx) r)) = contents r @ [m] \<and>
    contents (snd (run_state (handle_fchownat R K ctx) r)) = contents r @ [w] \<and>
    map fe_kind [u, n, m, w] = [SL_FILE_UNLINK, SL_FILE_RENAME, SL_FILE_CHMOD, SL_FILE_CHOWN] \<and>
    list_all (\<lambda>e. c_string (fe_path e) = take 255 path) [u, n, m, w] \<and>
    map (c_string \<circ> fe_newpath) [u, n, m, w] = [[], take 255 newpath, [], []] \<and>
    fe_flags u = ucast (enter_args ctx ! 2) \<and> fe_flags n = ucast (enter_args ctx ! 4) \<and>
    fe_mode m = ucast (enter_args ctx ! 2) \<and> fe_mode w = ucast (enter_args ctx ! 2) \<and>
    fe_extra w = ucast (enter_args ctx ! 3) \<and> fe_flags w = ucast (enter_args ctx ! 4)"
  using ringbuf_laws.emits_grants_const [OF assms(1) handle_unlinkat_emits [unfolded file_size] assms(2)]
    ringbuf_laws.emits_grants_const [OF assms(1) handle_renameat2_emits [unfolded file_size] assms(2)]
    ringbuf_laws.emits_grants_const [OF assms(1) handle_fchmodat_emits [unfolded file_size] assms(2)]
    ringbuf_laws.emits_grants_const [OF assms(1) handle_fchownat_emits [unfolded file_size] assms(2)]
    user_path_string [OF assms(3,4)] user_path_string [OF assms(3,5)]
  by (auto simp: file_record_def)

theorem path_calls_reported_witness:
  "\<exists>e. ring_out (snd (run_state (handle_renameat2 ring_buffer (sample_env open_sample_umem (mem_at 0 []))
      (sys_enter_sample [0, 0x5000, 0, 0x5000, 1, 0])) (empty_ring undefined 1024))) = [e] \<and>
    fe_kind e = SL_FILE_RENAME \<and> c_string (fe_path e) = [47, 116] \<and> c_string (fe_newpath e) = [47, 116]"
proof -
  have "grants ring_buffer 576 (empty_ring undefined 1024)"
    by (rule empty_ring_grants) (simp_all add: round_up_def)
  from path_calls_reported [OF ring_buffer.ringbuf_laws_axioms this sample_env_reads,
      where ctx = "sys_enter_sample [0, 0x5000, 0, 0x5000, 1, 0]" and path = "[47, 116]" and newpath = "[47, 116]"] open_sample
  show ?thesis by (auto simp: sys_enter_sample_def)
qed

text \<open>Whatever memory the programs read and whether reads fail or not, every record the five
  handlers submit has arrays of the declared sizes, terminated paths and one of the six kinds.\<close>

theorem file_records_well_formed:
  assumes "ringbuf_laws R contents busy" "bpf_reads K umem kmem" "list_all wf_file (contents r)"
  shows "list_all (\<lambda>h. list_all wf_file (contents (snd (run_state h r))))
    [handle_openat R K ctx, handle_unlinkat R K ctx, handle_renameat2 R K ctx, handle_fchmodat R K ctx,
     handle_fchownat R K ctx]"
proof -
  note inv = ringbuf_laws.emits_invariant [OF assms(1) _ _ assms(3)]
  note wf = wf_file_record [OF assms(2), of _ _ _ _ _]
  have "list_all wf_file (contents (snd (run_state (handle_openat R K ctx) r)))"
  proof (cases "write_intent (ucast (enter_args ctx ! 2))")
    case True
    show ?thesis by (rule inv [OF handle_openat_emits [OF True]]) (auto simp: Let_def intro!: wf)
  next
    case False
    show ?thesis using skips_outcome [OF handle_openat_skips [OF False, of R K]] assms(3) by simp
  qed
  moreover have "list_all wf_file (contents (snd (run_state (handle_unlinkat R K ctx) r)))"
    by (rule inv [OF handle_unlinkat_emits]) (auto intro!: wf)
  moreover have "list_all wf_file (contents (snd (run_state (handle_renameat2 R K ctx) r)))"
    by (rule inv [OF handle_renameat2_emits]) (auto intro!: wf)
  moreover have "list_all wf_file (contents (snd (run_state (handle_fchmodat R K ctx) r)))"
    by (rule inv [OF handle_fchmodat_emits]) (auto intro!: wf)
  moreover have "list_all wf_file (contents (snd (run_state (handle_fchownat R K ctx) r)))"
    by (rule inv [OF handle_fchownat_emits]) (auto intro!: wf)
  ultimately show ?thesis by simp
qed

theorem file_records_well_formed_witness:
  "list_all wf_file (ring_out (snd (run_state (handle_unlinkat ring_buffer (sample_env (mem_at 0 []) (mem_at 0 []))
     (sys_enter_sample [0, 0, 0, 0, 0, 0])) (empty_ring undefined 1024))))"
  using file_records_well_formed [OF ring_buffer.ringbuf_laws_axioms sample_env_reads, of "empty_ring undefined 1024"]
  by simp

end
