(* ===== verification/Vmlinux_Sock.thy ===== *)
theory Vmlinux_Sock
  imports Vmlinux_Task
begin

text \<open>
  Types of \<^verbatim>\<open>vmlinux.h\<close>, the socket objects behind the pointers \<^verbatim>\<open>net.bpf.c\<close> receives: the kernel
  allocates TCP and UDP sockets of either family as the larger structs below, of which
  \<open>struct sock\<close> is a part.
\<close>

definition struct_inet_cork :: "ctype" where
  "struct_inet_cork = CStruct
    [Fld ''flags'' c_int, Fld ''addr'' t___be32, Fld ''opt'' CPtr, Fld ''fragsize'' c_int,
     Fld ''length'' c_int, Fld ''dst'' CPtr, Fld ''tx_flags'' t_u8, Fld ''ttl'' t___u8,
     Fld ''tos'' t___s16, Fld ''priority'' t_u32, Fld ''gso_size'' t___u16, Fld ''ts_opt_id'' t_u32,
     Fld ''transmit_time'' t_u64, Fld ''mark'' t_u32]"

definition t___be64 :: "ctype" where
  "t___be64 = t___u64"

definition struct_flowi_tunnel :: "ctype" where
  "struct_flowi_tunnel = CStruct
    [Fld ''tun_id'' t___be64]"

definition struct_flowi_common :: "ctype" where
  "struct_flowi_common = CStruct
    [Fld ''flowic_oif'' c_int, Fld ''flowic_iif'' c_int, Fld ''flowic_l3mdev'' c_int,
     Fld ''flowic_mark'' t___u32, Fld ''flowic_tos'' t___u8, Fld ''flowic_scope'' t___u8,
     Fld ''flowic_proto'' t___u8, Fld ''flowic_flags'' t___u8, Fld ''flowic_secid'' t___u32,
     Fld ''flowic_uid'' t_kuid_t, Fld ''flowic_multipath_hash'' t___u32,
     Fld ''flowic_tun_key'' struct_flowi_tunnel]"

definition union_flowi_uli :: "ctype" where
  "union_flowi_uli = CUnion
    [Fld ''ports'' (CStruct [Fld ''dport'' t___be16, Fld ''sport'' t___be16]),
     Fld ''icmpt'' (CStruct [Fld ''type'' t___u8, Fld ''code'' t___u8]), Fld ''gre_key'' t___be32,
     Fld ''mht'' (CStruct [Fld ''type'' t___u8])]"

definition struct_flowi4 :: "ctype" where
  "struct_flowi4 = CStruct
    [Fld ''__fl_common'' struct_flowi_common, Fld ''saddr'' t___be32, Fld ''daddr'' t___be32,
     Fld ''uli'' union_flowi_uli]"

definition struct_flowi6 :: "ctype" where
  "struct_flowi6 = CStruct
    [Fld ''__fl_common'' struct_flowi_common, Fld ''daddr'' struct_in6_addr,
     Fld ''saddr'' struct_in6_addr, Fld ''flowlabel'' t___be32, Fld ''uli'' union_flowi_uli,
     Fld ''mp_hash'' t___u32]"

definition struct_flowi :: "ctype" where
  "struct_flowi = CStruct
    [Fld ''u'' (CUnion [Fld ''__fl_common'' struct_flowi_common, Fld ''ip4'' struct_flowi4, Fld ''ip6'' struct_flowi6])]"

definition struct_inet_cork_full :: "ctype" where
  "struct_inet_cork_full = CStruct
    [Fld ''base'' struct_inet_cork, Fld ''fl'' struct_flowi]"

definition struct_inet_sock :: "ctype" where
  "struct_inet_sock = CStruct
    [Fld ''sk'' struct_sock, Fld ''pinet6'' CPtr, Fld ''inet_flags'' c_long,
     Fld ''inet_saddr'' t___be32, Fld ''uc_ttl'' t___s16, Fld ''inet_sport'' t___be16,
     Fld ''inet_opt'' CPtr, Fld ''inet_id'' t_atomic_t, Fld ''tos'' t___u8, Fld ''min_ttl'' t___u8,
     Fld ''mc_ttl'' t___u8, Fld ''pmtudisc'' t___u8, Fld ''rcv_tos'' t___u8,
     Fld ''convert_csum'' t___u8, Fld ''uc_index'' c_int, Fld ''mc_index'' c_int,
     Fld ''mc_addr'' t___be32, Fld ''local_port_range'' t_u32, Fld ''mc_list'' CPtr,
     Fld ''cork'' struct_inet_cork_full]"

definition struct_fastopen_queue :: "ctype" where
  "struct_fastopen_queue = CStruct
    [Fld ''rskq_rst_head'' CPtr, Fld ''rskq_rst_tail'' CPtr, Fld ''lock'' t_spinlock_t,
     Fld ''qlen'' c_int, Fld ''max_qlen'' c_int, Fld ''ctx'' CPtr]"

definition struct_request_sock_queue :: "ctype" where
  "struct_request_sock_queue = CStruct
    [Fld ''rskq_lock'' t_spinlock_t, Fld ''rskq_defer_accept'' t_u8, Fld ''synflood_warned'' t_u32,
     Fld ''qlen'' t_atomic_t, Fld ''young'' t_atomic_t, Fld ''rskq_accept_head'' CPtr,
     Fld ''rskq_accept_tail'' CPtr, Fld ''fastopenq'' struct_fastopen_queue]"

definition struct_inet_connection_sock :: "ctype" where
  "struct_inet_connection_sock = CStruct
    [Fld ''icsk_inet'' struct_inet_sock, Fld ''icsk_accept_queue'' struct_request_sock_queue,
     Fld ''icsk_bind_hash'' CPtr, Fld ''icsk_bind2_hash'' CPtr,
     Fld ''icsk_retransmit_timer'' struct_timer_list, Fld ''icsk_delack_timer'' struct_timer_list,
     Fld ''icsk_rto'' t___u32, Fld ''icsk_rto_min'' t___u32, Fld ''icsk_rto_max'' t_u32,
     Fld ''icsk_delack_max'' t___u32, Fld ''icsk_pmtu_cookie'' t___u32, Fld ''icsk_ca_ops'' CPtr,
     Fld ''icsk_af_ops'' CPtr, Fld ''icsk_ulp_ops'' CPtr, Fld ''icsk_ulp_data'' CPtr,
     Fld ''icsk_sync_mss'' CPtr, Bits ''icsk_ca_state'' 1 5, Bits ''icsk_ca_initialized'' 1 1,
     Bits ''icsk_ca_setsockopt'' 1 1, Bits ''icsk_ca_dst_locked'' 1 1,
     Fld ''icsk_retransmits'' t___u8, Fld ''icsk_pending'' t___u8, Fld ''icsk_backoff'' t___u8,
     Fld ''icsk_syn_retries'' t___u8, Fld ''icsk_probes_out'' t___u8,
     Fld ''icsk_ext_hdr_len'' t___u16,
     Fld ''icsk_ack'' (CStruct [Fld ''pending'' t___u8, Fld ''quick'' t___u8, Fld ''pingpong'' t___u8, Fld ''retry'' t___u8, Bits ''ato'' 4 8, Bits ''lrcv_flowlabel'' 4 20, Bits ''dst_quick_ack'' 4 1, Bits ''unused'' 4 3, Fld ''lrcvtime'' t___u32, Fld ''last_seg_size'' t___u16, Fld ''rcv_mss'' t___u16]),
     Fld ''icsk_mtup'' (CStruct [Fld ''search_high'' c_int, Fld ''search_low'' c_int, Bits ''probe_size'' 4 31, Bits ''enabled'' 4 1, Fld ''probe_timestamp'' t_u32]),
     Fld ''icsk_probes_tstamp'' t_u32, Fld ''icsk_user_timeout'' t_u32,
     Fld ''icsk_ca_priv'' (CArr t_u64 13)]"

definition struct_minmax_sample :: "ctype" where
  "struct_minmax_sample = CStruct
    [Fld ''t'' t_u32, Fld ''v'' t_u32]"

definition struct_minmax :: "ctype" where
  "struct_minmax = CStruct
    [Fld ''s'' (CArr struct_minmax_sample 3)]"

definition struct_tcp_options_received :: "ctype" where
  "struct_tcp_options_received = CStruct
    [Fld ''ts_recent_stamp'' c_int, Fld ''ts_recent'' t_u32, Fld ''rcv_tsval'' t_u32,
     Fld ''rcv_tsecr'' t_u32, Bits ''saw_tstamp'' 2 1, Bits ''tstamp_ok'' 2 1, Bits ''dsack'' 2 1,
     Bits ''wscale_ok'' 2 1, Bits ''sack_ok'' 2 3, Bits ''smc_ok'' 2 1, Bits ''snd_wscale'' 2 4,
     Bits ''rcv_wscale'' 2 4, Bits ''saw_unknown'' 1 1, Bits ''unused'' 1 7, Fld ''num_sacks'' t_u8,
     Fld ''user_mss'' t_u16, Fld ''mss_clamp'' t_u16]"

definition struct_tcp_rack :: "ctype" where
  "struct_tcp_rack = CStruct
    [Fld ''mstamp'' t_u64, Fld ''rtt_us'' t_u32, Fld ''end_seq'' t_u32, Fld ''last_delivered'' t_u32,
     Fld ''reo_wnd_steps'' t_u8, Bits ''reo_wnd_persist'' 1 5, Bits ''dsack_seen'' 1 1,
     Bits ''advanced'' 1 1]"

definition struct_tcp_sack_block :: "ctype" where
  "struct_tcp_sack_block = CStruct
    [Fld ''start_seq'' t_u32, Fld ''end_seq'' t_u32]"

definition tcp_sock_members_1 :: "cfield list" where
  "tcp_sock_members_1 = 
    [Fld ''inet_conn'' struct_inet_connection_sock,
     Fld ''__cacheline_group_begin__tcp_sock_read_tx'' (CArr t___u8 0), Fld ''max_window'' t_u32,
     Fld ''rcv_ssthresh'' t_u32, Fld ''reordering'' t_u32, Fld ''notsent_lowat'' t_u32,
     Fld ''gso_segs'' t_u16, Fld ''retransmit_skb_hint'' CPtr,
     Fld ''__cacheline_group_end__tcp_sock_read_tx'' (CArr t___u8 0),
     Fld ''__cacheline_group_begin__tcp_sock_read_txrx'' (CArr t___u8 0), Fld ''tsoffset'' t_u32,
     Fld ''snd_wnd'' t_u32, Fld ''mss_cache'' t_u32, Fld ''snd_cwnd'' t_u32, Fld ''prr_out'' t_u32,
     Fld ''lost_out'' t_u32, Fld ''sacked_out'' t_u32, Fld ''tcp_header_len'' t_u16,
     Fld ''scaling_ratio'' t_u8, Bits ''chrono_type'' 1 2, Bits ''repair'' 1 1,
     Bits ''tcp_usec_ts'' 1 1, Bits ''is_sack_reneg'' 1 1, Bits ''is_cwnd_limited'' 1 1,
     Fld ''__cacheline_group_end__tcp_sock_read_txrx'' (CArr t___u8 0),
     Fld ''__cacheline_group_begin__tcp_sock_read_rx'' (CArr t___u8 0), Fld ''copied_seq'' t_u32,
     Fld ''rcv_tstamp'' t_u32, Fld ''snd_wl1'' t_u32, Fld ''tlp_high_seq'' t_u32,
     Fld ''rttvar_us'' t_u32, Fld ''retrans_out'' t_u32, Fld ''advmss'' t_u16, Fld ''urg_data'' t_u16,
     Fld ''lost'' t_u32, Fld ''rtt_min'' struct_minmax, Fld ''out_of_order_queue'' struct_rb_root,
     Fld ''tcp_clean_acked'' CPtr, Fld ''snd_ssthresh'' t_u32, Bits ''recvmsg_inq'' 1 1,
     Fld ''__cacheline_group_end__tcp_sock_read_rx'' (CArr t___u8 0), Bits [] 8 64, Bits [] 8 64,
     Bits [] 8 64, Bits [] 8 64, Bits [] 8 64, Bits [] 8 64, Bits [] 8 64,
     Fld ''__cacheline_group_begin__tcp_sock_write_tx'' (CArr t___u8 0), Fld ''segs_out'' t_u32,
     Fld ''data_segs_out'' t_u32, Fld ''bytes_sent'' t_u64, Fld ''snd_sml'' t_u32,
     Fld ''chrono_start'' t_u32, Fld ''chrono_stat'' (CArr t_u32 3), Fld ''write_seq'' t_u32,
     Fld ''pushed_seq'' t_u32, Fld ''lsndtime'' t_u32, Fld ''mdev_us'' t_u32, Fld ''rtt_seq'' t_u32,
     Fld ''tcp_wstamp_ns'' t_u64, Fld ''tsorted_sent_queue'' struct_list_head,
     Fld ''highest_sack'' CPtr, Fld ''ecn_flags'' t_u8,
     Fld ''__cacheline_group_end__tcp_sock_write_tx'' (CArr t___u8 0),
     Fld ''__cacheline_group_begin__tcp_sock_write_txrx'' (CArr t___u8 0),
     Fld ''pred_flags'' t___be32, Fld ''tcp_clock_cache'' t_u64, Fld ''tcp_mstamp'' t_u64,
     Fld ''rcv_nxt'' t_u32, Fld ''snd_nxt'' t_u32, Fld ''snd_una'' t_u32, Fld ''window_clamp'' t_u32,
     Fld ''srtt_us'' t_u32, Fld ''packets_out'' t_u32, Fld ''snd_up'' t_u32, Fld ''delivered'' t_u32,
     Fld ''delivered_ce'' t_u32, Fld ''app_limited'' t_u32, Fld ''rcv_wnd'' t_u32,
     Fld ''rx_opt'' struct_tcp_options_received, Bits ''nonagle'' 1 4, Bits ''rate_app_limited'' 1 1,
     Fld ''__cacheline_group_end__tcp_sock_write_txrx'' (CArr t___u8 0), Bits [] 8 0,
     Fld ''__cacheline_group_begin__tcp_sock_write_rx'' (CArr t___u8 0), Fld ''bytes_received'' t_u64,
     Fld ''segs_in'' t_u32, Fld ''data_segs_in'' t_u32, Fld ''rcv_wup'' t_u32,
     Fld ''max_packets_out'' t_u32, Fld ''cwnd_usage_seq'' t_u32, Fld ''rate_delivered'' t_u32,
     Fld ''rate_interval_us'' t_u32, Fld ''rcv_rtt_last_tsecr'' t_u32, Fld ''first_tx_mstamp'' t_u64,
     Fld ''delivered_mstamp'' t_u64, Fld ''bytes_acked'' t_u64,
     Fld ''rcv_rtt_est'' (CStruct [Fld ''rtt_us'' t_u32, Fld ''seq'' t_u32, Fld ''time'' t_u64]),
     Fld ''rcvq_space'' (CStruct [Fld ''space'' c_int, Fld ''seq'' t_u32, Fld ''time'' t_u64]),
     Fld ''__cacheline_group_end__tcp_sock_write_rx'' (CArr t___u8 0), Fld ''dsack_dups'' t_u32,
     Fld ''compressed_ack_rcv_nxt'' t_u32, Fld ''tsq_node'' struct_list_head,
     Fld ''rack'' struct_tcp_rack, Fld ''compressed_ack'' t_u8, Bits ''dup_ack_counter'' 1 2,
     Bits ''tlp_retrans'' 1 1, Bits ''unused'' 1 5, Bits ''thin_lto'' 1 1,
     Bits ''fastopen_connect'' 1 1, Bits ''fastopen_no_cookie'' 1 1,
     Bits ''fastopen_client_fail'' 1 2, Bits ''frto'' 1 1, Fld ''repair_queue'' t_u8,
     Bits ''save_syn'' 1 2, Bits ''syn_data'' 1 1, Bits ''syn_fastopen'' 1 1,
     Bits ''syn_fastopen_exp'' 1 1, Bits ''syn_fastopen_ch'' 1 1, Bits ''syn_data_acked'' 1 1,
     Bits ''syn_fastopen_child'' 1 1, Fld ''keepalive_probes'' t_u8, Fld ''tcp_tx_delay'' t_u32,
     Fld ''mdev_max_us'' t_u32, Fld ''reord_seen'' t_u32, Fld ''snd_cwnd_cnt'' t_u32,
     Fld ''snd_cwnd_clamp'' t_u32, Fld ''snd_cwnd_used'' t_u32, Fld ''snd_cwnd_stamp'' t_u32,
     Fld ''prior_cwnd'' t_u32, Fld ''prr_delivered'' t_u32, Fld ''last_oow_ack_time'' t_u32,
     Fld ''pacing_timer'' struct_hrtimer, Fld ''compressed_ack_timer'' struct_hrtimer,
     Fld ''ooo_last_skb'' CPtr]"

definition tcp_sock_members_2 :: "cfield list" where
  "tcp_sock_members_2 = 
    [Fld ''duplicate_sack'' (CArr struct_tcp_sack_block 1),
     Fld ''selective_acks'' (CArr struct_tcp_sack_block 4),
     Fld ''recv_sack_cache'' (CArr struct_tcp_sack_block 4), Fld ''prior_ssthresh'' t_u32,
     Fld ''high_seq'' t_u32, Fld ''retrans_stamp'' t_u32, Fld ''undo_marker'' t_u32,
     Fld ''undo_retrans'' c_int, Fld ''bytes_retrans'' t_u64, Fld ''total_retrans'' t_u32,
     Fld ''rto_stamp'' t_u32, Fld ''total_rto'' t_u16, Fld ''total_rto_recoveries'' t_u16,
     Fld ''total_rto_time'' t_u32, Fld ''urg_seq'' t_u32, Fld ''keepalive_time'' c_int,
     Fld ''keepalive_intvl'' c_int, Fld ''linger2'' c_int, Fld ''bpf_sock_ops_cb_flags'' t_u8,
     Bits ''bpf_chg_cc_inprogress'' 1 1, Fld ''timeout_rehash'' t_u16, Fld ''rcv_ooopack'' t_u32,
     Fld ''mtu_probe'' (CStruct [Fld ''probe_seq_start'' t_u32, Fld ''probe_seq_end'' t_u32]),
     Fld ''plb_rehash'' t_u32, Fld ''mtu_info'' t_u32, Fld ''is_mptcp'' c_bool,
     Fld ''syn_smc'' c_bool, Fld ''smc_hs_congested'' CPtr, Fld ''af_specific'' CPtr,
     Fld ''md5sig_info'' CPtr, Fld ''ao_info'' CPtr, Fld ''fastopen_req'' CPtr,
     Fld ''fastopen_rsk'' CPtr, Fld ''saved_syn'' CPtr, Bits [] 8 64, Bits [] 8 64, Bits [] 8 64,
     Bits [] 8 64]"

definition struct_tcp_sock :: "ctype" where
  "struct_tcp_sock = CStruct (tcp_sock_members_1 @ tcp_sock_members_2)"

definition struct_in6_pktinfo :: "ctype" where
  "struct_in6_pktinfo = CStruct
    [Fld ''ipi6_addr'' struct_in6_addr, Fld ''ipi6_ifindex'' c_int]"

definition struct_inet6_cork :: "ctype" where
  "struct_inet6_cork = CStruct
    [Fld ''opt'' CPtr, Fld ''hop_limit'' t_u8, Fld ''tclass'' t_u8, Bits ''dontfrag'' 1 1]"

definition struct_ipv6_pinfo :: "ctype" where
  "struct_ipv6_pinfo = CStruct
    [Fld ''saddr'' struct_in6_addr, Fld ''sticky_pktinfo'' struct_in6_pktinfo,
     Fld ''daddr_cache'' CPtr, Fld ''saddr_cache'' CPtr, Fld ''flow_label'' t___be32,
     Fld ''frag_size'' t___u32, Fld ''hop_limit'' t_s16, Fld ''mcast_hops'' t_u8,
     Fld ''ucast_oif'' c_int, Fld ''mcast_oif'' c_int,
     Fld ''rxopt'' (CUnion [Fld ''bits'' (CStruct [Bits ''srcrt'' 2 1, Bits ''osrcrt'' 2 1, Bits ''rxinfo'' 2 1, Bits ''rxoinfo'' 2 1, Bits ''rxhlim'' 2 1, Bits ''rxohlim'' 2 1, Bits ''hopopts'' 2 1, Bits ''ohopopts'' 2 1, Bits ''dstopts'' 2 1, Bits ''odstopts'' 2 1, Bits ''rxflow'' 2 1, Bits ''rxtclass'' 2 1, Bits ''rxpmtu'' 2 1, Bits ''rxorigdstaddr'' 2 1, Bits ''recvfragsize'' 2 1]), Fld ''all'' t___u16]),
     Fld ''srcprefs'' t___u8, Fld ''pmtudisc'' t___u8, Fld ''min_hopcount'' t___u8,
     Fld ''tclass'' t___u8, Fld ''rcv_flowinfo'' t___be32, Fld ''dst_cookie'' t___u32,
     Fld ''ipv6_mc_list'' CPtr, Fld ''ipv6_ac_list'' CPtr, Fld ''ipv6_fl_list'' CPtr,
     Fld ''opt'' CPtr, Fld ''pktoptions'' CPtr, Fld ''rxpmtu'' CPtr, Fld ''cork'' struct_inet6_cork]"

definition struct_tcp6_sock :: "ctype" where
  "struct_tcp6_sock = CStruct
    [Fld ''tcp'' struct_tcp_sock, Fld ''inet6'' struct_ipv6_pinfo, Bits [] 8 64, Bits [] 8 64,
     Bits [] 8 64, Bits [] 8 64]"

definition struct_udp_sock :: "ctype" where
  "struct_udp_sock = CStruct
    [Fld ''inet'' struct_inet_sock, Fld ''udp_flags'' c_long, Fld ''pending'' c_int,
     Fld ''encap_type'' t___u8, Fld ''udp_lrpa_hash'' t___u16,
     Fld ''udp_lrpa_node'' struct_hlist_nulls_node, Fld ''len'' t___u16, Fld ''gso_size'' t___u16,
     Fld ''pcslen'' t___u16, Fld ''pcrlen'' t___u16, Fld ''encap_rcv'' CPtr,
     Fld ''encap_err_rcv'' CPtr, Fld ''encap_err_lookup'' CPtr, Fld ''encap_destroy'' CPtr,
     Fld ''gro_receive'' CPtr, Fld ''gro_complete'' CPtr, Bits [] 8 64, Bits [] 8 64, Bits [] 8 64,
     Bits [] 8 64, Bits [] 8 64, Bits [] 8 64, Bits [] 8 64, Fld ''reader_queue'' struct_sk_buff_head,
     Fld ''forward_deficit'' c_int, Fld ''forward_threshold'' c_int,
     Fld ''peeking_with_offset'' c_bool, Fld ''tunnel_list'' struct_hlist_node, Bits [] 8 64]"

definition struct_udp6_sock :: "ctype" where
  "struct_udp6_sock = CStruct
    [Fld ''udp'' struct_udp_sock, Fld ''inet6'' struct_ipv6_pinfo, Bits [] 8 64, Bits [] 8 64,
     Bits [] 8 64, Bits [] 8 64]"

end
