(* ===== verification/Net_Bpf.thy ===== *)
theory Net_Bpf
  imports Kernel_Instance Vmlinux_Sock
begin

text \<open>
  \<^verbatim>\<open>agent/internal/bpf/src/net.bpf.c\<close>: the probes on \<open>tcp_connect\<close>, \<open>inet_csk_accept\<close> and
  \<open>udp_sendmsg\<close>, which report the endpoints of the socket they are called with.
\<close>

section \<open>The record\<close>

definition AF_INET :: u16 where "AF_INET = 2"
definition AF_INET6 :: u16 where "AF_INET6 = 10"

definition SL_NET_TCP_CONNECT :: u32 where "SL_NET_TCP_CONNECT = 1"
definition SL_NET_TCP_ACCEPT :: u32 where "SL_NET_TCP_ACCEPT = 2"
definition SL_NET_UDP_SEND :: u32 where "SL_NET_UDP_SEND = 3"

definition IPPROTO_TCP :: u8 where "IPPROTO_TCP = word_of_int (the (map_of enum_ipproto ''IPPROTO_TCP''))"
definition IPPROTO_UDP :: u8 where "IPPROTO_UDP = word_of_int (the (map_of enum_ipproto ''IPPROTO_UDP''))"

record net_event =
  ne_ts_ns :: u64
  ne_kind :: u32
  ne_pid :: u32
  ne_tgid :: u32
  ne_uid :: u32
  ne_gid :: u32
  ne_family :: u16
  ne_proto :: u8
  ne_pad0 :: u8
  ne_sport :: u16
  ne_dport :: u16
  ne_saddr :: "byte list"
  ne_daddr :: "byte list"
  ne_comm :: "byte list"

definition struct_net_event :: "cfield list" where
  "struct_net_event =
    [Fld ''ts_ns'' t___u64, Fld ''kind'' t___u32, Fld ''pid'' t___u32, Fld ''tgid'' t___u32,
     Fld ''uid'' t___u32, Fld ''gid'' t___u32, Fld ''family'' t___u16, Fld ''proto'' t___u8,
     Fld ''_pad0'' t___u8, Fld ''sport'' t___u16, Fld ''dport'' t___u16,
     Fld ''saddr'' (CArr t___u8 16), Fld ''daddr'' (CArr t___u8 16), Fld ''comm'' (CArr c_char COMM_LEN)]"

definition events_net :: bpf_map_def where
  "events_net = ringbuf_map (4 * 1024 * 1024)"

section \<open>The programs\<close>

definition reserve_net :: "('r, net_event) bpf_ringbuf \<Rightarrow> ('r, net_event option) state" where
  "reserve_net R = bpf_ringbuf_reserve R (of_nat (sizeof (CStruct struct_net_event))) 0"

definition fill_common_net :: "bpf_env \<Rightarrow> net_event \<Rightarrow> net_event" where
  "fill_common_net K e =
     (let pid_tgid = bpf_get_current_pid_tgid K;
          uid_gid = bpf_get_current_uid_gid K
      in e\<lparr>ne_ts_ns := bpf_ktime_get_ns K,
           ne_pid := lo32 pid_tgid,
           ne_tgid := hi32 pid_tgid,
           ne_uid := lo32 uid_gid,
           ne_gid := hi32 uid_gid,
           ne_family := 0,
           ne_proto := 0,
           ne_pad0 := 0,
           ne_sport := 0,
           ne_dport := 0,
           ne_saddr := replicate 16 0,
           ne_daddr := replicate 16 0,
           ne_comm := snd (bpf_get_current_comm K COMM_LEN)\<rparr>)"

text \<open>The operands of \<open>|\<close> are promoted to \<open>int\<close>, in which \<open>v << 8\<close> cannot overflow.\<close>

definition bswap16_net :: "u16 \<Rightarrow> u16" where
  "bswap16_net v = ucast (push_bit 8 (ucast v :: u32) OR drop_bit 8 (ucast v :: u32))"

text \<open>
  \<open>populate_from_sk\<close>: the return code and the record. A local variable the macro reads into is
  the little-endian value of the bytes read, the IPv4 addresses are copied as bytes.
\<close>

definition populate_from_sk :: "bpf_env \<Rightarrow> net_event \<Rightarrow> u64 \<Rightarrow> int \<times> net_event" where
  "populate_from_sk K e sk =
     (let rd = (\<lambda>n f. snd (BPF_CORE_READ_INTO2 K n sk ''sock'' ''__sk_common'' f));
          family = le_word (rd 2 ''skc_family'') :: u16
      in if family \<noteq> AF_INET \<and> family \<noteq> AF_INET6 then (-1, e)
         else
           let e = e\<lparr>ne_family := family\<rparr>;
               dport_be = le_word (rd 2 ''skc_dport'');
               sport_host = le_word (rd 2 ''skc_num'');
               e = e\<lparr>ne_dport := bswap16_net dport_be\<rparr>;
               e = e\<lparr>ne_sport := sport_host\<rparr>
           in if family = AF_INET then
                let daddr = rd 4 ''skc_daddr'';
                    saddr = rd 4 ''skc_rcv_saddr'';
                    e = e\<lparr>ne_daddr := overwrite daddr (ne_daddr e)\<rparr>;
                    e = e\<lparr>ne_saddr := overwrite saddr (ne_saddr e)\<rparr>
                in (0, e)
              else
                let e = e\<lparr>ne_daddr := rd 16 ''skc_v6_daddr''\<rparr>;
                    e = e\<lparr>ne_saddr := rd 16 ''skc_v6_rcv_saddr''\<rparr>
                in (0, e))"

definition handle_tcp_connect ::
    "('r, net_event) bpf_ringbuf \<Rightarrow> bpf_env \<Rightarrow> pt_regs \<Rightarrow> ('r, int) state" where
  "handle_tcp_connect R K ctx = (
     let sk = PT_REGS_PARM1 ctx in
     if sk = 0 then State_Monad.return 0
     else do {
       e \<leftarrow> reserve_net R;
       case e of
         None \<Rightarrow> State_Monad.return 0
       | Some e \<Rightarrow> do {
           let e = fill_common_net K e;
           let e = e\<lparr>ne_kind := SL_NET_TCP_CONNECT\<rparr>;
           let e = e\<lparr>ne_proto := IPPROTO_TCP\<rparr>;
           let (rc, e) = populate_from_sk K e sk;
           if rc \<noteq> 0 then do {
             bpf_ringbuf_discard R e 0;
             State_Monad.return 0
           } else do {
             bpf_ringbuf_submit R e 0;
             State_Monad.return 0
           }
         }
     })"

definition handle_inet_csk_accept ::
    "('r, net_event) bpf_ringbuf \<Rightarrow> bpf_env \<Rightarrow> pt_regs \<Rightarrow> ('r, int) state" where
  "handle_inet_csk_accept R K ctx = (
     let sk = PT_REGS_RC ctx in
     if sk = 0 then State_Monad.return 0
     else do {
       e \<leftarrow> reserve_net R;
       case e of
         None \<Rightarrow> State_Monad.return 0
       | Some e \<Rightarrow> do {
           let e = fill_common_net K e;
           let e = e\<lparr>ne_kind := SL_NET_TCP_ACCEPT\<rparr>;
           let e = e\<lparr>ne_proto := IPPROTO_TCP\<rparr>;
           let (rc, e) = populate_from_sk K e sk;
           if rc \<noteq> 0 then do {
             bpf_ringbuf_discard R e 0;
             State_Monad.return 0
           } else do {
             bpf_ringbuf_submit R e 0;
             State_Monad.return 0
           }
         }
     })"

definition handle_udp_sendmsg ::
    "('r, net_event) bpf_ringbuf \<Rightarrow> bpf_env \<Rightarrow> pt_regs \<Rightarrow> ('r, int) state" where
  "handle_udp_sendmsg R K ctx = (
     let sk = PT_REGS_PARM1 ctx in
     if sk = 0 then State_Monad.return 0
     else do {
       e \<leftarrow> reserve_net R;
       case e of
         None \<Rightarrow> State_Monad.return 0
       | Some e \<Rightarrow> do {
           let e = fill_common_net K e;
           let e = e\<lparr>ne_kind := SL_NET_UDP_SEND\<rparr>;
           let e = e\<lparr>ne_proto := IPPROTO_UDP\<rparr>;
           let (rc, e) = populate_from_sk K e sk;
           if rc \<noteq> 0 then do {
             bpf_ringbuf_discard R e 0;
             State_Monad.return 0
           } else do {
             bpf_ringbuf_submit R e 0;
             State_Monad.return 0
           }
         }
     })"

section \<open>What a run submits\<close>

text \<open>The fields of a socket as the probe reads them, and the record made of them.\<close>

definition sk_field :: "bpf_env \<Rightarrow> u64 \<Rightarrow> u32 \<Rightarrow> string \<Rightarrow> byte list" where
  "sk_field K sk n f = snd (bpf_probe_read_kernel K n (sk + field_off K ''sock'' [''__sk_common'', f]))"

definition sk_family :: "bpf_env \<Rightarrow> u64 \<Rightarrow> u16" where
  "sk_family K sk = le_word (sk_field K sk 2 ''skc_family'')"

definition sk_addr :: "bpf_env \<Rightarrow> u64 \<Rightarrow> string \<Rightarrow> string \<Rightarrow> byte list" where
  "sk_addr K sk v4 v6 =
     (if sk_family K sk = AF_INET then overwrite (sk_field K sk 4 v4) (replicate 16 0) else sk_field K sk 16 v6)"

definition net_record :: "bpf_env \<Rightarrow> u32 \<Rightarrow> u8 \<Rightarrow> u64 \<Rightarrow> net_event" where
  "net_record K kind proto sk =
     \<lparr>ne_ts_ns = bpf_ktime_get_ns K, ne_kind = kind,
      ne_pid = lo32 (bpf_get_current_pid_tgid K), ne_tgid = hi32 (bpf_get_current_pid_tgid K),
      ne_uid = lo32 (bpf_get_current_uid_gid K), ne_gid = hi32 (bpf_get_current_uid_gid K),
      ne_family = sk_family K sk, ne_proto = proto, ne_pad0 = 0,
      ne_sport = le_word (sk_field K sk 2 ''skc_num''),
      ne_dport = bswap16_net (le_word (sk_field K sk 2 ''skc_dport'')),
      ne_saddr = sk_addr K sk ''skc_rcv_saddr'' ''skc_v6_rcv_saddr'',
      ne_daddr = sk_addr K sk ''skc_daddr'' ''skc_v6_daddr'',
      ne_comm = snd (bpf_get_current_comm K COMM_LEN)\<rparr>"

definition inet_family :: "u16 \<Rightarrow> bool" where
  "inet_family f \<longleftrightarrow> f = AF_INET \<or> f = AF_INET6"

lemma populate_from_sk_code: "fst (populate_from_sk K e sk) = (if inet_family (sk_family K sk) then 0 else -1)"
  by (simp add: populate_from_sk_def inet_family_def sk_family_def sk_field_def BPF_CORE_READ_INTO2_def Let_def)

lemma populate_from_sk_record:
  assumes "inet_family (sk_family K sk)"
  shows "snd (populate_from_sk K ((fill_common_net K e)\<lparr>ne_kind := kind, ne_proto := proto\<rparr>) sk)
    = net_record K kind proto sk"
  using assms by (cases e)
    (auto simp: populate_from_sk_def fill_common_net_def net_record_def inet_family_def sk_addr_def
       sk_family_def sk_field_def BPF_CORE_READ_INTO2_def Let_def)

lemma populate_from_sk:
  "inet_family (sk_family K sk) \<Longrightarrow>
     populate_from_sk K ((fill_common_net K e)\<lparr>ne_kind := kind, ne_proto := proto\<rparr>) sk
       = (0, net_record K kind proto sk)"
  using populate_from_sk_code [of K _ sk] populate_from_sk_record [of K sk]
  by (metis prod.collapse)

lemmas net_run_defs = emits_def skips_def discards_def reserve_net_def populate_from_sk Let_def
  handle_tcp_connect_def handle_inet_csk_accept_def handle_udp_sendmsg_def

lemma net_probes_emit:
  assumes "inet_family (sk_family K sk)" "sk \<noteq> 0"
  shows "regs_di ctx = sk \<Longrightarrow> emits R (sizeof (CStruct struct_net_event))
      (\<lambda>_. net_record K SL_NET_TCP_CONNECT IPPROTO_TCP sk) (handle_tcp_connect R K ctx)"
    and "regs_ax ctx = sk \<Longrightarrow> emits R (sizeof (CStruct struct_net_event))
      (\<lambda>_. net_record K SL_NET_TCP_ACCEPT IPPROTO_TCP sk) (handle_inet_csk_accept R K ctx)"
    and "regs_di ctx = sk \<Longrightarrow> emits R (sizeof (CStruct struct_net_event))
      (\<lambda>_. net_record K SL_NET_UDP_SEND IPPROTO_UDP sk) (handle_udp_sendmsg R K ctx)"
  using assms by (auto simp: net_run_defs prog_defs split: prod.splits option.splits)

lemma net_probes_skip:
  "regs_di ctx = 0 \<Longrightarrow> skips (handle_tcp_connect R K ctx)"
  "regs_ax ctx = 0 \<Longrightarrow> skips (handle_inet_csk_accept R K ctx)"
  "regs_di ctx = 0 \<Longrightarrow> skips (handle_udp_sendmsg R K ctx)"
  by (simp_all add: net_run_defs prog_defs)

lemma net_probe_discards:
  fixes R :: "('r, net_event) bpf_ringbuf"
  assumes "\<not> inet_family (sk_family K sk)"
  shows "discards R n (do {
       e \<leftarrow> bpf_ringbuf_reserve R (of_nat n) 0;
       case e of
         None \<Rightarrow> State_Monad.return 0
       | Some e \<Rightarrow> case populate_from_sk K (f e) sk of
           (rc, e) \<Rightarrow> if rc \<noteq> 0 then do { bpf_ringbuf_discard R e 0; State_Monad.return 0 }
             else do { bpf_ringbuf_submit R e 0; State_Monad.return 0 } })"
proof -
  have p: "populate_from_sk K (f e) sk = (-1, snd (populate_from_sk K (f e) sk))" for e
    using populate_from_sk_code [of K "f e" sk] assms by (metis prod.collapse)
  show ?thesis unfolding discards_def
    by (rule allI, rule exI [of _ "\<lambda>e. snd (populate_from_sk K (f e) sk)"], subst p)
      (auto split: prod.splits option.splits)
qed

lemma net_probes_discard:
  assumes "\<not> inet_family (sk_family K sk)" "sk \<noteq> 0"
  shows "regs_di ctx = sk \<Longrightarrow> discards R (sizeof (CStruct struct_net_event)) (handle_tcp_connect R K ctx)"
    and "regs_ax ctx = sk \<Longrightarrow> discards R (sizeof (CStruct struct_net_event)) (handle_inet_csk_accept R K ctx)"
    and "regs_di ctx = sk \<Longrightarrow> discards R (sizeof (CStruct struct_net_event)) (handle_udp_sendmsg R K ctx)"
  using assms(2) net_probe_discards [OF assms(1), of R "sizeof (CStruct struct_net_event)"]
  by (simp_all add: handle_tcp_connect_def handle_inet_csk_accept_def handle_udp_sendmsg_def
      reserve_net_def prog_defs Let_def del: sizeof.simps)

section \<open>Byte order\<close>

lemma bswap16_net_pair: "bswap16_net (le_word [a, b]) = le_word [b, a]"
  unfolding bswap16_net_def le_word_pair
  by (rule bit_word_eqI)
    (auto simp: bit_ucast_iff bit_or_iff bit_push_bit_iff bit_drop_bit_eq dest: bit_imp_le_length)

section \<open>Properties\<close>

lemma net_size: "sizeof (CStruct struct_net_event) = 88"
  by code_simp

text \<open>The bytes of a member of the socket's common part.\<close>

definition sk_holds :: "bpf_env \<Rightarrow> memory \<Rightarrow> u64 \<Rightarrow> string \<Rightarrow> byte list \<Rightarrow> bool" where
  "sk_holds K kmem sk f bs \<longleftrightarrow>
     mem_bytes kmem (sk + field_off K ''sock'' [''__sk_common'', f]) (length bs) = Some bs"

lemma sk_field_holds:
  assumes "bpf_reads K umem kmem" "sk_holds K kmem sk f bs" "length bs = unat n"
  shows "sk_field K sk n f = bs"
  using assms bpf_reads.kernel_value [OF assms(1), of _ n] by (simp add: sk_holds_def sk_field_def)

text \<open>A socket of the family, with its ports (the remote one in network order) and its addresses.\<close>

definition sk_endpoints ::
    "bpf_env \<Rightarrow> memory \<Rightarrow> u64 \<Rightarrow> u16 \<Rightarrow> u16 \<Rightarrow> byte \<Rightarrow> byte \<Rightarrow> byte list \<Rightarrow> byte list \<Rightarrow> bool" where
  "sk_endpoints K kmem sk family lport hi lo laddr raddr \<longleftrightarrow>
     sk_holds K kmem sk ''skc_family'' (le_bytes 2 family) \<and>
     sk_holds K kmem sk ''skc_num'' (le_bytes 2 lport) \<and>
     sk_holds K kmem sk ''skc_dport'' [hi, lo] \<and>
     (if family = AF_INET
      then length laddr = 4 \<and> length raddr = 4 \<and>
        sk_holds K kmem sk ''skc_rcv_saddr'' laddr \<and> sk_holds K kmem sk ''skc_daddr'' raddr
      else length laddr = 16 \<and> length raddr = 16 \<and>
        sk_holds K kmem sk ''skc_v6_rcv_saddr'' laddr \<and> sk_holds K kmem sk ''skc_v6_daddr'' raddr)"

lemma net_record_endpoints:
  assumes "bpf_reads K umem kmem" "sk_endpoints K kmem sk family lport hi lo laddr raddr"
  shows "ne_family (net_record K k p sk) = family" "ne_sport (net_record K k p sk) = lport"
    "unat (ne_dport (net_record K k p sk)) = 256 * unat hi + unat lo"
    "ne_saddr (net_record K k p sk) = laddr @ replicate (16 - length laddr) 0"
    "ne_daddr (net_record K k p sk) = raddr @ replicate (16 - length raddr) 0"
proof -
  note fld = sk_field_holds [OF assms(1)]
  have f: "sk_field K sk 2 ''skc_family'' = le_bytes 2 family" "sk_field K sk 2 ''skc_num'' = le_bytes 2 lport"
    "sk_field K sk 2 ''skc_dport'' = [hi, lo]"
    using assms(2) by (auto simp: sk_endpoints_def intro!: fld)
  then have fam: "sk_family K sk = family" by (simp add: sk_family_def)
  then show "ne_family (net_record K k p sk) = family" by (simp add: net_record_def)
  show "ne_sport (net_record K k p sk) = lport" using f by (simp add: net_record_def)
  have "ne_dport (net_record K k p sk) = le_word [lo, hi]" using f
    by (simp add: net_record_def bswap16_net_pair del: le_word.simps)
  then show "unat (ne_dport (net_record K k p sk)) = 256 * unat hi + unat lo"
    by (simp add: unat_le_word_pair del: le_word.simps)
  have a4: "overwrite xs (replicate 16 0) = xs @ replicate (16 - length xs) 0" for xs :: "byte list"
    by (simp add: overwrite_def)
  show "ne_saddr (net_record K k p sk) = laddr @ replicate (16 - length laddr) 0"
    "ne_daddr (net_record K k p sk) = raddr @ replicate (16 - length raddr) 0"
    using assms(2) fam
    by (auto simp: sk_endpoints_def net_record_def sk_addr_def a4 fld split: if_splits)
qed

text \<open>C15. A connect, an accept and a UDP send on a socket of an internet family are each reported by
  one record, while the ring has room, with the family, the local port, the remote port in
  host order whatever its bytes, and both addresses padded to 16 bytes.\<close>

theorem socket_probes_report_endpoints:
  assumes "ringbuf_laws R contents busy" "grants R 88 r" "bpf_reads K umem kmem"
    and "sk_endpoints K kmem sk family lport hi lo laddr raddr" "inet_family family" "sk \<noteq> 0"
    and "regs_di c = sk" "regs_ax c' = sk"
  shows "\<exists>e f g.
    contents (snd (run_state (handle_tcp_connect R K c) r)) = contents r @ [e] \<and>
    contents (snd (run_state (handle_inet_csk_accept R K c') r)) = contents r @ [f] \<and>
    contents (snd (run_state (handle_udp_sendmsg R K c) r)) = contents r @ [g] \<and>
    map ne_kind [e, f, g] = [SL_NET_TCP_CONNECT, SL_NET_TCP_ACCEPT, SL_NET_UDP_SEND] \<and>
    map ne_proto [e, f, g] = [6, 6, 17] \<and>
    list_all (\<lambda>x. ne_family x = family \<and> ne_sport x = lport \<and> unat (ne_dport x) = 256 * unat hi + unat lo \<and>
      ne_saddr x = laddr @ replicate (16 - length laddr) 0 \<and>
      ne_daddr x = raddr @ replicate (16 - length raddr) 0 \<and>
      ne_tgid x = hi32 (bpf_get_current_pid_tgid K)) [e, f, g]"
proof -
  note rec = net_record_endpoints [OF assms(3,4)]
  have "inet_family (sk_family K sk)" using assms(5) rec(1) by (simp add: net_record_def)
  note emit = net_probes_emit [OF this assms(6), unfolded net_size]
  note out = ringbuf_laws.emits_grants_const [OF assms(1) _ assms(2)]
  have "IPPROTO_TCP = 6" "IPPROTO_UDP = 17" by code_simp+
  then show ?thesis
    using out [OF emit(1) [OF assms(7)]] out [OF emit(2) [OF assms(8)]] out [OF emit(3) [OF assms(7)]] rec
    by (auto simp: net_record_def)
qed

definition sock_sample_kmem :: memory where
  "sock_sample_kmem = mem_at 0x3000 [10, 0, 0, 2, 10, 0, 0, 1, 0, 0, 0, 0, 0x1F, 0x90, 0x39, 0x30, 2, 0]"

lemma sock_sample:
  "sk_endpoints (sample_env (mem_at 0 []) sock_sample_kmem) sock_sample_kmem 0x3000 AF_INET 12345 0x1F 0x90
     [10, 0, 0, 1] [10, 0, 0, 2]"
proof -
  have off: "vmlinux_off ''sock'' [''__sk_common'', ''skc_family''] = 16"
    "vmlinux_off ''sock'' [''__sk_common'', ''skc_dport''] = 12"
    "vmlinux_off ''sock'' [''__sk_common'', ''skc_num''] = 14"
    "vmlinux_off ''sock'' [''__sk_common'', ''skc_daddr''] = 0"
    "vmlinux_off ''sock'' [''__sk_common'', ''skc_rcv_saddr''] = 4"
    by (simp_all add: vmlinux_off_eval sock_offsets del: offsetof.simps)
  let ?all = "[10, 0, 0, 2, 10, 0, 0, 1, 0, 0, 0, 0, 0x1F, 0x90, 0x39, 0x30, 2, 0] :: byte list"
  have h: "sk_holds (sample_env (mem_at 0 []) sock_sample_kmem) sock_sample_kmem 0x3000 f bs"
    if "vmlinux_off ''sock'' [''__sk_common'', f] = of_nat k" "k + length bs \<le> 18" "take (length bs) (drop k ?all) = bs"
    for f bs k
  proof -
    have "mem_bytes (mem_at 0x3000 ?all) (0x3000 + of_nat k) (length bs) = Some (take (length bs) (drop k ?all))"
      by (rule mem_bytes_off) (use that(2) in simp_all)
    then show ?thesis unfolding sk_holds_def sock_sample_kmem_def sample_env_simps that(1) that(3) .
  qed
  have le: "le_bytes 2 AF_INET = [2, 0]" "le_bytes 2 (12345 :: u16) = [0x39, 0x30]"
    by code_simp+
  let ?holds = "sk_holds (sample_env (mem_at 0 []) sock_sample_kmem) sock_sample_kmem 0x3000"
  have "?holds ''skc_family'' [2, 0]" by (rule h [of _ 16]) (simp_all add: off)
  moreover have "?holds ''skc_num'' [0x39, 0x30]" by (rule h [of _ 14]) (simp_all add: off)
  moreover have "?holds ''skc_dport'' [0x1F, 0x90]" by (rule h [of _ 12]) (simp_all add: off)
  moreover have "?holds ''skc_rcv_saddr'' [10, 0, 0, 1]" by (rule h [of _ 4]) (simp_all add: off)
  moreover have "?holds ''skc_daddr'' [10, 0, 0, 2]" by (rule h [of _ 0]) (simp_all add: off)
  ultimately show ?thesis unfolding sk_endpoints_def le by simp
qed

theorem socket_probes_report_endpoints_witness:
  "\<exists>e. ring_out (snd (run_state (handle_tcp_connect ring_buffer (sample_env (mem_at 0 []) sock_sample_kmem)
      (undefined\<lparr>regs_di := 0x3000, regs_ax := 0x3000\<rparr>)) (empty_ring undefined 1024))) = [e] \<and>
    unat (ne_dport e) = 8080 \<and> ne_sport e = 12345 \<and> ne_daddr e = [10, 0, 0, 2] @ replicate 12 0"
proof -
  have "grants ring_buffer 88 (empty_ring undefined 1024)"
    by (rule empty_ring_grants) (simp_all add: round_up_def)
  from socket_probes_report_endpoints [OF ring_buffer.ringbuf_laws_axioms this sample_env_reads sock_sample,
      where c = "undefined\<lparr>regs_di := 0x3000, regs_ax := 0x3000\<rparr>" and c' = "undefined\<lparr>regs_di := 0x3000, regs_ax := 0x3000\<rparr>"]
  show ?thesis by (auto simp: inet_family_def)
qed

text \<open>A probe called with no socket, or on a socket of any other family, reports nothing: it returns
  0, leaves no reservation behind and what was submitted before as it was.\<close>

theorem other_sockets_not_reported:
  assumes "ringbuf_laws R contents busy" "sk = 0 \<or> \<not> inet_family (sk_family K sk)"
    and "regs_di c = sk" "regs_ax c' = sk"
  shows "list_all (\<lambda>h. fst (run_state h r) = 0 \<and> busy (snd (run_state h r)) = busy r \<and>
      contents (snd (run_state h r)) = contents r)
    [handle_tcp_connect R K c, handle_inet_csk_accept R K c', handle_udp_sendmsg R K c]"
proof (cases "sk = 0")
  case True
  then show ?thesis using assms(3,4) net_probes_skip [where R = R and K = K]
    by (simp add: skips_outcome)
next
  case False
  then have "\<not> inet_family (sk_family K sk)" using assms(2) by simp
  note dis = net_probes_discard [OF this False, where R = R]
  show ?thesis
    using ringbuf_laws.discards_outcome [OF assms(1) dis(1) [OF assms(3)], of r]
      ringbuf_laws.discards_outcome [OF assms(1) dis(2) [OF assms(4)], of r]
      ringbuf_laws.discards_outcome [OF assms(1) dis(3) [OF assms(3)], of r]
    by simp
qed

theorem other_sockets_not_reported_witness:
  "ring_out (snd (run_state (handle_tcp_connect ring_buffer (sample_env (mem_at 0 []) (mem_at 0 []))
      (undefined\<lparr>regs_di := 0, regs_ax := 0\<rparr>)) (empty_ring undefined 1024))) = []"
  using other_sockets_not_reported [OF ring_buffer.ringbuf_laws_axioms, where sk = 0 and
      c = "undefined\<lparr>regs_di := 0, regs_ax := 0\<rparr>" and c' = "undefined\<lparr>regs_di := 0, regs_ax := 0\<rparr>"
      and r = "empty_ring undefined 1024" and K = "sample_env (mem_at 0 []) (mem_at 0 [])"]
  by simp

section \<open>Socket objects\<close>

definition socket_objects :: "(ctype \<times> string list) list" where
  "socket_objects =
    [(struct_tcp_sock, [''inet_conn'', ''icsk_inet'', ''sk'']),
     (struct_tcp6_sock, [''tcp'', ''inet_conn'', ''icsk_inet'', ''sk'']),
     (struct_udp_sock, [''inet'', ''sk'']),
     (struct_udp6_sock, [''udp'', ''inet'', ''sk''])]"

text \<open>The first member of a structure is at its start, so that a path through it continues inside.\<close>

lemma round_up_0: "round_up 0 a = 0"
  by (cases a) (simp_all add: round_up_def)

lemma first_member:
  "offsetof (CStruct (Fld nm t # fs)) (nm # p) = offsetof t p"
  "type_at (CStruct (Fld nm t # fs)) (nm # p) = type_at t p"
  by (simp_all add: Let_def round_up_0) (cases "offsetof t p"; simp)

lemma socket_paths:
  "offsetof struct_inet_sock (''sk'' # p) = offsetof struct_sock p"
  "offsetof struct_inet_connection_sock (''icsk_inet'' # p) = offsetof struct_inet_sock p"
  "offsetof struct_tcp_sock (''inet_conn'' # p) = offsetof struct_inet_connection_sock p"
  "offsetof struct_tcp6_sock (''tcp'' # p) = offsetof struct_tcp_sock p"
  "offsetof struct_udp_sock (''inet'' # p) = offsetof struct_inet_sock p"
  "offsetof struct_udp6_sock (''udp'' # p) = offsetof struct_udp_sock p"
  "type_at struct_inet_sock (''sk'' # p) = type_at struct_sock p"
  "type_at struct_inet_connection_sock (''icsk_inet'' # p) = type_at struct_inet_sock p"
  "type_at struct_tcp_sock (''inet_conn'' # p) = type_at struct_inet_connection_sock p"
  "type_at struct_tcp6_sock (''tcp'' # p) = type_at struct_tcp_sock p"
  "type_at struct_udp_sock (''inet'' # p) = type_at struct_inet_sock p"
  "type_at struct_udp6_sock (''udp'' # p) = type_at struct_udp_sock p"
  by (simp_all only: struct_inet_sock_def struct_inet_connection_sock_def struct_tcp_sock_def tcp_sock_members_1_def
      struct_tcp6_sock_def struct_udp_sock_def struct_udp6_sock_def append_Cons first_member)

lemma sock_member_sizes:
  "map_option sizeof (type_at struct_sock [''__sk_common'', ''skc_family'']) = Some 2"
  "map_option sizeof (type_at struct_sock [''__sk_common'', ''skc_dport'']) = Some 2"
  "map_option sizeof (type_at struct_sock [''__sk_common'', ''skc_num'']) = Some 2"
  "map_option sizeof (type_at struct_sock [''__sk_common'', ''skc_daddr'']) = Some 4"
  "map_option sizeof (type_at struct_sock [''__sk_common'', ''skc_rcv_saddr'']) = Some 4"
  "map_option sizeof (type_at struct_sock [''__sk_common'', ''skc_v6_daddr'']) = Some 16"
  "map_option sizeof (type_at struct_sock [''__sk_common'', ''skc_v6_rcv_saddr'']) = Some 16"
  "sizeof struct_sock = 784"
  by code_simp+


end
