(* ===== verification/Auth_Bpf.thy ===== *)
theory Auth_Bpf
  imports Kernel_Instance
begin

text \<open>
  \<^verbatim>\<open>agent/internal/bpf/src/auth.bpf.c\<close>: the uprobes on libpam. The entry probes keep, per
  process, the items of the PAM transaction in progress in the hash map \<open>pam_ctx\<close>; the return
  probes submit a record with the result and those items. The state of the model is the map
  and the ring buffer.

  The contract of the component is the machine \<open>pam_spec\<close> on C strings: one session per
  process, changed by the calls of that process only. \<open>pam_machine\<close> proves that the probes
  implement it, for every hash map and ring buffer that keep their laws.
\<close>

section \<open>The records and the maps\<close>

abbreviation SERVICE_LEN :: "'a::numeral" where "SERVICE_LEN \<equiv> 32"
abbreviation USER_LEN :: "'a::numeral" where "USER_LEN \<equiv> 64"
abbreviation RHOST_LEN :: "'a::numeral" where "RHOST_LEN \<equiv> 64"
abbreviation TTY_LEN :: "'a::numeral" where "TTY_LEN \<equiv> 32"

definition PAM_USER :: u32 where "PAM_USER = 2"
definition PAM_TTY :: u32 where "PAM_TTY = 3"
definition PAM_RHOST :: u32 where "PAM_RHOST = 4"

definition SL_AUTH_ATTEMPT :: u32 where "SL_AUTH_ATTEMPT = 1"
definition SL_AUTH_SESSION_OPEN :: u32 where "SL_AUTH_SESSION_OPEN = 2"
definition SL_AUTH_SESSION_CLOSE :: u32 where "SL_AUTH_SESSION_CLOSE = 3"

record auth_ctx =
  ac_service :: "byte list"
  ac_user :: "byte list"
  ac_rhost :: "byte list"
  ac_tty :: "byte list"

record auth_event =
  ae_ts_ns :: u64
  ae_kind :: u32
  ae_pid :: u32
  ae_tgid :: u32
  ae_uid :: u32
  ae_gid :: u32
  ae_result :: u32
  ae_pad0 :: u32
  ae_service :: "byte list"
  ae_user :: "byte list"
  ae_rhost :: "byte list"
  ae_tty :: "byte list"
  ae_comm :: "byte list"

definition struct_auth_ctx :: "cfield list" where
  "struct_auth_ctx =
    [Fld ''service'' (CArr c_char SERVICE_LEN), Fld ''user'' (CArr c_char USER_LEN),
     Fld ''rhost'' (CArr c_char RHOST_LEN), Fld ''tty'' (CArr c_char TTY_LEN)]"

definition struct_auth_event :: "cfield list" where
  "struct_auth_event =
    [Fld ''ts_ns'' t___u64, Fld ''kind'' t___u32, Fld ''pid'' t___u32, Fld ''tgid'' t___u32,
     Fld ''uid'' t___u32, Fld ''gid'' t___u32, Fld ''result'' t___s32, Fld ''_pad0'' t___u32,
     Fld ''service'' (CArr c_char SERVICE_LEN), Fld ''user'' (CArr c_char USER_LEN),
     Fld ''rhost'' (CArr c_char RHOST_LEN), Fld ''tty'' (CArr c_char TTY_LEN),
     Fld ''comm'' (CArr c_char COMM_LEN)]"

definition pam_ctx :: bpf_map_def where
  "pam_ctx = \<lparr>map_type = the (map_of map_type_ids ''BPF_MAP_TYPE_HASH''),
     map_key_size = sizeof t___u32, map_value_size = sizeof (CStruct struct_auth_ctx),
     map_max_entries = 4096\<rparr>"

definition events_auth :: bpf_map_def where
  "events_auth = ringbuf_map (1 * 1024 * 1024)"

section \<open>The programs\<close>

text \<open>An operation of one of the two maps, as a step of the pair.\<close>

definition on_map :: "('m, 'a) state \<Rightarrow> ('m \<times> 'r, 'a) state" where
  "on_map p = State (\<lambda>(m, r). case run_state p m of (a, m') \<Rightarrow> (a, (m', r)))"

definition on_ring :: "('r, 'a) state \<Rightarrow> ('m \<times> 'r, 'a) state" where
  "on_ring p = State (\<lambda>(m, r). case run_state p r of (a, r') \<Rightarrow> (a, (m, r')))"

definition zero_ctx :: auth_ctx where
  "zero_ctx = \<lparr>ac_service = replicate SERVICE_LEN 0, ac_user = replicate USER_LEN 0,
     ac_rhost = replicate RHOST_LEN 0, ac_tty = replicate TTY_LEN 0\<rparr>"

definition current_tgid :: "bpf_env \<Rightarrow> u32" where
  "current_tgid K = hi32 (bpf_get_current_pid_tgid K)"

definition ctx_for :: "('m, u32, auth_ctx) bpf_hash \<Rightarrow> u32 \<Rightarrow> ('m, auth_ctx option) state" where
  "ctx_for H tgid = do {
     c \<leftarrow> bpf_map_lookup_elem H tgid;
     case c of
       Some c \<Rightarrow> State_Monad.return (Some c)
     | None \<Rightarrow> do {
         bpf_map_update_elem H tgid zero_ctx BPF_ANY;
         bpf_map_lookup_elem H tgid
       }
   }"

definition read_str :: "bpf_env \<Rightarrow> byte list \<Rightarrow> u32 \<Rightarrow> u64 \<Rightarrow> byte list" where
  "read_str K dst len src =
     (if src = 0 then dst[0 := 0]
      else case bpf_probe_read_user_str K len src of
        (rc, bs) \<Rightarrow> if rc < 0 then (overwrite bs dst)[0 := 0] else overwrite bs dst)"

definition handle_start ::
    "('m, u32, auth_ctx) bpf_hash \<Rightarrow> bpf_env \<Rightarrow> pt_regs \<Rightarrow> ('m \<times> 'r, int) state" where
  "handle_start H K ctx = do {
     let service = PT_REGS_PARM1 ctx;
     let user = PT_REGS_PARM2 ctx;
     let tgid = current_tgid K;
     let fresh = zero_ctx;
     let fresh = fresh\<lparr>ac_service := read_str K (ac_service fresh) SERVICE_LEN service\<rparr>;
     let fresh = fresh\<lparr>ac_user := read_str K (ac_user fresh) USER_LEN user\<rparr>;
     on_map (bpf_map_update_elem H tgid fresh BPF_ANY);
     State_Monad.return 0
   }"

definition handle_pam_start ::
    "('m, u32, auth_ctx) bpf_hash \<Rightarrow> bpf_env \<Rightarrow> pt_regs \<Rightarrow> ('m \<times> 'r, int) state" where
  "handle_pam_start H K ctx = handle_start H K ctx"

definition handle_pam_start_confdir ::
    "('m, u32, auth_ctx) bpf_hash \<Rightarrow> bpf_env \<Rightarrow> pt_regs \<Rightarrow> ('m \<times> 'r, int) state" where
  "handle_pam_start_confdir H K ctx = handle_start H K ctx"

definition handle_pam_set_item ::
    "('m, u32, auth_ctx) bpf_hash \<Rightarrow> bpf_env \<Rightarrow> pt_regs \<Rightarrow> ('m \<times> 'r, int) state" where
  "handle_pam_set_item H K ctx = (
     let item_type = ucast (PT_REGS_PARM2 ctx) :: u32;
         item = PT_REGS_PARM3 ctx
     in if item_type \<noteq> PAM_USER \<and> item_type \<noteq> PAM_TTY \<and> item_type \<noteq> PAM_RHOST then State_Monad.return 0
     else do {
       c \<leftarrow> on_map (ctx_for H (current_tgid K));
       case c of
         None \<Rightarrow> State_Monad.return 0
       | Some c \<Rightarrow> do {
           on_map (value_store H (current_tgid K)
             (if item_type = PAM_USER then c\<lparr>ac_user := read_str K (ac_user c) USER_LEN item\<rparr>
              else if item_type = PAM_TTY then c\<lparr>ac_tty := read_str K (ac_tty c) TTY_LEN item\<rparr>
              else c\<lparr>ac_rhost := read_str K (ac_rhost c) RHOST_LEN item\<rparr>));
           State_Monad.return 0
         }
     })"

definition emit_auth ::
    "('m, u32, auth_ctx) bpf_hash \<Rightarrow> ('r, auth_event) bpf_ringbuf \<Rightarrow> bpf_env \<Rightarrow> pt_regs \<Rightarrow> u32 \<Rightarrow>
     ('m \<times> 'r, int) state" where
  "emit_auth H R K ctx kind = do {
     e \<leftarrow> on_ring (bpf_ringbuf_reserve R (of_nat (sizeof (CStruct struct_auth_event))) 0);
     case e of
       None \<Rightarrow> State_Monad.return 0
     | Some e \<Rightarrow> do {
         let pid_tgid = bpf_get_current_pid_tgid K;
         let uid_gid = bpf_get_current_uid_gid K;
         let e = e\<lparr>ae_ts_ns := bpf_ktime_get_ns K,
           ae_kind := kind,
           ae_pid := lo32 pid_tgid,
           ae_tgid := hi32 pid_tgid,
           ae_uid := lo32 uid_gid,
           ae_gid := hi32 uid_gid,
           ae_result := ucast (PT_REGS_RC ctx),
           ae_pad0 := 0,
           ae_comm := snd (bpf_get_current_comm K COMM_LEN)\<rparr>;
         c \<leftarrow> on_map (bpf_map_lookup_elem H (ae_tgid e));
         let e = (case c of
             Some c \<Rightarrow> e\<lparr>ae_service := ac_service c, ae_user := ac_user c, ae_rhost := ac_rhost c, ae_tty := ac_tty c\<rparr>
           | None \<Rightarrow> e\<lparr>ae_service := replicate SERVICE_LEN 0, ae_user := replicate USER_LEN 0,
               ae_rhost := replicate RHOST_LEN 0, ae_tty := replicate TTY_LEN 0\<rparr>);
         on_ring (bpf_ringbuf_submit R e 0);
         State_Monad.return 0
       }
   }"

definition handle_pam_authenticate_ret ::
    "('m, u32, auth_ctx) bpf_hash \<Rightarrow> ('r, auth_event) bpf_ringbuf \<Rightarrow> bpf_env \<Rightarrow> pt_regs \<Rightarrow> ('m \<times> 'r, int) state" where
  "handle_pam_authenticate_ret H R K ctx = emit_auth H R K ctx SL_AUTH_ATTEMPT"

definition handle_pam_open_session_ret ::
    "('m, u32, auth_ctx) bpf_hash \<Rightarrow> ('r, auth_event) bpf_ringbuf \<Rightarrow> bpf_env \<Rightarrow> pt_regs \<Rightarrow> ('m \<times> 'r, int) state" where
  "handle_pam_open_session_ret H R K ctx = emit_auth H R K ctx SL_AUTH_SESSION_OPEN"

definition handle_pam_close_session_ret ::
    "('m, u32, auth_ctx) bpf_hash \<Rightarrow> ('r, auth_event) bpf_ringbuf \<Rightarrow> bpf_env \<Rightarrow> pt_regs \<Rightarrow> ('m \<times> 'r, int) state" where
  "handle_pam_close_session_ret H R K ctx = emit_auth H R K ctx SL_AUTH_SESSION_CLOSE"

definition handle_pam_end ::
    "('m, u32, auth_ctx) bpf_hash \<Rightarrow> bpf_env \<Rightarrow> pt_regs \<Rightarrow> ('m \<times> 'r, int) state" where
  "handle_pam_end H K ctx = do {
     let tgid = current_tgid K;
     on_map (bpf_map_delete_elem H tgid);
     State_Monad.return 0
   }"

text \<open>The probe points the loader attaches the programs to.\<close>

datatype pam_probe =
  Pam_start | Pam_start_confdir | Pam_set_item | Pam_authenticate | Pam_open_session | Pam_close_session | Pam_end

fun run_pam ::
    "('m, u32, auth_ctx) bpf_hash \<Rightarrow> ('r, auth_event) bpf_ringbuf \<Rightarrow> pam_probe \<Rightarrow> bpf_env \<Rightarrow> pt_regs \<Rightarrow>
     ('m \<times> 'r, int) state" where
  "run_pam H R Pam_start K ctx = handle_pam_start H K ctx"
| "run_pam H R Pam_start_confdir K ctx = handle_pam_start_confdir H K ctx"
| "run_pam H R Pam_set_item K ctx = handle_pam_set_item H K ctx"
| "run_pam H R Pam_authenticate K ctx = handle_pam_authenticate_ret H R K ctx"
| "run_pam H R Pam_open_session K ctx = handle_pam_open_session_ret H R K ctx"
| "run_pam H R Pam_close_session K ctx = handle_pam_close_session_ret H R K ctx"
| "run_pam H R Pam_end K ctx = handle_pam_end H K ctx"

section \<open>Strings\<close>

text \<open>
  The string \<open>read_str\<close> captures: nothing for a null pointer or a failed read. What was in
  the destination before does not matter, though its bytes beyond the NUL stay.
\<close>

definition user_str :: "bpf_env \<Rightarrow> u32 \<Rightarrow> u64 \<Rightarrow> byte list" where
  "user_str K n a =
     (if a = 0 \<or> fst (bpf_probe_read_user_str K n a) < 0 then [] else c_string (snd (bpf_probe_read_user_str K n a)))"

lemma c_string_set0 [simp]: "c_string (bs[0 := 0]) = []"
  by (cases bs) (simp_all add: c_string_def)

lemma str_read_cases:
  assumes "bpf_reads K umem kmem" "0 < n"
  shows "fst (bpf_probe_read_user_str K n a) < 0 \<and> snd (bpf_probe_read_user_str K n a) = replicate (unat n) 0 \<or>
    (\<exists>s. 0 \<notin> set s \<and> length s < unat n \<and> bpf_probe_read_user_str K n a = (int (length s) + 1, s @ [0]))"
  using bpf_reads.read_user_str [OF assms(1)] assms(2) unfolding str_law_def by meson

lemma read_str_string:
  assumes "bpf_reads K umem kmem" "0 < n"
  shows "c_string (read_str K dst n a) = user_str K n a"
  using str_read_cases [OF assms, of a] by (auto simp: read_str_def user_str_def split: prod.splits)

lemma read_str_length:
  assumes "bpf_reads K umem kmem" "0 < n" "length dst = unat n"
  shows "length (read_str K dst n a) = unat n"
  using str_read_cases [OF assms(1,2), of a] assms(3) by (auto simp: read_str_def split: prod.splits)

lemma user_str_at:
  assumes "bpf_reads K umem kmem" "1 < n" "a \<noteq> 0" "str_at umem a s"
  shows "user_str K n a = take (unat n - 1) s"
proof -
  have "0 < n" using assms(2) by (simp add: word_less_nat_alt)
  moreover have "0 \<notin> set (take (unat n - 1) s)"
    using assms(4) by (auto simp: str_at_def dest: in_set_takeD)
  ultimately show ?thesis using bpf_reads.user_str_value [OF assms(1) _ assms(4)] assms(3)
    by (simp add: user_str_def str_result_def)
qed

lemma user_str_bound:
  assumes "bpf_reads K umem kmem" "0 < n"
  shows "length (user_str K n a) < unat n"
  using str_read_cases [OF assms, of a] assms(2) by (auto simp: user_str_def word_less_nat_alt)

section \<open>The contract\<close>

text \<open>A session holds strings; a report is what a result record says of it.\<close>

record pam_session =
  ps_service :: "byte list"
  ps_user :: "byte list"
  ps_rhost :: "byte list"
  ps_tty :: "byte list"

record auth_report =
  ar_tgid :: u32
  ar_kind :: u32
  ar_result :: u32
  ar_session :: pam_session

definition no_session :: pam_session where
  "no_session = \<lparr>ps_service = [], ps_user = [], ps_rhost = [], ps_tty = []\<rparr>"

datatype pam_call =
  Start "byte list" "byte list" | Set_item u32 "byte list" | Result u32 u32 | End

definition captured :: "u32 \<Rightarrow> bool" where
  "captured ty \<longleftrightarrow> ty \<in> {PAM_USER, PAM_TTY, PAM_RHOST}"

definition set_item :: "u32 \<Rightarrow> byte list \<Rightarrow> pam_session \<Rightarrow> pam_session" where
  "set_item ty v s =
     (if ty = PAM_USER then s\<lparr>ps_user := v\<rparr> else if ty = PAM_TTY then s\<lparr>ps_tty := v\<rparr>
      else if ty = PAM_RHOST then s\<lparr>ps_rhost := v\<rparr> else s)"

text \<open>
  One call of process \<open>t\<close>: the sessions and the reports after it. The map may refuse a session
  (\<open>start_lost\<close>, \<open>item_lost\<close>) and the ring a report (\<open>result_lost\<close>).
\<close>

inductive pam_spec ::
    "u32 \<Rightarrow> pam_call \<Rightarrow> (u32 \<rightharpoonup> pam_session) \<times> auth_report list \<Rightarrow>
     (u32 \<rightharpoonup> pam_session) \<times> auth_report list \<Rightarrow> bool" for t where
  start: "pam_spec t (Start sv us) (S, L) (S(t \<mapsto> no_session\<lparr>ps_service := sv, ps_user := us\<rparr>), L)"
| start_lost: "pam_spec t (Start sv us) (S, L) (S, L)"
| item: "captured ty \<Longrightarrow>
    pam_spec t (Set_item ty v) (S, L) (S(t \<mapsto> set_item ty v (case S t of Some s \<Rightarrow> s | None \<Rightarrow> no_session)), L)"
| item_lost: "S t = None \<Longrightarrow> pam_spec t (Set_item ty v) (S, L) (S, L)"
| item_ignored: "\<not> captured ty \<Longrightarrow> pam_spec t (Set_item ty v) (S, L) (S, L)"
| result: "pam_spec t (Result k rc) (S, L)
    (S, L @ [\<lparr>ar_tgid = t, ar_kind = k, ar_result = rc,
       ar_session = (case S t of Some s \<Rightarrow> s | None \<Rightarrow> no_session)\<rparr>])"
| result_lost: "pam_spec t (Result k rc) (S, L) (S, L)"
| end_: "pam_spec t End (S, L) (S(t := None), L)"

inductive_cases pam_spec_SetE: "pam_spec t (Set_item ty v) X Y"
inductive_cases pam_spec_ResultE: "pam_spec t (Result k rc) X Y"

text \<open>A call changes the session of its own process only, and reports only that one.\<close>

lemma pam_spec_isolated: "pam_spec t c (S, L) (S', L') \<Longrightarrow> u \<noteq> t \<Longrightarrow> S' u = S u"
  by (auto elim: pam_spec.cases)

lemma pam_spec_reports: "pam_spec t c (S, L) (S', L') \<Longrightarrow> L' = L \<or> (\<exists>x. L' = L @ [x] \<and> ar_tgid x = t)"
  by (auto elim: pam_spec.cases)

section \<open>The probes implement the contract\<close>

definition session_of :: "auth_ctx \<Rightarrow> pam_session" where
  "session_of c = \<lparr>ps_service = c_string (ac_service c), ps_user = c_string (ac_user c),
     ps_rhost = c_string (ac_rhost c), ps_tty = c_string (ac_tty c)\<rparr>"

definition report_of :: "auth_event \<Rightarrow> auth_report" where
  "report_of e = \<lparr>ar_tgid = ae_tgid e, ar_kind = ae_kind e, ar_result = ae_result e,
     ar_session = \<lparr>ps_service = c_string (ae_service e), ps_user = c_string (ae_user e),
       ps_rhost = c_string (ae_rhost e), ps_tty = c_string (ae_tty e)\<rparr>\<rparr>"

definition item_len :: "u32 \<Rightarrow> u32" where
  "item_len ty = (if ty = PAM_TTY then TTY_LEN else USER_LEN)"

fun call_of :: "pam_probe \<Rightarrow> bpf_env \<Rightarrow> pt_regs \<Rightarrow> pam_call" where
  "call_of Pam_start K ctx = Start (user_str K SERVICE_LEN (regs_di ctx)) (user_str K USER_LEN (regs_si ctx))"
| "call_of Pam_start_confdir K ctx = Start (user_str K SERVICE_LEN (regs_di ctx)) (user_str K USER_LEN (regs_si ctx))"
| "call_of Pam_set_item K ctx =
     (let ty = ucast (regs_si ctx) in Set_item ty (user_str K (item_len ty) (regs_dx ctx)))"
| "call_of Pam_authenticate K ctx = Result SL_AUTH_ATTEMPT (ucast (regs_ax ctx))"
| "call_of Pam_open_session K ctx = Result SL_AUTH_SESSION_OPEN (ucast (regs_ax ctx))"
| "call_of Pam_close_session K ctx = Result SL_AUTH_SESSION_CLOSE (ucast (regs_ax ctx))"
| "call_of Pam_end K ctx = End"

lemma session_of_zero [simp]: "session_of zero_ctx = no_session"
  by (simp add: session_of_def zero_ctx_def no_session_def)

lemmas pam_items = PAM_USER_def PAM_TTY_def PAM_RHOST_def

text \<open>The value \<open>handle_pam_set_item\<close> stores, and the record \<open>emit\<close> submits.\<close>

definition item_ctx :: "bpf_env \<Rightarrow> u32 \<Rightarrow> u64 \<Rightarrow> auth_ctx \<Rightarrow> auth_ctx" where
  "item_ctx K ty item c =
     (if ty = PAM_USER then c\<lparr>ac_user := read_str K (ac_user c) USER_LEN item\<rparr>
      else if ty = PAM_TTY then c\<lparr>ac_tty := read_str K (ac_tty c) TTY_LEN item\<rparr>
      else c\<lparr>ac_rhost := read_str K (ac_rhost c) RHOST_LEN item\<rparr>)"

definition start_ctx :: "bpf_env \<Rightarrow> pt_regs \<Rightarrow> auth_ctx" where
  "start_ctx K ctx = zero_ctx\<lparr>ac_service := read_str K (replicate SERVICE_LEN 0) SERVICE_LEN (regs_di ctx),
     ac_user := read_str K (replicate USER_LEN 0) USER_LEN (regs_si ctx)\<rparr>"

definition auth_record :: "bpf_env \<Rightarrow> pt_regs \<Rightarrow> u32 \<Rightarrow> auth_ctx option \<Rightarrow> auth_event" where
  "auth_record K ctx kind oc =
     (let c = (case oc of Some c \<Rightarrow> c | None \<Rightarrow> zero_ctx) in
      \<lparr>ae_ts_ns = bpf_ktime_get_ns K, ae_kind = kind,
       ae_pid = lo32 (bpf_get_current_pid_tgid K), ae_tgid = current_tgid K,
       ae_uid = lo32 (bpf_get_current_uid_gid K), ae_gid = hi32 (bpf_get_current_uid_gid K),
       ae_result = ucast (regs_ax ctx), ae_pad0 = 0, ae_service = ac_service c, ae_user = ac_user c,
       ae_rhost = ac_rhost c, ae_tty = ac_tty c, ae_comm = snd (bpf_get_current_comm K COMM_LEN)\<rparr>)"

lemma session_of_start:
  assumes "bpf_reads K umem kmem"
  shows "session_of (start_ctx K ctx) =
    no_session\<lparr>ps_service := user_str K SERVICE_LEN (regs_di ctx), ps_user := user_str K USER_LEN (regs_si ctx)\<rparr>"
  by (simp add: start_ctx_def session_of_def zero_ctx_def no_session_def read_str_string [OF assms])

lemma session_of_item:
  assumes "bpf_reads K umem kmem" "captured ty"
  shows "session_of (item_ctx K ty item c) = set_item ty (user_str K (item_len ty) item) (session_of c)"
  using assms(2) by (auto simp: captured_def item_ctx_def set_item_def item_len_def session_of_def pam_items
      read_str_string [OF assms(1)])

lemma report_of_record:
  "report_of (auth_record K ctx kind oc) =
     \<lparr>ar_tgid = current_tgid K, ar_kind = kind, ar_result = ucast (regs_ax ctx),
      ar_session = (case oc of Some c \<Rightarrow> session_of c | None \<Rightarrow> no_session)\<rparr>"
  by (auto simp: auth_record_def report_of_def session_of_def zero_ctx_def no_session_def split: option.splits)

text \<open>The abstract state of a map and a ring.\<close>

definition sessions :: "(u32 \<rightharpoonup> auth_ctx) \<Rightarrow> u32 \<rightharpoonup> pam_session" where
  "sessions f = (\<lambda>t. map_option session_of (f t))"

definition pam_abs ::
    "('m \<Rightarrow> u32 \<rightharpoonup> auth_ctx) \<Rightarrow> ('r \<Rightarrow> auth_event list) \<Rightarrow> 'm \<times> 'r \<Rightarrow>
     (u32 \<rightharpoonup> pam_session) \<times> auth_report list" where
  "pam_abs entries contents st = (sessions (entries (fst st)), map report_of (contents (snd st)))"

lemma sessions_upd [simp]: "sessions (f(k \<mapsto> v)) = (sessions f)(k \<mapsto> session_of v)"
  and sessions_del [simp]: "sessions (f(k := None)) = (sessions f)(k := None)"
  and sessions_default: "(case sessions f k of Some s \<Rightarrow> s | None \<Rightarrow> no_session) =
    session_of (case f k of Some c \<Rightarrow> c | None \<Rightarrow> zero_ctx)"
  and sessions_None: "sessions f k = None \<longleftrightarrow> f k = None"
  by (auto simp: sessions_def split: option.splits)

text \<open>A sequence of probe hits, each in its own context, and the calls they stand for.\<close>

type_synonym pam_hit = "pam_probe \<times> bpf_env \<times> pt_regs"

fun run_hits ::
    "('m, u32, auth_ctx) bpf_hash \<Rightarrow> ('r, auth_event) bpf_ringbuf \<Rightarrow> pam_hit list \<Rightarrow> 'm \<times> 'r \<Rightarrow> 'm \<times> 'r" where
  "run_hits H R [] st = st"
| "run_hits H R ((p, K, ctx) # hs) st = run_hits H R hs (snd (run_state (run_pam H R p K ctx) st))"

inductive pam_specs ::
    "(u32 \<times> pam_call) list \<Rightarrow> (u32 \<rightharpoonup> pam_session) \<times> auth_report list \<Rightarrow>
     (u32 \<rightharpoonup> pam_session) \<times> auth_report list \<Rightarrow> bool" where
  none: "pam_specs [] X X"
| more: "pam_spec t c X Y \<Longrightarrow> pam_specs cs Y Z \<Longrightarrow> pam_specs ((t, c) # cs) X Z"

definition calls_of :: "pam_hit list \<Rightarrow> (u32 \<times> pam_call) list" where
  "calls_of hs = map (\<lambda>(p, K, ctx). (current_tgid K, call_of p K ctx)) hs"

lemma pam_specs_isolated:
  "pam_specs cs X Z \<Longrightarrow> u \<notin> fst ` set cs \<Longrightarrow>
     fst Z u = fst X u \<and> filter (\<lambda>x. ar_tgid x = u) (snd Z) = filter (\<lambda>x. ar_tgid x = u) (snd X)"
proof (induction rule: pam_specs.induct)
  case (none X)
  show ?case by simp
next
  case (more t c X Y cs Z)
  obtain S L S' L' where XY: "X = (S, L)" "Y = (S', L')" by (cases X; cases Y)
  then have "S' u = S u" "filter (\<lambda>x. ar_tgid x = u) L' = filter (\<lambda>x. ar_tgid x = u) L"
    using more.hyps(1) more.prems pam_spec_isolated [of t c S L S' L' u] pam_spec_reports [of t c S L S' L'] by auto
  then show ?case using more XY by auto
qed

text \<open>The sizes of the arrays, and that they hold terminated strings.\<close>

definition wf_ctx :: "auth_ctx \<Rightarrow> bool" where
  "wf_ctx c \<longleftrightarrow> length (ac_service c) = SERVICE_LEN \<and> length (ac_user c) = USER_LEN \<and>
     length (ac_rhost c) = RHOST_LEN \<and> length (ac_tty c) = TTY_LEN"

definition wf_auth_event :: "auth_event \<Rightarrow> bool" where
  "wf_auth_event e \<longleftrightarrow> length (ae_service e) = SERVICE_LEN \<and> length (ae_user e) = USER_LEN \<and>
     length (ae_rhost e) = RHOST_LEN \<and> length (ae_tty e) = TTY_LEN \<and> length (ae_comm e) = COMM_LEN \<and>
     ae_kind e \<in> {SL_AUTH_ATTEMPT, SL_AUTH_SESSION_OPEN, SL_AUTH_SESSION_CLOSE} \<and> ae_pad0 e = 0"

lemma wf_zero_ctx [simp]: "wf_ctx zero_ctx"
  by (simp add: wf_ctx_def zero_ctx_def)

lemma wf_start_ctx: "bpf_reads K umem kmem \<Longrightarrow> wf_ctx (start_ctx K ctx)"
  by (simp add: wf_ctx_def start_ctx_def zero_ctx_def read_str_length)

lemma wf_item_ctx: "bpf_reads K umem kmem \<Longrightarrow> wf_ctx c \<Longrightarrow> wf_ctx (item_ctx K ty item c)"
  by (simp add: wf_ctx_def item_ctx_def read_str_length)

lemma wf_auth_record:
  assumes "bpf_reads K umem kmem" "\<And>c. oc = Some c \<Longrightarrow> wf_ctx c"
    "kind \<in> {SL_AUTH_ATTEMPT, SL_AUTH_SESSION_OPEN, SL_AUTH_SESSION_CLOSE}"
  shows "wf_auth_event (auth_record K ctx kind oc)"
  using assms by (auto simp: wf_auth_event_def auth_record_def wf_ctx_def zero_ctx_def bpf_reads.comm_length
      split: option.splits)

text \<open>Every context in the map and every record in the ring has its shape.\<close>

definition pam_ok :: "('m \<Rightarrow> u32 \<rightharpoonup> auth_ctx) \<Rightarrow> ('r \<Rightarrow> auth_event list) \<Rightarrow> 'm \<times> 'r \<Rightarrow> bool" where
  "pam_ok entries contents st \<longleftrightarrow>
     (\<forall>t c. entries (fst st) t = Some c \<longrightarrow> wf_ctx c) \<and> (\<forall>e \<in> set (contents (snd st)). wf_auth_event e)"

lemma pam_ok_default: "pam_ok entries contents (m, r) \<Longrightarrow> wf_ctx (case entries m t of Some c \<Rightarrow> c | None \<Rightarrow> zero_ctx)"
  by (auto simp: pam_ok_def split: option.splits)

locale pam_machine = hash_laws H entries + ringbuf_laws R contents busy
  for H :: "('m, u32, auth_ctx) bpf_hash" and entries
    and R :: "('r, auth_event) bpf_ringbuf" and contents and busy
begin

lemma start_run:
  "\<exists>m'. run_state (handle_start H K ctx) (m, r) = (0, (m', r)) \<and>
     (entries m' = (entries m)(current_tgid K \<mapsto> start_ctx K ctx) \<or> entries m' = entries m)"
proof -
  obtain rc m' where up: "run_state (bpf_map_update_elem H (current_tgid K) (start_ctx K ctx) BPF_ANY) m = (rc, m')"
    by fastforce
  then have "run_state (handle_start H K ctx) (m, r) = (0, (m', r))"
    by (simp add: handle_start_def on_map_def start_ctx_def zero_ctx_def prog_defs Let_def)
  then show ?thesis using update_cases [OF up] by auto
qed

lemma ctx_for_run:
  "\<exists>m' c. run_state (ctx_for H t) m = (c, m') \<and>
     (c = Some (case entries m t of Some c \<Rightarrow> c | None \<Rightarrow> zero_ctx) \<and>
        entries m' = (entries m)(t \<mapsto> case entries m t of Some c \<Rightarrow> c | None \<Rightarrow> zero_ctx) \<or>
      c = None \<and> entries m t = None \<and> entries m' = entries m)"
proof -
  obtain m1 where l1: "run_state (bpf_map_lookup_elem H t) m = (entries m t, m1)" "entries m1 = entries m"
    using lookup_value [of t m] lookup_entries [of t m] by (metis prod.collapse)
  show ?thesis
  proof (cases "entries m t")
    case (Some c)
    then show ?thesis using l1 by (auto simp: ctx_for_def)
  next
    case None
    obtain rc m2 where up: "run_state (bpf_map_update_elem H t zero_ctx BPF_ANY) m1 = (rc, m2)" by fastforce
    obtain m3 where l2: "run_state (bpf_map_lookup_elem H t) m2 = (entries m2 t, m3)" "entries m3 = entries m2"
      using lookup_value [of t m2] lookup_entries [of t m2] by (metis prod.collapse)
    have "run_state (ctx_for H t) m = (entries m2 t, m3)"
      using None l1 l2 up by (simp add: ctx_for_def)
    then show ?thesis using update_cases [OF up] l1 l2 None by (cases "rc = 0") auto
  qed
qed

lemma item_run:
  assumes "captured (ucast (regs_si ctx))"
  shows "\<exists>m'. run_state (handle_pam_set_item H K ctx) (m, r) = (0, (m', r)) \<and>
     (entries m' = (entries m)(current_tgid K \<mapsto> item_ctx K (ucast (regs_si ctx)) (regs_dx ctx)
        (case entries m (current_tgid K) of Some c \<Rightarrow> c | None \<Rightarrow> zero_ctx)) \<or>
      entries m (current_tgid K) = None \<and> entries m' = entries m)"
proof -
  let ?t = "current_tgid K"
  let ?c = "case entries m ?t of Some c \<Rightarrow> c | None \<Rightarrow> zero_ctx"
  obtain m1 c where run: "run_state (ctx_for H ?t) m = (c, m1)"
    and c: "c = Some ?c \<and> entries m1 = (entries m)(?t \<mapsto> ?c) \<or> c = None \<and> entries m ?t = None \<and> entries m1 = entries m"
    using ctx_for_run by blast
  show ?thesis
  proof (cases c)
    case None
    then show ?thesis using run c assms by (auto simp: handle_pam_set_item_def on_map_def captured_def prog_defs Let_def)
  next
    case (Some d)
    obtain u m2 where st: "run_state (value_store H ?t (item_ctx K (ucast (regs_si ctx)) (regs_dx ctx) ?c)) m1 = (u, m2)"
      by (rule prod.exhaust)
    have "run_state (handle_pam_set_item H K ctx) (m, r) = (0, (m2, r))"
      using run c Some st assms
      by (auto simp: handle_pam_set_item_def on_map_def captured_def item_ctx_def prog_defs Let_def)
    then show ?thesis using store [OF _ st] c Some by auto
  qed
qed

lemma item_ignored_run:
  "\<not> captured (ucast (regs_si ctx)) \<Longrightarrow> run_state (handle_pam_set_item H K ctx) (m, r) = (0, (m, r))"
  by (simp add: handle_pam_set_item_def captured_def prog_defs Let_def)

lemma emit_run:
  "\<exists>m' r'. run_state (emit_auth H R K ctx kind) (m, r) = (0, (m', r')) \<and> entries m' = entries m \<and>
     busy r' = busy r \<and>
     (contents r' = contents r \<or> contents r' = contents r @ [auth_record K ctx kind (entries m (current_tgid K))])"
proof -
  let ?n = "of_nat (sizeof (CStruct struct_auth_event)) :: u64"
  obtain x r1 where res: "run_state (bpf_ringbuf_reserve R ?n 0) r = (x, r1)" by fastforce
  obtain m1 where l: "run_state (bpf_map_lookup_elem H (current_tgid K)) m = (entries m (current_tgid K), m1)"
    "entries m1 = entries m"
    using lookup_value [of "current_tgid K" m] lookup_entries [of "current_tgid K" m] by (metis prod.collapse)
  show ?thesis
  proof (cases x)
    case None
    then show ?thesis using res reserve_None [of ?n 0 r r1] by (auto simp: emit_auth_def on_ring_def)
  next
    case (Some e)
    let ?e = "auth_record K ctx kind (entries m (current_tgid K))"
    obtain u r2 where sub: "run_state (bpf_ringbuf_submit R ?e 0) r1 = (u, r2)" by (rule prod.exhaust)
    have "run_state (emit_auth H R K ctx kind) (m, r) = (0, (m1, r2))"
      using res Some sub l(1) by (cases e; cases "entries m (current_tgid K)")
        (simp_all add: emit_auth_def on_ring_def on_map_def auth_record_def zero_ctx_def current_tgid_def prog_defs Let_def)
    then show ?thesis
      using l(2) reserve_Some [OF res [unfolded Some]] submit [OF _ sub] by auto
  qed
qed

lemma emit_granted:
  assumes "grants R (sizeof (CStruct struct_auth_event)) r"
  shows "contents (snd (snd (run_state (emit_auth H R K ctx kind) (m, r)))) =
    contents r @ [auth_record K ctx kind (entries m (current_tgid K))]"
proof -
  let ?n = "of_nat (sizeof (CStruct struct_auth_event)) :: u64"
  let ?e = "auth_record K ctx kind (entries m (current_tgid K))"
  obtain e r1 where res: "run_state (bpf_ringbuf_reserve R ?n 0) r = (Some e, r1)"
    using assms by (cases "run_state (bpf_ringbuf_reserve R ?n 0) r") (auto simp: grants_def)
  obtain m1 where l: "run_state (bpf_map_lookup_elem H (current_tgid K)) m = (entries m (current_tgid K), m1)"
    using lookup_value [of "current_tgid K" m] by (metis prod.collapse)
  obtain u r2 where sub: "run_state (bpf_ringbuf_submit R ?e 0) r1 = (u, r2)" by (rule prod.exhaust)
  have "run_state (emit_auth H R K ctx kind) (m, r) = (0, (m1, r2))"
    using res sub l by (cases e; cases "entries m (current_tgid K)")
      (simp_all add: emit_auth_def on_ring_def on_map_def auth_record_def zero_ctx_def current_tgid_def prog_defs Let_def)
  then show ?thesis using reserve_Some [OF res] submit [OF _ sub] by auto
qed

lemma end_run:
  "\<exists>m'. run_state (handle_pam_end H K ctx) (m, r) = (0, (m', r)) \<and> entries m' = (entries m)(current_tgid K := None)"
proof -
  obtain rc m' where d: "run_state (bpf_map_delete_elem H (current_tgid K)) m = (rc, m')" by fastforce
  then show ?thesis using delete [OF d] by (auto simp: handle_pam_end_def on_map_def Let_def)
qed

lemma start_spec:
  assumes "bpf_reads K umem kmem"
  shows "fst (run_state (handle_start H K ctx) (m, r)) = 0 \<and>
    pam_spec (current_tgid K) (call_of Pam_start K ctx) (pam_abs entries contents (m, r))
      (pam_abs entries contents (snd (run_state (handle_start H K ctx) (m, r))))"
  using start_run [of K ctx m r] pam_spec.start [of "current_tgid K"]
  by (auto simp: pam_abs_def session_of_start [OF assms] simp del: fun_upd_apply intro: pam_spec.start_lost)

lemma result_spec:
  "fst (run_state (emit_auth H R K ctx k) (m, r)) = 0 \<and>
    pam_spec (current_tgid K) (Result k (ucast (regs_ax ctx))) (pam_abs entries contents (m, r))
      (pam_abs entries contents (snd (run_state (emit_auth H R K ctx k) (m, r))))"
proof -
  have "(case entries m (current_tgid K) of Some c \<Rightarrow> session_of c | None \<Rightarrow> no_session) =
      (case sessions (entries m) (current_tgid K) of Some s \<Rightarrow> s | None \<Rightarrow> no_session)"
    by (simp add: sessions_def split: option.splits)
  then show ?thesis
    using emit_run [of K ctx k m r] pam_spec.result [of "current_tgid K" k "ucast (regs_ax ctx)"
        "sessions (entries m)" "map report_of (contents r)"]
    by (auto simp: pam_abs_def report_of_record intro: pam_spec.result_lost)
qed

lemma item_spec:
  assumes "bpf_reads K umem kmem"
  shows "fst (run_state (handle_pam_set_item H K ctx) (m, r)) = 0 \<and>
    pam_spec (current_tgid K) (call_of Pam_set_item K ctx) (pam_abs entries contents (m, r))
      (pam_abs entries contents (snd (run_state (handle_pam_set_item H K ctx) (m, r))))"
proof (cases "captured (ucast (regs_si ctx))")
  case True
  then show ?thesis
    using item_run [OF True, of K m r] pam_spec.item [OF True, of "current_tgid K" _ "sessions (entries m)"]
      pam_spec.item_lost [of "sessions (entries m)" "current_tgid K"]
    by (auto simp: pam_abs_def session_of_item [OF assms True] sessions_default sessions_None Let_def
        simp del: fun_upd_apply)
next
  case False
  then show ?thesis by (auto simp: pam_abs_def item_ignored_run Let_def intro: pam_spec.item_ignored)
qed

lemma end_spec:
  "fst (run_state (handle_pam_end H K ctx) (m, r)) = 0 \<and>
    pam_spec (current_tgid K) End (pam_abs entries contents (m, r))
      (pam_abs entries contents (snd (run_state (handle_pam_end H K ctx) (m, r))))"
  using end_run [of K ctx m r] by (auto simp: pam_abs_def simp del: fun_upd_apply intro: pam_spec.end_)

lemma run_pam_spec:
  assumes "bpf_reads K umem kmem"
  shows "fst (run_state (run_pam H R p K ctx) st) = 0 \<and>
    pam_spec (current_tgid K) (call_of p K ctx) (pam_abs entries contents st)
      (pam_abs entries contents (snd (run_state (run_pam H R p K ctx) st)))"
  using start_spec [OF assms, of ctx "fst st" "snd st"] item_spec [OF assms, of ctx "fst st" "snd st"]
    result_spec [of K ctx _ "fst st" "snd st"] end_spec [of K ctx "fst st" "snd st"]
  by (cases p) (simp_all add: handle_pam_start_def handle_pam_start_confdir_def handle_pam_authenticate_ret_def
      handle_pam_open_session_ret_def handle_pam_close_session_ret_def)

lemma run_hits_spec:
  assumes "\<forall>(p, K, ctx) \<in> set hs. \<exists>umem kmem. bpf_reads K umem kmem"
  shows "pam_specs (calls_of hs) (pam_abs entries contents st) (pam_abs entries contents (run_hits H R hs st))"
  using assms
proof (induction hs arbitrary: st)
  case Nil
  show ?case by (simp add: calls_of_def pam_specs.none)
next
  case (Cons h hs)
  obtain p K ctx where h: "h = (p, K, ctx)" by (cases h)
  then obtain umem kmem where K: "bpf_reads K umem kmem" using Cons.prems by auto
  let ?st = "snd (run_state (run_pam H R p K ctx) st)"
  have "pam_specs (calls_of hs) (pam_abs entries contents ?st) (pam_abs entries contents (run_hits H R hs ?st))"
    using Cons.prems by (intro Cons.IH) simp
  then show ?case using h run_pam_spec [OF K, of p ctx st] by (auto simp: calls_of_def intro: pam_specs.more)
qed

lemma emit_ok:
  assumes "bpf_reads K umem kmem" "pam_ok entries contents (m, r)"
    "k \<in> {SL_AUTH_ATTEMPT, SL_AUTH_SESSION_OPEN, SL_AUTH_SESSION_CLOSE}"
  shows "pam_ok entries contents (snd (run_state (emit_auth H R K ctx k) (m, r))) \<and>
    busy (snd (snd (run_state (emit_auth H R K ctx k) (m, r)))) = busy r"
proof -
  have "wf_auth_event (auth_record K ctx k (entries m (current_tgid K)))"
    using assms by (intro wf_auth_record) (auto simp: pam_ok_def)
  then show ?thesis using emit_run [of K ctx k m r] assms(2) by (auto simp: pam_ok_def)
qed

lemma start_ok:
  assumes "bpf_reads K umem kmem" "pam_ok entries contents (m, r)"
  shows "pam_ok entries contents (snd (run_state (handle_start H K ctx) (m, r))) \<and>
    busy (snd (snd (run_state (handle_start H K ctx) (m, r)))) = busy r"
  using start_run [of K ctx m r] assms(2) wf_start_ctx [OF assms(1), of ctx]
  by (auto simp: pam_ok_def split: if_splits)

lemma item_ok:
  assumes "bpf_reads K umem kmem" "pam_ok entries contents (m, r)"
  shows "pam_ok entries contents (snd (run_state (handle_pam_set_item H K ctx) (m, r))) \<and>
    busy (snd (snd (run_state (handle_pam_set_item H K ctx) (m, r)))) = busy r"
proof (cases "captured (ucast (regs_si ctx))")
  case True
  show ?thesis using item_run [OF True, of K m r] assms(2)
      wf_item_ctx [OF assms(1) pam_ok_default [OF assms(2), of "current_tgid K"], of "ucast (regs_si ctx)" "regs_dx ctx"]
    by (auto simp: pam_ok_def split: if_splits)
next
  case False
  then show ?thesis using assms(2) by (simp add: item_ignored_run)
qed

lemma end_ok:
  assumes "pam_ok entries contents (m, r)"
  shows "pam_ok entries contents (snd (run_state (handle_pam_end H K ctx) (m, r))) \<and>
    busy (snd (snd (run_state (handle_pam_end H K ctx) (m, r)))) = busy r"
  using end_run [of K ctx m r] assms by (auto simp: pam_ok_def split: if_splits)

lemma run_pam_ok:
  assumes "bpf_reads K umem kmem" "pam_ok entries contents st"
  shows "pam_ok entries contents (snd (run_state (run_pam H R p K ctx) st)) \<and>
    busy (snd (snd (run_state (run_pam H R p K ctx) st))) = busy (snd st)"
  using assms start_ok [OF assms(1), of "fst st" "snd st"] item_ok [OF assms(1), of "fst st" "snd st"]
    emit_ok [OF assms(1), of "fst st" "snd st"] end_ok [of "fst st" "snd st"]
  by (cases p) (simp_all add: handle_pam_start_def handle_pam_start_confdir_def handle_pam_authenticate_ret_def
      handle_pam_open_session_ret_def handle_pam_close_session_ret_def)

lemma run_hits_ok:
  "\<forall>(p, K, ctx) \<in> set hs. \<exists>umem kmem. bpf_reads K umem kmem \<Longrightarrow> pam_ok entries contents st \<Longrightarrow>
     pam_ok entries contents (run_hits H R hs st) \<and> busy (snd (run_hits H R hs st)) = busy (snd st)"
proof (induction hs arbitrary: st)
  case Nil
  then show ?case by simp
next
  case (Cons h hs)
  obtain p K ctx where h: "h = (p, K, ctx)" by (cases h)
  then obtain umem kmem where K: "bpf_reads K umem kmem" using Cons.prems by auto
  let ?st = "snd (run_state (run_pam H R p K ctx) st)"
  have 1: "pam_ok entries contents ?st" "busy (snd ?st) = busy (snd st)" using run_pam_ok [OF K] Cons.prems(2) by auto
  then show ?case using Cons.IH [of ?st] Cons.prems(1) h by simp
qed

end

interpretation pam: pam_machine "hash_map n" map_of ring_buffer ring_out ring_busy
  by unfold_locales

section \<open>Properties\<close>

lemma auth_size: "sizeof (CStruct struct_auth_event) = 248"
  by code_simp

definition in_context :: "pam_hit \<Rightarrow> bool" where
  "in_context h = (case h of (p, K, ctx) \<Rightarrow> \<exists>umem kmem. bpf_reads K umem kmem)"

lemma in_context_all: "list_all in_context hs \<longleftrightarrow> (\<forall>(p, K, ctx) \<in> set hs. \<exists>umem kmem. bpf_reads K umem kmem)"
  by (auto simp: list_all_iff in_context_def)


definition pam_regs :: "u64 \<Rightarrow> u64 \<Rightarrow> u64 \<Rightarrow> u64 \<Rightarrow> pt_regs" where
  "pam_regs a b c rc = undefined\<lparr>regs_di := a, regs_si := b, regs_dx := c, regs_ax := rc\<rparr>"

definition pam_sample_umem :: memory where
  "pam_sample_umem = mem_at 0x5000 [115, 117, 0] ++ mem_at 0x4000 [98, 111, 98, 0]"

abbreviation pam_sample_env :: bpf_env where
  "pam_sample_env \<equiv> sample_env pam_sample_umem (mem_at 0 [])"

lemma sample_in_context: "in_context (p, sample_env um km, ctx)"
  using sample_env_reads [of um km] by (auto simp: in_context_def)




text \<open>An item other than the user, the terminal and the remote host (the password is one) has no
  effect: the map and the ring are exactly as before, whatever the map does.\<close>

theorem other_pam_items_not_captured:
  assumes "ucast (regs_si ctx) \<notin> {PAM_USER, PAM_TTY, PAM_RHOST}"
  shows "run_state (handle_pam_set_item H K ctx) st = (0, st)"
  using assms by (simp add: handle_pam_set_item_def prog_defs Let_def)

theorem other_pam_items_not_captured_witness:
  "run_state (handle_pam_set_item (hash_map 4096) pam_sample_env (pam_regs 0 6 0x4000 0)) ([], 5 :: nat) = (0, ([], 5))"
  by (rule other_pam_items_not_captured) (simp add: pam_regs_def pam_items)

text \<open>C19. From a map and a ring in order, any sequence of hits leads to a map whose contexts have arrays
  of the declared sizes and a ring whose records do, with one of the three kinds, and leaves no
  reservation open.\<close>

theorem pam_state_invariant:
  assumes "hash_laws H entries" "ringbuf_laws R contents busy" "list_all in_context hs" "pam_ok entries contents st"
  shows "pam_ok entries contents (run_hits H R hs st) \<and> busy (snd (run_hits H R hs st)) = busy (snd st)"
proof -
  have "pam_machine H entries R contents busy" using assms(1,2) by (rule pam_machine.intro)
  then show ?thesis using assms(3,4) pam_machine.run_hits_ok unfolding in_context_all by blast
qed

theorem pam_state_invariant_witness:
  "pam_ok map_of ring_out (run_hits (hash_map 4096) ring_buffer
     [(Pam_start, pam_sample_env, pam_regs 0x5000 0x4000 0 0), (Pam_authenticate, pam_sample_env, pam_regs 0 0 0 7)]
     ([], empty_ring undefined 1024))"
  by (rule pam_state_invariant [OF hash_map.hash_laws_axioms ring_buffer.ringbuf_laws_axioms, THEN conjunct1])
    (simp_all add: sample_in_context pam_ok_def)

text \<open>A transaction end to end: once \<open>pam_start\<close> has stored its context, setting the remote host and
  then returning from \<open>pam_authenticate\<close>, all in one process, submits a record with the
  result code, the service, the user and the remote host the process named (cut to 31, 63 and
  63 bytes), and an empty terminal.\<close>

theorem pam_transaction_reported:
  assumes laws: "hash_laws H entries" "ringbuf_laws R contents busy" and K: "bpf_reads K umem kmem"
    and strs: "str_at umem (regs_di cs) service" "str_at umem (regs_si cs) user" "str_at umem (regs_dx ci) host"
      "regs_di cs \<noteq> 0" "regs_si cs \<noteq> 0" "regs_dx ci \<noteq> 0"
    and item: "ucast (regs_si ci) = PAM_RHOST"
    and stored: "entries m (current_tgid K) = None"
      "entries (fst (run_hits H R [(Pam_start, K, cs)] (m, r))) (current_tgid K) \<noteq> None"
    and room: "grants R 248 r"
  shows "\<exists>e. contents (snd (run_hits H R [(Pam_start, K, cs), (Pam_set_item, K, ci), (Pam_authenticate, K, ca)] (m, r)))
      = contents r @ [e] \<and>
    ae_kind e = SL_AUTH_ATTEMPT \<and> ae_result e = ucast (regs_ax ca) \<and> ae_tgid e = current_tgid K \<and>
    c_string (ae_service e) = take 31 service \<and> c_string (ae_user e) = take 63 user \<and>
    c_string (ae_rhost e) = take 63 host \<and> c_string (ae_tty e) = []"
proof -
  have pm: "pam_machine H entries R contents busy" using laws by (rule pam_machine.intro)
  let ?t = "current_tgid K"
  obtain m1 where m1: "run_state (handle_start H K cs) (m, r) = (0, (m1, r))"
    "entries m1 = (entries m)(?t \<mapsto> start_ctx K cs) \<or> entries m1 = entries m"
    using pam_machine.start_run [OF pm, of K cs m r] by auto
  then have e1: "entries m1 ?t = Some (start_ctx K cs)"
    using stored by (auto simp: handle_pam_start_def)
  have cap: "captured (ucast (regs_si ci))" using item by (simp add: captured_def)
  obtain m2 where m2: "run_state (handle_pam_set_item H K ci) (m1, r) = (0, (m2, r))"
    and e2: "entries m2 ?t = Some (item_ctx K PAM_RHOST (regs_dx ci) (start_ctx K cs))"
    using pam_machine.item_run [OF pm cap, of K m1 r] e1 item by auto
  let ?e = "auth_record K ca SL_AUTH_ATTEMPT (entries m2 ?t)"
  have "contents (snd (run_hits H R [(Pam_start, K, cs), (Pam_set_item, K, ci), (Pam_authenticate, K, ca)] (m, r)))
      = contents r @ [?e]"
    using m1 m2 pam_machine.emit_granted [OF pm room [folded auth_size]]
    by (simp add: handle_pam_start_def handle_pam_authenticate_ret_def)
  moreover have "report_of ?e = \<lparr>ar_tgid = ?t, ar_kind = SL_AUTH_ATTEMPT, ar_result = ucast (regs_ax ca),
      ar_session = \<lparr>ps_service = take 31 service, ps_user = take 63 user, ps_rhost = take 63 host, ps_tty = []\<rparr>\<rparr>"
    using cap item strs user_str_at [OF K, of 32 "regs_di cs" service] user_str_at [OF K, of 64 "regs_si cs" user]
      user_str_at [OF K, of 64 "regs_dx ci" host]
    by (simp add: report_of_record e2 session_of_item [OF K] session_of_start [OF K] set_item_def item_len_def
        no_session_def captured_def pam_items)
  ultimately show ?thesis by (auto simp: report_of_def)
qed

lemma pam_sample_strings: "str_at pam_sample_umem 0x5000 [115, 117]" "str_at pam_sample_umem 0x4000 [98, 111, 98]"
  unfolding pam_sample_umem_def
  by (intro str_atI [of _ _ 3] mem_bytes_before; simp add: mem_bytes_at)
    (intro str_atI [of _ _ 4] mem_bytes_last; simp add: mem_bytes_at)

theorem pam_transaction_reported_witness:
  "\<exists>e. ring_out (snd (run_hits (hash_map 4096) ring_buffer
      [(Pam_start, pam_sample_env, pam_regs 0x5000 0x4000 0 0), (Pam_set_item, pam_sample_env, pam_regs 0 4 0x4000 0),
       (Pam_authenticate, pam_sample_env, pam_regs 0 0 0 7)] ([], empty_ring undefined 1024))) = [e] \<and>
    ae_result e = 7 \<and> c_string (ae_service e) = [115, 117] \<and> c_string (ae_user e) = [98, 111, 98]"
proof -
  have g: "grants ring_buffer 248 (empty_ring undefined 1024)"
    by (rule empty_ring_grants) (simp_all add: round_up_def)
  have "map_of (fst (run_hits (hash_map 4096) ring_buffer [(Pam_start, pam_sample_env, pam_regs 0x5000 0x4000 0 0)]
      ([], empty_ring undefined 1024))) (current_tgid pam_sample_env) \<noteq> None"
    by (simp add: handle_pam_start_def handle_start_def on_map_def hash_map_def Let_def)
  then show ?thesis
    using pam_transaction_reported [OF hash_map.hash_laws_axioms [of 4096] ring_buffer.ringbuf_laws_axioms
        sample_env_reads, where cs = "pam_regs 0x5000 0x4000 0 0" and ci = "pam_regs 0 4 0x4000 0"
          and ca = "pam_regs 0 0 0 7" and m = "[]" and r = "empty_ring undefined 1024"
          and service = "[115, 117]" and user = "[98, 111, 98]" and host = "[98, 111, 98]"] pam_sample_strings g
    by (auto simp: pam_regs_def pam_items)
qed

text \<open>When one call enters both \<open>pam_start\<close> and \<open>pam_start_confdir\<close>, the second probe changes nothing:
  once the first has stored the context, the map holds the same entries after it.\<close>

theorem pam_start_idempotent:
  assumes "hash_laws H entries"
    and "entries (fst (snd (run_state (handle_pam_start H K ctx) (m, r)))) = (entries m)(current_tgid K \<mapsto> start_ctx K ctx)"
  shows "entries (fst (snd (run_state (do { handle_pam_start H K ctx; handle_pam_start_confdir H K ctx }) (m, r))))
    = entries (fst (snd (run_state (handle_pam_start H K ctx) (m, r))))"
proof -
  obtain rc m1 where m1: "run_state (bpf_map_update_elem H (current_tgid K) (start_ctx K ctx) BPF_ANY) m = (rc, m1)"
    by fastforce
  obtain rc2 m2 where m2: "run_state (bpf_map_update_elem H (current_tgid K) (start_ctx K ctx) BPF_ANY) m1 = (rc2, m2)"
    by fastforce
  have run: "run_state (handle_start H K ctx) (x, r) =
      (0, (snd (run_state (bpf_map_update_elem H (current_tgid K) (start_ctx K ctx) BPF_ANY) x), r))" for x
    by (simp add: handle_start_def on_map_def start_ctx_def zero_ctx_def prog_defs Let_def split: prod.splits)
  have e1: "entries m1 = (entries m)(current_tgid K \<mapsto> start_ctx K ctx)"
    using assms(2) m1 by (simp add: handle_pam_start_def run)
  show ?thesis using m1 m2 e1 hash_laws.update_cases [OF assms(1) m2]
    by (simp add: handle_pam_start_def handle_pam_start_confdir_def run)
qed

theorem pam_start_idempotent_witness:
  "map_of (fst (snd (run_state (do { handle_pam_start (hash_map 4096) pam_sample_env (pam_regs 0x5000 0x4000 0 0);
       handle_pam_start_confdir (hash_map 4096) pam_sample_env (pam_regs 0x5000 0x4000 0 0) }) ([], 5 :: nat))))
   = map_of (fst (snd (run_state (handle_pam_start (hash_map 4096) pam_sample_env (pam_regs 0x5000 0x4000 0 0)) ([], 5 :: nat))))"
  by (rule pam_start_idempotent [OF hash_map.hash_laws_axioms [of 4096]])
    (simp add: handle_pam_start_def handle_start_def on_map_def hash_map_def start_ctx_def zero_ctx_def prog_defs Let_def)

end
