(* ===== verification/Kernel_Bpf.thy ===== *)
theory Kernel_Bpf
  imports Kernel_Instance
begin

text \<open>
  \<^verbatim>\<open>agent/internal/bpf/src/kernel.bpf.c\<close>: module loads and unloads, rejected module loads, BPF
  program loads, and probe attaches through \<open>perf_event_open\<close>.
\<close>

section \<open>The record\<close>

abbreviation NAME_LEN :: "'a::numeral" where "NAME_LEN \<equiv> 64"
abbreviation TARGET_LEN :: "'a::numeral" where "TARGET_LEN \<equiv> 128"

definition BPF_PROG_LOAD_CMD :: u32 where "BPF_PROG_LOAD_CMD = 5"
definition PERF_TYPE_MAX_ID :: u32 where "PERF_TYPE_MAX_ID = 6"

definition SL_KERNEL_MODULE_LOAD :: u32 where "SL_KERNEL_MODULE_LOAD = 1"
definition SL_KERNEL_MODULE_UNLOAD :: u32 where "SL_KERNEL_MODULE_UNLOAD = 2"
definition SL_KERNEL_MODULE_LOAD_REJECTED :: u32 where "SL_KERNEL_MODULE_LOAD_REJECTED = 3"
definition SL_KERNEL_BPF_PROG_LOAD :: u32 where "SL_KERNEL_BPF_PROG_LOAD = 4"
definition SL_KERNEL_PROBE_ATTACH :: u32 where "SL_KERNEL_PROBE_ATTACH = 5"

record kernel_event =
  ke_ts_ns :: u64
  ke_kind :: u32
  ke_pid :: u32
  ke_tgid :: u32
  ke_uid :: u32
  ke_gid :: u32
  ke_result :: u32
  ke_taints :: u32
  ke_attr_type :: u32
  ke_config :: u64
  ke_config2 :: u64
  ke_name :: "byte list"
  ke_target :: "byte list"
  ke_comm :: "byte list"

definition struct_kernel_event :: "cfield list" where
  "struct_kernel_event =
    [Fld ''ts_ns'' t___u64, Fld ''kind'' t___u32, Fld ''pid'' t___u32, Fld ''tgid'' t___u32,
     Fld ''uid'' t___u32, Fld ''gid'' t___u32, Fld ''result'' t___s32, Fld ''taints'' t___u32,
     Fld ''attr_type'' t___u32, Fld ''config'' t___u64, Fld ''config2'' t___u64,
     Fld ''name'' (CArr c_char NAME_LEN), Fld ''target'' (CArr c_char TARGET_LEN),
     Fld ''comm'' (CArr c_char COMM_LEN)]"

definition events_kernel :: bpf_map_def where
  "events_kernel = ringbuf_map (1 * 1024 * 1024)"

record trace_event_raw_module_load =
  load_ctx :: u64
  load_taints :: u32
  load_data_loc_name :: u32

record trace_event_raw_module_free =
  free_ctx :: u64
  free_data_loc_name :: u32

section \<open>The programs\<close>

definition reserve_kernel ::
    "('r, kernel_event) bpf_ringbuf \<Rightarrow> bpf_env \<Rightarrow> u32 \<Rightarrow> ('r, kernel_event option) state" where
  "reserve_kernel R K kind = do {
     e \<leftarrow> bpf_ringbuf_reserve R (of_nat (sizeof (CStruct struct_kernel_event))) 0;
     case e of
       None \<Rightarrow> State_Monad.return None
     | Some e \<Rightarrow> do {
         let pid_tgid = bpf_get_current_pid_tgid K;
         let uid_gid = bpf_get_current_uid_gid K;
         State_Monad.return (Some (e\<lparr>ke_ts_ns := bpf_ktime_get_ns K,
           ke_kind := kind,
           ke_pid := lo32 pid_tgid,
           ke_tgid := hi32 pid_tgid,
           ke_uid := lo32 uid_gid,
           ke_gid := hi32 uid_gid,
           ke_result := 0,
           ke_taints := 0,
           ke_attr_type := 0,
           ke_config := 0,
           ke_config2 := 0,
           ke_name := replicate NAME_LEN 0,
           ke_target := replicate TARGET_LEN 0,
           ke_comm := snd (bpf_get_current_comm K COMM_LEN)\<rparr>))
       }
   }"

definition read_data_loc :: "bpf_env \<Rightarrow> byte list \<Rightarrow> u32 \<Rightarrow> u64 \<Rightarrow> u32 \<Rightarrow> byte list" where
  "read_data_loc K dst len ctx data_loc =
     (let off = data_loc AND 0xffff
      in overwrite (snd (bpf_probe_read_kernel_str K len (ctx + ucast off))) dst)"

definition handle_module_load ::
    "('r, kernel_event) bpf_ringbuf \<Rightarrow> bpf_env \<Rightarrow> trace_event_raw_module_load \<Rightarrow> ('r, int) state" where
  "handle_module_load R K ctx = do {
     e \<leftarrow> reserve_kernel R K SL_KERNEL_MODULE_LOAD;
     case e of
       None \<Rightarrow> State_Monad.return 0
     | Some e \<Rightarrow> do {
         let e = e\<lparr>ke_taints := load_taints ctx\<rparr>;
         let e = e\<lparr>ke_name := read_data_loc K (ke_name e) NAME_LEN (load_ctx ctx) (load_data_loc_name ctx)\<rparr>;
         bpf_ringbuf_submit R e 0;
         State_Monad.return 0
       }
   }"

definition handle_module_free ::
    "('r, kernel_event) bpf_ringbuf \<Rightarrow> bpf_env \<Rightarrow> trace_event_raw_module_free \<Rightarrow> ('r, int) state" where
  "handle_module_free R K ctx = do {
     e \<leftarrow> reserve_kernel R K SL_KERNEL_MODULE_UNLOAD;
     case e of
       None \<Rightarrow> State_Monad.return 0
     | Some e \<Rightarrow> do {
         let e = e\<lparr>ke_name := read_data_loc K (ke_name e) NAME_LEN (free_ctx ctx) (free_data_loc_name ctx)\<rparr>;
         bpf_ringbuf_submit R e 0;
         State_Monad.return 0
       }
   }"

definition handle_module_exit ::
    "('r, kernel_event) bpf_ringbuf \<Rightarrow> bpf_env \<Rightarrow> trace_event_raw_sys_exit \<Rightarrow> ('r, int) state" where
  "handle_module_exit R K ctx = (
     let ret = exit_ret ctx in
     if 0 \<le> sint ret then State_Monad.return 0
     else do {
       e \<leftarrow> reserve_kernel R K SL_KERNEL_MODULE_LOAD_REJECTED;
       case e of
         None \<Rightarrow> State_Monad.return 0
       | Some e \<Rightarrow> do {
           let e = e\<lparr>ke_result := ucast ret\<rparr>;
           bpf_ringbuf_submit R e 0;
           State_Monad.return 0
         }
     })"

definition handle_init_module_exit ::
    "('r, kernel_event) bpf_ringbuf \<Rightarrow> bpf_env \<Rightarrow> trace_event_raw_sys_exit \<Rightarrow> ('r, int) state" where
  "handle_init_module_exit R K ctx = handle_module_exit R K ctx"

definition handle_finit_module_exit ::
    "('r, kernel_event) bpf_ringbuf \<Rightarrow> bpf_env \<Rightarrow> trace_event_raw_sys_exit \<Rightarrow> ('r, int) state" where
  "handle_finit_module_exit R K ctx = handle_module_exit R K ctx"

text \<open>\<open>__builtin_offsetof\<close> is a constant of the layout in \<^verbatim>\<open>vmlinux.h\<close>.\<close>

definition offset_const :: "ctype \<Rightarrow> string \<Rightarrow> 'a::len word" where
  "offset_const t f = of_nat (the (offsetof t [f]))"

definition handle_bpf ::
    "('r, kernel_event) bpf_ringbuf \<Rightarrow> bpf_env \<Rightarrow> trace_event_raw_sys_enter \<Rightarrow> ('r, int) state" where
  "handle_bpf R K ctx = (
     let cmd = ucast (enter_args ctx ! 0) :: u32 in
     if cmd \<noteq> BPF_PROG_LOAD_CMD then State_Monad.return 0
     else do {
       let uattr = enter_args ctx ! 1;
       let size = (ucast (enter_args ctx ! 2) :: u32);
       e \<leftarrow> reserve_kernel R K SL_KERNEL_BPF_PROG_LOAD;
       case e of
         None \<Rightarrow> State_Monad.return 0
       | Some e \<Rightarrow> do {
           let prog_type = (if size \<ge> 4 then le_word (snd (bpf_probe_read_user K 4 uattr)) else 0);
           let e = e\<lparr>ke_attr_type := prog_type\<rparr>;
           let name_off = (offset_const union_bpf_attr ''prog_name'' :: u32);
           let e = (if size \<ge> name_off + 16
             then e\<lparr>ke_name := overwrite (snd (bpf_probe_read_user_str K 16 (uattr + ucast name_off))) (ke_name e)\<rparr>
             else e);
           bpf_ringbuf_submit R e 0;
           State_Monad.return 0
         }
     })"

definition handle_perf_event_open ::
    "('r, kernel_event) bpf_ringbuf \<Rightarrow> bpf_env \<Rightarrow> trace_event_raw_sys_enter \<Rightarrow> ('r, int) state" where
  "handle_perf_event_open R K ctx = (
     let uattr = enter_args ctx ! 0;
         rd = bpf_probe_read_user K 4 uattr;
         type = le_word (snd rd) :: u32
     in if fst rd < 0 then State_Monad.return 0
     else if type < PERF_TYPE_MAX_ID then State_Monad.return 0
     else do {
       e \<leftarrow> reserve_kernel R K SL_KERNEL_PROBE_ATTACH;
       case e of
         None \<Rightarrow> State_Monad.return 0
       | Some e \<Rightarrow> do {
           let e = e\<lparr>ke_attr_type := type\<rparr>;
           let config = le_word (snd (bpf_probe_read_user K 8 (uattr + offset_const struct_perf_event_attr ''config'')));
           let config1 = le_word (snd (bpf_probe_read_user K 8 (uattr + offset_const struct_perf_event_attr ''config1'')));
           let config2 = le_word (snd (bpf_probe_read_user K 8 (uattr + offset_const struct_perf_event_attr ''config2'')));
           let e = e\<lparr>ke_config := config\<rparr>;
           let e = e\<lparr>ke_config2 := config2\<rparr>;
           let e = (if config1 \<noteq> 0
             then e\<lparr>ke_target := overwrite (snd (bpf_probe_read_user_str K TARGET_LEN config1)) (ke_target e)\<rparr>
             else e);
           bpf_ringbuf_submit R e 0;
           State_Monad.return 0
         }
     })"

section \<open>What a run submits\<close>

definition blank_kernel :: "bpf_env \<Rightarrow> u32 \<Rightarrow> kernel_event" where
  "blank_kernel K kind =
     \<lparr>ke_ts_ns = bpf_ktime_get_ns K, ke_kind = kind,
      ke_pid = lo32 (bpf_get_current_pid_tgid K), ke_tgid = hi32 (bpf_get_current_pid_tgid K),
      ke_uid = lo32 (bpf_get_current_uid_gid K), ke_gid = hi32 (bpf_get_current_uid_gid K),
      ke_result = 0, ke_taints = 0, ke_attr_type = 0, ke_config = 0, ke_config2 = 0,
      ke_name = replicate NAME_LEN 0, ke_target = replicate TARGET_LEN 0,
      ke_comm = snd (bpf_get_current_comm K COMM_LEN)\<rparr>"

lemma blank_kernel_arrays [simp]:
  "ke_name (blank_kernel K k) = replicate NAME_LEN 0"
  "ke_target (blank_kernel K k) = replicate TARGET_LEN 0"
  "ke_comm (blank_kernel K k) = snd (bpf_get_current_comm K COMM_LEN)"
  by (simp_all add: blank_kernel_def)

text \<open>A reservation is granted as a record with nothing left of the old memory.\<close>

lemma reserve_kernel_run:
  "run_state (reserve_kernel R K kind) r =
     (case run_state (bpf_ringbuf_reserve R (of_nat (sizeof (CStruct struct_kernel_event))) 0) r of
        (None, r') \<Rightarrow> (None, r') | (Some e, r') \<Rightarrow> (Some (blank_kernel K kind), r'))"
  by (auto simp: reserve_kernel_def blank_kernel_def Let_def split: prod.splits option.splits)

lemma attr_offsets [layout_eval]:
  "offset_const union_bpf_attr ''prog_name'' = (48 :: u32)"
  "offset_const struct_perf_event_attr ''config'' = (8 :: u64)"
  "offset_const struct_perf_event_attr ''config1'' = (56 :: u64)"
  "offset_const struct_perf_event_attr ''config2'' = (64 :: u64)"
  by code_simp+

definition data_loc_str :: "bpf_env \<Rightarrow> u64 \<Rightarrow> u32 \<Rightarrow> byte list" where
  "data_loc_str K ctx loc =
     overwrite (snd (bpf_probe_read_kernel_str K NAME_LEN (ctx + ucast (take_bit 16 loc)))) (replicate NAME_LEN 0)"

lemma data_loc_mask: "loc AND 0xffff = take_bit 16 (loc :: u32)"
  by (simp add: take_bit_eq_mask mask_eq_decr_exp)

definition prog_load_record :: "bpf_env \<Rightarrow> u64 \<Rightarrow> u32 \<Rightarrow> kernel_event" where
  "prog_load_record K uattr sz =
     (blank_kernel K SL_KERNEL_BPF_PROG_LOAD)\<lparr>
       ke_attr_type := (if 4 \<le> sz then le_word (snd (bpf_probe_read_user K 4 uattr)) else 0),
       ke_name := (if 64 \<le> sz then overwrite (snd (bpf_probe_read_user_str K 16 (uattr + 48))) (replicate NAME_LEN 0)
         else replicate NAME_LEN 0)\<rparr>"

definition probe_attach_record :: "bpf_env \<Rightarrow> u64 \<Rightarrow> kernel_event" where
  "probe_attach_record K uattr =
     (let config1 = le_word (snd (bpf_probe_read_user K 8 (uattr + 56))) in
      (blank_kernel K SL_KERNEL_PROBE_ATTACH)\<lparr>
        ke_attr_type := le_word (snd (bpf_probe_read_user K 4 uattr)),
        ke_config := le_word (snd (bpf_probe_read_user K 8 (uattr + 8))),
        ke_config2 := le_word (snd (bpf_probe_read_user K 8 (uattr + 64))),
        ke_target := (if config1 \<noteq> 0
          then overwrite (snd (bpf_probe_read_user_str K TARGET_LEN config1)) (replicate TARGET_LEN 0)
          else replicate TARGET_LEN 0)\<rparr>)"

lemmas kernel_run_defs = emits_def skips_def reserve_kernel_run data_loc_mask Let_def

lemma handle_module_load_emits:
  "emits R (sizeof (CStruct struct_kernel_event))
    (\<lambda>_. (blank_kernel K SL_KERNEL_MODULE_LOAD)\<lparr>ke_taints := load_taints ctx,
        ke_name := data_loc_str K (load_ctx ctx) (load_data_loc_name ctx)\<rparr>)
    (handle_module_load R K ctx)"
  by (auto simp: kernel_run_defs handle_module_load_def read_data_loc_def data_loc_str_def
      split: prod.splits option.splits)

lemma handle_module_free_emits:
  "emits R (sizeof (CStruct struct_kernel_event))
    (\<lambda>_. (blank_kernel K SL_KERNEL_MODULE_UNLOAD)\<lparr>ke_name := data_loc_str K (free_ctx ctx) (free_data_loc_name ctx)\<rparr>)
    (handle_module_free R K ctx)"
  by (auto simp: kernel_run_defs handle_module_free_def read_data_loc_def data_loc_str_def
      split: prod.splits option.splits)

lemma handle_module_exit_skips: "0 \<le> sint (exit_ret ctx) \<Longrightarrow> skips (handle_module_exit R K ctx)"
  by (simp add: kernel_run_defs handle_module_exit_def)

lemma handle_module_exit_emits:
  "sint (exit_ret ctx) < 0 \<Longrightarrow> emits R (sizeof (CStruct struct_kernel_event))
    (\<lambda>_. (blank_kernel K SL_KERNEL_MODULE_LOAD_REJECTED)\<lparr>ke_result := ucast (exit_ret ctx)\<rparr>)
    (handle_module_exit R K ctx)"
  by (auto simp: kernel_run_defs handle_module_exit_def split: prod.splits option.splits)

lemma handle_bpf_skips: "ucast (enter_args ctx ! 0) \<noteq> BPF_PROG_LOAD_CMD \<Longrightarrow> skips (handle_bpf R K ctx)"
  by (simp add: kernel_run_defs handle_bpf_def)

lemma handle_bpf_emits:
  "ucast (enter_args ctx ! 0) = BPF_PROG_LOAD_CMD \<Longrightarrow> emits R (sizeof (CStruct struct_kernel_event))
    (\<lambda>_. prog_load_record K (enter_args ctx ! 1) (ucast (enter_args ctx ! 2)))
    (handle_bpf R K ctx)"
  by (auto simp: kernel_run_defs handle_bpf_def prog_load_record_def blank_kernel_def layout_eval
      split: prod.splits option.splits)

lemma handle_perf_event_open_skips:
  "fst (bpf_probe_read_user K 4 (enter_args ctx ! 0)) < 0 \<or>
     le_word (snd (bpf_probe_read_user K 4 (enter_args ctx ! 0))) < PERF_TYPE_MAX_ID \<Longrightarrow>
   skips (handle_perf_event_open R K ctx)"
  by (auto simp: kernel_run_defs handle_perf_event_open_def)

lemma handle_perf_event_open_emits:
  "\<not> fst (bpf_probe_read_user K 4 (enter_args ctx ! 0)) < 0 \<Longrightarrow>
   \<not> le_word (snd (bpf_probe_read_user K 4 (enter_args ctx ! 0))) < PERF_TYPE_MAX_ID \<Longrightarrow>
   emits R (sizeof (CStruct struct_kernel_event)) (\<lambda>_. probe_attach_record K (enter_args ctx ! 0))
    (handle_perf_event_open R K ctx)"
  by (auto simp: kernel_run_defs handle_perf_event_open_def probe_attach_record_def blank_kernel_def layout_eval
      split: prod.splits option.splits)

section \<open>Properties\<close>

lemma kernel_size: "sizeof (CStruct struct_kernel_event) = 264"
  by code_simp

lemma data_loc_string:
  assumes "bpf_reads K umem kmem" "str_at kmem (ctx + ucast (take_bit 16 loc)) s"
  shows "c_string (data_loc_str K ctx loc) = take 63 s"
  using bpf_reads.kernel_str_array [OF assms(1) _ assms(2), of 64] by (simp add: data_loc_str_def)

definition wf_kernel :: "kernel_event \<Rightarrow> bool" where
  "wf_kernel e \<longleftrightarrow>
     length (ke_comm e) = COMM_LEN \<and> length (ke_name e) = NAME_LEN \<and> length (ke_target e) = TARGET_LEN \<and>
     0 \<in> set (ke_name e) \<and> 0 \<in> set (ke_target e) \<and>
     ke_kind e \<in> {SL_KERNEL_MODULE_LOAD, SL_KERNEL_MODULE_UNLOAD, SL_KERNEL_MODULE_LOAD_REJECTED,
       SL_KERNEL_BPF_PROG_LOAD, SL_KERNEL_PROBE_ATTACH}"

lemma wf_blank_kernel:
  assumes "bpf_reads K umem kmem"
    "k \<in> {SL_KERNEL_MODULE_LOAD, SL_KERNEL_MODULE_UNLOAD, SL_KERNEL_MODULE_LOAD_REJECTED,
       SL_KERNEL_BPF_PROG_LOAD, SL_KERNEL_PROBE_ATTACH}"
  shows "wf_kernel (blank_kernel K k)"
  using assms by (simp add: wf_kernel_def blank_kernel_def bpf_reads.comm_length)

text \<open>Every record a handler builds: a blank one with scalars and one string array replaced.\<close>

lemma wf_kernel_updates:
  assumes "wf_kernel e"
  shows "wf_kernel (e\<lparr>ke_taints := a\<rparr>)" "wf_kernel (e\<lparr>ke_result := b\<rparr>)" "wf_kernel (e\<lparr>ke_attr_type := c\<rparr>)"
    "wf_kernel (e\<lparr>ke_config := d\<rparr>)" "wf_kernel (e\<lparr>ke_config2 := f\<rparr>)"
    "length xs = 64 \<Longrightarrow> 0 \<in> set xs \<Longrightarrow> wf_kernel (e\<lparr>ke_name := xs\<rparr>)"
    "length ys = 128 \<Longrightarrow> 0 \<in> set ys \<Longrightarrow> wf_kernel (e\<lparr>ke_target := ys\<rparr>)"
  using assms by (simp_all add: wf_kernel_def)

lemma kernel_arrays:
  assumes "bpf_reads K umem kmem"
  shows "length (data_loc_str K a loc) = 64" "0 \<in> set (data_loc_str K a loc)"
    "length (overwrite (snd (bpf_probe_read_user_str K 16 a)) (replicate 64 0)) = 64"
    "0 \<in> set (overwrite (snd (bpf_probe_read_user_str K 16 a)) (replicate 64 0))"
    "length (overwrite (snd (bpf_probe_read_user_str K 128 a)) (replicate 128 0)) = 128"
    "0 \<in> set (overwrite (snd (bpf_probe_read_user_str K 128 a)) (replicate 128 0))"
  by (simp_all add: data_loc_str_def bpf_reads.kernel_str_array_length [OF assms]
      bpf_reads.kernel_str_array_terminated [OF assms] bpf_reads.user_str_array_length [OF assms]
      bpf_reads.user_str_array_terminated [OF assms])

lemma wf_kernel_records:
  assumes "bpf_reads K umem kmem"
  shows "wf_kernel (prog_load_record K uattr sz)" "wf_kernel (probe_attach_record K uattr)"
  using wf_blank_kernel [OF assms] kernel_arrays [OF assms]
  by (auto simp: prog_load_record_def probe_attach_record_def Let_def intro!: wf_kernel_updates)

text \<open>A module that loads or unloads is reported, while the ring has room, by one record with its
  name (cut to 63 bytes) and, for a load, the taints it added.\<close>

theorem module_events_reported:
  assumes "ringbuf_laws R contents busy" "grants R 264 r" "bpf_reads K umem kmem"
    and "str_at kmem (load_ctx lc + ucast (take_bit 16 (load_data_loc_name lc))) lname"
    and "str_at kmem (free_ctx fc + ucast (take_bit 16 (free_data_loc_name fc))) fname"
  shows "\<exists>e f. contents (snd (run_state (handle_module_load R K lc) r)) = contents r @ [e] \<and>
    contents (snd (run_state (handle_module_free R K fc) r)) = contents r @ [f] \<and>
    ke_kind e = SL_KERNEL_MODULE_LOAD \<and> ke_taints e = load_taints lc \<and> c_string (ke_name e) = take 63 lname \<and>
    ke_kind f = SL_KERNEL_MODULE_UNLOAD \<and> ke_taints f = 0 \<and> c_string (ke_name f) = take 63 fname \<and>
    list_all (\<lambda>x. ke_tgid x = hi32 (bpf_get_current_pid_tgid K) \<and> c_string (ke_target x) = [] \<and> ke_result x = 0) [e, f]"
  using ringbuf_laws.emits_grants_const [OF assms(1) handle_module_load_emits [unfolded kernel_size] assms(2)]
    ringbuf_laws.emits_grants_const [OF assms(1) handle_module_free_emits [unfolded kernel_size] assms(2)]
    data_loc_string [OF assms(3,4)] data_loc_string [OF assms(3,5)]
  by (auto simp: blank_kernel_def)

definition module_sample_kmem :: memory where
  "module_sample_kmem = mem_at 0x2010 [110, 102, 0]"

theorem module_events_reported_witness:
  "\<exists>e. ring_out (snd (run_state (handle_module_load ring_buffer (sample_env (mem_at 0 []) module_sample_kmem)
      \<lparr>load_ctx = 0x2000, load_taints = 4096, load_data_loc_name = 0x00030010\<rparr>) (empty_ring undefined 1024))) = [e] \<and>
    ke_taints e = 4096 \<and> c_string (ke_name e) = [110, 102]"
proof -
  have g: "grants ring_buffer 264 (empty_ring undefined 1024)"
    by (rule empty_ring_grants) (simp_all add: round_up_def)
  have "str_at module_sample_kmem 0x2010 [110, 102]"
    unfolding module_sample_kmem_def by (intro str_atI [of _ _ 3]) (simp_all add: mem_bytes_at)
  then show ?thesis
    using module_events_reported [OF ring_buffer.ringbuf_laws_axioms g sample_env_reads,
        where lc = "\<lparr>load_ctx = 0x2000, load_taints = 4096, load_data_loc_name = 0x00030010\<rparr>"
          and fc = "\<lparr>free_ctx = 0x2000, free_data_loc_name = 0x00030010\<rparr>"
          and lname = "[110, 102]" and fname = "[110, 102]"]
    by auto
qed

text \<open>The exit of \<open>init_module\<close> or \<open>finit_module\<close> is reported exactly when the call failed, with its
  negative result; a successful call leaves the ring as it was.\<close>

theorem rejected_module_loads_reported:
  assumes "ringbuf_laws R contents busy" "grants R 264 r"
  shows "list_all (\<lambda>h. if 0 \<le> sint (exit_ret ctx) then run_state h r = (0, r)
      else \<exists>e. contents (snd (run_state h r)) = contents r @ [e] \<and>
        ke_kind e = SL_KERNEL_MODULE_LOAD_REJECTED \<and> ke_result e = ucast (exit_ret ctx) \<and>
        ke_tgid e = hi32 (bpf_get_current_pid_tgid K) \<and> c_string (ke_name e) = [])
    [handle_init_module_exit R K ctx, handle_finit_module_exit R K ctx]"
proof (cases "0 \<le> sint (exit_ret ctx)")
  case True
  then show ?thesis using skips_outcome [OF handle_module_exit_skips [of ctx R K]]
    by (simp add: handle_init_module_exit_def handle_finit_module_exit_def)
next
  case False
  then have "sint (exit_ret ctx) < 0" by simp
  then show ?thesis
    using ringbuf_laws.emits_grants_const [OF assms(1) handle_module_exit_emits [unfolded kernel_size, of ctx R K] assms(2)]
    by (simp add: handle_init_module_exit_def handle_finit_module_exit_def blank_kernel_def)
qed

theorem rejected_module_loads_reported_witness:
  "\<exists>e. ring_out (snd (run_state (handle_finit_module_exit ring_buffer (sample_env (mem_at 0 []) (mem_at 0 []))
      \<lparr>exit_id = 313, exit_ret = - 1\<rparr>) (empty_ring undefined 1024))) = [e] \<and> ke_result e = - 1"
proof -
  have "grants ring_buffer 264 (empty_ring undefined 1024)"
    by (rule empty_ring_grants) (simp_all add: round_up_def)
  from rejected_module_loads_reported [OF ring_buffer.ringbuf_laws_axioms this,
      of "\<lparr>exit_id = 313, exit_ret = - 1\<rparr>" "sample_env (mem_at 0 []) (mem_at 0 [])"]
  have "\<exists>e. ring_out (snd (run_state (handle_finit_module_exit ring_buffer (sample_env (mem_at 0 []) (mem_at 0 []))
      \<lparr>exit_id = 313, exit_ret = - 1\<rparr>) (empty_ring undefined 1024))) = [e] \<and> ke_result e = ucast (- 1 :: u64)"
    by auto
  moreover have "(ucast (- 1 :: u64) :: u32) = - 1" by code_simp
  ultimately show ?thesis by simp
qed

text \<open>A \<open>bpf\<close> call is reported exactly when it loads a program: by one record with the program type
  and the program name (cut to 15 bytes), each only as far as the attribute the caller passed
  reaches (4 and 64 bytes).\<close>

theorem program_loads_reported:
  assumes "ringbuf_laws R contents busy" "grants R 264 r" "bpf_reads K umem kmem"
    and "mem_bytes umem (enter_args ctx ! 1) 4 = Some (le_bytes 4 ptype)"
    and "str_at umem (enter_args ctx ! 1 + 48) name"
  shows "if ucast (enter_args ctx ! 0) = (5 :: u32)
    then \<exists>e. contents (snd (run_state (handle_bpf R K ctx) r)) = contents r @ [e] \<and>
      ke_kind e = SL_KERNEL_BPF_PROG_LOAD \<and>
      ke_attr_type e = (if 4 \<le> (ucast (enter_args ctx ! 2) :: u32) then ptype else 0) \<and>
      c_string (ke_name e) = (if 64 \<le> (ucast (enter_args ctx ! 2) :: u32) then take 15 name else []) \<and>
      ke_tgid e = hi32 (bpf_get_current_pid_tgid K)
    else run_state (handle_bpf R K ctx) r = (0, r)"
proof (cases "ucast (enter_args ctx ! 0) = (5 :: u32)")
  case True
  then have cmd: "ucast (enter_args ctx ! 0) = BPF_PROG_LOAD_CMD" by (simp add: BPF_PROG_LOAD_CMD_def)
  have "bpf_probe_read_user K 4 (enter_args ctx ! 1) = (0, le_bytes 4 ptype)"
    using bpf_reads.user_value [OF assms(3), of _ 4] assms(4) by simp
  moreover have "c_string (overwrite (snd (bpf_probe_read_user_str K 16 (enter_args ctx ! 1 + 48))) (replicate 64 0)) = take 15 name"
    using bpf_reads.user_str_array [OF assms(3) _ assms(5), of 16] by simp
  moreover note ringbuf_laws.emits_grants_const [OF assms(1) handle_bpf_emits [OF cmd, unfolded kernel_size] assms(2)]
  ultimately show ?thesis using True by (auto simp: prog_load_record_def blank_kernel_def)
next
  case False
  then show ?thesis using skips_outcome [OF handle_bpf_skips [of ctx R K]] by (simp add: BPF_PROG_LOAD_CMD_def)
qed

definition bpf_sample_umem :: memory where
  "bpf_sample_umem = mem_at 0x6030 [112, 0] ++ mem_at 0x6000 (le_bytes 4 (2 :: u32))"

theorem program_loads_reported_witness:
  "\<exists>e. ring_out (snd (run_state (handle_bpf ring_buffer (sample_env bpf_sample_umem (mem_at 0 []))
      \<lparr>enter_id = 321, enter_args = [5, 0x6000, 128, 0, 0, 0]\<rparr>) (empty_ring undefined 1024))) = [e] \<and>
    ke_attr_type e = 2 \<and> c_string (ke_name e) = [112]"
proof -
  have g: "grants ring_buffer 264 (empty_ring undefined 1024)"
    by (rule empty_ring_grants) (simp_all add: round_up_def)
  have "mem_bytes bpf_sample_umem 0x6000 4 = Some (le_bytes 4 (2 :: u32))"
    unfolding bpf_sample_umem_def by (intro mem_bytes_last) (simp add: mem_bytes_at)
  moreover have "str_at bpf_sample_umem 0x6030 [112]"
    unfolding bpf_sample_umem_def by (intro str_atI [of _ _ 2] mem_bytes_before) (simp_all add: mem_bytes_at)
  ultimately show ?thesis
    using program_loads_reported [OF ring_buffer.ringbuf_laws_axioms g sample_env_reads,
        where ctx = "\<lparr>enter_id = 321, enter_args = [5, 0x6000, 128, 0, 0, 0]\<rparr>" and ptype = 2 and name = "[112]"]
    by auto
qed

text \<open>A \<open>perf_event_open\<close> is reported exactly when its attribute can be read and names a dynamic
  event source (type 6 or above), with the type, the configuration words and the function or
  path that \<open>config1\<close> points to (cut to 127 bytes; none for a null pointer); otherwise the ring
  stays as it was.\<close>

theorem probe_attaches_reported:
  assumes "ringbuf_laws R contents busy" "grants R 264 r" "bpf_reads K umem kmem"
    and "mem_bytes umem (enter_args ctx ! 0) 4 = Some (le_bytes 4 ty)"
    and "holds_u64 umem (enter_args ctx ! 0 + 8) config" "holds_u64 umem (enter_args ctx ! 0 + 56) name"
      "holds_u64 umem (enter_args ctx ! 0 + 64) extra"
    and "name = 0 \<and> target = [] \<or> name \<noteq> 0 \<and> str_at umem name target"
  shows "if (6 :: u32) \<le> ty
    then \<exists>e. contents (snd (run_state (handle_perf_event_open R K ctx) r)) = contents r @ [e] \<and>
      ke_kind e = SL_KERNEL_PROBE_ATTACH \<and> ke_attr_type e = ty \<and> ke_config e = config \<and>
      ke_config2 e = extra \<and> c_string (ke_target e) = take 127 target \<and>
      ke_tgid e = hi32 (bpf_get_current_pid_tgid K)
    else run_state (handle_perf_event_open R K ctx) r = (0, r)"
proof -
  note rd = bpf_reads.user_u64 [OF assms(3)]
  have ty: "bpf_probe_read_user K 4 (enter_args ctx ! 0) = (0, le_bytes 4 ty)"
    using bpf_reads.user_value [OF assms(3), of _ 4] assms(4) by simp
  show ?thesis
  proof (cases "6 \<le> ty")
    case True
    have tgt: "c_string (if name \<noteq> 0
        then overwrite (snd (bpf_probe_read_user_str K 128 name)) (replicate 128 0) else replicate 128 0) = take 127 target"
      using assms(8) bpf_reads.user_str_array [OF assms(3), of 128 name target] by auto
    have "emits R 264 (\<lambda>_. probe_attach_record K (enter_args ctx ! 0)) (handle_perf_event_open R K ctx)"
      unfolding kernel_size [symmetric]
      by (rule handle_perf_event_open_emits) (use ty True in \<open>simp_all add: PERF_TYPE_MAX_ID_def not_less\<close>)
    from ringbuf_laws.emits_grants_const [OF assms(1) this assms(2)] show ?thesis
      using True ty rd [OF assms(5)] rd [OF assms(6)] rd [OF assms(7)] tgt
      by (auto simp: probe_attach_record_def blank_kernel_def Let_def)
  next
    case False
    have "skips (handle_perf_event_open R K ctx)"
      by (rule handle_perf_event_open_skips) (use ty False in \<open>simp add: PERF_TYPE_MAX_ID_def not_le\<close>)
    then show ?thesis using False skips_outcome by auto
  qed
qed

definition perf_sample_umem :: memory where
  "perf_sample_umem = mem_at 0x7038 (le_bytes 8 (0 :: u64) @ le_bytes 8 (5 :: u64)) ++
     mem_at 0x7008 (le_bytes 8 (1 :: u64)) ++ mem_at 0x7000 (le_bytes 4 (8 :: u32))"

lemma perf_sample:
  "mem_bytes perf_sample_umem 0x7000 4 = Some (le_bytes 4 (8 :: u32))" "holds_u64 perf_sample_umem 0x7008 1"
  "holds_u64 perf_sample_umem 0x7038 0" "holds_u64 perf_sample_umem 0x7040 5"
proof -
  let ?bs = "le_bytes 8 (0 :: u64) @ le_bytes 8 (5 :: u64)"
  have "mem_bytes (mem_at 0x7038 ?bs) 0x7040 8 = Some (le_bytes 8 (5 :: u64))"
    using mem_bytes_off [of 8 8 ?bs "0x7038"] by simp
  then show "holds_u64 perf_sample_umem 0x7040 5"
    unfolding holds_u64_def perf_sample_umem_def by (intro mem_bytes_before) simp_all
  show "mem_bytes perf_sample_umem 0x7000 4 = Some (le_bytes 4 (8 :: u32))"
    unfolding perf_sample_umem_def by (intro mem_bytes_last) (simp add: mem_bytes_at)
  show "holds_u64 perf_sample_umem 0x7008 1" "holds_u64 perf_sample_umem 0x7038 0"
    unfolding holds_u64_def perf_sample_umem_def by (intro mem_bytes_before mem_bytes_last; simp add: mem_bytes_at)+
qed

theorem probe_attaches_reported_witness:
  "\<exists>e. ring_out (snd (run_state (handle_perf_event_open ring_buffer (sample_env perf_sample_umem (mem_at 0 []))
      \<lparr>enter_id = 298, enter_args = [0x7000, 0, 0, 0, 0, 0]\<rparr>) (empty_ring undefined 1024))) = [e] \<and>
    ke_attr_type e = 8 \<and> ke_config e = 1 \<and> ke_config2 e = 5 \<and> c_string (ke_target e) = []"
proof -
  have "grants ring_buffer 264 (empty_ring undefined 1024)"
    by (rule empty_ring_grants) (simp_all add: round_up_def)
  from probe_attaches_reported [OF ring_buffer.ringbuf_laws_axioms this sample_env_reads,
      where ctx = "\<lparr>enter_id = 298, enter_args = [0x7000, 0, 0, 0, 0, 0]\<rparr>" and ty = 8 and config = 1
        and name = 0 and extra = 5 and target = "[]"] perf_sample
  show ?thesis by auto
qed

text \<open>Whatever memory the programs read and whether reads fail or not, every record the six kernel
  handlers submit has arrays of the declared sizes, terminated strings and one of the five
  kinds.\<close>

theorem kernel_records_well_formed:
  assumes "ringbuf_laws R contents busy" "bpf_reads K umem kmem" "list_all wf_kernel (contents r)"
  shows "list_all (\<lambda>h. list_all wf_kernel (contents (snd (run_state h r))))
    [handle_module_load R K lc, handle_module_free R K fc, handle_init_module_exit R K xc,
     handle_finit_module_exit R K xc, handle_bpf R K ec, handle_perf_event_open R K ec]"
proof -
  note inv = ringbuf_laws.emits_invariant [OF assms(1) _ _ assms(3)]
  note wf = wf_blank_kernel [OF assms(2)] wf_kernel_records [OF assms(2)] kernel_arrays [OF assms(2)] wf_kernel_updates
  have skip: "list_all wf_kernel (contents (snd (run_state h r)))" if "skips h" for h
    using skips_outcome [OF that] assms(3) by simp
  have "list_all wf_kernel (contents (snd (run_state (handle_module_load R K lc) r)))"
    by (rule inv [OF handle_module_load_emits]) (auto intro!: wf)
  moreover have "list_all wf_kernel (contents (snd (run_state (handle_module_free R K fc) r)))"
    by (rule inv [OF handle_module_free_emits]) (auto intro!: wf)
  moreover have "list_all wf_kernel (contents (snd (run_state (handle_module_exit R K xc) r)))"
  proof (cases "sint (exit_ret xc) < 0")
    case True show ?thesis by (rule inv [OF handle_module_exit_emits [OF True]]) (auto intro!: wf)
  qed (simp add: skip handle_module_exit_skips)
  moreover have "list_all wf_kernel (contents (snd (run_state (handle_bpf R K ec) r)))"
  proof (cases "ucast (enter_args ec ! 0) = BPF_PROG_LOAD_CMD")
    case True show ?thesis by (rule inv [OF handle_bpf_emits [OF True]]) (auto intro!: wf)
  qed (simp add: skip handle_bpf_skips)
  moreover have "list_all wf_kernel (contents (snd (run_state (handle_perf_event_open R K ec) r)))"
  proof (cases "fst (bpf_probe_read_user K 4 (enter_args ec ! 0)) < 0 \<or>
      le_word (snd (bpf_probe_read_user K 4 (enter_args ec ! 0))) < PERF_TYPE_MAX_ID")
    case False then show ?thesis
      by (intro inv [OF handle_perf_event_open_emits]) (auto intro!: wf)
  qed (simp add: skip handle_perf_event_open_skips)
  ultimately show ?thesis by (simp add: handle_init_module_exit_def handle_finit_module_exit_def)
qed

theorem kernel_records_well_formed_witness:
  "list_all wf_kernel (ring_out (snd (run_state (handle_bpf ring_buffer (sample_env (mem_at 0 []) (mem_at 0 []))
     \<lparr>enter_id = 321, enter_args = [5, 0, 128, 0, 0, 0]\<rparr>) (empty_ring undefined 1024))))"
  using kernel_records_well_formed [OF ring_buffer.ringbuf_laws_axioms sample_env_reads, of "empty_ring undefined 1024"]
  by simp

end
