(* ===== verification/Cgroup_Bpf.thy ===== *)
theory Cgroup_Bpf
  imports Kernel_Instance
begin

text \<open>
  \<^verbatim>\<open>agent/internal/bpf/src/cgroup.bpf.c\<close>: creation and removal of control groups, the source
  of container lifecycle events.
\<close>

section \<open>The record\<close>

abbreviation PATH_LEN :: "'a::numeral" where "PATH_LEN \<equiv> 256"

definition SL_CGROUP_MKDIR :: u32 where "SL_CGROUP_MKDIR = 1"
definition SL_CGROUP_RMDIR :: u32 where "SL_CGROUP_RMDIR = 2"

record cgroup_event =
  ce_ts_ns :: u64
  ce_kind :: u32
  ce_pid :: u32
  ce_tgid :: u32
  ce_uid :: u32
  ce_gid :: u32
  ce_root :: u32
  ce_level :: u32
  ce_pad0 :: u32
  ce_id :: u64
  ce_path :: "byte list"
  ce_comm :: "byte list"

definition struct_cgroup_event :: "cfield list" where
  "struct_cgroup_event =
    [Fld ''ts_ns'' t___u64, Fld ''kind'' t___u32, Fld ''pid'' t___u32, Fld ''tgid'' t___u32,
     Fld ''uid'' t___u32, Fld ''gid'' t___u32, Fld ''root'' t___s32, Fld ''level'' t___s32,
     Fld ''_pad0'' t___u32, Fld ''id'' t___u64, Fld ''path'' (CArr c_char PATH_LEN),
     Fld ''comm'' (CArr c_char COMM_LEN)]"

definition events_cgroup :: bpf_map_def where
  "events_cgroup = ringbuf_map (1 * 1024 * 1024)"

record trace_event_raw_cgroup =
  cg_ctx :: u64
  cg_root :: u32
  cg_level :: u32
  cg_id :: u64
  cg_data_loc_path :: u32

section \<open>The programs\<close>

definition emit_cgroup ::
    "('r, cgroup_event) bpf_ringbuf \<Rightarrow> bpf_env \<Rightarrow> trace_event_raw_cgroup \<Rightarrow> u32 \<Rightarrow> ('r, int) state" where
  "emit_cgroup R K ctx kind = do {
     e \<leftarrow> bpf_ringbuf_reserve R (of_nat (sizeof (CStruct struct_cgroup_event))) 0;
     case e of
       None \<Rightarrow> State_Monad.return 0
     | Some e \<Rightarrow> do {
         let pid_tgid = bpf_get_current_pid_tgid K;
         let uid_gid = bpf_get_current_uid_gid K;
         let e = e\<lparr>ce_ts_ns := bpf_ktime_get_ns K,
           ce_kind := kind,
           ce_pid := lo32 pid_tgid,
           ce_tgid := hi32 pid_tgid,
           ce_uid := lo32 uid_gid,
           ce_gid := hi32 uid_gid,
           ce_root := cg_root ctx,
           ce_level := cg_level ctx,
           ce_pad0 := 0,
           ce_id := cg_id ctx,
           ce_path := replicate PATH_LEN 0,
           ce_comm := snd (bpf_get_current_comm K COMM_LEN)\<rparr>;
         let off = cg_data_loc_path ctx AND 0xffff;
         let e = e\<lparr>ce_path := overwrite (snd (bpf_probe_read_kernel_str K PATH_LEN (cg_ctx ctx + ucast off))) (ce_path e)\<rparr>;
         bpf_ringbuf_submit R e 0;
         State_Monad.return 0
       }
   }"

definition handle_cgroup_mkdir ::
    "('r, cgroup_event) bpf_ringbuf \<Rightarrow> bpf_env \<Rightarrow> trace_event_raw_cgroup \<Rightarrow> ('r, int) state" where
  "handle_cgroup_mkdir R K ctx = emit_cgroup R K ctx SL_CGROUP_MKDIR"

definition handle_cgroup_rmdir ::
    "('r, cgroup_event) bpf_ringbuf \<Rightarrow> bpf_env \<Rightarrow> trace_event_raw_cgroup \<Rightarrow> ('r, int) state" where
  "handle_cgroup_rmdir R K ctx = emit_cgroup R K ctx SL_CGROUP_RMDIR"

section \<open>What a run submits\<close>

definition cgroup_path :: "trace_event_raw_cgroup \<Rightarrow> u64" where
  "cgroup_path ctx = cg_ctx ctx + ucast (cg_data_loc_path ctx AND 0xffff)"

definition cgroup_record :: "bpf_env \<Rightarrow> trace_event_raw_cgroup \<Rightarrow> u32 \<Rightarrow> cgroup_event" where
  "cgroup_record K ctx kind =
     \<lparr>ce_ts_ns = bpf_ktime_get_ns K, ce_kind = kind,
      ce_pid = lo32 (bpf_get_current_pid_tgid K), ce_tgid = hi32 (bpf_get_current_pid_tgid K),
      ce_uid = lo32 (bpf_get_current_uid_gid K), ce_gid = hi32 (bpf_get_current_uid_gid K),
      ce_root = cg_root ctx, ce_level = cg_level ctx, ce_pad0 = 0, ce_id = cg_id ctx,
      ce_path = overwrite (snd (bpf_probe_read_kernel_str K PATH_LEN (cgroup_path ctx))) (replicate PATH_LEN 0),
      ce_comm = snd (bpf_get_current_comm K COMM_LEN)\<rparr>"

text \<open>Every field of the reserved memory is overwritten.\<close>

lemma cgroup_fields_set:
  "(e :: cgroup_event)\<lparr>ce_ts_ns := a, ce_kind := b, ce_pid := c, ce_tgid := d, ce_uid := f, ce_gid := g,
     ce_root := h, ce_level := i, ce_pad0 := j, ce_id := k, ce_comm := m, ce_path := l\<rparr> =
   \<lparr>ce_ts_ns = a, ce_kind = b, ce_pid = c, ce_tgid = d, ce_uid = f, ce_gid = g,
     ce_root = h, ce_level = i, ce_pad0 = j, ce_id = k, ce_path = l, ce_comm = m\<rparr>"
  by (cases e) simp

lemma emit_cgroup_emits:
  "emits R (sizeof (CStruct struct_cgroup_event)) (\<lambda>_. cgroup_record K ctx kind) (emit_cgroup R K ctx kind)"
  by (auto simp: emits_def emit_cgroup_def cgroup_record_def cgroup_path_def cgroup_fields_set Let_def
      split: prod.splits option.splits)

section \<open>Properties\<close>

lemma cgroup_size [layout_eval]: "sizeof (CStruct struct_cgroup_event) = 320"
  by code_simp

lemma cgroup_handlers_emit:
  "emits R 320 (\<lambda>_. cgroup_record K ctx SL_CGROUP_MKDIR) (handle_cgroup_mkdir R K ctx)"
  "emits R 320 (\<lambda>_. cgroup_record K ctx SL_CGROUP_RMDIR) (handle_cgroup_rmdir R K ctx)"
  using emit_cgroup_emits [of R, unfolded cgroup_size]
  by (simp_all add: handle_cgroup_mkdir_def handle_cgroup_rmdir_def)

definition wf_cgroup :: "cgroup_event \<Rightarrow> bool" where
  "wf_cgroup e \<longleftrightarrow> ce_kind e \<in> {SL_CGROUP_MKDIR, SL_CGROUP_RMDIR} \<and> ce_pad0 e = 0 \<and>
     length (ce_path e) = 256 \<and> 0 \<in> set (ce_path e) \<and> length (ce_comm e) = 16"

lemma wf_cgroup_record:
  assumes "bpf_reads K umem kmem" "kind \<in> {SL_CGROUP_MKDIR, SL_CGROUP_RMDIR}"
  shows "wf_cgroup (cgroup_record K ctx kind)"
  using assms(2) bpf_reads.comm_length [OF assms(1), of 16]
    bpf_reads.kernel_str_array_length [OF assms(1), of 256 "replicate 256 0" "cgroup_path ctx"]
    bpf_reads.kernel_str_array_terminated [OF assms(1), of 256 "cgroup_path ctx" "replicate 256 0"]
  by (auto simp: wf_cgroup_def cgroup_record_def)

text \<open>Creating or removing a control group is reported, while the ring has room, by one well-formed
  record of that kind with the hierarchy, level and id of the tracepoint and the path its
  \<open>__data_loc\<close> word locates, cut to 255 bytes.\<close>

theorem cgroup_changes_reported:
  assumes "ringbuf_laws R contents busy" "grants R 320 r" "bpf_reads K umem kmem"
    and "str_at kmem (cg_ctx ctx + ucast (cg_data_loc_path ctx AND 0xffff)) path"
  shows "list_all (\<lambda>(h, kind). \<exists>e. contents (snd (run_state (h R K ctx) r)) = contents r @ [e] \<and> wf_cgroup e \<and>
      ce_kind e = kind \<and> ce_id e = cg_id ctx \<and> ce_level e = cg_level ctx \<and> ce_root e = cg_root ctx \<and>
      c_string (ce_path e) = take 255 path \<and> ce_tgid e = hi32 (bpf_get_current_pid_tgid K))
    [(handle_cgroup_mkdir, SL_CGROUP_MKDIR), (handle_cgroup_rmdir, SL_CGROUP_RMDIR)]"
proof -
  note out = cgroup_handlers_emit [THEN ringbuf_laws.emits_grants_const [OF assms(1)], OF assms(2), of K ctx]
  have "c_string (overwrite (snd (bpf_probe_read_kernel_str K 256 (cgroup_path ctx))) (replicate 256 0)) = take 255 path"
    using bpf_reads.kernel_str_array [OF assms(3), of 256 "cgroup_path ctx" path] assms(4) by (simp add: cgroup_path_def)
  with out wf_cgroup_record [OF assms(3), of _ ctx] show ?thesis
    by (simp add: cgroup_record_def)
qed

definition cgroup_sample_kmem :: memory where
  "cgroup_sample_kmem = mem_at 0x9020 [0x2F, 0x61, 0x00]"

theorem cgroup_changes_reported_witness:
  "\<exists>e. ring_out (snd (run_state (handle_cgroup_rmdir ring_buffer (sample_env (mem_at 0 []) cgroup_sample_kmem)
      \<lparr>cg_ctx = 0x9000, cg_root = 1, cg_level = 2, cg_id = 77, cg_data_loc_path = 0x30020\<rparr>)
      (empty_ring undefined 1024))) = [e] \<and> ce_id e = 77 \<and> c_string (ce_path e) = [0x2F, 0x61]"
proof -
  have g: "grants ring_buffer 320 (empty_ring undefined 1024)"
    by (rule empty_ring_grants) (simp_all add: round_up_def)
  have "str_at cgroup_sample_kmem 0x9020 [0x2F, 0x61]"
    unfolding cgroup_sample_kmem_def by (rule str_atI [of _ _ 3]) (simp_all add: mem_bytes_at del: mem_bytes.simps)
  with cgroup_changes_reported [OF ring_buffer.ringbuf_laws_axioms g sample_env_reads, where path = "[0x2F, 0x61]" and
      ctx = "\<lparr>cg_ctx = 0x9000, cg_root = 1, cg_level = 2, cg_id = 77, cg_data_loc_path = 0x30020\<rparr>"]
  show ?thesis by auto
qed

end
