(* ===== verification/Dns_Bpf.thy ===== *)
theory Dns_Bpf
  imports Kernel_Instance
begin

text \<open>
  \<^verbatim>\<open>agent/internal/bpf/src/dns.bpf.c\<close>: DNS datagrams read from the socket buffer on their way
  out (\<open>ip_send_skb\<close>, \<open>ip6_send_skb\<close>) and in (\<open>__skb_recv_udp\<close>).
\<close>

section \<open>The record\<close>

abbreviation DNS_MAX :: "'a::numeral" where "DNS_MAX \<equiv> 1024"
abbreviation UDP_HDR_LEN :: "'a::numeral" where "UDP_HDR_LEN \<equiv> 8"

definition DNS_PORT_BE :: u16 where "DNS_PORT_BE = 0x3500"
definition ETH_P_IP_BE :: u16 where "ETH_P_IP_BE = 0x0008"
definition ETH_P_IPV6_BE :: u16 where "ETH_P_IPV6_BE = 0xDD86"

definition SL_DNS_QUERY :: u32 where "SL_DNS_QUERY = 1"
definition SL_DNS_RESPONSE :: u32 where "SL_DNS_RESPONSE = 2"

record dns_event =
  de_ts_ns :: u64
  de_kind :: u32
  de_pid :: u32
  de_tgid :: u32
  de_uid :: u32
  de_gid :: u32
  de_family :: u16
  de_sport :: u16
  de_dport :: u16
  de_pad0 :: u16
  de_payload_len :: u32
  de_saddr :: "byte list"
  de_daddr :: "byte list"
  de_comm :: "byte list"
  de_payload :: "byte list"

definition struct_dns_event :: "cfield list" where
  "struct_dns_event =
    [Fld ''ts_ns'' t___u64, Fld ''kind'' t___u32, Fld ''pid'' t___u32, Fld ''tgid'' t___u32,
     Fld ''uid'' t___u32, Fld ''gid'' t___u32, Fld ''family'' t___u16, Fld ''sport'' t___u16,
     Fld ''dport'' t___u16, Fld ''_pad0'' t___u16, Fld ''payload_len'' t___u32,
     Fld ''saddr'' (CArr t___u8 16), Fld ''daddr'' (CArr t___u8 16),
     Fld ''comm'' (CArr c_char COMM_LEN), Fld ''payload'' (CArr t___u8 DNS_MAX)]"

definition events_dns :: bpf_map_def where
  "events_dns = ringbuf_map (2 * 1024 * 1024)"

section \<open>The programs\<close>

definition bswap16_dns :: "u16 \<Rightarrow> u16" where
  "bswap16_dns v = ucast (push_bit 8 (ucast v :: u32) OR drop_bit 8 (ucast v :: u32))"

record skb_view =
  sv_head :: u64
  sv_data :: u64
  sv_len :: u32
  sv_data_len :: u32
  sv_transport :: u16
  sv_network :: u16
  sv_protocol :: u16

text \<open>\<open>read_skb\<close> stops at the first field it cannot read; \<open>None\<close> is its return value \<open>-1\<close>.\<close>

definition skb_field :: "bpf_env \<Rightarrow> u32 \<Rightarrow> u64 \<Rightarrow> string \<Rightarrow> 'a::len word option" where
  "skb_field K n skb f =
     (case BPF_CORE_READ_INTO K n skb ''sk_buff'' f of
        (rc, bs) \<Rightarrow> if rc < 0 then None else Some (le_word bs))"

definition read_skb :: "bpf_env \<Rightarrow> u64 \<Rightarrow> skb_view option" where
  "read_skb K skb = do {
     head \<leftarrow> skb_field K 8 skb ''head'';
     data \<leftarrow> skb_field K 8 skb ''data'';
     len \<leftarrow> skb_field K 4 skb ''len'';
     data_len \<leftarrow> skb_field K 4 skb ''data_len'';
     transport \<leftarrow> skb_field K 2 skb ''transport_header'';
     network \<leftarrow> skb_field K 2 skb ''network_header'';
     protocol \<leftarrow> skb_field K 2 skb ''protocol'';
     Some \<lparr>sv_head = head, sv_data = data, sv_len = len, sv_data_len = data_len,
       sv_transport = transport, sv_network = network, sv_protocol = protocol\<rparr>
   }"

definition fill_addrs :: "bpf_env \<Rightarrow> dns_event \<Rightarrow> skb_view \<Rightarrow> u16 \<Rightarrow> dns_event" where
  "fill_addrs K e v family =
     (let nh = sv_head v + ucast (sv_network v);
          e = e\<lparr>de_family := family\<rparr>;
          e = e\<lparr>de_saddr := replicate 16 0\<rparr>;
          e = e\<lparr>de_daddr := replicate 16 0\<rparr>
      in if family = 4 then
           case bpf_probe_read_kernel K (of_nat (sizeof struct_iphdr)) nh of
             (rc, ip) \<Rightarrow> if rc = 0
               then e\<lparr>de_saddr := overwrite (field_bytes struct_iphdr [''saddr''] ip) (de_saddr e),
                      de_daddr := overwrite (field_bytes struct_iphdr [''daddr''] ip) (de_daddr e)\<rparr>
               else e
         else
           case bpf_probe_read_kernel K (of_nat (sizeof struct_ipv6hdr)) nh of
             (rc, ip6) \<Rightarrow> if rc = 0
               then e\<lparr>de_saddr := overwrite (field_bytes struct_ipv6hdr [''saddr''] ip6) (de_saddr e),
                      de_daddr := overwrite (field_bytes struct_ipv6hdr [''daddr''] ip6) (de_daddr e)\<rparr>
               else e)"

definition emit_dns ::
    "('r, dns_event) bpf_ringbuf \<Rightarrow> bpf_env \<Rightarrow> u32 \<Rightarrow> u16 \<Rightarrow> skb_view \<Rightarrow> u64 \<Rightarrow> u32 \<Rightarrow> ('r, int) state" where
  "emit_dns R K kind family v udp avail = (
     if avail < UDP_HDR_LEN + 12 then State_Monad.return 0 else
     let rd = bpf_probe_read_kernel K (of_nat (sizeof struct_udphdr)) udp;
         uh_source = le_word (field_bytes struct_udphdr [''source''] (snd rd)) :: u16;
         uh_dest = le_word (field_bytes struct_udphdr [''dest''] (snd rd)) :: u16;
         uh_len = le_word (field_bytes struct_udphdr [''len''] (snd rd)) :: u16
     in if fst rd < 0 then State_Monad.return 0
     else if kind = SL_DNS_QUERY \<and> uh_dest \<noteq> DNS_PORT_BE then State_Monad.return 0
     else if kind = SL_DNS_RESPONSE \<and> uh_source \<noteq> DNS_PORT_BE then State_Monad.return 0
     else
     let n = ucast (bswap16_dns uh_len) :: u32
     in if n < UDP_HDR_LEN + 12 then State_Monad.return 0
     else do {
       let n = n - UDP_HDR_LEN;
       let n = (if n > avail - UDP_HDR_LEN then avail - UDP_HDR_LEN else n);
       let n = (if n > DNS_MAX then DNS_MAX else n);
       e \<leftarrow> bpf_ringbuf_reserve R (of_nat (sizeof (CStruct struct_dns_event))) 0;
       case e of
         None \<Rightarrow> State_Monad.return 0
       | Some e \<Rightarrow> do {
           let pid_tgid = bpf_get_current_pid_tgid K;
           let uid_gid = bpf_get_current_uid_gid K;
           let e = e\<lparr>de_ts_ns := bpf_ktime_get_ns K,
             de_kind := kind,
             de_pid := lo32 pid_tgid,
             de_tgid := hi32 pid_tgid,
             de_uid := lo32 uid_gid,
             de_gid := hi32 uid_gid,
             de_sport := bswap16_dns uh_source,
             de_dport := bswap16_dns uh_dest,
             de_pad0 := 0,
             de_payload_len := n,
             de_comm := snd (bpf_get_current_comm K COMM_LEN)\<rparr>;
           let e = fill_addrs K e v family;
           let rp = bpf_probe_read_kernel K n (udp + UDP_HDR_LEN);
           let e = e\<lparr>de_payload := overwrite (snd rp) (de_payload e)\<rparr>;
           if fst rp < 0 then do {
             bpf_ringbuf_discard R e 0;
             State_Monad.return 0
           } else do {
             bpf_ringbuf_submit R e 0;
             State_Monad.return 0
           }
         }
     })"

definition handle_send ::
    "('r, dns_event) bpf_ringbuf \<Rightarrow> bpf_env \<Rightarrow> u64 \<Rightarrow> u16 \<Rightarrow> ('r, int) state" where
  "handle_send R K skb family = (
     if skb = 0 then State_Monad.return 0
     else case read_skb K skb of
       None \<Rightarrow> State_Monad.return 0
     | Some v \<Rightarrow>
         let udp = sv_head v + ucast (sv_transport v);
             endp = sv_data v + ucast (sv_len v - sv_data_len v)
         in if udp \<ge> endp then State_Monad.return 0
         else emit_dns R K SL_DNS_QUERY family v udp (ucast (endp - udp)))"

definition handle_ip_send_skb :: "('r, dns_event) bpf_ringbuf \<Rightarrow> bpf_env \<Rightarrow> pt_regs \<Rightarrow> ('r, int) state" where
  "handle_ip_send_skb R K ctx = handle_send R K (PT_REGS_PARM2 ctx) 4"

definition handle_ip6_send_skb :: "('r, dns_event) bpf_ringbuf \<Rightarrow> bpf_env \<Rightarrow> pt_regs \<Rightarrow> ('r, int) state" where
  "handle_ip6_send_skb R K ctx = handle_send R K (PT_REGS_PARM1 ctx) 6"

definition handle_skb_recv_udp :: "('r, dns_event) bpf_ringbuf \<Rightarrow> bpf_env \<Rightarrow> pt_regs \<Rightarrow> ('r, int) state" where
  "handle_skb_recv_udp R K ctx = (
     let skb = PT_REGS_RC ctx in
     if skb = 0 then State_Monad.return 0
     else case read_skb K skb of
       None \<Rightarrow> State_Monad.return 0
     | Some v \<Rightarrow>
         if sv_protocol v = ETH_P_IP_BE then
           emit_dns R K SL_DNS_RESPONSE 4 v (sv_data v) (sv_len v - sv_data_len v)
         else if sv_protocol v = ETH_P_IPV6_BE then
           emit_dns R K SL_DNS_RESPONSE 6 v (sv_data v) (sv_len v - sv_data_len v)
         else State_Monad.return 0)"

section \<open>What a run submits\<close>

lemma header_layout [layout_eval]:
  "sizeof struct_udphdr = 8" "sizeof struct_iphdr = 20" "sizeof struct_ipv6hdr = 40"
  by code_simp+

lemma header_offsets:
  "offsetof struct_udphdr [''source''] = Some 0" "offsetof struct_udphdr [''dest''] = Some 2"
  "offsetof struct_udphdr [''len''] = Some 4"
  "offsetof struct_iphdr [''saddr''] = Some 12" "offsetof struct_iphdr [''daddr''] = Some 16"
  "offsetof struct_ipv6hdr [''saddr''] = Some 8" "offsetof struct_ipv6hdr [''daddr''] = Some 24"
  by code_simp+

lemma header_types:
  "map_option sizeof (type_at struct_udphdr [''source'']) = Some 2"
  "map_option sizeof (type_at struct_udphdr [''dest'']) = Some 2"
  "map_option sizeof (type_at struct_udphdr [''len'']) = Some 2"
  "map_option sizeof (type_at struct_iphdr [''saddr'']) = Some 4"
  "map_option sizeof (type_at struct_iphdr [''daddr'']) = Some 4"
  "map_option sizeof (type_at struct_ipv6hdr [''saddr'']) = Some 16"
  "map_option sizeof (type_at struct_ipv6hdr [''daddr'']) = Some 16"
  by code_simp+

lemmas header_fields [layout_eval] =
  field_bytes_at [OF header_offsets(1) header_types(1)] field_bytes_at [OF header_offsets(2) header_types(2)]
  field_bytes_at [OF header_offsets(3) header_types(3)] field_bytes_at [OF header_offsets(4) header_types(4)]
  field_bytes_at [OF header_offsets(5) header_types(5)] field_bytes_at [OF header_offsets(6) header_types(6)]
  field_bytes_at [OF header_offsets(7) header_types(7)]

text \<open>
  The datagram a probe looks at: the ports in host order and the number of payload bytes it
  copies, from the header and the bytes available.
\<close>

definition udp_header :: "bpf_env \<Rightarrow> u64 \<Rightarrow> byte list" where
  "udp_header K udp = snd (bpf_probe_read_kernel K 8 udp)"

definition udp_port :: "bpf_env \<Rightarrow> u64 \<Rightarrow> nat \<Rightarrow> u16" where
  "udp_port K udp k = bswap16_dns (le_word (bytes_at k 2 (udp_header K udp)))"

definition dns_len :: "bpf_env \<Rightarrow> u64 \<Rightarrow> u32 \<Rightarrow> u32" where
  "dns_len K udp avail = min (min (ucast (udp_port K udp 4) - 8) (avail - 8)) 1024"

text \<open>The datagrams a probe passes on.\<close>

definition dns_wanted :: "bpf_env \<Rightarrow> u32 \<Rightarrow> u64 \<Rightarrow> u32 \<Rightarrow> bool" where
  "dns_wanted K kind udp avail \<longleftrightarrow>
     20 \<le> avail \<and> 0 \<le> fst (bpf_probe_read_kernel K 8 udp) \<and> 20 \<le> udp_port K udp 4 \<and>
     (kind = SL_DNS_QUERY \<longrightarrow> udp_port K udp 2 = 53) \<and> (kind = SL_DNS_RESPONSE \<longrightarrow> udp_port K udp 0 = 53)"

definition dns_addr :: "bpf_env \<Rightarrow> skb_view \<Rightarrow> u16 \<Rightarrow> nat \<Rightarrow> nat \<Rightarrow> byte list" where
  "dns_addr K v family k4 k6 =
     (let nh = sv_head v + ucast (sv_network v);
          rd4 = bpf_probe_read_kernel K 20 nh; rd6 = bpf_probe_read_kernel K 40 nh
      in if family = 4 then
           (if fst rd4 = 0 then overwrite (bytes_at k4 4 (snd rd4)) (replicate 16 0) else replicate 16 0)
         else (if fst rd6 = 0 then overwrite (bytes_at k6 16 (snd rd6)) (replicate 16 0) else replicate 16 0))"

text \<open>The old contents of the record matter only where the payload does not reach.\<close>

definition dns_record :: "bpf_env \<Rightarrow> u32 \<Rightarrow> u16 \<Rightarrow> skb_view \<Rightarrow> u64 \<Rightarrow> u32 \<Rightarrow> dns_event \<Rightarrow> dns_event" where
  "dns_record K kind family v udp avail e =
     \<lparr>de_ts_ns = bpf_ktime_get_ns K, de_kind = kind,
      de_pid = lo32 (bpf_get_current_pid_tgid K), de_tgid = hi32 (bpf_get_current_pid_tgid K),
      de_uid = lo32 (bpf_get_current_uid_gid K), de_gid = hi32 (bpf_get_current_uid_gid K),
      de_family = family, de_sport = udp_port K udp 0, de_dport = udp_port K udp 2, de_pad0 = 0,
      de_payload_len = dns_len K udp avail,
      de_saddr = dns_addr K v family 12 8, de_daddr = dns_addr K v family 16 24,
      de_comm = snd (bpf_get_current_comm K COMM_LEN),
      de_payload = overwrite (snd (bpf_probe_read_kernel K (dns_len K udp avail) (udp + 8))) (de_payload e)\<rparr>"

lemma bswap16_dns_inv [simp]: "bswap16_dns (bswap16_dns v) = v"
  unfolding bswap16_dns_def
  by (rule bit_word_eqI)
    (auto simp: bit_ucast_iff bit_or_iff bit_push_bit_iff bit_drop_bit_eq dest: bit_imp_le_length)

lemma bswap16_dns_eq: "bswap16_dns v = w \<longleftrightarrow> v = bswap16_dns w"
  by auto

lemma dns_port_be: "bswap16_dns 53 = DNS_PORT_BE"
  by (simp add: bswap16_dns_def DNS_PORT_BE_def)

lemma fill_addrs:
  "fill_addrs K e v family =
     e\<lparr>de_family := family, de_saddr := dns_addr K v family 12 8, de_daddr := dns_addr K v family 16 24\<rparr>"
  by (cases e) (auto simp: fill_addrs_def dns_addr_def layout_eval Let_def split: prod.splits)

lemma min_if: "(if b < a then b else a) = min a (b :: 'a :: linorder)"
  by (auto simp: min_def)

lemma port_less: "(ucast (p :: u16) :: u32) < 20 \<longleftrightarrow> p < 20"
  by transfer (simp add: take_bit_take_bit)

lemma unat_port: "unat (ucast (p :: u16) :: u32) = unat p"
  by transfer (simp add: take_bit_take_bit)

lemma not_wanted_skips:
  "\<not> dns_wanted K kind udp avail \<Longrightarrow> skips (emit_dns R K kind family v udp avail)"
  by (auto simp: skips_def emit_dns_def dns_wanted_def udp_port_def udp_header_def layout_eval Let_def
      bswap16_dns_eq dns_port_be port_less not_less)

text \<open>A wanted datagram: the run of the rest of \<open>emit\<close>.\<close>

lemma dns_fields_set:
  "(e :: dns_event)\<lparr>de_ts_ns := a, de_kind := b, de_pid := c, de_tgid := d, de_uid := f, de_gid := g,
     de_sport := h, de_dport := i, de_pad0 := j, de_payload_len := k, de_comm := l,
     de_family := m, de_saddr := n, de_daddr := q, de_payload := u\<rparr> =
   \<lparr>de_ts_ns = a, de_kind = b, de_pid = c, de_tgid = d, de_uid = f, de_gid = g, de_family = m,
     de_sport = h, de_dport = i, de_pad0 = j, de_payload_len = k, de_saddr = n, de_daddr = q,
     de_comm = l, de_payload = u\<rparr>"
  by (cases e) simp

lemma emit_dns_run:
  assumes "dns_wanted K kind udp avail"
  shows "emit_dns R K kind family v udp avail = do {
      e \<leftarrow> bpf_ringbuf_reserve R (of_nat (sizeof (CStruct struct_dns_event))) 0;
      case e of
        None \<Rightarrow> State_Monad.return 0
      | Some e \<Rightarrow>
          if fst (bpf_probe_read_kernel K (dns_len K udp avail) (udp + 8)) < 0
          then do { bpf_ringbuf_discard R (dns_record K kind family v udp avail e) 0; State_Monad.return 0 }
          else do { bpf_ringbuf_submit R (dns_record K kind family v udp avail e) 0; State_Monad.return 0 } }"
proof -
  have port: "le_word (bytes_at k 2 (snd (bpf_probe_read_kernel K 8 udp))) = bswap16_dns (udp_port K udp k)" for k
    by (simp add: udp_port_def udp_header_def)
  have conds: "avail < 8 + 12 \<longleftrightarrow> False" "fst (bpf_probe_read_kernel K 8 udp) < 0 \<longleftrightarrow> False"
    "(ucast (udp_port K udp 4) :: u32) < 8 + 12 \<longleftrightarrow> False"
    "kind = SL_DNS_QUERY \<and> bswap16_dns (udp_port K udp 2) \<noteq> DNS_PORT_BE \<longleftrightarrow> False"
    "kind = SL_DNS_RESPONSE \<and> bswap16_dns (udp_port K udp 0) \<noteq> DNS_PORT_BE \<longleftrightarrow> False"
    using assms by (auto simp: dns_wanted_def bswap16_dns_eq dns_port_be port_less)
  show ?thesis
    unfolding emit_dns_def Let_def layout_eval of_nat_numeral port min_if fill_addrs bswap16_dns_inv conds if_False
    by (intro arg_cong [where f = "State_Monad.bind _"] ext)
      (simp add: dns_fields_set dns_record_def dns_len_def split: option.split)
qed

lemma emit_dns_emits:
  assumes "dns_wanted K kind udp avail" "0 \<le> fst (bpf_probe_read_kernel K (dns_len K udp avail) (udp + 8))"
  shows "emits R (sizeof (CStruct struct_dns_event)) (dns_record K kind family v udp avail)
    (emit_dns R K kind family v udp avail)"
  using assms(2) unfolding emit_dns_run [OF assms(1)] emits_def
  by (auto split: prod.splits option.splits)

lemma emit_dns_discards:
  assumes "dns_wanted K kind udp avail" "fst (bpf_probe_read_kernel K (dns_len K udp avail) (udp + 8)) < 0"
  shows "discards R (sizeof (CStruct struct_dns_event)) (emit_dns R K kind family v udp avail)"
  using assms(2) unfolding emit_dns_run [OF assms(1)] discards_def
  by (intro allI exI [of _ "dns_record K kind family v udp avail"]) (auto split: prod.splits option.splits)

section \<open>Bounds\<close>

lemma dns_len_nat:
  assumes "dns_wanted K kind udp avail"
  shows "unat (dns_len K udp avail) = min (min (unat (udp_port K udp 4) - 8) (unat avail - 8)) 1024"
proof -
  have a: "20 \<le> unat avail" using assms by (simp add: dns_wanted_def word_le_nat_alt)
  have p: "20 \<le> unat (udp_port K udp 4)" using assms by (simp add: dns_wanted_def word_le_nat_alt)
  have "unat (avail - 8) = unat avail - 8" "unat ((ucast (udp_port K udp 4) :: u32) - 8) = unat (udp_port K udp 4) - 8"
    using a p by (simp_all add: unat_sub word_le_nat_alt unat_port)
  moreover have "unat (min x y) = min (unat x) (unat y)" for x y :: u32
    by (simp add: min_def word_le_nat_alt)
  ultimately show ?thesis by (simp add: dns_len_def)
qed

lemma dns_len_bounds:
  assumes "dns_wanted K kind udp avail"
  shows "12 \<le> unat (dns_len K udp avail)" "unat (dns_len K udp avail) \<le> 1024"
    "unat (dns_len K udp avail) + 8 \<le> unat avail"
    "unat (dns_len K udp avail) + 8 \<le> unat (udp_port K udp 4)"
  using dns_len_nat [OF assms] assms by (auto simp: dns_wanted_def word_le_nat_alt)

section \<open>What is in memory\<close>

lemma dns_size: "sizeof (CStruct struct_dns_event) = 1112"
  by code_simp

text \<open>A socket buffer with the fields of \<open>v\<close>.\<close>

definition skb_at :: "bpf_env \<Rightarrow> memory \<Rightarrow> u64 \<Rightarrow> skb_view \<Rightarrow> bool" where
  "skb_at K kmem skb v = list_all
     (\<lambda>(f, bs). mem_bytes kmem (skb + field_off K ''sk_buff'' [f]) (length bs) = Some bs)
     [(''head'', le_bytes 8 (sv_head v)), (''data'', le_bytes 8 (sv_data v)), (''len'', le_bytes 4 (sv_len v)),
      (''data_len'', le_bytes 4 (sv_data_len v)), (''transport_header'', le_bytes 2 (sv_transport v)),
      (''network_header'', le_bytes 2 (sv_network v)), (''protocol'', le_bytes 2 (sv_protocol v))]"

lemma skb_at_field:
  assumes "bpf_reads K umem kmem" "mem_bytes kmem (skb + field_off K ''sk_buff'' [f]) (unat n) = Some (le_bytes k (w :: 'a::len word))"
    "LENGTH('a) \<le> 8 * k"
  shows "skb_field K n skb f = Some w"
  using bpf_reads.kernel_value [OF assms(1,2)] assms(3) by (simp add: skb_field_def prog_defs)

lemma skb_at_read:
  assumes "bpf_reads K umem kmem" "skb_at K kmem skb v"
  shows "read_skb K skb = Some v"
proof -
  have m: "mem_bytes kmem (skb + field_off K ''sk_buff'' [''head'']) (unat (8 :: u32)) = Some (le_bytes 8 (sv_head v))"
    "mem_bytes kmem (skb + field_off K ''sk_buff'' [''data'']) (unat (8 :: u32)) = Some (le_bytes 8 (sv_data v))"
    "mem_bytes kmem (skb + field_off K ''sk_buff'' [''len'']) (unat (4 :: u32)) = Some (le_bytes 4 (sv_len v))"
    "mem_bytes kmem (skb + field_off K ''sk_buff'' [''data_len'']) (unat (4 :: u32)) = Some (le_bytes 4 (sv_data_len v))"
    "mem_bytes kmem (skb + field_off K ''sk_buff'' [''transport_header'']) (unat (2 :: u32)) = Some (le_bytes 2 (sv_transport v))"
    "mem_bytes kmem (skb + field_off K ''sk_buff'' [''network_header'']) (unat (2 :: u32)) = Some (le_bytes 2 (sv_network v))"
    "mem_bytes kmem (skb + field_off K ''sk_buff'' [''protocol'']) (unat (2 :: u32)) = Some (le_bytes 2 (sv_protocol v))"
    using assms(2) by (simp_all add: skb_at_def del: mem_bytes.simps le_bytes.simps)
  show ?thesis
    unfolding read_skb_def by (simp add: m [THEN skb_at_field [OF assms(1)]])
qed

text \<open>A UDP header on the wire, its numbers most significant byte first.\<close>

definition udp_at :: "memory \<Rightarrow> u64 \<Rightarrow> u16 \<Rightarrow> u16 \<Rightarrow> u16 \<Rightarrow> bool" where
  "udp_at m udp sport dport ln \<longleftrightarrow> (\<exists>cs. length cs = 2 \<and>
     mem_bytes m udp 8 = Some (rev (le_bytes 2 sport) @ rev (le_bytes 2 dport) @ rev (le_bytes 2 ln) @ cs))"

lemma bswap16_dns_wire: "bswap16_dns (le_word (rev (le_bytes 2 w))) = w"
proof -
  have "bswap16_dns (le_word [a, b]) = le_word [b, a]" for a b
    unfolding bswap16_dns_def le_word_pair
    by (rule bit_word_eqI)
      (auto simp: bit_ucast_iff bit_or_iff bit_push_bit_iff bit_drop_bit_eq dest: bit_imp_le_length)
  then have "bswap16_dns (le_word (rev (le_bytes (Suc (Suc 0)) w))) = le_word (le_bytes (Suc (Suc 0)) w)"
    by (simp del: le_word.simps)
  then show ?thesis by (simp add: numeral_2_eq_2 [symmetric] del: le_bytes.simps le_word.simps)
qed

lemma udp_at_ports:
  assumes "bpf_reads K umem kmem" "udp_at kmem udp sport dport ln"
  shows "fst (bpf_probe_read_kernel K 8 udp) = 0" "udp_port K udp 0 = sport" "udp_port K udp 2 = dport"
    "udp_port K udp 4 = ln"
proof -
  obtain cs where "bpf_probe_read_kernel K 8 udp =
      (0, rev (le_bytes 2 sport) @ rev (le_bytes 2 dport) @ rev (le_bytes 2 ln) @ cs)"
    using assms(2) bpf_reads.kernel_value [OF assms(1), of udp 8] by (auto simp: udp_at_def simp del: mem_bytes.simps)
  then show "fst (bpf_probe_read_kernel K 8 udp) = 0" "udp_port K udp 0 = sport" "udp_port K udp 2 = dport"
    "udp_port K udp 4 = ln"
    by (simp_all add: udp_port_def udp_header_def bytes_at_def bswap16_dns_wire del: le_bytes.simps le_word.simps)
qed

text \<open>The addresses of an IP header: bytes 12 and 16 of a version 4 header, 8 and 24 of a version 6 one.\<close>

definition ip_at :: "memory \<Rightarrow> u64 \<Rightarrow> u16 \<Rightarrow> byte list \<Rightarrow> byte list \<Rightarrow> bool" where
  "ip_at m nh family saddr daddr \<longleftrightarrow>
     (let (n, k) = if family = 4 then (12, 4) else (8, 16)
      in \<exists>h. length h = n \<and> length saddr = k \<and> length daddr = k \<and>
        mem_bytes m nh (n + k + k) = Some (h @ saddr @ daddr))"

lemma ip_at_addrs:
  assumes "bpf_reads K umem kmem" "ip_at kmem (sv_head v + ucast (sv_network v)) family saddr daddr"
  shows "dns_addr K v family 12 8 = saddr @ replicate (16 - length saddr) 0"
    "dns_addr K v family 16 24 = daddr @ replicate (16 - length daddr) 0"
proof -
  note val = bpf_reads.kernel_value [OF assms(1), of "sv_head v + ucast (sv_network v)"]
  show "dns_addr K v family 12 8 = saddr @ replicate (16 - length saddr) 0"
    "dns_addr K v family 16 24 = daddr @ replicate (16 - length daddr) 0"
    using assms(2) val [of 20] val [of 40]
    by (auto simp: ip_at_def dns_addr_def bytes_at_def overwrite_def simp del: mem_bytes.simps split: if_splits)
qed

section \<open>Properties\<close>

text \<open>A record that reports a datagram, and the datagrams reported.\<close>

definition dns_reports ::
    "bpf_env \<Rightarrow> u32 \<Rightarrow> u16 \<Rightarrow> u16 \<Rightarrow> u16 \<Rightarrow> byte list \<Rightarrow> byte list \<Rightarrow> byte list \<Rightarrow> dns_event \<Rightarrow> bool" where
  "dns_reports K kind family sport dport saddr daddr payload e \<longleftrightarrow>
     de_kind e = kind \<and> de_family e = family \<and> de_sport e = sport \<and> de_dport e = dport \<and>
     de_saddr e = saddr @ replicate (16 - length saddr) 0 \<and> de_daddr e = daddr @ replicate (16 - length daddr) 0 \<and>
     unat (de_payload_len e) = length payload \<and> take (length payload) (de_payload e) = payload \<and>
     de_tgid e = hi32 (bpf_get_current_pid_tgid K)"

definition dns_reportable :: "u32 \<Rightarrow> u16 \<Rightarrow> u16 \<Rightarrow> u16 \<Rightarrow> nat \<Rightarrow> bool" where
  "dns_reportable kind sport dport ln avail \<longleftrightarrow>
     (if kind = SL_DNS_QUERY then dport = 53 else sport = 53) \<and> 20 \<le> ln \<and> 20 \<le> avail"

lemma emit_dns_reports:
  assumes "ringbuf_laws R contents busy" "grants R 1112 r" "bpf_reads K umem kmem"
    and "udp_at kmem udp sport dport ln" "ip_at kmem (sv_head v + ucast (sv_network v)) family saddr daddr"
    and "mem_bytes kmem (udp + 8) (min (min (unat ln - 8) (unat avail - 8)) 1024) = Some payload"
    and "kind \<in> {SL_DNS_QUERY, SL_DNS_RESPONSE}"
  shows "if dns_reportable kind sport dport ln (unat avail)
    then \<exists>e. contents (snd (run_state (emit_dns R K kind family v udp avail) r)) = contents r @ [e] \<and>
      dns_reports K kind family sport dport saddr daddr payload e
    else run_state (emit_dns R K kind family v udp avail) r = (0, r)"
proof -
  note ports = udp_at_ports [OF assms(3,4)]
  have wanted: "dns_wanted K kind udp avail \<longleftrightarrow> dns_reportable kind sport dport ln (unat avail)"
    using assms(7) ports
    by (auto simp: dns_wanted_def dns_reportable_def word_le_nat_alt SL_DNS_QUERY_def SL_DNS_RESPONSE_def)
  show ?thesis
  proof (cases "dns_wanted K kind udp avail")
    case True
    have rp: "bpf_probe_read_kernel K (dns_len K udp avail) (udp + 8) = (0, payload)"
      using bpf_reads.kernel_value [OF assms(3)] assms(6) by (simp add: dns_len_nat [OF True] ports)
    have len: "length payload = unat (dns_len K udp avail)"
      using length_mem_bytes [OF assms(6)] by (simp add: dns_len_nat [OF True] ports)
    from ringbuf_laws.emits_grants [OF assms(1) emit_dns_emits [OF True, unfolded dns_size] assms(2)]
    obtain old where "contents (snd (run_state (emit_dns R K kind family v udp avail) r)) =
        contents r @ [dns_record K kind family v udp avail old]"
      using rp by auto
    moreover have "dns_reports K kind family sport dport saddr daddr payload (dns_record K kind family v udp avail old)"
      using rp len ports ip_at_addrs [OF assms(3,5)]
      by (simp add: dns_reports_def dns_record_def overwrite_def)
    ultimately show ?thesis using True wanted by auto
  next
    case False
    then show ?thesis using wanted skips_outcome [OF not_wanted_skips [OF False, of R family v]] by auto
  qed
qed

text \<open>C5. A datagram leaving through \<open>ip_send_skb\<close> or \<open>ip6_send_skb\<close> is reported, while the ring has
  room, exactly when it goes to port 53 and both its UDP length and the bytes present hold at
  least a DNS header; the record has its ports, addresses and payload, cut to the UDP length,
  the bytes present and 1024. Any other datagram leaves the ring as it was.\<close>

theorem sent_queries_reported:
  assumes "ringbuf_laws R contents busy" "grants R 1112 r" "bpf_reads K umem kmem"
    and "p = handle_ip_send_skb R K ctx \<and> family = 4 \<and> regs_si ctx = skb \<or>
      p = handle_ip6_send_skb R K ctx \<and> family = 6 \<and> regs_di ctx = skb"
    and "skb \<noteq> 0" "skb_at K kmem skb v" "udp = sv_head v + ucast (sv_transport v)"
    and "endp = sv_data v + ucast (sv_len v - sv_data_len v)" "udp < endp" "unat (endp - udp) < 2 ^ 32"
    and "udp_at kmem udp sport dport ln" "ip_at kmem (sv_head v + ucast (sv_network v)) family saddr daddr"
    and "mem_bytes kmem (udp + 8) (min (min (unat ln - 8) (unat (endp - udp) - 8)) 1024) = Some payload"
  shows "if dport = 53 \<and> 20 \<le> ln \<and> 20 \<le> unat (endp - udp)
    then \<exists>e. contents (snd (run_state p r)) = contents r @ [e] \<and>
      dns_reports K SL_DNS_QUERY family sport dport saddr daddr payload e
    else run_state p r = (0, r)"
proof -
  have "p = handle_send R K skb family"
    using assms(4) by (auto simp: handle_ip_send_skb_def handle_ip6_send_skb_def prog_defs)
  then have p: "p = emit_dns R K SL_DNS_QUERY family v udp (ucast (endp - udp))"
    using assms(5,7,8,9) skb_at_read [OF assms(3,6)] by (auto simp: handle_send_def Let_def dest: leD)
  have "unat (ucast (endp - udp) :: u32) = unat (endp - udp)"
    using assms(10) by (intro unat_ucast_fits) simp
  then show ?thesis
    using emit_dns_reports [OF assms(1-3,11,12), of "ucast (endp - udp)" payload SL_DNS_QUERY] assms(13)
    by (auto simp: p dns_reportable_def split: if_splits)
qed

text \<open>A datagram received through \<open>__skb_recv_udp\<close> in a buffer of either IP protocol is reported
  exactly when it comes from port 53 and is long enough, with its ports, addresses and payload;
  any other datagram, and a buffer of another protocol, leaves the ring as it was.\<close>

theorem received_responses_reported:
  assumes "ringbuf_laws R contents busy" "grants R 1112 r" "bpf_reads K umem kmem"
    and "regs_ax ctx \<noteq> 0" "skb_at K kmem (regs_ax ctx) v" "family = (if sv_protocol v = 0x0008 then 4 else 6)"
    and "udp_at kmem (sv_data v) sport dport ln" "ip_at kmem (sv_head v + ucast (sv_network v)) family saddr daddr"
    and "mem_bytes kmem (sv_data v + 8) (min (min (unat ln - 8) (unat (sv_len v - sv_data_len v) - 8)) 1024) = Some payload"
  shows "if sv_protocol v \<in> {0x0008, 0xDD86} \<and> sport = 53 \<and> 20 \<le> ln \<and> 20 \<le> sv_len v - sv_data_len v
    then \<exists>e. contents (snd (run_state (handle_skb_recv_udp R K ctx) r)) = contents r @ [e] \<and>
      dns_reports K SL_DNS_RESPONSE family sport dport saddr daddr payload e
    else run_state (handle_skb_recv_udp R K ctx) r = (0, r)"
proof -
  have run: "handle_skb_recv_udp R K ctx = (if sv_protocol v \<in> {0x0008, 0xDD86}
      then emit_dns R K SL_DNS_RESPONSE family v (sv_data v) (sv_len v - sv_data_len v) else State_Monad.return 0)"
    using assms(4,6) skb_at_read [OF assms(3,5)]
    by (simp add: handle_skb_recv_udp_def Let_def prog_defs ETH_P_IP_BE_def ETH_P_IPV6_BE_def)
  have "SL_DNS_RESPONSE \<noteq> SL_DNS_QUERY" by (simp add: SL_DNS_QUERY_def SL_DNS_RESPONSE_def)
  then show ?thesis
    using emit_dns_reports [OF assms(1-3,7,8), of "sv_len v - sv_data_len v" payload SL_DNS_RESPONSE] assms(9)
    by (cases "sv_protocol v \<in> {0x0008, 0xDD86}")
      (auto simp: run dns_reportable_def word_le_nat_alt State_Monad.return_def split: if_splits)
qed

text \<open>A socket buffer and a 40-byte packet for the examples.\<close>

definition skb_sample :: "skb_view \<Rightarrow> byte list" where
  "skb_sample v = replicate 112 0 @ le_bytes 4 (sv_len v) @ le_bytes 4 (sv_data_len v) @ replicate 60 0 @
     le_bytes 2 (sv_protocol v) @ le_bytes 2 (sv_transport v) @ le_bytes 2 (sv_network v) @ replicate 14 0 @
     le_bytes 8 (sv_head v) @ le_bytes 8 (sv_data v)"

definition dns_sample_packet :: "u16 \<Rightarrow> u16 \<Rightarrow> byte list" where
  "dns_sample_packet sport dport = replicate 12 0 @ [10, 0, 0, 1] @ [10, 0, 0, 2] @
     rev (le_bytes 2 sport) @ rev (le_bytes 2 dport) @ rev (le_bytes 2 (20 :: u16)) @ [0, 0] @ [1, 2, 3, 4, 5, 6, 7, 8, 9, 10, 11, 12]"

definition dns_sample_view :: "u64 \<Rightarrow> u32 \<Rightarrow> skb_view" where
  "dns_sample_view a n = \<lparr>sv_head = 0x6000, sv_data = a, sv_len = n, sv_data_len = 0, sv_transport = 20, sv_network = 0,
     sv_protocol = 0x0008\<rparr>"

definition dns_sample_kmem :: "skb_view \<Rightarrow> u16 \<Rightarrow> u16 \<Rightarrow> memory" where
  "dns_sample_kmem v sport dport = mem_at 0x6000 (dns_sample_packet sport dport) ++ mem_at 0x5000 (skb_sample v)"

lemma skb_sample_at: "skb_at (sample_env um (dns_sample_kmem v sport dport)) (dns_sample_kmem v sport dport) 0x5000 v"
proof -
  have m: "mem_bytes (dns_sample_kmem v sport dport) (0x5000 + of_nat k) n = Some bs"
    if "k + n \<le> 216" "take n (drop k (skb_sample v)) = bs" for k n bs
    using mem_bytes_off [of k n "skb_sample v" "0x5000"] that unfolding dns_sample_kmem_def
    by (intro mem_bytes_last) (simp add: skb_sample_def)
  have off: "vmlinux_off ''sk_buff'' [''head''] = of_nat 200" "vmlinux_off ''sk_buff'' [''data''] = of_nat 208"
    "vmlinux_off ''sk_buff'' [''len''] = of_nat 112" "vmlinux_off ''sk_buff'' [''data_len''] = of_nat 116"
    "vmlinux_off ''sk_buff'' [''transport_header''] = of_nat 182" "vmlinux_off ''sk_buff'' [''network_header''] = of_nat 184"
    "vmlinux_off ''sk_buff'' [''protocol''] = of_nat 180"
    by (simp_all add: vmlinux_off_eval sk_buff_offsets del: offsetof.simps)
  show ?thesis
    unfolding skb_at_def sample_env_simps list.pred_inject prod.case off length_le_bytes
    by (intro conjI m TrueI) (simp_all add: skb_sample_def del: le_bytes.simps)
qed

lemma dns_sample_packet_at:
  "udp_at (dns_sample_kmem v sport dport) 0x6014 sport dport 20"
  "ip_at (dns_sample_kmem v sport dport) 0x6000 4 [10, 0, 0, 1] [10, 0, 0, 2]"
  "mem_bytes (dns_sample_kmem v sport dport) 0x601C 12 = Some [1, 2, 3, 4, 5, 6, 7, 8, 9, 10, 11, 12]"
proof -
  have m: "mem_bytes (dns_sample_kmem v sport dport) a n = Some bs"
    if "a = 0x6000 + of_nat k" "k + n \<le> 40" "take n (drop k (dns_sample_packet sport dport)) = bs" for a k n bs
  proof -
    have "mem_bytes (mem_at 0x6000 (dns_sample_packet sport dport)) a n = Some bs"
      using mem_bytes_off [of k n "dns_sample_packet sport dport" "0x6000"] that by (simp add: dns_sample_packet_def)
    moreover have "a - 0x5000 = 0x1000 + of_nat k" using that(1) by simp
    moreover have "unat (0x1000 + of_nat k :: u64) = 0x1000 + k"
      using that(2) by (simp add: unat_word_ariths unat_of_nat)
    ultimately show ?thesis
      unfolding dns_sample_kmem_def using that(2) by (intro mem_bytes_before) (simp_all add: skb_sample_def)
  qed
  show "udp_at (dns_sample_kmem v sport dport) 0x6014 sport dport 20"
    unfolding udp_at_def
    by (intro exI [of _ "[0, 0]"] conjI m [of _ 20]) (simp_all add: dns_sample_packet_def del: le_bytes.simps)
  have "mem_bytes (dns_sample_kmem v sport dport) 0x6000 20 = Some (replicate 12 0 @ [10, 0, 0, 1] @ [10, 0, 0, 2])"
    by (rule m [of _ 0]) (simp_all add: dns_sample_packet_def del: le_bytes.simps)
  then show "ip_at (dns_sample_kmem v sport dport) 0x6000 4 [10, 0, 0, 1] [10, 0, 0, 2]"
    unfolding ip_at_def by (simp add: exI [of _ "replicate 12 0"] del: mem_bytes.simps)
  show "mem_bytes (dns_sample_kmem v sport dport) 0x601C 12 = Some [1, 2, 3, 4, 5, 6, 7, 8, 9, 10, 11, 12]"
    by (rule m [of _ 28]) (simp_all add: dns_sample_packet_def del: le_bytes.simps)
qed

theorem sent_queries_reported_witness:
  "\<exists>e. ring_out (snd (run_state (handle_ip_send_skb ring_buffer
      (sample_env (mem_at 0 []) (dns_sample_kmem (dns_sample_view 0x6000 40) 4660 53)) (undefined\<lparr>regs_si := 0x5000\<rparr>)) (empty_ring undefined 4096))) = [e] \<and>
    dns_reports (sample_env (mem_at 0 []) (dns_sample_kmem (dns_sample_view 0x6000 40) 4660 53)) SL_DNS_QUERY 4 4660 53
      [10, 0, 0, 1] [10, 0, 0, 2] [1, 2, 3, 4, 5, 6, 7, 8, 9, 10, 11, 12] e"
proof -
  let ?v = "dns_sample_view 0x6000 40"
  have g: "grants ring_buffer 1112 (empty_ring undefined 4096)"
    by (rule empty_ring_grants) (simp_all add: round_up_def)
  show ?thesis
    using sent_queries_reported [OF ring_buffer.ringbuf_laws_axioms g
        sample_env_reads [of "mem_at 0 []" "dns_sample_kmem ?v 4660 53"],
        where ctx = "undefined\<lparr>regs_si := 0x5000\<rparr>" and v = ?v and family = 4 and sport = 4660 and dport = 53
          and ln = 20 and saddr = "[10, 0, 0, 1]" and daddr = "[10, 0, 0, 2]"
          and payload = "[1, 2, 3, 4, 5, 6, 7, 8, 9, 10, 11, 12]" and udp = "0x6014" and endp = "0x6028" and skb = "0x5000",
        OF disjI1, OF conjI, OF refl]
      skb_sample_at [of _ ?v 4660 53] dns_sample_packet_at [of ?v 4660 53]
    by (simp add: dns_sample_view_def del: mem_bytes.simps)
qed

theorem received_responses_reported_witness:
  "\<exists>e. ring_out (snd (run_state (handle_skb_recv_udp ring_buffer
      (sample_env (mem_at 0 []) (dns_sample_kmem (dns_sample_view 0x6014 20) 53 4660)) (undefined\<lparr>regs_ax := 0x5000\<rparr>)) (empty_ring undefined 4096))) = [e] \<and>
    dns_reports (sample_env (mem_at 0 []) (dns_sample_kmem (dns_sample_view 0x6014 20) 53 4660)) SL_DNS_RESPONSE 4 53 4660
      [10, 0, 0, 1] [10, 0, 0, 2] [1, 2, 3, 4, 5, 6, 7, 8, 9, 10, 11, 12] e"
proof -
  let ?v = "dns_sample_view 0x6014 20"
  have g: "grants ring_buffer 1112 (empty_ring undefined 4096)"
    by (rule empty_ring_grants) (simp_all add: round_up_def)
  show ?thesis
    using received_responses_reported [OF ring_buffer.ringbuf_laws_axioms g
        sample_env_reads [of "mem_at 0 []" "dns_sample_kmem ?v 53 4660"],
        where ctx = "undefined\<lparr>regs_ax := 0x5000\<rparr>" and v = ?v and family = 4 and sport = 53 and dport = 4660
          and ln = 20 and saddr = "[10, 0, 0, 1]" and daddr = "[10, 0, 0, 2]"
          and payload = "[1, 2, 3, 4, 5, 6, 7, 8, 9, 10, 11, 12]"]
      skb_sample_at [of _ ?v 53 4660] dns_sample_packet_at [of ?v 53 4660]
    by (simp add: dns_sample_view_def del: mem_bytes.simps)
qed

text \<open>Everything \<open>emit\<close> appends is a record of a wanted datagram whose payload could be read.\<close>

lemma emit_dns_outcome:
  assumes "ringbuf_laws R contents busy"
  defines "out \<equiv> \<lambda>K kind family v udp avail r. run_state (emit_dns R K kind family v udp avail) r"
  shows "fst (out K kind family v udp avail r) = 0 \<and> busy (snd (out K kind family v udp avail r)) = busy r \<and>
    (contents (snd (out K kind family v udp avail r)) = contents r \<or>
     dns_wanted K kind udp avail \<and> 0 \<le> fst (bpf_probe_read_kernel K (dns_len K udp avail) (udp + 8)) \<and>
     (\<exists>old. contents (snd (out K kind family v udp avail r)) = contents r @ [dns_record K kind family v udp avail old]))"
proof (cases "dns_wanted K kind udp avail")
  case True
  show ?thesis
  proof (cases "0 \<le> fst (bpf_probe_read_kernel K (dns_len K udp avail) (udp + 8))")
    case read: True
    show ?thesis unfolding out_def
      using True read ringbuf_laws.emits_outcome [OF assms(1) emit_dns_emits [OF True read], where r = r] by auto
  next
    case False
    then have "fst (bpf_probe_read_kernel K (dns_len K udp avail) (udp + 8)) < 0" by simp
    from ringbuf_laws.discards_outcome [OF assms(1) emit_dns_discards [OF True this], where r = r]
    show ?thesis unfolding out_def by auto
  qed
next
  case False
  then show ?thesis unfolding out_def using skips_outcome [OF not_wanted_skips [OF False, of R family v]] by simp
qed

text \<open>What the probes run: nothing, or \<open>emit\<close> on the datagram they find in the buffer.\<close>

lemma dns_handlers_run:
  "handle_send R K skb family = State_Monad.return 0 \<or>
   (\<exists>v. skb \<noteq> 0 \<and> read_skb K skb = Some v \<and> handle_send R K skb family =
      emit_dns R K SL_DNS_QUERY family v (sv_head v + ucast (sv_transport v))
        (ucast (sv_data v + ucast (sv_len v - sv_data_len v) - (sv_head v + ucast (sv_transport v)))))"
  "handle_skb_recv_udp R K ctx = State_Monad.return 0 \<or>
   (\<exists>v family. regs_ax ctx \<noteq> 0 \<and> read_skb K (regs_ax ctx) = Some v \<and> family \<in> {4, 6} \<and>
      handle_skb_recv_udp R K ctx =
        emit_dns R K SL_DNS_RESPONSE family v (sv_data v) (sv_len v - sv_data_len v))"
  by (auto simp: handle_send_def handle_skb_recv_udp_def Let_def prog_defs split: option.split)

text \<open>A well-formed record: 12 to 1024 payload bytes, inside its array, and port 53 on the server's side.\<close>

definition wf_dns :: "dns_event \<Rightarrow> bool" where
  "wf_dns e \<longleftrightarrow> 12 \<le> unat (de_payload_len e) \<and> unat (de_payload_len e) \<le> 1024 \<and>
     unat (de_payload_len e) \<le> length (de_payload e) \<and> length (de_comm e) = 16 \<and> de_pad0 e = 0 \<and>
     length (de_saddr e) = 16 \<and> length (de_daddr e) = 16 \<and> de_family e \<in> {4, 6} \<and>
     (de_kind e = SL_DNS_QUERY \<and> de_dport e = 53 \<or> de_kind e = SL_DNS_RESPONSE \<and> de_sport e = 53)"

lemma wf_dns_record:
  assumes "bpf_reads K umem kmem" "dns_wanted K kind udp avail"
    "kind \<in> {SL_DNS_QUERY, SL_DNS_RESPONSE}" "family \<in> {4, 6}"
  shows "wf_dns (dns_record K kind family v udp avail old)"
proof -
  note len = bpf_reads.kernel_length [OF assms(1)]
  have "length (dns_addr K v family k j) = 16" for k j
    by (auto simp: dns_addr_def bytes_at_def len Let_def)
  moreover have "unat (dns_len K udp avail) \<le>
      length (overwrite (snd (bpf_probe_read_kernel K (dns_len K udp avail) (udp + 8))) (de_payload old))"
    by (simp add: overwrite_def len)
  ultimately show ?thesis
    using assms(2-4) dns_len_bounds [OF assms(2)] bpf_reads.comm_length [OF assms(1), of 16]
    by (auto simp: wf_dns_def dns_record_def dns_wanted_def)
qed

lemma emit_dns_invariant:
  assumes "ringbuf_laws R contents busy" "bpf_reads K umem kmem" "list_all wf_dns (contents r)"
    and "kind \<in> {SL_DNS_QUERY, SL_DNS_RESPONSE}" "family \<in> {4, 6}"
  shows "list_all wf_dns (contents (snd (run_state (emit_dns R K kind family v udp avail) r)))"
  using emit_dns_outcome [OF assms(1), of K kind family v udp avail r] assms(3)
    wf_dns_record [OF assms(2) _ assms(4,5)] by auto

text \<open>Whatever the kernel's memory holds, every record the three DNS probes submit is well formed: 12 to
  1024 payload bytes, all inside its array, arrays of the declared sizes, and port 53 as the
  destination of a query or the source of a response.\<close>

theorem dns_records_well_formed:
  assumes "ringbuf_laws R contents busy" "bpf_reads K umem kmem" "list_all wf_dns (contents r)"
  shows "list_all (\<lambda>h. list_all wf_dns (contents (snd (run_state (h R K ctx) r))))
    [handle_ip_send_skb, handle_ip6_send_skb, handle_skb_recv_udp]"
proof -
  note inv = emit_dns_invariant [OF assms]
  have "list_all wf_dns (contents (snd (run_state (handle_send R K skb family) r)))" if "family \<in> {4, 6}" for skb family
    using that assms(3) dns_handlers_run(1) [of R K skb family] by (auto simp: State_Monad.return_def intro!: inv)
  moreover have "list_all wf_dns (contents (snd (run_state (handle_skb_recv_udp R K ctx) r)))"
    using assms(3) dns_handlers_run(2) [of R K ctx] by (auto simp: State_Monad.return_def intro!: inv)
  ultimately show ?thesis by (simp add: handle_ip_send_skb_def handle_ip6_send_skb_def)
qed

theorem dns_records_well_formed_witness:
  "list_all wf_dns (ring_out (snd (run_state (handle_ip_send_skb ring_buffer
     (sample_env (mem_at 0 []) (dns_sample_kmem (dns_sample_view 0x6000 40) 4660 53)) (undefined\<lparr>regs_si := 0x5000\<rparr>))
     (empty_ring undefined 4096))))"
  using dns_records_well_formed [OF ring_buffer.ringbuf_laws_axioms sample_env_reads, of "empty_ring undefined 4096"]
  by simp

text \<open>C6. The payload of a reported query is memory of that packet alone: it starts after the UDP header
  and ends no later than the linear data of the socket buffer.\<close>

theorem query_payload_inside_packet:
  assumes "ringbuf_laws R contents busy" "bpf_reads K umem kmem"
    and "p = handle_ip_send_skb R K ctx \<and> regs_si ctx = skb \<or> p = handle_ip6_send_skb R K ctx \<and> regs_di ctx = skb"
    and "skb_at K kmem skb v" "udp = sv_head v + ucast (sv_transport v)"
    and "endp = sv_data v + ucast (sv_len v - sv_data_len v)"
    and "contents (snd (run_state p r)) = contents r @ [e]"
  shows "unat udp + 8 + unat (de_payload_len e) \<le> unat endp \<and>
    mem_bytes kmem (udp + 8) (unat (de_payload_len e)) = Some (take (unat (de_payload_len e)) (de_payload e))"
proof -
  obtain family where "p = handle_send R K skb family"
    using assms(3) by (auto simp: handle_ip_send_skb_def handle_ip6_send_skb_def prog_defs)
  then have p: "p = (if skb = 0 \<or> udp \<ge> endp then State_Monad.return 0
      else emit_dns R K SL_DNS_QUERY family v udp (ucast (endp - udp)))"
    using assms(5,6) skb_at_read [OF assms(2,4)] by (simp add: handle_send_def Let_def)
  then have lt: "udp < endp" and run: "p = emit_dns R K SL_DNS_QUERY family v udp (ucast (endp - udp))"
    using assms(7) by (auto simp: State_Monad.return_def not_le split: if_splits)
  let ?n = "dns_len K udp (ucast (endp - udp))"
  from emit_dns_outcome [OF assms(1), of K SL_DNS_QUERY family v udp "ucast (endp - udp)" r] assms(7)
  obtain old where w: "dns_wanted K SL_DNS_QUERY udp (ucast (endp - udp))"
    and rd: "0 \<le> fst (bpf_probe_read_kernel K ?n (udp + 8))"
    and e: "e = dns_record K SL_DNS_QUERY family v udp (ucast (endp - udp)) old"
    unfolding run by auto
  have "unat (ucast (endp - udp) :: u32) \<le> unat (endp - udp)"
    by (simp add: unsigned_ucast_eq)
  moreover have "unat (endp - udp) = unat endp - unat udp" "unat udp \<le> unat endp"
    using lt by (simp_all add: unat_sub word_less_nat_alt word_le_nat_alt)
  ultimately have "unat udp + 8 + unat ?n \<le> unat endp" using dns_len_bounds(3) [OF w] by simp
  moreover obtain bs where bs: "mem_bytes kmem (udp + 8) (unat ?n) = Some bs"
    using rd bpf_reads.kernel_fault [OF assms(2), of "udp + 8" ?n] by (cases "mem_bytes kmem (udp + 8) (unat ?n)") auto
  ultimately show ?thesis
    using bpf_reads.kernel_value [OF assms(2) bs] length_mem_bytes [OF bs] by (simp add: e dns_record_def overwrite_def)
qed

lemma dns_sample_query:
  "\<exists>e. ring_out (snd (run_state (handle_ip_send_skb ring_buffer
      (sample_env (mem_at 0 []) (dns_sample_kmem (dns_sample_view 0x6000 40) 4660 53)) (undefined\<lparr>regs_si := 0x5000\<rparr>))
      (empty_ring undefined 4096))) = [e]"
proof -
  let ?v = "dns_sample_view 0x6000 40"
  let ?K = "sample_env (mem_at 0 []) (dns_sample_kmem ?v 4660 53)"
  have g: "grants ring_buffer 1112 (empty_ring undefined 4096)"
    by (rule empty_ring_grants) (simp_all add: round_up_def)
  have "handle_ip_send_skb ring_buffer ?K (undefined\<lparr>regs_si := 0x5000\<rparr>) =
      emit_dns ring_buffer ?K SL_DNS_QUERY 4 ?v 0x6014 20"
    using skb_at_read [OF sample_env_reads skb_sample_at [of "mem_at 0 []" ?v 4660 53]]
    by (simp add: handle_ip_send_skb_def handle_send_def prog_defs dns_sample_view_def)
  then show ?thesis
    using emit_dns_reports [OF ring_buffer.ringbuf_laws_axioms g sample_env_reads [of "mem_at 0 []"]
          dns_sample_packet_at(1) [of ?v 4660 53], where v = ?v and family = 4 and avail = 20 and kind = SL_DNS_QUERY
          and saddr = "[10, 0, 0, 1]" and daddr = "[10, 0, 0, 2]"] dns_sample_packet_at(2,3) [of ?v 4660 53]
    by (auto simp: dns_reportable_def dns_sample_view_def simp del: mem_bytes.simps)
qed

theorem query_payload_inside_packet_witness:
  "\<exists>e. ring_out (snd (run_state (handle_ip_send_skb ring_buffer
      (sample_env (mem_at 0 []) (dns_sample_kmem (dns_sample_view 0x6000 40) 4660 53)) (undefined\<lparr>regs_si := 0x5000\<rparr>))
      (empty_ring undefined 4096))) = [e] \<and> 0x6014 + 8 + unat (de_payload_len e) \<le> 0x6028"
proof -
  from dns_sample_query obtain e where e: "ring_out (snd (run_state (handle_ip_send_skb ring_buffer
      (sample_env (mem_at 0 []) (dns_sample_kmem (dns_sample_view 0x6000 40) 4660 53)) (undefined\<lparr>regs_si := 0x5000\<rparr>))
      (empty_ring undefined 4096))) = [e]" by blast
  from query_payload_inside_packet [OF ring_buffer.ringbuf_laws_axioms sample_env_reads
        [of "mem_at 0 []" "dns_sample_kmem (dns_sample_view 0x6000 40) 4660 53"] _ skb_sample_at,
      where r = "empty_ring undefined 4096" and e = e and udp = "0x6014" and endp = "0x6028" and ctx = "undefined\<lparr>regs_si := 0x5000\<rparr>",
      OF disjI1, OF conjI, OF refl] e
  have "0x6014 + 8 + unat (de_payload_len e) \<le> 0x6028" by (force simp: dns_sample_view_def)
  with e show ?thesis by blast
qed

text \<open>A probe that finds no socket buffer, a field of it or a UDP header it cannot read, or fewer than
  12 readable bytes of payload, reports nothing: it returns 0, closes any reservation it made
  and leaves what was submitted before.\<close>

theorem unreadable_packets_not_reported:
  assumes "ringbuf_laws R contents busy" "bpf_reads K umem kmem"
    and "(p, start) \<in> {(handle_ip_send_skb R K (ctx\<lparr>regs_si := skb\<rparr>), \<lambda>v. sv_head v + ucast (sv_transport v)),
      (handle_ip6_send_skb R K (ctx\<lparr>regs_di := skb\<rparr>), \<lambda>v. sv_head v + ucast (sv_transport v)),
      (handle_skb_recv_udp R K (ctx\<lparr>regs_ax := skb\<rparr>), sv_data)}"
    and "skb = 0 \<or> read_skb K skb = None \<or>
      (\<exists>v. skb_at K kmem skb v \<and> (mem_bytes kmem (start v) 8 = None \<or> mem_bytes kmem (start v + 8) 12 = None))"
  shows "fst (run_state p r) = 0 \<and> busy (snd (run_state p r)) = busy r \<and> contents (snd (run_state p r)) = contents r"
proof -
  have stop: "\<not> (dns_wanted K kind udp avail \<and> 0 \<le> fst (bpf_probe_read_kernel K (dns_len K udp avail) (udp + 8)))"
    if "mem_bytes kmem udp 8 = None \<or> mem_bytes kmem (udp + 8) 12 = None" for kind udp avail
  proof
    assume *: "dns_wanted K kind udp avail \<and> 0 \<le> fst (bpf_probe_read_kernel K (dns_len K udp avail) (udp + 8))"
    then have "mem_bytes kmem udp 8 \<noteq> None"
      using bpf_reads.kernel_fault [OF assms(2), of udp 8] by (auto simp: dns_wanted_def simp del: mem_bytes.simps)
    moreover have "mem_bytes kmem (udp + 8) (unat (dns_len K udp avail)) \<noteq> None"
      using * bpf_reads.kernel_fault [OF assms(2), of "udp + 8" "dns_len K udp avail"] by auto
    then have "mem_bytes kmem (udp + 8) 12 \<noteq> None"
      using mem_bytes_prefix [of 12 "unat (dns_len K udp avail)"] dns_len_bounds(1) * by blast
    ultimately show False using that by (auto simp del: mem_bytes.simps)
  qed
  have "p = State_Monad.return 0 \<or> (\<exists>v kind family avail. skb \<noteq> 0 \<and> read_skb K skb = Some v \<and>
      p = emit_dns R K kind family v (start v) avail)"
    using assms(3) dns_handlers_run(1) [of R K skb 4] dns_handlers_run(1) [of R K skb 6]
      dns_handlers_run(2) [of R K "ctx\<lparr>regs_ax := skb\<rparr>"]
    by (auto simp: handle_ip_send_skb_def handle_ip6_send_skb_def prog_defs)
  then show ?thesis
  proof (elim disjE exE conjE)
    fix v kind family avail
    assume "skb \<noteq> 0" "read_skb K skb = Some v" and p: "p = emit_dns R K kind family v (start v) avail"
    then have "mem_bytes kmem (start v) 8 = None \<or> mem_bytes kmem (start v + 8) 12 = None"
      using assms(4) skb_at_read [OF assms(2)] by (auto simp del: mem_bytes.simps)
    from stop [OF this] show ?thesis
      using emit_dns_outcome [OF assms(1), of K kind family v "start v" avail r] unfolding p by blast
  qed (simp add: State_Monad.return_def)
qed

theorem unreadable_packets_not_reported_witness:
  "ring_out (snd (run_state (handle_skb_recv_udp ring_buffer (sample_env (mem_at 0 []) (mem_at 0 []))
     (undefined\<lparr>regs_ax := 0\<rparr>)) (empty_ring undefined 4096))) = []"
  using unreadable_packets_not_reported [OF ring_buffer.ringbuf_laws_axioms
      sample_env_reads [of "mem_at 0 []" "mem_at 0 []"], where skb = 0 and start = sv_data
    and ctx = undefined and r = "empty_ring undefined 4096"]
  by simp

end
