(* ===== verification/Go_Wire.thy ===== *)
theory Go_Wire
  imports Process_Bpf File_Bpf Net_Bpf Auth_Bpf Kernel_Bpf Cgroup_Bpf Dns_Bpf
begin

text \<open>
  The records in memory: \<open>*_val\<close> gives the bytes of each member of a C record, so that
  \<open>image g struct_* (*_val e)\<close> is the ring-buffer sample of \<open>e\<close> (\<open>g\<close> being what the padding
  holds), and \<open>cast_*\<close> is the pointer cast of the Go collectors to the struct \<^verbatim>\<open>bpf2go\<close>
  generated (\<^verbatim>\<open>agent/internal/bpf/*_bpfel.go\<close>): every Go field read at its own offset. The Go
  struct type is represented by the record of the C struct it mirrors. Go lays out
  structs of fixed-size integers and arrays by the same rule as C on the two targets, amd64
  and arm64; blank fields are named \<open>_\<close>.

  The lemmas \<open>cast_*_image\<close> are the round trips: what the program wrote is what the collector
  reads, whatever the padding holds.
\<close>

section \<open>Reading a C image through a Go struct\<close>

abbreviation go_uint64 :: ctype where "go_uint64 \<equiv> CInt 8"
abbreviation go_uint32 :: ctype where "go_uint32 \<equiv> CInt 4"
abbreviation go_uint16 :: ctype where "go_uint16 \<equiv> CInt 2"
abbreviation go_uint8 :: ctype where "go_uint8 \<equiv> CInt 1"

lemma layout_types:
  "sizeof t___u64 = 8" "sizeof t___u32 = 4" "sizeof t___s32 = 4" "sizeof t___u16 = 2" "sizeof t___u8 = 1"
  by code_simp+

text \<open>Two structs agree on a pair of fields: same offset, same size.\<close>

definition same_place :: "cfield list \<Rightarrow> cfield list \<Rightarrow> string \<times> string \<Rightarrow> bool" where
  "same_place C G p \<longleftrightarrow>
     offsetof (CStruct C) [fst p] = offsetof (CStruct G) [snd p] \<and> offsetof (CStruct C) [fst p] \<noteq> None \<and>
     map_option sizeof (type_at (CStruct C) [fst p]) = map_option sizeof (type_at (CStruct G) [snd p]) \<and>
     type_at (CStruct C) [fst p] \<noteq> None"

lemma cast_field:
  assumes "flat C" "fits C val" "same_place C G (c, f)"
  shows "field_bytes (CStruct G) [f] (image g C val) = val c"
proof -
  from assms(3) obtain k t where k: "offsetof (CStruct C) [c] = Some k" "type_at (CStruct C) [c] = Some t"
    unfolding same_place_def not_None_eq fst_conv snd_conv by blast
  then have "offsetof (CStruct G) [f] = Some k" "map_option sizeof (type_at (CStruct G) [f]) = Some (sizeof t)"
    using assms(3) unfolding same_place_def fst_conv snd_conv by (simp_all del: offsetof.simps type_at.simps)
  then have "field_bytes (CStruct G) [f] bs = bytes_at k (sizeof t) bs" for bs
    by (rule field_bytes_at)
  then show ?thesis using image_bytes [OF assms(1,2) k, of g] by simp
qed

text \<open>A variant that looks a pair up in a table checked as a whole.\<close>

lemma cast_field_table:
  assumes "list_all (same_place C G) ps" "flat C" "fits C val" "f \<in> set (map snd ps)"
  shows "field_bytes (CStruct G) [f] (image g C val) = val (the (map_of (map prod.swap ps) f))"
proof -
  from assms(4) obtain c where c: "map_of (map prod.swap ps) f = Some c"
    by (cases "map_of (map prod.swap ps) f") (force simp: map_of_eq_None_iff image_image)+
  then have "(c, f) \<in> set ps" by (auto dest: map_of_SomeD)
  then show ?thesis using cast_field [OF assms(2,3)] assms(1) c by (auto simp: list_all_iff)
qed

section \<open>Process\<close>

definition ProcessProcessEvent :: "cfield list" where
  "ProcessProcessEvent =
    [Fld ''TsNs'' go_uint64, Fld ''Kind'' go_uint32, Fld ''Pid'' go_uint32,
     Fld ''Tgid'' go_uint32, Fld ''Ppid'' go_uint32, Fld ''Uid'' go_uint32,
     Fld ''Gid'' go_uint32, Fld ''ExitCode'' go_uint32, Fld ''CmdlineLen'' go_uint32,
     Fld ''Pad0'' go_uint32, Fld ''_'' (CArr go_uint8 4), Fld ''CgroupId'' go_uint64,
     Fld ''Comm'' (CArr go_uint8 16), Fld ''Exe'' (CArr go_uint8 128),
     Fld ''Cmdline'' (CArr go_uint8 256)]"

definition process_val :: "process_event \<Rightarrow> string \<Rightarrow> byte list" where
  "process_val e x = the (map_of
    [(''ts_ns'', le_bytes 8 (pe_ts_ns e)), (''kind'', le_bytes 4 (pe_kind e)),
     (''pid'', le_bytes 4 (pe_pid e)), (''tgid'', le_bytes 4 (pe_tgid e)),
     (''ppid'', le_bytes 4 (pe_ppid e)), (''uid'', le_bytes 4 (pe_uid e)),
     (''gid'', le_bytes 4 (pe_gid e)), (''exit_code'', le_bytes 4 (pe_exit_code e)),
     (''cmdline_len'', le_bytes 4 (pe_cmdline_len e)), (''_pad0'', le_bytes 4 (pe_pad0 e)),
     (''cgroup_id'', le_bytes 8 (pe_cgroup_id e)), (''comm'', pe_comm e), (''exe'', pe_exe e),
     (''cmdline'', pe_cmdline e)] x)"

definition cast_process :: "byte list \<Rightarrow> process_event" where
  "cast_process bs =
    \<lparr>pe_ts_ns = le_word (field_bytes (CStruct ProcessProcessEvent) [''TsNs''] bs),
     pe_kind = le_word (field_bytes (CStruct ProcessProcessEvent) [''Kind''] bs),
     pe_pid = le_word (field_bytes (CStruct ProcessProcessEvent) [''Pid''] bs),
     pe_tgid = le_word (field_bytes (CStruct ProcessProcessEvent) [''Tgid''] bs),
     pe_ppid = le_word (field_bytes (CStruct ProcessProcessEvent) [''Ppid''] bs),
     pe_uid = le_word (field_bytes (CStruct ProcessProcessEvent) [''Uid''] bs),
     pe_gid = le_word (field_bytes (CStruct ProcessProcessEvent) [''Gid''] bs),
     pe_exit_code = le_word (field_bytes (CStruct ProcessProcessEvent) [''ExitCode''] bs),
     pe_cmdline_len = le_word (field_bytes (CStruct ProcessProcessEvent) [''CmdlineLen''] bs),
     pe_pad0 = le_word (field_bytes (CStruct ProcessProcessEvent) [''Pad0''] bs),
     pe_cgroup_id = le_word (field_bytes (CStruct ProcessProcessEvent) [''CgroupId''] bs),
     pe_comm = field_bytes (CStruct ProcessProcessEvent) [''Comm''] bs,
     pe_exe = field_bytes (CStruct ProcessProcessEvent) [''Exe''] bs,
     pe_cmdline = field_bytes (CStruct ProcessProcessEvent) [''Cmdline''] bs\<rparr>"

definition process_fields :: "(string \<times> string) list" where
  "process_fields =
    [(''ts_ns'', ''TsNs''), (''kind'', ''Kind''), (''pid'', ''Pid''), (''tgid'', ''Tgid''),
     (''ppid'', ''Ppid''), (''uid'', ''Uid''), (''gid'', ''Gid''),
     (''exit_code'', ''ExitCode''), (''cmdline_len'', ''CmdlineLen''), (''_pad0'', ''Pad0''),
     (''cgroup_id'', ''CgroupId''), (''comm'', ''Comm''), (''exe'', ''Exe''),
     (''cmdline'', ''Cmdline'')]"

definition wf_process_arrays :: "process_event \<Rightarrow> bool" where
  "wf_process_arrays e \<longleftrightarrow> length (pe_comm e) = 16 \<and> length (pe_exe e) = 128 \<and> length (pe_cmdline e) = 256"

lemma process_layout:
  "list_all (same_place struct_process_event ProcessProcessEvent) process_fields"
  "sizeof (CStruct struct_process_event) = sizeof (CStruct ProcessProcessEvent)"
  "flat struct_process_event"
  by code_simp+

lemma process_fits: "wf_process_arrays e \<Longrightarrow> fits struct_process_event (process_val e)"
  by (simp add: struct_process_event_def process_val_def wf_process_arrays_def layout_types)

lemmas process_cast = cast_field_table [OF process_layout(1,3)]

lemma cast_process_image:
  assumes "wf_process_arrays e"
  shows "cast_process (image g struct_process_event (process_val e)) = e"
  using process_cast [OF process_fits [OF assms], of _ g]
  by (cases e) (simp add: cast_process_def process_fields_def process_val_def)

lemma process_image_length:
  "wf_process_arrays e \<Longrightarrow> length (image g struct_process_event (process_val e)) = sizeof (CStruct ProcessProcessEvent)"
  using image_length [OF process_layout(3) process_fits] process_layout(2) by simp

section \<open>File\<close>

definition FileFileEvent :: "cfield list" where
  "FileFileEvent =
    [Fld ''TsNs'' go_uint64, Fld ''Kind'' go_uint32, Fld ''Pid'' go_uint32,
     Fld ''Tgid'' go_uint32, Fld ''Uid'' go_uint32, Fld ''Gid'' go_uint32,
     Fld ''Flags'' go_uint32, Fld ''Mode'' go_uint32, Fld ''Extra'' go_uint32,
     Fld ''Pad'' go_uint32, Fld ''Comm'' (CArr go_uint8 16), Fld ''Path'' (CArr go_uint8 256),
     Fld ''Newpath'' (CArr go_uint8 256), Fld ''_'' (CArr go_uint8 4)]"

definition file_val :: "file_event \<Rightarrow> string \<Rightarrow> byte list" where
  "file_val e x = the (map_of
    [(''ts_ns'', le_bytes 8 (fe_ts_ns e)), (''kind'', le_bytes 4 (fe_kind e)),
     (''pid'', le_bytes 4 (fe_pid e)), (''tgid'', le_bytes 4 (fe_tgid e)),
     (''uid'', le_bytes 4 (fe_uid e)), (''gid'', le_bytes 4 (fe_gid e)),
     (''flags'', le_bytes 4 (fe_flags e)), (''mode'', le_bytes 4 (fe_mode e)),
     (''extra'', le_bytes 4 (fe_extra e)), (''_pad'', le_bytes 4 (fe_pad e)),
     (''comm'', fe_comm e), (''path'', fe_path e), (''newpath'', fe_newpath e)] x)"

definition cast_file :: "byte list \<Rightarrow> file_event" where
  "cast_file bs =
    \<lparr>fe_ts_ns = le_word (field_bytes (CStruct FileFileEvent) [''TsNs''] bs),
     fe_kind = le_word (field_bytes (CStruct FileFileEvent) [''Kind''] bs),
     fe_pid = le_word (field_bytes (CStruct FileFileEvent) [''Pid''] bs),
     fe_tgid = le_word (field_bytes (CStruct FileFileEvent) [''Tgid''] bs),
     fe_uid = le_word (field_bytes (CStruct FileFileEvent) [''Uid''] bs),
     fe_gid = le_word (field_bytes (CStruct FileFileEvent) [''Gid''] bs),
     fe_flags = le_word (field_bytes (CStruct FileFileEvent) [''Flags''] bs),
     fe_mode = le_word (field_bytes (CStruct FileFileEvent) [''Mode''] bs),
     fe_extra = le_word (field_bytes (CStruct FileFileEvent) [''Extra''] bs),
     fe_pad = le_word (field_bytes (CStruct FileFileEvent) [''Pad''] bs),
     fe_comm = field_bytes (CStruct FileFileEvent) [''Comm''] bs,
     fe_path = field_bytes (CStruct FileFileEvent) [''Path''] bs,
     fe_newpath = field_bytes (CStruct FileFileEvent) [''Newpath''] bs\<rparr>"

definition file_fields :: "(string \<times> string) list" where
  "file_fields =
    [(''ts_ns'', ''TsNs''), (''kind'', ''Kind''), (''pid'', ''Pid''), (''tgid'', ''Tgid''),
     (''uid'', ''Uid''), (''gid'', ''Gid''), (''flags'', ''Flags''), (''mode'', ''Mode''),
     (''extra'', ''Extra''), (''_pad'', ''Pad''), (''comm'', ''Comm''), (''path'', ''Path''),
     (''newpath'', ''Newpath'')]"

definition wf_file_arrays :: "file_event \<Rightarrow> bool" where
  "wf_file_arrays e \<longleftrightarrow> length (fe_comm e) = 16 \<and> length (fe_path e) = 256 \<and> length (fe_newpath e) = 256"

lemma file_layout:
  "list_all (same_place struct_file_event FileFileEvent) file_fields"
  "sizeof (CStruct struct_file_event) = sizeof (CStruct FileFileEvent)"
  "flat struct_file_event"
  by code_simp+

lemma file_fits: "wf_file_arrays e \<Longrightarrow> fits struct_file_event (file_val e)"
  by (simp add: struct_file_event_def file_val_def wf_file_arrays_def layout_types)

lemmas file_cast = cast_field_table [OF file_layout(1,3)]

lemma cast_file_image:
  assumes "wf_file_arrays e"
  shows "cast_file (image g struct_file_event (file_val e)) = e"
  using file_cast [OF file_fits [OF assms], of _ g]
  by (cases e) (simp add: cast_file_def file_fields_def file_val_def)

lemma file_image_length:
  "wf_file_arrays e \<Longrightarrow> length (image g struct_file_event (file_val e)) = sizeof (CStruct FileFileEvent)"
  using image_length [OF file_layout(3) file_fits] file_layout(2) by simp

section \<open>Net\<close>

definition NetNetEvent :: "cfield list" where
  "NetNetEvent =
    [Fld ''TsNs'' go_uint64, Fld ''Kind'' go_uint32, Fld ''Pid'' go_uint32,
     Fld ''Tgid'' go_uint32, Fld ''Uid'' go_uint32, Fld ''Gid'' go_uint32,
     Fld ''Family'' go_uint16, Fld ''Proto'' go_uint8, Fld ''Pad0'' go_uint8,
     Fld ''Sport'' go_uint16, Fld ''Dport'' go_uint16, Fld ''Saddr'' (CArr go_uint8 16),
     Fld ''Daddr'' (CArr go_uint8 16), Fld ''Comm'' (CArr go_uint8 16),
     Fld ''_'' (CArr go_uint8 4)]"

definition net_val :: "net_event \<Rightarrow> string \<Rightarrow> byte list" where
  "net_val e x = the (map_of
    [(''ts_ns'', le_bytes 8 (ne_ts_ns e)), (''kind'', le_bytes 4 (ne_kind e)),
     (''pid'', le_bytes 4 (ne_pid e)), (''tgid'', le_bytes 4 (ne_tgid e)),
     (''uid'', le_bytes 4 (ne_uid e)), (''gid'', le_bytes 4 (ne_gid e)),
     (''family'', le_bytes 2 (ne_family e)), (''proto'', le_bytes 1 (ne_proto e)),
     (''_pad0'', le_bytes 1 (ne_pad0 e)), (''sport'', le_bytes 2 (ne_sport e)),
     (''dport'', le_bytes 2 (ne_dport e)), (''saddr'', ne_saddr e), (''daddr'', ne_daddr e),
     (''comm'', ne_comm e)] x)"

definition cast_net :: "byte list \<Rightarrow> net_event" where
  "cast_net bs =
    \<lparr>ne_ts_ns = le_word (field_bytes (CStruct NetNetEvent) [''TsNs''] bs),
     ne_kind = le_word (field_bytes (CStruct NetNetEvent) [''Kind''] bs),
     ne_pid = le_word (field_bytes (CStruct NetNetEvent) [''Pid''] bs),
     ne_tgid = le_word (field_bytes (CStruct NetNetEvent) [''Tgid''] bs),
     ne_uid = le_word (field_bytes (CStruct NetNetEvent) [''Uid''] bs),
     ne_gid = le_word (field_bytes (CStruct NetNetEvent) [''Gid''] bs),
     ne_family = le_word (field_bytes (CStruct NetNetEvent) [''Family''] bs),
     ne_proto = le_word (field_bytes (CStruct NetNetEvent) [''Proto''] bs),
     ne_pad0 = le_word (field_bytes (CStruct NetNetEvent) [''Pad0''] bs),
     ne_sport = le_word (field_bytes (CStruct NetNetEvent) [''Sport''] bs),
     ne_dport = le_word (field_bytes (CStruct NetNetEvent) [''Dport''] bs),
     ne_saddr = field_bytes (CStruct NetNetEvent) [''Saddr''] bs,
     ne_daddr = field_bytes (CStruct NetNetEvent) [''Daddr''] bs,
     ne_comm = field_bytes (CStruct NetNetEvent) [''Comm''] bs\<rparr>"

definition net_fields :: "(string \<times> string) list" where
  "net_fields =
    [(''ts_ns'', ''TsNs''), (''kind'', ''Kind''), (''pid'', ''Pid''), (''tgid'', ''Tgid''),
     (''uid'', ''Uid''), (''gid'', ''Gid''), (''family'', ''Family''), (''proto'', ''Proto''),
     (''_pad0'', ''Pad0''), (''sport'', ''Sport''), (''dport'', ''Dport''),
     (''saddr'', ''Saddr''), (''daddr'', ''Daddr''), (''comm'', ''Comm'')]"

definition wf_net_arrays :: "net_event \<Rightarrow> bool" where
  "wf_net_arrays e \<longleftrightarrow> length (ne_saddr e) = 16 \<and> length (ne_daddr e) = 16 \<and> length (ne_comm e) = 16"

lemma net_layout:
  "list_all (same_place struct_net_event NetNetEvent) net_fields"
  "sizeof (CStruct struct_net_event) = sizeof (CStruct NetNetEvent)"
  "flat struct_net_event"
  by code_simp+

lemma net_fits: "wf_net_arrays e \<Longrightarrow> fits struct_net_event (net_val e)"
  by (simp add: struct_net_event_def net_val_def wf_net_arrays_def layout_types)

lemmas net_cast = cast_field_table [OF net_layout(1,3)]

lemma cast_net_image:
  assumes "wf_net_arrays e"
  shows "cast_net (image g struct_net_event (net_val e)) = e"
  using net_cast [OF net_fits [OF assms], of _ g]
  by (cases e) (simp add: cast_net_def net_fields_def net_val_def)

lemma net_image_length:
  "wf_net_arrays e \<Longrightarrow> length (image g struct_net_event (net_val e)) = sizeof (CStruct NetNetEvent)"
  using image_length [OF net_layout(3) net_fits] net_layout(2) by simp

section \<open>Auth\<close>

definition AuthAuthEvent :: "cfield list" where
  "AuthAuthEvent =
    [Fld ''TsNs'' go_uint64, Fld ''Kind'' go_uint32, Fld ''Pid'' go_uint32,
     Fld ''Tgid'' go_uint32, Fld ''Uid'' go_uint32, Fld ''Gid'' go_uint32,
     Fld ''Result'' go_uint32, Fld ''Pad0'' go_uint32, Fld ''Service'' (CArr go_uint8 32),
     Fld ''User'' (CArr go_uint8 64), Fld ''Rhost'' (CArr go_uint8 64),
     Fld ''Tty'' (CArr go_uint8 32), Fld ''Comm'' (CArr go_uint8 16), Fld ''_'' (CArr go_uint8 4)]"

definition auth_val :: "auth_event \<Rightarrow> string \<Rightarrow> byte list" where
  "auth_val e x = the (map_of
    [(''ts_ns'', le_bytes 8 (ae_ts_ns e)), (''kind'', le_bytes 4 (ae_kind e)),
     (''pid'', le_bytes 4 (ae_pid e)), (''tgid'', le_bytes 4 (ae_tgid e)),
     (''uid'', le_bytes 4 (ae_uid e)), (''gid'', le_bytes 4 (ae_gid e)),
     (''result'', le_bytes 4 (ae_result e)), (''_pad0'', le_bytes 4 (ae_pad0 e)),
     (''service'', ae_service e), (''user'', ae_user e), (''rhost'', ae_rhost e),
     (''tty'', ae_tty e), (''comm'', ae_comm e)] x)"

definition cast_auth :: "byte list \<Rightarrow> auth_event" where
  "cast_auth bs =
    \<lparr>ae_ts_ns = le_word (field_bytes (CStruct AuthAuthEvent) [''TsNs''] bs),
     ae_kind = le_word (field_bytes (CStruct AuthAuthEvent) [''Kind''] bs),
     ae_pid = le_word (field_bytes (CStruct AuthAuthEvent) [''Pid''] bs),
     ae_tgid = le_word (field_bytes (CStruct AuthAuthEvent) [''Tgid''] bs),
     ae_uid = le_word (field_bytes (CStruct AuthAuthEvent) [''Uid''] bs),
     ae_gid = le_word (field_bytes (CStruct AuthAuthEvent) [''Gid''] bs),
     ae_result = le_word (field_bytes (CStruct AuthAuthEvent) [''Result''] bs),
     ae_pad0 = le_word (field_bytes (CStruct AuthAuthEvent) [''Pad0''] bs),
     ae_service = field_bytes (CStruct AuthAuthEvent) [''Service''] bs,
     ae_user = field_bytes (CStruct AuthAuthEvent) [''User''] bs,
     ae_rhost = field_bytes (CStruct AuthAuthEvent) [''Rhost''] bs,
     ae_tty = field_bytes (CStruct AuthAuthEvent) [''Tty''] bs,
     ae_comm = field_bytes (CStruct AuthAuthEvent) [''Comm''] bs\<rparr>"

definition auth_fields :: "(string \<times> string) list" where
  "auth_fields =
    [(''ts_ns'', ''TsNs''), (''kind'', ''Kind''), (''pid'', ''Pid''), (''tgid'', ''Tgid''),
     (''uid'', ''Uid''), (''gid'', ''Gid''), (''result'', ''Result''), (''_pad0'', ''Pad0''),
     (''service'', ''Service''), (''user'', ''User''), (''rhost'', ''Rhost''),
     (''tty'', ''Tty''), (''comm'', ''Comm'')]"

lemma auth_layout:
  "list_all (same_place struct_auth_event AuthAuthEvent) auth_fields"
  "sizeof (CStruct struct_auth_event) = sizeof (CStruct AuthAuthEvent)"
  "flat struct_auth_event"
  by code_simp+

lemma auth_fits: "wf_auth_event e \<Longrightarrow> fits struct_auth_event (auth_val e)"
  by (simp add: struct_auth_event_def auth_val_def wf_auth_event_def layout_types)

lemmas auth_cast = cast_field_table [OF auth_layout(1,3)]

lemma cast_auth_image:
  assumes "wf_auth_event e"
  shows "cast_auth (image g struct_auth_event (auth_val e)) = e"
  using auth_cast [OF auth_fits [OF assms], of _ g]
  by (cases e) (simp add: cast_auth_def auth_fields_def auth_val_def)

lemma auth_image_length:
  "wf_auth_event e \<Longrightarrow> length (image g struct_auth_event (auth_val e)) = sizeof (CStruct AuthAuthEvent)"
  using image_length [OF auth_layout(3) auth_fits] auth_layout(2) by simp

section \<open>Kernel\<close>

definition KernelKernelEvent :: "cfield list" where
  "KernelKernelEvent =
    [Fld ''TsNs'' go_uint64, Fld ''Kind'' go_uint32, Fld ''Pid'' go_uint32,
     Fld ''Tgid'' go_uint32, Fld ''Uid'' go_uint32, Fld ''Gid'' go_uint32,
     Fld ''Result'' go_uint32, Fld ''Taints'' go_uint32, Fld ''AttrType'' go_uint32,
     Fld ''Config'' go_uint64, Fld ''Config2'' go_uint64, Fld ''Name'' (CArr go_uint8 64),
     Fld ''Target'' (CArr go_uint8 128), Fld ''Comm'' (CArr go_uint8 16)]"

definition kernel_val :: "kernel_event \<Rightarrow> string \<Rightarrow> byte list" where
  "kernel_val e x = the (map_of
    [(''ts_ns'', le_bytes 8 (ke_ts_ns e)), (''kind'', le_bytes 4 (ke_kind e)),
     (''pid'', le_bytes 4 (ke_pid e)), (''tgid'', le_bytes 4 (ke_tgid e)),
     (''uid'', le_bytes 4 (ke_uid e)), (''gid'', le_bytes 4 (ke_gid e)),
     (''result'', le_bytes 4 (ke_result e)), (''taints'', le_bytes 4 (ke_taints e)),
     (''attr_type'', le_bytes 4 (ke_attr_type e)), (''config'', le_bytes 8 (ke_config e)),
     (''config2'', le_bytes 8 (ke_config2 e)), (''name'', ke_name e), (''target'', ke_target e),
     (''comm'', ke_comm e)] x)"

definition cast_kernel :: "byte list \<Rightarrow> kernel_event" where
  "cast_kernel bs =
    \<lparr>ke_ts_ns = le_word (field_bytes (CStruct KernelKernelEvent) [''TsNs''] bs),
     ke_kind = le_word (field_bytes (CStruct KernelKernelEvent) [''Kind''] bs),
     ke_pid = le_word (field_bytes (CStruct KernelKernelEvent) [''Pid''] bs),
     ke_tgid = le_word (field_bytes (CStruct KernelKernelEvent) [''Tgid''] bs),
     ke_uid = le_word (field_bytes (CStruct KernelKernelEvent) [''Uid''] bs),
     ke_gid = le_word (field_bytes (CStruct KernelKernelEvent) [''Gid''] bs),
     ke_result = le_word (field_bytes (CStruct KernelKernelEvent) [''Result''] bs),
     ke_taints = le_word (field_bytes (CStruct KernelKernelEvent) [''Taints''] bs),
     ke_attr_type = le_word (field_bytes (CStruct KernelKernelEvent) [''AttrType''] bs),
     ke_config = le_word (field_bytes (CStruct KernelKernelEvent) [''Config''] bs),
     ke_config2 = le_word (field_bytes (CStruct KernelKernelEvent) [''Config2''] bs),
     ke_name = field_bytes (CStruct KernelKernelEvent) [''Name''] bs,
     ke_target = field_bytes (CStruct KernelKernelEvent) [''Target''] bs,
     ke_comm = field_bytes (CStruct KernelKernelEvent) [''Comm''] bs\<rparr>"

definition kernel_fields :: "(string \<times> string) list" where
  "kernel_fields =
    [(''ts_ns'', ''TsNs''), (''kind'', ''Kind''), (''pid'', ''Pid''), (''tgid'', ''Tgid''),
     (''uid'', ''Uid''), (''gid'', ''Gid''), (''result'', ''Result''), (''taints'', ''Taints''),
     (''attr_type'', ''AttrType''), (''config'', ''Config''), (''config2'', ''Config2''),
     (''name'', ''Name''), (''target'', ''Target''), (''comm'', ''Comm'')]"

definition wf_kernel_arrays :: "kernel_event \<Rightarrow> bool" where
  "wf_kernel_arrays e \<longleftrightarrow> length (ke_name e) = 64 \<and> length (ke_target e) = 128 \<and> length (ke_comm e) = 16"

lemma kernel_layout:
  "list_all (same_place struct_kernel_event KernelKernelEvent) kernel_fields"
  "sizeof (CStruct struct_kernel_event) = sizeof (CStruct KernelKernelEvent)"
  "flat struct_kernel_event"
  by code_simp+

lemma kernel_fits: "wf_kernel_arrays e \<Longrightarrow> fits struct_kernel_event (kernel_val e)"
  by (simp add: struct_kernel_event_def kernel_val_def wf_kernel_arrays_def layout_types)

lemmas kernel_cast = cast_field_table [OF kernel_layout(1,3)]

lemma cast_kernel_image:
  assumes "wf_kernel_arrays e"
  shows "cast_kernel (image g struct_kernel_event (kernel_val e)) = e"
  using kernel_cast [OF kernel_fits [OF assms], of _ g]
  by (cases e) (simp add: cast_kernel_def kernel_fields_def kernel_val_def)

lemma kernel_image_length:
  "wf_kernel_arrays e \<Longrightarrow> length (image g struct_kernel_event (kernel_val e)) = sizeof (CStruct KernelKernelEvent)"
  using image_length [OF kernel_layout(3) kernel_fits] kernel_layout(2) by simp

section \<open>Cgroup\<close>

definition CgroupCgroupEvent :: "cfield list" where
  "CgroupCgroupEvent =
    [Fld ''TsNs'' go_uint64, Fld ''Kind'' go_uint32, Fld ''Pid'' go_uint32,
     Fld ''Tgid'' go_uint32, Fld ''Uid'' go_uint32, Fld ''Gid'' go_uint32,
     Fld ''Root'' go_uint32, Fld ''Level'' go_uint32, Fld ''Pad0'' go_uint32,
     Fld ''Id'' go_uint64, Fld ''Path'' (CArr go_uint8 256), Fld ''Comm'' (CArr go_uint8 16)]"

definition cgroup_val :: "cgroup_event \<Rightarrow> string \<Rightarrow> byte list" where
  "cgroup_val e x = the (map_of
    [(''ts_ns'', le_bytes 8 (ce_ts_ns e)), (''kind'', le_bytes 4 (ce_kind e)),
     (''pid'', le_bytes 4 (ce_pid e)), (''tgid'', le_bytes 4 (ce_tgid e)),
     (''uid'', le_bytes 4 (ce_uid e)), (''gid'', le_bytes 4 (ce_gid e)),
     (''root'', le_bytes 4 (ce_root e)), (''level'', le_bytes 4 (ce_level e)),
     (''_pad0'', le_bytes 4 (ce_pad0 e)), (''id'', le_bytes 8 (ce_id e)), (''path'', ce_path e),
     (''comm'', ce_comm e)] x)"

definition cast_cgroup :: "byte list \<Rightarrow> cgroup_event" where
  "cast_cgroup bs =
    \<lparr>ce_ts_ns = le_word (field_bytes (CStruct CgroupCgroupEvent) [''TsNs''] bs),
     ce_kind = le_word (field_bytes (CStruct CgroupCgroupEvent) [''Kind''] bs),
     ce_pid = le_word (field_bytes (CStruct CgroupCgroupEvent) [''Pid''] bs),
     ce_tgid = le_word (field_bytes (CStruct CgroupCgroupEvent) [''Tgid''] bs),
     ce_uid = le_word (field_bytes (CStruct CgroupCgroupEvent) [''Uid''] bs),
     ce_gid = le_word (field_bytes (CStruct CgroupCgroupEvent) [''Gid''] bs),
     ce_root = le_word (field_bytes (CStruct CgroupCgroupEvent) [''Root''] bs),
     ce_level = le_word (field_bytes (CStruct CgroupCgroupEvent) [''Level''] bs),
     ce_pad0 = le_word (field_bytes (CStruct CgroupCgroupEvent) [''Pad0''] bs),
     ce_id = le_word (field_bytes (CStruct CgroupCgroupEvent) [''Id''] bs),
     ce_path = field_bytes (CStruct CgroupCgroupEvent) [''Path''] bs,
     ce_comm = field_bytes (CStruct CgroupCgroupEvent) [''Comm''] bs\<rparr>"

definition cgroup_fields :: "(string \<times> string) list" where
  "cgroup_fields =
    [(''ts_ns'', ''TsNs''), (''kind'', ''Kind''), (''pid'', ''Pid''), (''tgid'', ''Tgid''),
     (''uid'', ''Uid''), (''gid'', ''Gid''), (''root'', ''Root''), (''level'', ''Level''),
     (''_pad0'', ''Pad0''), (''id'', ''Id''), (''path'', ''Path''), (''comm'', ''Comm'')]"

definition wf_cgroup_arrays :: "cgroup_event \<Rightarrow> bool" where
  "wf_cgroup_arrays e \<longleftrightarrow> length (ce_path e) = 256 \<and> length (ce_comm e) = 16"

lemma cgroup_layout:
  "list_all (same_place struct_cgroup_event CgroupCgroupEvent) cgroup_fields"
  "sizeof (CStruct struct_cgroup_event) = sizeof (CStruct CgroupCgroupEvent)"
  "flat struct_cgroup_event"
  by code_simp+

lemma cgroup_fits: "wf_cgroup_arrays e \<Longrightarrow> fits struct_cgroup_event (cgroup_val e)"
  by (simp add: struct_cgroup_event_def cgroup_val_def wf_cgroup_arrays_def layout_types)

lemmas cgroup_cast = cast_field_table [OF cgroup_layout(1,3)]

lemma cast_cgroup_image:
  assumes "wf_cgroup_arrays e"
  shows "cast_cgroup (image g struct_cgroup_event (cgroup_val e)) = e"
  using cgroup_cast [OF cgroup_fits [OF assms], of _ g]
  by (cases e) (simp add: cast_cgroup_def cgroup_fields_def cgroup_val_def)

lemma cgroup_image_length:
  "wf_cgroup_arrays e \<Longrightarrow> length (image g struct_cgroup_event (cgroup_val e)) = sizeof (CStruct CgroupCgroupEvent)"
  using image_length [OF cgroup_layout(3) cgroup_fits] cgroup_layout(2) by simp

section \<open>Dns\<close>

definition DnsDnsEvent :: "cfield list" where
  "DnsDnsEvent =
    [Fld ''TsNs'' go_uint64, Fld ''Kind'' go_uint32, Fld ''Pid'' go_uint32,
     Fld ''Tgid'' go_uint32, Fld ''Uid'' go_uint32, Fld ''Gid'' go_uint32,
     Fld ''Family'' go_uint16, Fld ''Sport'' go_uint16, Fld ''Dport'' go_uint16,
     Fld ''Pad0'' go_uint16, Fld ''PayloadLen'' go_uint32, Fld ''Saddr'' (CArr go_uint8 16),
     Fld ''Daddr'' (CArr go_uint8 16), Fld ''Comm'' (CArr go_uint8 16),
     Fld ''Payload'' (CArr go_uint8 1024)]"

definition dns_val :: "dns_event \<Rightarrow> string \<Rightarrow> byte list" where
  "dns_val e x = the (map_of
    [(''ts_ns'', le_bytes 8 (de_ts_ns e)), (''kind'', le_bytes 4 (de_kind e)),
     (''pid'', le_bytes 4 (de_pid e)), (''tgid'', le_bytes 4 (de_tgid e)),
     (''uid'', le_bytes 4 (de_uid e)), (''gid'', le_bytes 4 (de_gid e)),
     (''family'', le_bytes 2 (de_family e)), (''sport'', le_bytes 2 (de_sport e)),
     (''dport'', le_bytes 2 (de_dport e)), (''_pad0'', le_bytes 2 (de_pad0 e)),
     (''payload_len'', le_bytes 4 (de_payload_len e)), (''saddr'', de_saddr e),
     (''daddr'', de_daddr e), (''comm'', de_comm e), (''payload'', de_payload e)] x)"

definition cast_dns :: "byte list \<Rightarrow> dns_event" where
  "cast_dns bs =
    \<lparr>de_ts_ns = le_word (field_bytes (CStruct DnsDnsEvent) [''TsNs''] bs),
     de_kind = le_word (field_bytes (CStruct DnsDnsEvent) [''Kind''] bs),
     de_pid = le_word (field_bytes (CStruct DnsDnsEvent) [''Pid''] bs),
     de_tgid = le_word (field_bytes (CStruct DnsDnsEvent) [''Tgid''] bs),
     de_uid = le_word (field_bytes (CStruct DnsDnsEvent) [''Uid''] bs),
     de_gid = le_word (field_bytes (CStruct DnsDnsEvent) [''Gid''] bs),
     de_family = le_word (field_bytes (CStruct DnsDnsEvent) [''Family''] bs),
     de_sport = le_word (field_bytes (CStruct DnsDnsEvent) [''Sport''] bs),
     de_dport = le_word (field_bytes (CStruct DnsDnsEvent) [''Dport''] bs),
     de_pad0 = le_word (field_bytes (CStruct DnsDnsEvent) [''Pad0''] bs),
     de_payload_len = le_word (field_bytes (CStruct DnsDnsEvent) [''PayloadLen''] bs),
     de_saddr = field_bytes (CStruct DnsDnsEvent) [''Saddr''] bs,
     de_daddr = field_bytes (CStruct DnsDnsEvent) [''Daddr''] bs,
     de_comm = field_bytes (CStruct DnsDnsEvent) [''Comm''] bs,
     de_payload = field_bytes (CStruct DnsDnsEvent) [''Payload''] bs\<rparr>"

definition dns_fields :: "(string \<times> string) list" where
  "dns_fields =
    [(''ts_ns'', ''TsNs''), (''kind'', ''Kind''), (''pid'', ''Pid''), (''tgid'', ''Tgid''),
     (''uid'', ''Uid''), (''gid'', ''Gid''), (''family'', ''Family''), (''sport'', ''Sport''),
     (''dport'', ''Dport''), (''_pad0'', ''Pad0''), (''payload_len'', ''PayloadLen''),
     (''saddr'', ''Saddr''), (''daddr'', ''Daddr''), (''comm'', ''Comm''),
     (''payload'', ''Payload'')]"

definition wf_dns_arrays :: "dns_event \<Rightarrow> bool" where
  "wf_dns_arrays e \<longleftrightarrow> length (de_saddr e) = 16 \<and> length (de_daddr e) = 16 \<and> length (de_comm e) = 16 \<and> length (de_payload e) = 1024"

lemma dns_layout:
  "list_all (same_place struct_dns_event DnsDnsEvent) dns_fields"
  "sizeof (CStruct struct_dns_event) = sizeof (CStruct DnsDnsEvent)"
  "flat struct_dns_event"
  by code_simp+

lemma dns_fits: "wf_dns_arrays e \<Longrightarrow> fits struct_dns_event (dns_val e)"
  by (simp add: struct_dns_event_def dns_val_def wf_dns_arrays_def layout_types)

lemmas dns_cast = cast_field_table [OF dns_layout(1,3)]

lemma cast_dns_image:
  assumes "wf_dns_arrays e"
  shows "cast_dns (image g struct_dns_event (dns_val e)) = e"
  using dns_cast [OF dns_fits [OF assms], of _ g]
  by (cases e) (simp add: cast_dns_def dns_fields_def dns_val_def)

lemma dns_image_length:
  "wf_dns_arrays e \<Longrightarrow> length (image g struct_dns_event (dns_val e)) = sizeof (CStruct DnsDnsEvent)"
  using image_length [OF dns_layout(3) dns_fits] dns_layout(2) by simp

end
