(* ===== verification/Collector.thy ===== *)
theory Collector
  imports Go_Wire
begin

text \<open>
  \<^verbatim>\<open>agent/internal/collector\<close>: the Go side of the ring buffers. Each collector reads samples,
  casts them to the generated struct, decodes them into a \<open>pipeline.Raw*Event\<close> and sends the
  result to its channel without blocking. Go strings are byte lists; \<open>time.Now()\<close> is a
  parameter of the decoders.
\<close>

section \<open>Strings\<close>

text \<open>\<open>cstr\<close>: the loop looks for the first NUL, the copy takes the bytes before it.\<close>

fun cstr_end :: "byte list \<Rightarrow> nat" where
  "cstr_end [] = 0"
| "cstr_end (c # cs) = (if c = 0 then 0 else Suc (cstr_end cs))"

definition cstr :: "byte list \<Rightarrow> byte list" where
  "cstr b = take (cstr_end b) b"

lemma cstr_c_string [simp]: "cstr b = c_string b"
  unfolding cstr_def c_string_def by (induction b) auto

definition decodeCmdline :: "byte list \<Rightarrow> u32 \<Rightarrow> byte list" where
  "decodeCmdline buf n =
     (if n = 0 \<or> unat n > length buf then []
      else let b = take (unat n) buf;
               b = (if last b = 0 then butlast b else b)
           in map (\<lambda>c. if c = 0 then 32 else c) b)"

text \<open>Decimal digits, as \<open>fmt\<close> prints an unsigned integer.\<close>

fun decimal :: "nat \<Rightarrow> byte list" where
  "decimal n = (if n < 10 then [of_nat (48 + n)] else decimal (n div 10) @ [of_nat (48 + n mod 10)])"

declare decimal.simps [simp del]

definition hex_table :: "byte list" where
  "hex_table = [48, 49, 50, 51, 52, 53, 54, 55, 56, 57, 97, 98, 99, 100, 101, 102]"

definition hex_digit :: "u16 \<Rightarrow> byte" where
  "hex_digit d = hex_table ! unat d"

function formatIPv6_loop :: "byte list \<Rightarrow> nat \<Rightarrow> byte list \<Rightarrow> byte list" where
  "formatIPv6_loop b i out =
     (if i < 16 then
        let out = (if i > 0 then out @ [58] else out);
            w = push_bit 8 (ucast (b ! i)) OR ucast (b ! (i + 1)) :: u16;
            out = out @ [hex_digit (drop_bit 12 w AND 0xf), hex_digit (drop_bit 8 w AND 0xf),
                         hex_digit (drop_bit 4 w AND 0xf), hex_digit (w AND 0xf)]
        in formatIPv6_loop b (i + 2) out
      else out)"
  by pat_completeness auto
termination by (relation "measure (\<lambda>(b, i, out). 16 - i)") auto

declare formatIPv6_loop.simps [simp del]

definition formatIPv6 :: "byte list \<Rightarrow> byte list" where
  "formatIPv6 b = formatIPv6_loop b 0 []"

definition formatAddr :: "u16 \<Rightarrow> byte list \<Rightarrow> byte list" where
  "formatAddr family raw =
     (if family = 2 then
        decimal (unat (raw ! 0)) @ [46] @ decimal (unat (raw ! 1)) @ [46] @
        decimal (unat (raw ! 2)) @ [46] @ decimal (unat (raw ! 3))
      else if family = 10 then formatIPv6 raw
      else [])"

section \<open>Raw events and their decoders\<close>

datatype RawProcessKind = ProcUnknown | ProcExec | ProcExit | ProcFork
datatype RawFileKind =
  FileUnknown | FileOpenCreate | FileOpenWrite | FileUnlink | FileRename | FileChmod | FileChown
datatype RawNetKind = NetUnknown | NetTCPConnect | NetTCPAccept | NetUDPSend
datatype RawAuthKind = AuthUnknown | AuthAttempt | AuthSessionOpen | AuthSessionClose
datatype RawKernelKind =
  KernelUnknown | KernelModuleLoad | KernelModuleUnload | KernelModuleLoadRejected | KernelBPFProgLoad |
  KernelProbeAttach
datatype RawCgroupKind = CgroupUnknown | CgroupMkdir | CgroupRmdir
datatype RawDNSKind = DNSUnknown | DNSQuery | DNSResponse

record RawProcessEvent =
  rp_Kind :: RawProcessKind
  rp_PID :: u32
  rp_PPID :: u32
  rp_TGID :: u32
  rp_UID :: u32
  rp_GID :: u32
  rp_Comm :: "byte list"
  rp_Exe :: "byte list"
  rp_Cmdline :: "byte list"
  rp_Timestamp :: int
  rp_ExitCode :: u32
  rp_CgroupID :: u64

record RawFileEvent =
  rf_Kind :: RawFileKind
  rf_PID :: u32
  rf_UID :: u32
  rf_Path :: "byte list"
  rf_NewPath :: "byte list"
  rf_Flags :: u32
  rf_Mode :: u32
  rf_Timestamp :: int

record RawNetEvent =
  rn_Kind :: RawNetKind
  rn_PID :: u32
  rn_Proto :: u8
  rn_SrcAddr :: "byte list"
  rn_SrcPort :: u16
  rn_DstAddr :: "byte list"
  rn_DstPort :: u16
  rn_Timestamp :: int

record RawAuthEvent =
  ra_Kind :: RawAuthKind
  ra_PID :: u32
  ra_UID :: u32
  ra_Result :: u32
  ra_Service :: "byte list"
  ra_User :: "byte list"
  ra_RemoteHost :: "byte list"
  ra_TTY :: "byte list"
  ra_Comm :: "byte list"
  ra_Timestamp :: int

record RawKernelEvent =
  rk_Kind :: RawKernelKind
  rk_PID :: u32
  rk_UID :: u32
  rk_Errno :: u32
  rk_Taints :: u32
  rk_Name :: "byte list"
  rk_ProgType :: u32
  rk_Probe :: string
  rk_Retprobe :: bool
  rk_Offset :: u64
  rk_SystemCall :: string
  rk_Comm :: "byte list"
  rk_Timestamp :: int

record RawCgroupEvent =
  rc_Kind :: RawCgroupKind
  rc_PID :: u32
  rc_UID :: u32
  rc_Root :: u32
  rc_ID :: u64
  rc_Path :: "byte list"
  rc_Comm :: "byte list"
  rc_Timestamp :: int

record RawDNSEvent =
  rd_Kind :: RawDNSKind
  rd_PID :: u32
  rd_UID :: u32
  rd_SrcAddr :: "byte list"
  rd_SrcPort :: u16
  rd_DstAddr :: "byte list"
  rd_DstPort :: u16
  rd_Payload :: "byte list"
  rd_Comm :: "byte list"
  rd_Timestamp :: int

definition decodeKind :: "u32 \<Rightarrow> RawProcessKind" where
  "decodeKind k = (if k = 1 then ProcExec else if k = 2 then ProcExit else if k = 3 then ProcFork else ProcUnknown)"

definition decodeProcessEvent :: "int \<Rightarrow> process_event \<Rightarrow> RawProcessEvent" where
  "decodeProcessEvent now r =
     \<lparr>rp_Kind = decodeKind (pe_kind r), rp_PID = pe_pid r, rp_PPID = pe_ppid r, rp_TGID = pe_tgid r,
      rp_UID = pe_uid r, rp_GID = pe_gid r, rp_Comm = cstr (pe_comm r), rp_Exe = cstr (pe_exe r),
      rp_Cmdline = decodeCmdline (pe_cmdline r) (pe_cmdline_len r), rp_Timestamp = now,
      rp_ExitCode = pe_exit_code r, rp_CgroupID = pe_cgroup_id r\<rparr>"

definition decodeFileKind :: "u32 \<Rightarrow> RawFileKind" where
  "decodeFileKind k =
     (if k = 1 then FileOpenCreate else if k = 2 then FileOpenWrite else if k = 3 then FileUnlink
      else if k = 4 then FileRename else if k = 5 then FileChmod else if k = 6 then FileChown else FileUnknown)"

definition decodeFileEvent :: "int \<Rightarrow> file_event \<Rightarrow> RawFileEvent" where
  "decodeFileEvent now r =
     \<lparr>rf_Kind = decodeFileKind (fe_kind r), rf_PID = fe_pid r, rf_UID = fe_uid r, rf_Path = cstr (fe_path r),
      rf_NewPath = cstr (fe_newpath r), rf_Flags = fe_flags r, rf_Mode = fe_mode r, rf_Timestamp = now\<rparr>"

definition decodeNetKind :: "u32 \<Rightarrow> RawNetKind" where
  "decodeNetKind k =
     (if k = 1 then NetTCPConnect else if k = 2 then NetTCPAccept else if k = 3 then NetUDPSend else NetUnknown)"

definition decodeNetEvent :: "int \<Rightarrow> net_event \<Rightarrow> RawNetEvent" where
  "decodeNetEvent now r =
     \<lparr>rn_Kind = decodeNetKind (ne_kind r), rn_PID = ne_pid r, rn_Proto = ne_proto r,
      rn_SrcAddr = formatAddr (ne_family r) (ne_saddr r), rn_SrcPort = ne_sport r,
      rn_DstAddr = formatAddr (ne_family r) (ne_daddr r), rn_DstPort = ne_dport r, rn_Timestamp = now\<rparr>"

definition decodeAuthKind :: "u32 \<Rightarrow> RawAuthKind" where
  "decodeAuthKind k =
     (if k = 1 then AuthAttempt else if k = 2 then AuthSessionOpen else if k = 3 then AuthSessionClose
      else AuthUnknown)"

definition decodeAuthEvent :: "int \<Rightarrow> auth_event \<Rightarrow> RawAuthEvent" where
  "decodeAuthEvent now r =
     \<lparr>ra_Kind = decodeAuthKind (ae_kind r), ra_PID = ae_tgid r, ra_UID = ae_uid r, ra_Result = ae_result r,
      ra_Service = cstr (ae_service r), ra_User = cstr (ae_user r), ra_RemoteHost = cstr (ae_rhost r),
      ra_TTY = cstr (ae_tty r), ra_Comm = cstr (ae_comm r), ra_Timestamp = now\<rparr>"

definition decodeKernelKind :: "u32 \<Rightarrow> RawKernelKind" where
  "decodeKernelKind k =
     (if k = 1 then KernelModuleLoad else if k = 2 then KernelModuleUnload
      else if k = 3 then KernelModuleLoadRejected else if k = 4 then KernelBPFProgLoad
      else if k = 5 then KernelProbeAttach else KernelUnknown)"

text \<open>\<open>decode\<close> of the kernel collector; \<open>kprobeType\<close> and \<open>uprobeType\<close> are its two fields.\<close>

definition decodeKernelEvent :: "u32 \<Rightarrow> u32 \<Rightarrow> int \<Rightarrow> kernel_event \<Rightarrow> RawKernelEvent option" where
  "decodeKernelEvent kprobeType uprobeType now r =
     (let ev = \<lparr>rk_Kind = decodeKernelKind (ke_kind r), rk_PID = ke_tgid r, rk_UID = ke_uid r, rk_Errno = 0,
                rk_Taints = ke_taints r, rk_Name = cstr (ke_name r), rk_ProgType = 0, rk_Probe = '''',
                rk_Retprobe = False, rk_Offset = 0, rk_SystemCall = '''', rk_Comm = cstr (ke_comm r),
                rk_Timestamp = now\<rparr>
      in case rk_Kind ev of
           KernelModuleLoad \<Rightarrow> Some (ev\<lparr>rk_SystemCall := ''init_module''\<rparr>)
         | KernelModuleUnload \<Rightarrow> Some (ev\<lparr>rk_SystemCall := ''delete_module''\<rparr>)
         | KernelModuleLoadRejected \<Rightarrow>
             let ev = ev\<lparr>rk_SystemCall := ''init_module''\<rparr>
             in Some (if sint (ke_result r) < 0 then ev\<lparr>rk_Errno := - ke_result r\<rparr> else ev)
         | KernelBPFProgLoad \<Rightarrow> Some (ev\<lparr>rk_SystemCall := ''bpf'', rk_ProgType := ke_attr_type r\<rparr>)
         | KernelProbeAttach \<Rightarrow>
             let ev = ev\<lparr>rk_SystemCall := ''perf_event_open''\<rparr>;
                 fin = (\<lambda>ev. ev\<lparr>rk_Name := cstr (ke_target r), rk_Retprobe := (ke_config r AND 1 = 1),
                   rk_Offset := ke_config2 r\<rparr>)
             in if kprobeType \<noteq> 0 \<and> ke_attr_type r = kprobeType then Some (fin (ev\<lparr>rk_Probe := ''kprobe''\<rparr>))
                else if uprobeType \<noteq> 0 \<and> ke_attr_type r = uprobeType then Some (fin (ev\<lparr>rk_Probe := ''uprobe''\<rparr>))
                else None
         | KernelUnknown \<Rightarrow> Some ev)"

definition decodeCgroupKind :: "u32 \<Rightarrow> RawCgroupKind" where
  "decodeCgroupKind k = (if k = 1 then CgroupMkdir else if k = 2 then CgroupRmdir else CgroupUnknown)"

definition decodeCgroupEvent :: "int \<Rightarrow> cgroup_event \<Rightarrow> RawCgroupEvent" where
  "decodeCgroupEvent now r =
     \<lparr>rc_Kind = decodeCgroupKind (ce_kind r), rc_PID = ce_tgid r, rc_UID = ce_uid r, rc_Root = ce_root r,
      rc_ID = ce_id r, rc_Path = cstr (ce_path r), rc_Comm = cstr (ce_comm r), rc_Timestamp = now\<rparr>"

definition decodeDNSKind :: "u32 \<Rightarrow> RawDNSKind" where
  "decodeDNSKind k = (if k = 1 then DNSQuery else if k = 2 then DNSResponse else DNSUnknown)"

definition decodeDNSEvent :: "int \<Rightarrow> dns_event \<Rightarrow> RawDNSEvent" where
  "decodeDNSEvent now r =
     (let n = unat (de_payload_len r);
          n = (if n > length (de_payload r) then length (de_payload r) else n);
          payload = take n (de_payload r);
          family = (if de_family r = 6 then 10 else 2 :: u16)
      in \<lparr>rd_Kind = decodeDNSKind (de_kind r), rd_PID = de_tgid r, rd_UID = de_uid r,
          rd_SrcAddr = formatAddr family (de_saddr r), rd_SrcPort = de_sport r,
          rd_DstAddr = formatAddr family (de_daddr r), rd_DstPort = de_dport r,
          rd_Payload = payload, rd_Comm = cstr (de_comm r), rd_Timestamp = now\<rparr>)"

section \<open>Printed addresses\<close>

text \<open>Reading the digits back gives the number; a digit is never a dot.\<close>

definition undecimal :: "byte list \<Rightarrow> nat" where
  "undecimal = foldl (\<lambda>n d. 10 * n + (unat d - 48)) 0"

lemma unat_digit: "n < 10 \<Longrightarrow> unat (of_nat (48 + n) :: byte) = 48 + n"
  by (simp add: unat_of_nat del: of_nat_add)

lemma undecimal_decimal: "undecimal (decimal n) = n"
proof (induction n rule: decimal.induct)
  case (1 n)
  show ?case
  proof (cases "n < 10")
    case True
    then show ?thesis by (simp add: decimal.simps [of n] undecimal_def unat_digit del: of_nat_add)
  next
    case False
    have "undecimal (decimal n) = 10 * undecimal (decimal (n div 10)) + n mod 10"
      using False by (subst decimal.simps) (simp add: undecimal_def unat_digit del: of_nat_add)
    then show ?thesis using 1 [OF False] by simp
  qed
qed

lemma decimal_inj: "decimal m = decimal n \<longleftrightarrow> m = n"
  by (metis undecimal_decimal)

lemma decimal_digits: "d \<in> set (decimal n) \<Longrightarrow> 48 \<le> unat d"
proof (induction n rule: decimal.induct)
  case (1 n)
  show ?case
  proof (cases "n < 10")
    case True
    then have "d = of_nat (48 + n)" using "1.prems" by (simp add: decimal.simps [of n] del: of_nat_add)
    then show ?thesis using unat_digit [OF True] by (simp del: of_nat_add)
  next
    case False
    then have "d \<in> set (decimal (n div 10)) \<or> d = of_nat (48 + n mod 10)"
      using "1.prems" by (subst (asm) decimal.simps) (auto simp del: of_nat_add)
    then show ?thesis using "1.IH" [OF False] unat_digit [of "n mod 10"] by (auto simp del: of_nat_add)
  qed
qed

lemma decimal_no_dot: "46 \<notin> set (decimal n)"
proof
  assume "46 \<in> set (decimal n)"
  from decimal_digits [OF this] show False by simp
qed

lemma decimal_dot:
  "decimal m @ 46 # xs = decimal n @ 46 # ys \<longleftrightarrow> m = n \<and> xs = ys"
proof
  assume eq: "decimal m @ 46 # xs = decimal n @ 46 # ys"
  have tw: "takeWhile (\<lambda>d. d \<noteq> 46) (decimal k @ 46 # zs) = decimal k" for k and zs :: "byte list"
  proof -
    have "d \<noteq> 46" if "d \<in> set (decimal k)" for d using that decimal_no_dot [of k] by blast
    then have "takeWhile (\<lambda>d. d \<noteq> 46) (decimal k @ 46 # zs) = decimal k @ takeWhile (\<lambda>d. d \<noteq> 46) (46 # zs)"
      by (rule takeWhile_append2)
    then show ?thesis by simp
  qed
  have d: "decimal m = decimal n" using arg_cong [OF eq, of "takeWhile (\<lambda>d. d \<noteq> 46)"] unfolding tw .
  have "m = n" using d unfolding decimal_inj .
  moreover have "xs = ys" using eq unfolding d by (simp only: same_append_eq list.inject simp_thms)
  ultimately show "m = n \<and> xs = ys" ..
qed (simp only: simp_thms)

text \<open>Four hexadecimal digits determine the 16-bit group they print.\<close>

definition hex4 :: "byte \<Rightarrow> byte \<Rightarrow> byte list" where
  "hex4 a b =
     (let w = push_bit 8 (ucast a) OR ucast b :: u16
      in [hex_digit (drop_bit 12 w AND 0xf), hex_digit (drop_bit 8 w AND 0xf),
          hex_digit (drop_bit 4 w AND 0xf), hex_digit (w AND 0xf)])"

lemma length_hex4 [simp]: "length (hex4 a b) = 4"
  by (simp add: hex4_def Let_def)

lemma hex_digit_inj:
  "hex_digit (v AND 0xf) = hex_digit (w AND 0xf) \<Longrightarrow> v AND 0xf = w AND 0xf"
proof -
  have lt: "unat (x AND 0xf :: u16) < 16" for x
  proof -
    have "x AND 0xf \<le> (0xf :: u16)" by (rule word_and_le1)
    then show ?thesis by (simp add: word_le_nat_alt)
  qed
  assume "hex_digit (v AND 0xf) = hex_digit (w AND 0xf)"
  moreover have "distinct hex_table" "length hex_table = 16" by (simp_all add: hex_table_def)
  ultimately have "unat (v AND 0xf) = unat (w AND 0xf)"
    using lt [of v] lt [of w] by (simp add: hex_digit_def nth_eq_iff_index_eq)
  then show "v AND 0xf = w AND 0xf" by (rule unsigned_word_eqI)
qed

lemma nibbles_word:
  assumes "\<And>k. k \<in> {0, 4, 8, 12} \<Longrightarrow> drop_bit k v AND 0xf = drop_bit k w AND (0xf :: u16)"
  shows "v = w"
proof (rule bit_word_eqI)
  fix n :: nat
  assume n: "n < LENGTH(16)"
  let ?k = "4 * (n div 4)" and ?j = "n mod 4"
  have "n div 4 < 4" using n by simp
  then have "n div 4 \<in> {0, 1, 2, 3}" by auto
  then have k: "?k \<in> {0, 4, 8, 12}" by auto
  have j: "?j < 4" "?j < 16" using mod_less_divisor [of 4 n] by linarith+
  have m: "(0xf :: u16) = mask 4" by (simp add: mask_eq_exp_minus_1)
  have "bit (drop_bit ?k x AND (0xf :: u16)) ?j = bit x n" for x
    using j by (simp add: m bit_and_iff bit_drop_bit_eq bit_mask_iff)
  then show "bit v n = bit w n" using assms [OF k] by metis
qed

lemma digit_pair:
  assumes "b < 256" "d < 256" "b + 256 * a = d + 256 * (c :: nat)"
  shows "a = c \<and> b = d"
proof -
  have "a = c" using assms(1,2) arg_cong [OF assms(3), of "\<lambda>x. x div 256"] by simp
  then show ?thesis using assms(3) by simp
qed

lemma hex4_inj: "hex4 a b = hex4 c d \<longleftrightarrow> a = c \<and> b = d"
proof
  assume eq: "hex4 a b = hex4 c d"
  let ?w = "\<lambda>a b. push_bit 8 (ucast (a :: byte)) OR ucast (b :: byte) :: u16"
  have "drop_bit k (?w a b) AND 0xf = drop_bit k (?w c d) AND 0xf" if "k \<in> {0, 4, 8, 12}" for k
    using that eq by (auto simp: hex4_def Let_def intro!: hex_digit_inj)
  then have "?w a b = ?w c d" by (rule nibbles_word)
  then have "le_word [b, a] = (le_word [d, c] :: u16)"
    by (simp only: le_word_pair or.commute)
  then have "unat b + 256 * unat a = unat d + 256 * unat c"
    using unat_le_word_pair [of b a] unat_le_word_pair [of d c] by simp
  then have "unat a = unat c \<and> unat b = unat d" by (rule digit_pair [OF unat_byte unat_byte])
  then show "a = c \<and> b = d" by (auto intro: unsigned_word_eqI)
qed simp

lemma formatIPv6_groups:
  "formatIPv6 b = hex4 (b ! 0) (b ! 1) @ 58 # hex4 (b ! 2) (b ! 3) @ 58 # hex4 (b ! 4) (b ! 5) @
     58 # hex4 (b ! 6) (b ! 7) @ 58 # hex4 (b ! 8) (b ! 9) @ 58 # hex4 (b ! 10) (b ! 11) @
     58 # hex4 (b ! 12) (b ! 13) @ 58 # hex4 (b ! 14) (b ! 15)"
proof -
  have step: "formatIPv6_loop b i out = formatIPv6_loop b (i + 2) ((if i > 0 then out @ [58] else out) @ hex4 (b ! i) (b ! (i + 1)))"
    if "i < 16" for i out
    using that by (subst formatIPv6_loop.simps) (simp add: hex4_def Let_def)
  have stop: "formatIPv6_loop b 16 out = out" for out
    by (subst formatIPv6_loop.simps) simp
  have "formatIPv6_loop b 0 [] = formatIPv6_loop b 2 (hex4 (b ! 0) (b ! 1))"
    using step [of 0 "[]"] by (simp add: numeral_2_eq_2)
  moreover have "formatIPv6_loop b 2 out = formatIPv6_loop b 4 (out @ 58 # hex4 (b ! 2) (b ! 3))"
    "formatIPv6_loop b 4 out = formatIPv6_loop b 6 (out @ 58 # hex4 (b ! 4) (b ! 5))"
    "formatIPv6_loop b 6 out = formatIPv6_loop b 8 (out @ 58 # hex4 (b ! 6) (b ! 7))"
    "formatIPv6_loop b 8 out = formatIPv6_loop b 10 (out @ 58 # hex4 (b ! 8) (b ! 9))"
    "formatIPv6_loop b 10 out = formatIPv6_loop b 12 (out @ 58 # hex4 (b ! 10) (b ! 11))"
    "formatIPv6_loop b 12 out = formatIPv6_loop b 14 (out @ 58 # hex4 (b ! 12) (b ! 13))"
    "formatIPv6_loop b 14 out = formatIPv6_loop b 16 (out @ 58 # hex4 (b ! 14) (b ! 15))" for out
    using step [of 2 out] step [of 4 out] step [of 6 out] step [of 8 out] step [of 10 out] step [of 12 out]
      step [of 14 out] by simp_all
  ultimately show ?thesis by (simp only: formatIPv6_def stop append_assoc append_Cons append_Nil)
qed

lemma formatIPv6_inj:
  assumes "length a = 16" "length b = 16" "formatIPv6 a = formatIPv6 b"
  shows "a = b"
proof -
  have "\<forall>i \<in> {0, 1, 2, 3, 4, 5, 6, 7, 8, 9, 10, 11, 12, 13, 14, 15}. a ! i = b ! i"
    using assms(3) by (simp add: formatIPv6_groups append_eq_append_conv hex4_inj)
  moreover have "{0, 1, 2, 3, 4, 5, 6, 7, 8, 9, 10, 11, 12, 13, 14, 15} = {..< 16 :: nat}"
    by (auto simp: lessThan_nat_numeral lessThan_Suc)
  ultimately have "\<forall>i \<in> {..< 16}. a ! i = b ! i" by (simp only:)
  then show ?thesis using assms(1,2) by (intro nth_equalityI) simp_all
qed

text \<open>C21. The printed form of an address determines it: two 16-byte address fields of the same family
  print alike only if the addresses agree, the first four bytes for IPv4 and all sixteen for
  IPv6, and an IPv6 address always prints as 39 characters.\<close>

theorem printed_addresses_determined:
  assumes "length a = 16" "length b = 16"
  shows "(formatAddr 2 a = formatAddr 2 b \<longleftrightarrow> take 4 a = take 4 b) \<and>
    (formatAddr 10 a = formatAddr 10 b \<longleftrightarrow> a = b) \<and> length (formatAddr 10 a) = 39"
proof -
  have t: "take 4 x = [x ! 0, x ! 1, x ! 2, x ! 3]" if "length x = 16" for x :: "byte list"
  proof (rule nth_equalityI)
    fix i assume "i < length (take 4 x)"
    then have "i \<in> {0, 1, 2, 3}" using that by auto
    then show "take 4 x ! i = [x ! 0, x ! 1, x ! 2, x ! 3] ! i" by auto
  qed (use that in simp)
  have w: "unat x = unat y \<longleftrightarrow> x = y" for x y :: byte by (auto intro: unsigned_word_eqI)
  have "formatAddr 2 a = formatAddr 2 b \<longleftrightarrow> take 4 a = take 4 b"
    using assms by (simp add: formatAddr_def decimal_dot decimal_inj w t)
  moreover have "formatAddr 10 a = formatAddr 10 b \<longleftrightarrow> a = b"
    using formatIPv6_inj [OF assms] by (auto simp: formatAddr_def)
  moreover have "length (formatAddr 10 a) = 39"
    by (simp add: formatAddr_def formatIPv6_groups)
  ultimately show ?thesis by blast
qed

theorem printed_addresses_determined_witness:
  "formatAddr 2 (10 # replicate 15 0) \<noteq> formatAddr 2 (11 # replicate 15 0) \<and>
   length (formatAddr 10 (10 # replicate 15 0)) = 39"
  using printed_addresses_determined [of "10 # replicate 15 0" "11 # replicate 15 0"] by simp

section \<open>Command lines\<close>

text \<open>Arguments as the kernel lays them out, each closed by a NUL, and as a shell prints them.\<close>

definition argv_bytes :: "byte list list \<Rightarrow> byte list" where
  "argv_bytes args = concat (map (\<lambda>a. a @ [0]) args)"

fun join_spaces :: "byte list list \<Rightarrow> byte list" where
  "join_spaces [] = []"
| "join_spaces [a] = a"
| "join_spaces (a # b # as) = a @ 32 # join_spaces (b # as)"

definition spaced :: "byte list \<Rightarrow> byte list" where
  "spaced = map (\<lambda>c. if c = 0 then 32 else c)"

lemma length_spaced [simp]: "length (spaced bs) = length bs"
  by (simp add: spaced_def)

lemma spaced_take: "spaced (take j bs) = take j (spaced bs)"
  by (simp add: spaced_def take_map)

lemma spaced_argv:
  "args \<noteq> [] \<Longrightarrow> list_all (\<lambda>a. 0 \<notin> set a) args \<Longrightarrow> spaced (argv_bytes args) = join_spaces args @ [32]"
proof (induction args rule: join_spaces.induct)
  case (2 a)
  then show ?case by (auto simp: spaced_def argv_bytes_def intro!: map_idI)
next
  case (3 a b as)
  have "spaced (a @ [0]) = a @ [32]" using "3.prems" by (auto simp: spaced_def intro!: map_idI)
  then show ?case using 3 by (simp add: argv_bytes_def spaced_def)
qed simp

lemma decodeCmdline_prefix:
  assumes "bs \<noteq> []" "length bs < 2 ^ 32"
  shows "decodeCmdline (bs @ rest) (of_nat (length bs)) = spaced (if last bs = 0 then butlast bs else bs)"
proof -
  have "unat (of_nat (length bs) :: u32) = length bs" using assms(2) by (simp add: unat_of_nat)
  moreover from this have "(of_nat (length bs) :: u32) \<noteq> 0" using assms(1) by (metis length_0_conv unsigned_0)
  ultimately show ?thesis by (simp add: decodeCmdline_def spaced_def Let_def)
qed

text \<open>The command line of the first \<open>k\<close> bytes of an argument area: the arguments joined by spaces, cut
  to \<open>k\<close> bytes, or to one less when the cut falls just after a terminator.\<close>

lemma decodeCmdline_argv:
  assumes "list_all (\<lambda>a. 0 \<notin> set a) args" "0 < k" "k \<le> length (argv_bytes args)" "k < 2 ^ 32"
  shows "decodeCmdline (take k (argv_bytes args) @ rest) (of_nat k) =
    take (if argv_bytes args ! (k - 1) = 0 then k - 1 else k) (join_spaces args)"
proof -
  let ?bs = "take k (argv_bytes args)"
  have ne: "args \<noteq> []" using assms(2,3) by (auto simp: argv_bytes_def)
  have bs: "length ?bs = k" "?bs \<noteq> []" using assms(2,3) by auto
  have last: "last ?bs = argv_bytes args ! (k - 1)" using bs by (simp add: last_conv_nth)
  have sp: "spaced (argv_bytes args) = join_spaces args @ [32]" by (rule spaced_argv [OF ne assms(1)])
  have len: "length (argv_bytes args) = Suc (length (join_spaces args))"
    using arg_cong [OF sp, of length] by simp
  have cut: "spaced (take j (argv_bytes args)) = take j (join_spaces args)" if "j \<le> length (join_spaces args)" for j
    using that by (simp add: spaced_take sp)
  have full: "argv_bytes args ! (k - 1) = 0" if "k = Suc (length (join_spaces args))"
  proof -
    have "argv_bytes args \<noteq> []" using len by auto
    moreover have "last (argv_bytes args) = 0"
      using ne by (induction args rule: rev_induct) (simp_all add: argv_bytes_def)
    ultimately show ?thesis using that len by (simp add: last_conv_nth)
  qed
  have "butlast ?bs = take (k - 1) (argv_bytes args)" using assms(3) by (simp add: butlast_take)
  then have "decodeCmdline (?bs @ rest) (of_nat k) =
      spaced (take (if argv_bytes args ! (k - 1) = 0 then k - 1 else k) (argv_bytes args))"
    using decodeCmdline_prefix [of ?bs rest] bs assms(4) last by simp
  also have "\<dots> = take (if argv_bytes args ! (k - 1) = 0 then k - 1 else k) (join_spaces args)"
    using assms(3) len full by (intro cut) (cases "k = Suc (length (join_spaces args))"; auto)
  finally show ?thesis .
qed

section \<open>Decoders against the programs\<close>

lemmas kind_consts = SL_PROC_EXEC_def SL_PROC_EXIT_def SL_PROC_FORK_def
  SL_FILE_OPEN_CREATE_def SL_FILE_OPEN_WRITE_def SL_FILE_UNLINK_def SL_FILE_RENAME_def SL_FILE_CHMOD_def SL_FILE_CHOWN_def
  SL_NET_TCP_CONNECT_def SL_NET_TCP_ACCEPT_def SL_NET_UDP_SEND_def
  SL_AUTH_ATTEMPT_def SL_AUTH_SESSION_OPEN_def SL_AUTH_SESSION_CLOSE_def
  SL_KERNEL_MODULE_LOAD_def SL_KERNEL_MODULE_UNLOAD_def SL_KERNEL_MODULE_LOAD_REJECTED_def
  SL_KERNEL_BPF_PROG_LOAD_def SL_KERNEL_PROBE_ATTACH_def SL_CGROUP_MKDIR_def SL_CGROUP_RMDIR_def
  SL_DNS_QUERY_def SL_DNS_RESPONSE_def

lemmas kind_decoders = decodeKind_def decodeFileKind_def decodeNetKind_def decodeAuthKind_def decodeKernelKind_def
  decodeCgroupKind_def decodeDNSKind_def

text \<open>The kinds the programs write and the kinds the decoders know are the same: every kind constant of
  the seven programs decodes to the event kind of its name, and every other number to unknown.\<close>

theorem kinds_agree:
  "map decodeKind [SL_PROC_EXEC, SL_PROC_EXIT, SL_PROC_FORK] = [ProcExec, ProcExit, ProcFork] \<and>
   map decodeFileKind [SL_FILE_OPEN_CREATE, SL_FILE_OPEN_WRITE, SL_FILE_UNLINK, SL_FILE_RENAME, SL_FILE_CHMOD, SL_FILE_CHOWN] =
     [FileOpenCreate, FileOpenWrite, FileUnlink, FileRename, FileChmod, FileChown] \<and>
   map decodeNetKind [SL_NET_TCP_CONNECT, SL_NET_TCP_ACCEPT, SL_NET_UDP_SEND] = [NetTCPConnect, NetTCPAccept, NetUDPSend] \<and>
   map decodeAuthKind [SL_AUTH_ATTEMPT, SL_AUTH_SESSION_OPEN, SL_AUTH_SESSION_CLOSE] =
     [AuthAttempt, AuthSessionOpen, AuthSessionClose] \<and>
   map decodeKernelKind [SL_KERNEL_MODULE_LOAD, SL_KERNEL_MODULE_UNLOAD, SL_KERNEL_MODULE_LOAD_REJECTED,
       SL_KERNEL_BPF_PROG_LOAD, SL_KERNEL_PROBE_ATTACH] =
     [KernelModuleLoad, KernelModuleUnload, KernelModuleLoadRejected, KernelBPFProgLoad, KernelProbeAttach] \<and>
   map decodeCgroupKind [SL_CGROUP_MKDIR, SL_CGROUP_RMDIR] = [CgroupMkdir, CgroupRmdir] \<and>
   map decodeDNSKind [SL_DNS_QUERY, SL_DNS_RESPONSE] = [DNSQuery, DNSResponse] \<and>
   (decodeKind k = ProcUnknown \<longleftrightarrow> k \<notin> {SL_PROC_EXEC, SL_PROC_EXIT, SL_PROC_FORK}) \<and>
   (decodeFileKind k = FileUnknown \<longleftrightarrow> k \<notin> {SL_FILE_OPEN_CREATE, SL_FILE_OPEN_WRITE, SL_FILE_UNLINK, SL_FILE_RENAME,
       SL_FILE_CHMOD, SL_FILE_CHOWN}) \<and>
   (decodeNetKind k = NetUnknown \<longleftrightarrow> k \<notin> {SL_NET_TCP_CONNECT, SL_NET_TCP_ACCEPT, SL_NET_UDP_SEND}) \<and>
   (decodeAuthKind k = AuthUnknown \<longleftrightarrow> k \<notin> {SL_AUTH_ATTEMPT, SL_AUTH_SESSION_OPEN, SL_AUTH_SESSION_CLOSE}) \<and>
   (decodeKernelKind k = KernelUnknown \<longleftrightarrow> k \<notin> {SL_KERNEL_MODULE_LOAD, SL_KERNEL_MODULE_UNLOAD,
       SL_KERNEL_MODULE_LOAD_REJECTED, SL_KERNEL_BPF_PROG_LOAD, SL_KERNEL_PROBE_ATTACH}) \<and>
   (decodeCgroupKind k = CgroupUnknown \<longleftrightarrow> k \<notin> {SL_CGROUP_MKDIR, SL_CGROUP_RMDIR}) \<and>
   (decodeDNSKind k = DNSUnknown \<longleftrightarrow> k \<notin> {SL_DNS_QUERY, SL_DNS_RESPONSE})"
  unfolding kind_consts
  by (intro conjI; simp add: kind_decoders)

text \<open>The kernel decoder drops exactly the probe attachments that belong to neither tracing source the
  agent knows (a source the host lacks, type 0, matches nothing); every other record becomes
  an event that names its probe type by the source, and the error number of a rejected module
  load whose result is a negated errno is that errno.\<close>

theorem kernel_records_decoded:
  "(decodeKernelEvent kp up now e = None \<longleftrightarrow> ke_kind e = SL_KERNEL_PROBE_ATTACH \<and>
      \<not> (kp \<noteq> 0 \<and> ke_attr_type e = kp) \<and> \<not> (up \<noteq> 0 \<and> ke_attr_type e = up)) \<and>
   pred_option (\<lambda>ev. rk_Kind ev = decodeKernelKind (ke_kind e) \<and> rk_PID ev = ke_tgid e \<and> rk_Timestamp ev = now \<and>
      rk_Probe ev = (if ke_kind e \<noteq> SL_KERNEL_PROBE_ATTACH then [] else if kp \<noteq> 0 \<and> ke_attr_type e = kp then ''kprobe''
        else ''uprobe'') \<and>
      rk_Name ev = c_string (if ke_kind e = SL_KERNEL_PROBE_ATTACH then ke_target e else ke_name e) \<and>
      (if ke_kind e = SL_KERNEL_MODULE_LOAD_REJECTED \<and> sint (ke_result e) < 0
       then rk_Errno ev = - ke_result e else rk_Errno ev = 0))
     (decodeKernelEvent kp up now e)"
proof -
  consider "ke_kind e = 1" | "ke_kind e = 2" | "ke_kind e = 3" | "ke_kind e = 4" | "ke_kind e = 5"
    | "ke_kind e \<notin> {1, 2, 3, 4, 5}" by blast
  then show ?thesis
    by cases (auto simp: decodeKernelEvent_def decodeKernelKind_def kind_consts Let_def)
qed

end
