(* ===== verification/Drain.thy ===== *)
theory Drain
  imports Collector "HOL-Library.Sublist"
begin

text \<open>
  The \<open>drain\<close> loops of \<^verbatim>\<open>agent/internal/collector/*.go\<close> and the group that wires them
  (\<^verbatim>\<open>collector.go\<close>). One iteration reads a sample, drops it when it is too short, decodes it,
  and offers it to the channel; a full channel drops the event and counts it.

  What the scheduler decides is input of each iteration: what the reader returns, how many
  events the consumer has taken meanwhile, whether the context is cancelled, and which ready
  case \<open>select\<close> picks. A channel is \<open>None\<close> when it is nil.
\<close>

section \<open>Channels and one iteration\<close>

datatype read_result = Sample "byte list" | ErrClosed | ReadErr

record 'o gochan =
  ch_cap :: nat
  ch_queue :: "'o list"

record iteration =
  it_read :: read_result
  it_takes :: nat
  it_done :: bool
  it_send_first :: bool
  it_now :: int

record 'o drain_state =
  ds_chan :: "'o gochan option"
  ds_received :: "'o list"
  ds_events :: nat
  ds_drops :: nat
  ds_drop_collector :: nat

datatype drain_exit = CtxErr | ReadError

text \<open>The consumer takes the first \<open>k\<close> events of the queue.\<close>

definition consume :: "nat \<Rightarrow> 'o drain_state \<Rightarrow> 'o drain_state" where
  "consume k st =
     (case ds_chan st of
        None \<Rightarrow> st
      | Some c \<Rightarrow> st\<lparr>ds_chan := Some (c\<lparr>ch_queue := drop k (ch_queue c)\<rparr>),
                     ds_received := ds_received st @ take k (ch_queue c)\<rparr>)"

text \<open>A send can proceed when the buffer has room; on a nil channel it never can.\<close>

definition can_send :: "'o drain_state \<Rightarrow> bool" where
  "can_send st = (case ds_chan st of None \<Rightarrow> False | Some c \<Rightarrow> length (ch_queue c) < ch_cap c)"

definition send :: "'o \<Rightarrow> 'o drain_state \<Rightarrow> 'o drain_state" where
  "send ev st = st\<lparr>ds_chan := map_option (\<lambda>c. c\<lparr>ch_queue := ch_queue c @ [ev]\<rparr>) (ds_chan st)\<rparr>"

text \<open>\<open>select\<close> with a send, a cancellation and a default case.\<close>

definition offer :: "iteration \<Rightarrow> 'o \<Rightarrow> 'o drain_state \<Rightarrow> 'o drain_state \<times> drain_exit option" where
  "offer it ev st =
     (if can_send st \<and> (it_send_first it \<or> \<not> it_done it) then (send ev st, None)
      else if it_done it then (st, Some CtxErr)
      else (st\<lparr>ds_drop_collector := ds_drop_collector st + 1\<rparr>, None))"

definition drain_step ::
    "nat \<Rightarrow> (int \<Rightarrow> byte list \<Rightarrow> 'o option) \<Rightarrow> iteration \<Rightarrow> 'o drain_state \<Rightarrow> 'o drain_state \<times> drain_exit option" where
  "drain_step sz dec it st =
     (let st = consume (it_takes it) st in
      case it_read it of
        ErrClosed \<Rightarrow> (st, Some CtxErr)
      | ReadErr \<Rightarrow> (st, Some ReadError)
      | Sample bs \<Rightarrow>
          if length bs < sz then (st\<lparr>ds_drops := ds_drops st + 1\<rparr>, None)
          else case dec (it_now it) bs of
            None \<Rightarrow> (st, None)
          | Some ev \<Rightarrow> offer it ev (st\<lparr>ds_events := ds_events st + 1\<rparr>))"

text \<open>The loop over the iterations that happen; it leaves at the first exit.\<close>

fun drain ::
    "nat \<Rightarrow> (int \<Rightarrow> byte list \<Rightarrow> 'o option) \<Rightarrow> iteration list \<Rightarrow> 'o drain_state \<Rightarrow> 'o drain_state \<times> drain_exit option" where
  "drain sz dec [] st = (st, None)"
| "drain sz dec (it # its) st =
     (case drain_step sz dec it st of
        (st, None) \<Rightarrow> drain sz dec its st
      | (st, Some x) \<Rightarrow> (st, Some x))"

section \<open>The seven loops\<close>

definition drain_process :: "iteration list \<Rightarrow> RawProcessEvent drain_state \<Rightarrow> RawProcessEvent drain_state \<times> drain_exit option" where
  "drain_process = drain (sizeof (CStruct ProcessProcessEvent)) (\<lambda>now bs. Some (decodeProcessEvent now (cast_process bs)))"

definition drain_file :: "iteration list \<Rightarrow> RawFileEvent drain_state \<Rightarrow> RawFileEvent drain_state \<times> drain_exit option" where
  "drain_file = drain (sizeof (CStruct FileFileEvent)) (\<lambda>now bs. Some (decodeFileEvent now (cast_file bs)))"

definition drain_net :: "iteration list \<Rightarrow> RawNetEvent drain_state \<Rightarrow> RawNetEvent drain_state \<times> drain_exit option" where
  "drain_net = drain (sizeof (CStruct NetNetEvent)) (\<lambda>now bs. Some (decodeNetEvent now (cast_net bs)))"

definition drain_auth :: "iteration list \<Rightarrow> RawAuthEvent drain_state \<Rightarrow> RawAuthEvent drain_state \<times> drain_exit option" where
  "drain_auth = drain (sizeof (CStruct AuthAuthEvent)) (\<lambda>now bs. Some (decodeAuthEvent now (cast_auth bs)))"

definition drain_kernel ::
    "u32 \<Rightarrow> u32 \<Rightarrow> iteration list \<Rightarrow> RawKernelEvent drain_state \<Rightarrow> RawKernelEvent drain_state \<times> drain_exit option" where
  "drain_kernel kprobeType uprobeType =
     drain (sizeof (CStruct KernelKernelEvent)) (\<lambda>now bs. decodeKernelEvent kprobeType uprobeType now (cast_kernel bs))"

definition drain_cgroup :: "iteration list \<Rightarrow> RawCgroupEvent drain_state \<Rightarrow> RawCgroupEvent drain_state \<times> drain_exit option" where
  "drain_cgroup = drain (sizeof (CStruct CgroupCgroupEvent)) (\<lambda>now bs. Some (decodeCgroupEvent now (cast_cgroup bs)))"

definition drain_dns :: "iteration list \<Rightarrow> RawDNSEvent drain_state \<Rightarrow> RawDNSEvent drain_state \<times> drain_exit option" where
  "drain_dns = drain (sizeof (CStruct DnsDnsEvent)) (\<lambda>now bs. Some (decodeDNSEvent now (cast_dns bs)))"

section \<open>The group\<close>

text \<open>
  The channels \<open>NewGroup\<close> makes (\<open>None\<close> for the ones it leaves nil) and, for each enabled
  collector, the channel it was given.
\<close>

record collectors_config =
  Process_Enabled :: bool
  File_Enabled :: bool
  Net_Enabled :: bool
  Auth_Enabled :: bool
  Kernel_Enabled :: bool
  Container_Enabled :: bool
  DNS_Enabled :: bool

record Group =
  g_Process :: "RawProcessEvent gochan option"
  g_File :: "RawFileEvent gochan option"
  g_Net :: "RawNetEvent gochan option"
  g_Auth :: "RawAuthEvent gochan option"
  g_Kernel :: "RawKernelEvent gochan option"
  g_Cgroup :: "RawCgroupEvent gochan option"
  g_DNS :: "RawDNSEvent gochan option"
  processor :: "RawProcessEvent gochan option option"
  filer :: "RawFileEvent gochan option option"
  networker :: "RawNetEvent gochan option option"
  authenticator :: "RawAuthEvent gochan option option"
  kerneler :: "RawKernelEvent gochan option option"
  containerer :: "RawCgroupEvent gochan option option"
  resolver :: "RawDNSEvent gochan option option"

definition make_chan :: "nat \<Rightarrow> 'o gochan option" where
  "make_chan n = Some \<lparr>ch_cap = n, ch_queue = []\<rparr>"

definition NewGroup :: "collectors_config \<Rightarrow> Group" where
  "NewGroup cfg =
     (let process = make_chan 65536; file = make_chan 16384; net = make_chan 16384; auth = make_chan 4096;
          kernel = None; cgroup = None; dns = None
      in \<lparr>g_Process = process, g_File = file, g_Net = net, g_Auth = auth,
          g_Kernel = kernel, g_Cgroup = cgroup, g_DNS = dns,
          processor = (if Process_Enabled cfg then Some process else None),
          filer = (if File_Enabled cfg then Some file else None),
          networker = (if Net_Enabled cfg then Some net else None),
          authenticator = (if Auth_Enabled cfg then Some auth else None),
          kerneler = (if Kernel_Enabled cfg then Some kernel else None),
          containerer = (if Container_Enabled cfg then Some cgroup else None),
          resolver = (if DNS_Enabled cfg then Some dns else None)\<rparr>)"

text \<open>\<open>Run\<close>: the names of the collectors it starts, and what it waits for.\<close>

definition started :: "Group \<Rightarrow> string list" where
  "started g = concat
     [if processor g \<noteq> None then [''process''] else [], if filer g \<noteq> None then [''file''] else [],
      if networker g \<noteq> None then [''net''] else [], if authenticator g \<noteq> None then [''auth''] else [],
      if kerneler g \<noteq> None then [''kernel''] else [], if containerer g \<noteq> None then [''container''] else [],
      if resolver g \<noteq> None then [''dns''] else []]"

definition fresh_drain :: "'o gochan option \<Rightarrow> 'o drain_state" where
  "fresh_drain c = \<lparr>ds_chan = c, ds_received = [], ds_events = 0, ds_drops = 0, ds_drop_collector = 0\<rparr>"

section \<open>Accounting\<close>

text \<open>
  Everything a channel has been handed, in order; the events a sequence of iterations holds;
  the samples too short to cast.
\<close>

definition delivered :: "'o drain_state \<Rightarrow> 'o list" where
  "delivered st = ds_received st @ (case ds_chan st of None \<Rightarrow> [] | Some c \<Rightarrow> ch_queue c)"

fun telemetry :: "nat \<Rightarrow> (int \<Rightarrow> byte list \<Rightarrow> 'o option) \<Rightarrow> iteration list \<Rightarrow> 'o list" where
  "telemetry sz dec [] = []"
| "telemetry sz dec (it # its) =
     (case it_read it of
        Sample bs \<Rightarrow>
          if length bs < sz then telemetry sz dec its
          else (case dec (it_now it) bs of None \<Rightarrow> telemetry sz dec its | Some ev \<Rightarrow> ev # telemetry sz dec its)
      | _ \<Rightarrow> telemetry sz dec its)"

definition short_samples :: "nat \<Rightarrow> iteration list \<Rightarrow> nat" where
  "short_samples sz its = length (filter (\<lambda>it. case it_read it of Sample bs \<Rightarrow> length bs < sz | _ \<Rightarrow> False) its)"

lemma delivered_consume [simp]: "delivered (consume k st) = delivered st"
  by (auto simp: delivered_def consume_def split: option.splits)

lemma delivered_send: "can_send st \<Longrightarrow> delivered (send ev st) = delivered st @ [ev]"
  by (auto simp: delivered_def send_def can_send_def split: option.splits)

lemma consume_counters [simp]:
  "ds_events (consume k st) = ds_events st" "ds_drops (consume k st) = ds_drops st"
  "ds_drop_collector (consume k st) = ds_drop_collector st"
  by (auto simp: consume_def split: option.splits)

lemma send_counters [simp]:
  "ds_events (send ev st) = ds_events st" "ds_drops (send ev st) = ds_drops st"
  "ds_drop_collector (send ev st) = ds_drop_collector st"
  by (simp_all add: send_def)

lemma delivered_counters [simp]:
  "delivered (st\<lparr>ds_events := n\<rparr>) = delivered st" "delivered (st\<lparr>ds_drops := n\<rparr>) = delivered st"
  "delivered (st\<lparr>ds_drop_collector := n\<rparr>) = delivered st"
  by (simp_all add: delivered_def)

text \<open>One offer: delivered, counted as dropped, or the loop ends.\<close>

lemma offer_cases:
  assumes "offer it ev st = (st', x)"
  shows "(x = None \<and> delivered st' = delivered st @ [ev] \<and> ds_drop_collector st' = ds_drop_collector st \<or>
      x = None \<and> delivered st' = delivered st \<and> ds_drop_collector st' = ds_drop_collector st + 1 \<or>
      x = Some CtxErr \<and> delivered st' = delivered st \<and> ds_drop_collector st' = ds_drop_collector st) \<and>
    ds_events st' = ds_events st \<and> ds_drops st' = ds_drops st"
  using assms by (auto simp: offer_def delivered_send split: if_splits)

lemma drain_accounting:
  "drain sz dec its st = (st', None) \<Longrightarrow>
     ds_events st' = ds_events st + length (telemetry sz dec its) \<and>
     ds_drops st' = ds_drops st + short_samples sz its \<and>
     (\<exists>sub. subseq sub (telemetry sz dec its) \<and> delivered st' = delivered st @ sub \<and>
        ds_drop_collector st' + length sub = ds_drop_collector st + length (telemetry sz dec its))"
proof (induction its arbitrary: st)
  case Nil
  then show ?case by (auto simp: short_samples_def)
next
  case (Cons it its)
  then obtain st1 where step: "drain_step sz dec it st = (st1, None)" and rest: "drain sz dec its st1 = (st', None)"
    by (auto split: prod.splits option.splits)
  note IH = Cons.IH [OF rest]
  from step obtain bs where bs: "it_read it = Sample bs"
    by (auto simp: drain_step_def Let_def split: read_result.splits)
  show ?case
  proof (cases "length bs < sz")
    case True
    then have "ds_events st1 = ds_events st" "ds_drops st1 = ds_drops st + 1" "delivered st1 = delivered st"
      "ds_drop_collector st1 = ds_drop_collector st"
      using step bs by (auto simp: drain_step_def Let_def)
    then show ?thesis using IH True bs by (auto simp: short_samples_def)
  next
    case long: False
    show ?thesis
    proof (cases "dec (it_now it) bs")
      case None
      then show ?thesis using IH long step bs by (auto simp: drain_step_def Let_def short_samples_def)
    next
      case (Some ev)
      have "offer it ev ((consume (it_takes it) st)\<lparr>ds_events := ds_events st + 1\<rparr>) = (st1, None)"
        using step bs long Some by (simp add: drain_step_def Let_def)
      note o = offer_cases [OF this]
      then show ?thesis using IH long Some bs
        by (auto simp: short_samples_def)
    qed
  qed
qed

text \<open>Nothing passes a nil channel: every event of a run is counted as dropped.\<close>

lemma nil_channel:
  assumes "drain sz dec its st = (st', x)" "ds_chan st = None"
  shows "ds_chan st' = None \<and> delivered st' = delivered st"
  using assms
proof (induction its arbitrary: st)
  case Nil
  then show ?case by simp
next
  case (Cons it its)
  obtain st1 y where step: "drain_step sz dec it st = (st1, y)" by (rule prod.exhaust)
  then have "ds_chan st1 = None \<and> delivered st1 = delivered st" using Cons.prems(2)
    by (auto simp: drain_step_def offer_def can_send_def consume_def Let_def
        split: read_result.splits if_splits option.splits)
  then show ?case using Cons step by (auto split: option.splits)
qed

text \<open>With room for every event and no cancellation, every event is delivered, in order.\<close>

definition room :: "'o drain_state \<Rightarrow> nat \<Rightarrow> bool" where
  "room st n = (case ds_chan st of None \<Rightarrow> False | Some c \<Rightarrow> length (ch_queue c) + n \<le> ch_cap c)"

lemma room_consume: "room st n \<Longrightarrow> room (consume k st) n"
  by (auto simp: room_def consume_def split: option.splits)

lemma room_send: "room st (Suc n) \<Longrightarrow> can_send st \<and> room (send ev st) n"
  by (auto simp: room_def can_send_def send_def split: option.splits)

lemma room_Suc: "room st (Suc n) \<Longrightarrow> room st n"
  by (auto simp: room_def split: option.splits)

lemma room_counters [simp]:
  "room (st\<lparr>ds_events := e\<rparr>) n = room st n" "room (st\<lparr>ds_drops := e\<rparr>) n = room st n"
  by (simp_all add: room_def)

lemma drain_delivers:
  assumes "room st (length its)" "\<forall>it \<in> set its. \<not> it_done it \<and> (\<exists>bs. it_read it = Sample bs)"
  shows "\<exists>st'. drain sz dec its st = (st', None) \<and> delivered st' = delivered st @ telemetry sz dec its \<and>
    ds_drop_collector st' = ds_drop_collector st"
  using assms
proof (induction its arbitrary: st)
  case Nil
  then show ?case by simp
next
  case (Cons it its)
  obtain bs where bs: "it_read it = Sample bs" "\<not> it_done it" using Cons.prems(2) by auto
  let ?c = "consume (it_takes it) st"
  have r: "room ?c (Suc (length its))" using Cons.prems(1) by (simp add: room_consume)
  obtain st1 where st1: "drain_step sz dec it st = (st1, None)" "room st1 (length its)"
    "delivered st1 = delivered st @ telemetry sz dec [it]" "ds_drop_collector st1 = ds_drop_collector st"
  proof (cases "length bs < sz")
    case True
    then show thesis using that [of "?c\<lparr>ds_drops := ds_drops st + 1\<rparr>"] bs r
      by (simp add: drain_step_def Let_def room_Suc)
  next
    case long: False
    show thesis
    proof (cases "dec (it_now it) bs")
      case None
      then show thesis using that [of ?c] bs r long by (simp add: drain_step_def Let_def room_Suc)
    next
      case (Some ev)
      have "room (?c\<lparr>ds_events := ds_events st + 1\<rparr>) (Suc (length its))" using r by simp
      note s = room_send [OF this, of ev]
      then show thesis using that [of "send ev (?c\<lparr>ds_events := ds_events st + 1\<rparr>)"] bs long Some
        by (simp add: drain_step_def offer_def delivered_send Let_def)
    qed
  qed
  have tl: "telemetry sz dec (it # its) = telemetry sz dec [it] @ telemetry sz dec its"
    using bs by (auto split: option.splits)
  obtain st' where "drain sz dec its st1 = (st', None)" "delivered st' = delivered st1 @ telemetry sz dec its"
    "ds_drop_collector st' = ds_drop_collector st1"
    using Cons.IH [OF st1(2)] Cons.prems(2) by auto
  then show ?case using st1 tl by (auto simp del: telemetry.simps)
qed

section \<open>The wire contract\<close>

text \<open>
  What the collectors rely on: a record of the program, as the bytes of a sample, is long
  enough for the cast and comes out of it unchanged. \<open>samples_of\<close> is a run with one iteration
  per record: its sample, with what its padding holds, and the time.
\<close>

definition samples_of ::
    "('e \<Rightarrow> bool) \<Rightarrow> ((nat \<Rightarrow> byte) \<Rightarrow> 'e \<Rightarrow> byte list) \<Rightarrow> iteration list \<Rightarrow> (int \<times> 'e) list \<Rightarrow> bool" where
  "samples_of ok bytes its es = list_all2 (\<lambda>it (now, e). ok e \<and> it_now it = now \<and> \<not> it_done it \<and>
     (\<exists>g. it_read it = Sample (bytes g e))) its es"

locale wire =
  fixes wf :: "'e \<Rightarrow> bool"
    and bytes :: "(nat \<Rightarrow> byte) \<Rightarrow> 'e \<Rightarrow> byte list"
    and cast :: "byte list \<Rightarrow> 'e"
    and sz :: nat
  assumes cast_bytes: "wf e \<Longrightarrow> cast (bytes g e) = e"
    and length_bytes: "wf e \<Longrightarrow> length (bytes g e) = sz"
begin

lemma telemetry_samples:
  "samples_of wf bytes its es \<Longrightarrow> telemetry sz (\<lambda>now bs. dec now (cast bs)) its = List.map_filter (\<lambda>(now, e). dec now e) es"
  unfolding samples_of_def
proof (induction rule: list_all2_induct)
  case Nil
  show ?case by (simp add: map_filter_simps)
next
  case (Cons it its p es)
  then show ?case by (cases p) (auto simp: map_filter_simps length_bytes cast_bytes split: option.splits)
qed

text \<open>Every record a program submitted arrives decoded, in order, when the channel has room.\<close>

lemma delivers:
  assumes "samples_of wf bytes its es" "room st (length its)"
  shows "\<exists>st'. drain sz (\<lambda>now bs. dec now (cast bs)) its st = (st', None) \<and>
    delivered st' = delivered st @ List.map_filter (\<lambda>(now, e). dec now e) es \<and>
    ds_drop_collector st' = ds_drop_collector st \<and> ds_drops st' = ds_drops st"
proof -
  have "\<forall>it \<in> set its. \<not> it_done it \<and> (\<exists>bs. it_read it = Sample bs \<and> \<not> length bs < sz)"
    using assms(1) unfolding samples_of_def by (induction rule: list_all2_induct) (auto simp: length_bytes)
  then have *: "\<forall>it \<in> set its. \<not> it_done it \<and> (\<exists>bs. it_read it = Sample bs)" "short_samples sz its = 0"
    by (auto simp: short_samples_def filter_empty_conv)
  obtain st' where st': "drain sz (\<lambda>now bs. dec now (cast bs)) its st = (st', None)"
    "delivered st' = delivered st @ telemetry sz (\<lambda>now bs. dec now (cast bs)) its"
    "ds_drop_collector st' = ds_drop_collector st"
    using drain_delivers [OF assms(2) *(1)] by blast
  then show ?thesis using drain_accounting [OF st'(1)] *(2) telemetry_samples [OF assms(1)] by auto
qed

end

interpretation process_wire: wire wf_process_arrays "\<lambda>g e. image g struct_process_event (process_val e)"
    cast_process "sizeof (CStruct ProcessProcessEvent)"
  by unfold_locales (simp_all only: cast_process_image process_image_length)

interpretation file_wire: wire wf_file_arrays "\<lambda>g e. image g struct_file_event (file_val e)"
    cast_file "sizeof (CStruct FileFileEvent)"
  by unfold_locales (simp_all only: cast_file_image file_image_length)

interpretation net_wire: wire wf_net_arrays "\<lambda>g e. image g struct_net_event (net_val e)"
    cast_net "sizeof (CStruct NetNetEvent)"
  by unfold_locales (simp_all only: cast_net_image net_image_length)

interpretation auth_wire: wire wf_auth_event "\<lambda>g e. image g struct_auth_event (auth_val e)"
    cast_auth "sizeof (CStruct AuthAuthEvent)"
  by unfold_locales (simp_all only: cast_auth_image auth_image_length)

interpretation kernel_wire: wire wf_kernel_arrays "\<lambda>g e. image g struct_kernel_event (kernel_val e)"
    cast_kernel "sizeof (CStruct KernelKernelEvent)"
  by unfold_locales (simp_all only: cast_kernel_image kernel_image_length)

interpretation cgroup_wire: wire wf_cgroup_arrays "\<lambda>g e. image g struct_cgroup_event (cgroup_val e)"
    cast_cgroup "sizeof (CStruct CgroupCgroupEvent)"
  by unfold_locales (simp_all only: cast_cgroup_image cgroup_image_length)

interpretation dns_wire: wire wf_dns_arrays "\<lambda>g e. image g struct_dns_event (dns_val e)"
    cast_dns "sizeof (CStruct DnsDnsEvent)"
  by unfold_locales (simp_all only: cast_dns_image dns_image_length)

section \<open>Properties\<close>

text \<open>A channel never holds more than its buffer.\<close>

definition chan_ok :: "'o drain_state \<Rightarrow> bool" where
  "chan_ok st = (case ds_chan st of None \<Rightarrow> True | Some c \<Rightarrow> length (ch_queue c) \<le> ch_cap c)"

lemma chan_ok_step: "chan_ok st \<Longrightarrow> chan_ok (fst (drain_step sz dec it st))"
  by (auto simp: drain_step_def offer_def chan_ok_def consume_def send_def can_send_def Let_def
      split: read_result.split option.splits)

lemma chan_ok_drain: "chan_ok st \<Longrightarrow> chan_ok (fst (drain sz dec its st))"
proof (induction its arbitrary: st)
  case (Cons it its)
  then show ?case using chan_ok_step [of st sz dec it] by (auto split: prod.split option.split)
qed simp



lemma map_filter_Some: "List.map_filter (\<lambda>(now, e). Some (f now e)) es = map (\<lambda>(now, e). f now e) es"
  by (induction es) (auto simp: map_filter_simps)

lemma fresh_room: "n \<le> k \<Longrightarrow> room (fresh_drain (make_chan k)) n"
  by (simp add: room_def fresh_drain_def make_chan_def)

lemma fresh_counters [simp]:
  "delivered (fresh_drain (make_chan k)) = []" "ds_drop_collector (fresh_drain c) = 0" "ds_drops (fresh_drain c) = 0"
  "ds_events (fresh_drain c) = 0" "ds_chan (fresh_drain c) = c" "delivered (fresh_drain None) = []"
  by (simp_all add: delivered_def fresh_drain_def make_chan_def)

lemma samples_of_none: "samples_of ok bytes [] []"
  by (simp add: samples_of_def)

definition all_enabled :: collectors_config where
  "all_enabled = \<lparr>Process_Enabled = True, File_Enabled = True, Net_Enabled = True, Auth_Enabled = True,
     Kernel_Enabled = True, Container_Enabled = True, DNS_Enabled = True\<rparr>"

text \<open>C10. The process, file, network and authentication loops of a new group deliver every record their
  programs submitted, decoded and in order, without a drop, for as long as the records fit
  the channel the group made and the context is not cancelled.\<close>

theorem group_delivers_in_order:
  assumes "samples_of wf_process_arrays (\<lambda>g e. image g struct_process_event (process_val e)) pit ps" "length pit \<le> 65536"
    and "samples_of wf_file_arrays (\<lambda>g e. image g struct_file_event (file_val e)) fit fs" "length fit \<le> 16384"
    and "samples_of wf_net_arrays (\<lambda>g e. image g struct_net_event (net_val e)) nit ns" "length nit \<le> 16384"
    and "samples_of wf_auth_event (\<lambda>g e. image g struct_auth_event (auth_val e)) ait as" "length ait \<le> 4096"
  shows "\<exists>sp sf sn sa. drain_process pit (fresh_drain (g_Process (NewGroup cfg))) = (sp, None) \<and>
      drain_file fit (fresh_drain (g_File (NewGroup cfg))) = (sf, None) \<and>
      drain_net nit (fresh_drain (g_Net (NewGroup cfg))) = (sn, None) \<and>
      drain_auth ait (fresh_drain (g_Auth (NewGroup cfg))) = (sa, None) \<and>
    delivered sp = map (\<lambda>(now, e). decodeProcessEvent now e) ps \<and>
    delivered sf = map (\<lambda>(now, e). decodeFileEvent now e) fs \<and>
    delivered sn = map (\<lambda>(now, e). decodeNetEvent now e) ns \<and>
    delivered sa = map (\<lambda>(now, e). decodeAuthEvent now e) as \<and>
    ds_drop_collector sp + ds_drop_collector sf + ds_drop_collector sn + ds_drop_collector sa = 0"
  using process_wire.delivers [OF assms(1) fresh_room [OF assms(2)], of "\<lambda>now e. Some (decodeProcessEvent now e)"]
    file_wire.delivers [OF assms(3) fresh_room [OF assms(4)], of "\<lambda>now e. Some (decodeFileEvent now e)"]
    net_wire.delivers [OF assms(5) fresh_room [OF assms(6)], of "\<lambda>now e. Some (decodeNetEvent now e)"]
    auth_wire.delivers [OF assms(7) fresh_room [OF assms(8)], of "\<lambda>now e. Some (decodeAuthEvent now e)"]
  unfolding map_filter_Some
  by (auto simp: NewGroup_def Let_def drain_process_def drain_file_def drain_net_def drain_auth_def simp del: sizeof.simps)

theorem group_delivers_in_order_witness:
  "\<exists>e s. drain_process [\<lparr>it_read = Sample (image (\<lambda>_. 0) struct_process_event (process_val e)), it_takes = 0,
      it_done = False, it_send_first = False, it_now = 5\<rparr>] (fresh_drain (g_Process (NewGroup all_enabled))) = (s, None) \<and>
    delivered s = [decodeProcessEvent 5 e]"
proof -
  obtain e where e: "wf_process_arrays e"
    using that [of "undefined\<lparr>pe_comm := replicate 16 0, pe_exe := replicate 128 0, pe_cmdline := replicate 256 0\<rparr>"]
    by (simp add: wf_process_arrays_def)
  let ?it = "\<lparr>it_read = Sample (image (\<lambda>_. 0) struct_process_event (process_val e)), it_takes = 0,
      it_done = False, it_send_first = False, it_now = 5\<rparr>"
  have "samples_of wf_process_arrays (\<lambda>g e. image g struct_process_event (process_val e)) [?it] [(5, e)]"
    using e by (auto simp: samples_of_def)
  then have "\<exists>s. drain_process [?it] (fresh_drain (g_Process (NewGroup all_enabled))) = (s, None) \<and>
      delivered s = [decodeProcessEvent 5 e]"
    using group_delivers_in_order [of "[?it]" "[(5, e)]" "[]" "[]" "[]" "[]" "[]" "[]" all_enabled]
    by (auto simp: samples_of_none)
  then show ?thesis by blast
qed

lemma nil_drain:
  assumes "drain sz dec its (fresh_drain None) = (s, x)"
  shows "delivered s = [] \<and> (case x of None \<Rightarrow> ds_drop_collector s = ds_events s | Some _ \<Rightarrow> True)"
  using assms nil_channel [OF assms] drain_accounting [of sz dec its "fresh_drain None" s] by (auto split: option.split)

text \<open>C12. The kernel, control-group and DNS loops of a new group deliver nothing at all, whatever their
  programs submit: the group makes no channel for them, and every event they decode is counted
  as dropped.\<close>

theorem group_drops_kernel_cgroup_dns:
  "list_all (\<lambda>(n, events, drops, exit). n = 0 \<and> (case exit of None \<Rightarrow> drops = events | Some _ \<Rightarrow> True))
    [let (s, x) = drain_kernel kp up kits (fresh_drain (g_Kernel (NewGroup cfg)))
       in (length (delivered s), ds_events s, ds_drop_collector s, x),
     let (s, x) = drain_cgroup cits (fresh_drain (g_Cgroup (NewGroup cfg)))
       in (length (delivered s), ds_events s, ds_drop_collector s, x),
     let (s, x) = drain_dns dits (fresh_drain (g_DNS (NewGroup cfg)))
       in (length (delivered s), ds_events s, ds_drop_collector s, x)]"
proof -
  have g: "g_Kernel (NewGroup cfg) = None" "g_Cgroup (NewGroup cfg) = None" "g_DNS (NewGroup cfg) = None"
    by (simp_all add: NewGroup_def Let_def)
  show ?thesis
    unfolding g drain_kernel_def drain_cgroup_def drain_dns_def list.pred_inject Let_def
    by (auto split: prod.splits simp del: sizeof.simps dest!: nil_drain)
qed

lemma drain_append:
  "drain sz dec (xs @ ys) st = (case drain sz dec xs st of (s, None) \<Rightarrow> drain sz dec ys s | (s, Some x) \<Rightarrow> (s, Some x))"
  by (induction xs arbitrary: st) (auto split: prod.splits option.splits)

lemma drain_continues:
  assumes "list_all (\<lambda>it. \<not> it_done it \<and> it_read it \<notin> {ErrClosed, ReadErr}) its"
  shows "snd (drain sz dec its st) = None"
  using assms
proof (induction its arbitrary: st)
  case (Cons it its)
  obtain bs where "it_read it = Sample bs" using Cons.prems by (cases "it_read it") auto
  then have "snd (drain_step sz dec it st) = None"
    using Cons.prems by (auto simp: drain_step_def offer_def Let_def split: option.split)
  then show ?case using Cons by (auto split: prod.split)
qed simp

text \<open>C20. A loop goes on while samples arrive and the context is not cancelled, and returns at the first
  read that fails, with the context's error when the ring was closed and a read error
  otherwise; nothing after that read is looked at.\<close>

theorem drain_returns_on_failed_read:
  assumes "list_all (\<lambda>it. \<not> it_done it \<and> it_read it \<notin> {ErrClosed, ReadErr}) its"
    and "it_read it \<in> {ErrClosed, ReadErr}"
  shows "snd (drain sz dec its st) = None \<and>
    drain sz dec (its @ it # rest) st =
      (consume (it_takes it) (fst (drain sz dec its st)), Some (if it_read it = ErrClosed then CtxErr else ReadError))"
proof -
  have "snd (drain sz dec its st) = None" by (rule drain_continues [OF assms(1)])
  moreover have "drain_step sz dec it s = (consume (it_takes it) s, Some (if it_read it = ErrClosed then CtxErr else ReadError))" for s
    using assms(2) by (auto simp: drain_step_def Let_def)
  ultimately show ?thesis by (auto simp: drain_append split: prod.split)
qed

theorem drain_returns_on_failed_read_witness:
  "snd (drain_dns [\<lparr>it_read = ErrClosed, it_takes = 0, it_done = False, it_send_first = False, it_now = 0\<rparr>]
     (fresh_drain None)) = Some CtxErr"
  using drain_returns_on_failed_read [of "[]"
      "\<lparr>it_read = ErrClosed, it_takes = 0, it_done = False, it_send_first = False, it_now = 0\<rparr>"
      "sizeof (CStruct DnsDnsEvent)" "\<lambda>now bs. Some (decodeDNSEvent now (cast_dns bs))" "fresh_drain None" "[]"]
  by (simp add: drain_dns_def del: sizeof.simps drain.simps(2))

end
