(* ===== verification/Enricher_Cache.thy ===== *)
theory Enricher_Cache
  imports Drain "HOL-Library.AList"
begin

text \<open>
  \<^verbatim>\<open>agent/internal/enricher/cache.go\<close>: the process cache of the enricher, 64 maps from pids to entries,
  the shard of a pid given by its low bits. The locale \<open>process_table\<close> states what the handlers
  of the enricher rely on: the cache behaves as one map from pids to entries.

  A Go map is an association list with distinct keys; the order of a \<open>range\<close> loop over it does not
  matter here. A point in time is \<open>None\<close> for Go's zero time and otherwise nanoseconds since 1970;
  every method holds the lock of its shard, so that methods are single steps.
\<close>

section \<open>Entries\<close>

record procEntry =
  ent_pid :: u32
  ent_ppid :: u32
  ent_uid :: u32
  ent_gid :: u32
  ent_comm :: "byte list"
  ent_exe :: "byte list"
  ent_cmdline :: "byte list"
  ent_env :: "byte list list option"
  ent_container :: "byte list"
  ent_createdAt :: "int option"
  ent_exited :: bool
  ent_exitAt :: "int option"

text \<open>The zero entry for a pid, as a composite literal leaves it.\<close>

definition entry_of :: "u32 \<Rightarrow> procEntry" where
  "entry_of pid = \<lparr>ent_pid = pid, ent_ppid = 0, ent_uid = 0, ent_gid = 0, ent_comm = [], ent_exe = [],
     ent_cmdline = [], ent_env = None, ent_container = [], ent_createdAt = None, ent_exited = False,
     ent_exitAt = None\<rparr>"

text \<open>\<open>now.Sub(t)\<close>, which saturates at the ends of a 64-bit duration.\<close>

definition Sub :: "int \<Rightarrow> int option \<Rightarrow> int" where
  "Sub now t =
     (case t of None \<Rightarrow> 2 ^ 63 - 1 | Some s \<Rightarrow> max (- (2 ^ 63)) (min (2 ^ 63 - 1) (now - s)))"

section \<open>The cache\<close>

type_synonym cacheShard = "(u32 \<times> procEntry) list"
type_synonym procCache = "cacheShard list"

definition cacheShardCount :: nat where
  "cacheShardCount = 64"

definition cacheShardMask :: u32 where
  "cacheShardMask = 63"

definition newProcCache :: procCache where
  "newProcCache = replicate cacheShardCount []"

definition shard :: "u32 \<Rightarrow> nat" where
  "shard pid = unat (pid AND cacheShardMask)"

definition upsert_existing :: "procEntry \<Rightarrow> procEntry \<Rightarrow> procEntry" where
  "upsert_existing inc existing =
     (let existing = (if ent_ppid inc \<noteq> 0 then existing\<lparr>ent_ppid := ent_ppid inc\<rparr> else existing);
          existing = (if ent_uid inc \<noteq> 0 \<or> ent_gid inc \<noteq> 0
                      then existing\<lparr>ent_uid := ent_uid inc, ent_gid := ent_gid inc\<rparr> else existing);
          existing = (if ent_comm inc \<noteq> [] then existing\<lparr>ent_comm := ent_comm inc\<rparr> else existing);
          existing = (if ent_exe inc \<noteq> [] then existing\<lparr>ent_exe := ent_exe inc\<rparr> else existing);
          existing = (if ent_cmdline inc \<noteq> [] then existing\<lparr>ent_cmdline := ent_cmdline inc\<rparr> else existing);
          existing = (if ent_env inc \<noteq> None then existing\<lparr>ent_env := ent_env inc\<rparr> else existing);
          existing = (if ent_createdAt inc \<noteq> None \<and> ent_createdAt existing = None
                      then existing\<lparr>ent_createdAt := ent_createdAt inc\<rparr> else existing)
      in existing\<lparr>ent_exited := False, ent_exitAt := None\<rparr>)"

definition upsert :: "procEntry \<Rightarrow> procCache \<Rightarrow> procCache" where
  "upsert inc c =
     (let i = shard (ent_pid inc); s = c ! i in
      case map_of s (ent_pid inc) of
        None \<Rightarrow> c[i := AList.update (ent_pid inc) inc s]
      | Some existing \<Rightarrow> c[i := AList.update (ent_pid inc) (upsert_existing inc existing) s])"

definition markExit :: "u32 \<Rightarrow> int \<Rightarrow> procCache \<Rightarrow> procCache" where
  "markExit pid t c =
     (let i = shard pid; s = c ! i in
      case map_of s pid of
        None \<Rightarrow> c
      | Some e \<Rightarrow> c[i := AList.update pid (e\<lparr>ent_exited := True, ent_exitAt := Some t\<rparr>) s])"

definition cache_get :: "procCache \<Rightarrow> u32 \<Rightarrow> procEntry option" where
  "cache_get c pid = map_of (c ! shard pid) pid"

definition expired :: "int \<Rightarrow> int \<Rightarrow> procEntry \<Rightarrow> bool" where
  "expired now grace e \<longleftrightarrow> ent_exited e \<and> Sub now (ent_exitAt e) > grace"

text \<open>\<open>evictExpired\<close> walks the shards, deletes what expired and counts it.\<close>

fun evictExpired :: "int \<Rightarrow> int \<Rightarrow> procCache \<Rightarrow> procCache \<times> nat" where
  "evictExpired now grace [] = ([], 0)"
| "evictExpired now grace (s # ss) =
     (let gone = filter (\<lambda>(pid, e). expired now grace e) s;
          s = filter (\<lambda>(pid, e). \<not> expired now grace e) s;
          (ss, n) = evictExpired now grace ss
      in (s # ss, length gone + n))"

section \<open>Invariant\<close>

text \<open>Every entry sits in the shard of its pid, under its pid, once; an exited entry has an exit time.\<close>

definition entry_ok :: "procEntry \<Rightarrow> bool" where
  "entry_ok e \<longleftrightarrow> (ent_exited e \<longleftrightarrow> ent_exitAt e \<noteq> None)"

definition shard_ok :: "nat \<Rightarrow> cacheShard \<Rightarrow> bool" where
  "shard_ok i s \<longleftrightarrow> distinct (map fst s) \<and>
     list_all (\<lambda>(pid, e). shard pid = i \<and> ent_pid e = pid \<and> entry_ok e) s"

definition cache_ok :: "procCache \<Rightarrow> bool" where
  "cache_ok c \<longleftrightarrow> length c = cacheShardCount \<and> list_all (\<lambda>i. shard_ok i (c ! i)) [0..<cacheShardCount]"

lemma shard_less: "shard pid < cacheShardCount"
proof -
  have "pid AND cacheShardMask \<le> 63" unfolding cacheShardMask_def by (rule word_and_le1)
  then show ?thesis by (simp add: shard_def cacheShardCount_def word_le_nat_alt)
qed

lemma cache_okD:
  assumes "cache_ok c"
  shows "length c = cacheShardCount" "i < cacheShardCount \<Longrightarrow> shard_ok i (c ! i)"
  using assms by (auto simp: cache_ok_def list_all_iff)

lemma shard_ok_entry:
  assumes "shard_ok i s" "map_of s pid = Some e"
  shows "ent_pid e = pid" "entry_ok e"
  using assms map_of_SomeD [OF assms(2)] by (auto simp: shard_ok_def list_all_iff)

lemma shard_ok_update:
  assumes "shard_ok i s" "shard pid = i" "ent_pid e = pid" "entry_ok e"
  shows "shard_ok i (AList.update pid e s)"
proof -
  have "distinct (map fst (AList.update pid e s))"
    using assms(1) by (simp add: shard_ok_def AList.distinct_update)
  moreover have "set (AList.update pid e s) \<subseteq> insert (pid, e) (set s)"
    by (induction s) auto
  ultimately show ?thesis using assms by (auto simp: shard_ok_def list_all_iff)
qed

lemma cache_ok_set:
  assumes "cache_ok c" "shard_ok i s"
  shows "cache_ok (c[i := s])"
proof -
  have "shard_ok j (c[i := s] ! j)" if "j < cacheShardCount" for j
    using that assms cache_okD [OF assms(1)] by (cases "j = i") auto
  then show ?thesis using cache_okD(1) [OF assms(1)] by (simp add: cache_ok_def list_all_iff)
qed

lemma shard_ok_filter: "shard_ok i s \<Longrightarrow> shard_ok i (filter P s)"
  by (auto simp: shard_ok_def list_all_iff distinct_map_filter)

lemma evict_shards:
  "fst (evictExpired now grace c) = map (filter (\<lambda>(pid, e). \<not> expired now grace e)) c"
  "snd (evictExpired now grace c) = length (filter (\<lambda>(pid, e). expired now grace e) (concat c))"
  by (induction c) (simp_all add: Let_def case_prod_beta)

section \<open>One map\<close>

text \<open>The operations on a single map from pids to entries.\<close>

type_synonym process_map = "u32 \<rightharpoonup> procEntry"

definition map_upsert :: "procEntry \<Rightarrow> process_map \<Rightarrow> process_map" where
  "map_upsert e m = m(ent_pid e \<mapsto> (case m (ent_pid e) of None \<Rightarrow> e | Some x \<Rightarrow> upsert_existing e x))"

definition map_exit :: "u32 \<Rightarrow> int \<Rightarrow> process_map \<Rightarrow> process_map" where
  "map_exit pid t m = m(pid := map_option (\<lambda>e. e\<lparr>ent_exited := True, ent_exitAt := Some t\<rparr>) (m pid))"

definition expired_pids :: "int \<Rightarrow> int \<Rightarrow> process_map \<Rightarrow> u32 set" where
  "expired_pids now grace m = {pid. case m pid of None \<Rightarrow> False | Some e \<Rightarrow> expired now grace e}"

definition map_evict :: "int \<Rightarrow> int \<Rightarrow> process_map \<Rightarrow> process_map" where
  "map_evict now grace m = m |` (- expired_pids now grace m)"

text \<open>What the handlers of the enricher rely on.\<close>

locale process_table =
  fixes inv :: "'c \<Rightarrow> bool"
    and init :: 'c
    and lookup :: "'c \<Rightarrow> process_map"
    and put :: "procEntry \<Rightarrow> 'c \<Rightarrow> 'c"
    and mark :: "u32 \<Rightarrow> int \<Rightarrow> 'c \<Rightarrow> 'c"
    and evict :: "int \<Rightarrow> int \<Rightarrow> 'c \<Rightarrow> 'c \<times> nat"
  assumes inv_init: "inv init"
    and inv_put: "inv c \<Longrightarrow> entry_ok e \<Longrightarrow> inv (put e c)"
    and inv_mark: "inv c \<Longrightarrow> inv (mark pid t c)"
    and inv_evict: "inv c \<Longrightarrow> inv (fst (evict now grace c))"
    and lookup_init: "lookup init = Map.empty"
    and lookup_put: "inv c \<Longrightarrow> lookup (put e c) = map_upsert e (lookup c)"
    and lookup_mark: "inv c \<Longrightarrow> lookup (mark pid t c) = map_exit pid t (lookup c)"
    and lookup_evict: "inv c \<Longrightarrow> lookup (fst (evict now grace c)) = map_evict now grace (lookup c)"
    and evict_count: "inv c \<Longrightarrow> snd (evict now grace c) = card (expired_pids now grace (lookup c))"
    and lookup_entry: "inv c \<Longrightarrow> lookup c pid = Some e \<Longrightarrow> ent_pid e = pid \<and> entry_ok e"
begin

lemma put_lookup:
  assumes "inv c"
  shows "lookup (put e c) (ent_pid e) = Some (case lookup c (ent_pid e) of None \<Rightarrow> e | Some x \<Rightarrow> upsert_existing e x)"
    and "pid \<noteq> ent_pid e \<Longrightarrow> lookup (put e c) pid = lookup c pid"
  using lookup_put [OF assms] by (simp_all add: map_upsert_def)

text \<open>A process that has not exited, or exited within the grace period, survives an eviction.\<close>

lemma evict_keeps:
  assumes "inv c" "lookup c pid = Some e" "\<not> expired now grace e"
  shows "lookup (fst (evict now grace c)) pid = Some e"
  using assms lookup_evict [OF assms(1)] by (simp add: map_evict_def expired_pids_def restrict_map_def)

end

text \<open>The keys of a shard belong to it, so that one pid is in one shard only.\<close>

lemma cache_get_set:
  assumes "cache_ok c" "shard pid = i" "map_of s' = (map_of (c ! i))(pid := v)"
  shows "cache_get (c[i := s']) = (cache_get c)(pid := v)"
proof
  fix q
  have len: "i < length c" using assms(2) shard_less [of pid] cache_okD(1) [OF assms(1)] by simp
  show "cache_get (c[i := s']) q = ((cache_get c)(pid := v)) q"
  proof (cases "shard q = i")
    case True
    then show ?thesis using len assms(3) by (simp add: cache_get_def)
  next
    case False
    then have "q \<noteq> pid" using assms(2) by auto
    then show ?thesis using False by (simp add: cache_get_def)
  qed
qed

lemma cache_get_entry:
  assumes "cache_ok c" "cache_get c pid = Some e"
  shows "ent_pid e = pid \<and> entry_ok e"
  using shard_ok_entry [OF cache_okD(2) [OF assms(1) shard_less]] assms(2) by (auto simp: cache_get_def)

lemma upsert_existing_fields [simp]:
  "ent_pid (upsert_existing e x) = ent_pid x" "ent_container (upsert_existing e x) = ent_container x"
  "ent_exited (upsert_existing e x) = False" "ent_exitAt (upsert_existing e x) = None"
  by (simp_all add: upsert_existing_def Let_def)

lemma upsert_cache:
  assumes "cache_ok c"
  shows "entry_ok e \<Longrightarrow> cache_ok (upsert e c)" "cache_get (upsert e c) = map_upsert e (cache_get c)"
proof -
  let ?pid = "ent_pid e" and ?i = "shard (ent_pid e)"
  let ?v = "case cache_get c ?pid of None \<Rightarrow> e | Some x \<Rightarrow> upsert_existing e x"
  have up: "upsert e c = c[?i := AList.update ?pid ?v (c ! ?i)]"
    by (simp add: upsert_def cache_get_def Let_def split: option.splits)
  show "cache_get (upsert e c) = map_upsert e (cache_get c)"
    unfolding up map_upsert_def by (rule cache_get_set [OF assms refl]) (simp add: update_conv')
  assume e: "entry_ok e"
  have "ent_pid ?v = ?pid \<and> entry_ok ?v"
    using e cache_get_entry [OF assms] by (auto simp: entry_ok_def split: option.splits)
  then show "cache_ok (upsert e c)"
    unfolding up by (intro cache_ok_set [OF assms] shard_ok_update cache_okD(2) [OF assms] shard_less) auto
qed

lemma markExit_cache:
  assumes "cache_ok c"
  shows "cache_ok (markExit pid t c)" "cache_get (markExit pid t c) = map_exit pid t (cache_get c)"
proof (atomize (full), cases "cache_get c pid")
  case None
  then have "markExit pid t c = c" by (simp add: markExit_def cache_get_def Let_def)
  then show "cache_ok (markExit pid t c) \<and> cache_get (markExit pid t c) = map_exit pid t (cache_get c)"
    using None assms by (auto simp: map_exit_def)
next
  case (Some e)
  let ?v = "e\<lparr>ent_exited := True, ent_exitAt := Some t\<rparr>"
  have mk: "markExit pid t c = c[shard pid := AList.update pid ?v (c ! shard pid)]"
    using Some by (simp add: markExit_def cache_get_def Let_def)
  have "cache_get (markExit pid t c) = map_exit pid t (cache_get c)"
    unfolding mk map_exit_def Some option.map
    by (rule cache_get_set [OF assms refl]) (simp add: update_conv')
  moreover have "cache_ok (markExit pid t c)"
    unfolding mk using cache_get_entry [OF assms Some]
    by (intro cache_ok_set [OF assms] shard_ok_update cache_okD(2) [OF assms] shard_less) (auto simp: entry_ok_def)
  ultimately show "cache_ok (markExit pid t c) \<and> cache_get (markExit pid t c) = map_exit pid t (cache_get c)" by simp
qed

lemma map_of_filter:
  "distinct (map fst s) \<Longrightarrow>
   map_of (filter (\<lambda>(k, v). P v) s) k = (case map_of s k of None \<Rightarrow> None | Some v \<Rightarrow> if P v then Some v else None)"
  by (induction s) (auto simp: map_of_eq_None_iff split: option.splits)

lemma filter_keys:
  assumes "distinct (map fst s)"
  shows "{k. case map_of s k of None \<Rightarrow> False | Some v \<Rightarrow> P v} = set (map fst (filter (\<lambda>(k, v). P v) s))"
proof -
  have "(case map_of s k of None \<Rightarrow> False | Some v \<Rightarrow> P v) \<longleftrightarrow> (\<exists>v. (k, v) \<in> set s \<and> P v)" for k
    using map_of_eq_Some_iff [OF assms, of k] by (cases "map_of s k") (simp_all, metis)
  then show ?thesis by (auto simp: image_iff)
qed

text \<open>The shards side by side are one association list of the whole cache.\<close>

lemma concat_shards:
  assumes "\<And>i. i < length c \<Longrightarrow> shard_ok (off + i) (c ! i)"
  shows "distinct (map fst (concat c)) \<and>
    map_of (concat c) pid = (if off \<le> shard pid \<and> shard pid < off + length c then map_of (c ! (shard pid - off)) pid else None)"
  using assms
proof (induction c arbitrary: off pid)
  case (Cons s c)
  have rest: "shard_ok (Suc off + i) (c ! i)" if "i < length c" for i
    using Cons.prems [of "Suc i"] that by simp
  note IH = Cons.IH [OF rest]
  have s: "distinct (map fst s)" "\<And>k. k \<in> fst ` set s \<Longrightarrow> shard k = off"
    using Cons.prems [of 0] by (auto simp: shard_ok_def list_all_iff)
  have later: "shard k \<noteq> off" if "k \<in> fst ` set (concat c)" for k
  proof -
    have "map_of (concat c) k \<noteq> None" using that by (metis map_of_eq_None_iff)
    then show ?thesis using IH [of k] by (auto split: if_splits)
  qed
  have "distinct (map fst (concat (s # c)))" using s later IH [of pid] by auto
  moreover have "map_of (concat (s # c)) pid =
      (if off \<le> shard pid \<and> shard pid < off + length (s # c) then map_of ((s # c) ! (shard pid - off)) pid else None)"
  proof (cases "shard pid = off")
    case True
    then show ?thesis using IH [of pid] by (simp add: map_add_def split: option.splits)
  next
    case False
    then have "map_of s pid = None" using s(2) by (metis map_of_eq_None_iff)
    then show ?thesis using IH [of pid] False by (auto simp: map_add_def nth_Cons' Suc_le_eq)
  qed
  ultimately show ?case by simp
qed auto

lemma cache_concat:
  assumes "cache_ok c"
  shows "distinct (map fst (concat c))" "map_of (concat c) = cache_get c"
proof -
  have "shard_ok (0 + i) (c ! i)" if "i < length c" for i
    using that cache_okD [OF assms] by simp
  from concat_shards [OF this] show "distinct (map fst (concat c))" "map_of (concat c) = cache_get c"
    using shard_less cache_okD(1) [OF assms] by (auto simp: cache_get_def fun_eq_iff)
qed

lemma evict_cache:
  assumes "cache_ok c"
  shows "cache_ok (fst (evictExpired now grace c))"
    "cache_get (fst (evictExpired now grace c)) = map_evict now grace (cache_get c)"
    "snd (evictExpired now grace c) = card (expired_pids now grace (cache_get c))"
proof -
  note len = cache_okD(1) [OF assms]
  show "cache_ok (fst (evictExpired now grace c))"
    using cache_okD [OF assms] by (auto simp: cache_ok_def list_all_iff evict_shards intro: shard_ok_filter)
  show "cache_get (fst (evictExpired now grace c)) = map_evict now grace (cache_get c)"
  proof
    fix pid
    have "distinct (map fst (c ! shard pid))"
      using cache_okD(2) [OF assms shard_less] by (simp add: shard_ok_def)
    then show "cache_get (fst (evictExpired now grace c)) pid = map_evict now grace (cache_get c) pid"
      using shard_less [of pid] len
      by (simp add: cache_get_def evict_shards map_of_filter map_evict_def restrict_map_def expired_pids_def
          split: option.splits)
  qed
  let ?gone = "filter (\<lambda>(pid, e). expired now grace e) (concat c)"
  have d: "distinct (map fst ?gone)" using cache_concat(1) [OF assms] by (rule distinct_map_filter)
  have "expired_pids now grace (cache_get c) = set (map fst ?gone)"
    unfolding expired_pids_def cache_concat(2) [OF assms, symmetric] by (rule filter_keys [OF cache_concat(1) [OF assms]])
  then show "snd (evictExpired now grace c) = card (expired_pids now grace (cache_get c))"
    using distinct_card [OF d] by (simp add: evict_shards)
qed

interpretation pc: process_table cache_ok newProcCache cache_get upsert markExit evictExpired
proof
  show "cache_ok newProcCache"
    by (simp add: cache_ok_def newProcCache_def shard_ok_def list_all_iff)
  show "cache_get newProcCache = Map.empty"
    using shard_less by (simp add: cache_get_def newProcCache_def fun_eq_iff)
qed (simp_all add: upsert_cache markExit_cache evict_cache cache_get_entry)

section \<open>Sequences of operations\<close>

datatype cache_op = Upsert procEntry | MarkExit u32 int | Evict int int

fun cache_run :: "cache_op list \<Rightarrow> procCache \<Rightarrow> procCache \<times> nat list" where
  "cache_run [] c = (c, [])"
| "cache_run (Upsert e # ops) c = cache_run ops (upsert e c)"
| "cache_run (MarkExit pid t # ops) c = cache_run ops (markExit pid t c)"
| "cache_run (Evict now grace # ops) c =
     (let (c, n) = evictExpired now grace c; (c, ns) = cache_run ops c in (c, n # ns))"

fun map_run :: "cache_op list \<Rightarrow> process_map \<Rightarrow> process_map \<times> nat list" where
  "map_run [] m = (m, [])"
| "map_run (Upsert e # ops) m = map_run ops (map_upsert e m)"
| "map_run (MarkExit pid t # ops) m = map_run ops (map_exit pid t m)"
| "map_run (Evict now grace # ops) m =
     (let (m', ns) = map_run ops (map_evict now grace m) in (m', card (expired_pids now grace m) # ns))"

definition op_ok :: "cache_op \<Rightarrow> bool" where
  "op_ok op = (case op of Upsert e \<Rightarrow> entry_ok e | _ \<Rightarrow> True)"

lemma cache_simulates:
  assumes "cache_ok c" "list_all op_ok ops"
  shows "cache_ok (fst (cache_run ops c)) \<and> cache_get (fst (cache_run ops c)) = fst (map_run ops (cache_get c)) \<and>
    snd (cache_run ops c) = snd (map_run ops (cache_get c))"
  using assms
proof (induction ops c rule: cache_run.induct)
  case (4 now grace ops c)
  obtain c' n where ev: "evictExpired now grace c = (c', n)" by force
  have c': "cache_ok c'" "cache_get c' = map_evict now grace (cache_get c)" "n = card (expired_pids now grace (cache_get c))"
    using evict_cache [OF "4.prems"(1), of now grace] ev by simp_all
  show ?case using "4.IH" [OF ev [symmetric] refl c'(1)] "4.prems"(2) c' ev
    by (simp add: Let_def case_prod_beta)
qed (simp_all add: upsert_cache markExit_cache op_ok_def)

text \<open>C24. The 64 shards behave as one map from pids to entries: after any sequence of inserts, exits and
  sweeps, a lookup gives what the sequence gives on a single map, every sweep reports the number
  of entries it removed, and every entry is stored once, under its pid.\<close>

theorem sharded_cache_refines_map:
  assumes "list_all op_ok ops"
  shows "cache_ok (fst (cache_run ops newProcCache)) \<and>
    cache_get (fst (cache_run ops newProcCache)) = fst (map_run ops Map.empty) \<and>
    snd (cache_run ops newProcCache) = snd (map_run ops Map.empty)"
  using cache_simulates [OF pc.inv_init assms] by (simp add: pc.lookup_init)

definition sample_ops :: "cache_op list" where
  "sample_ops = [Upsert (entry_of 5), Upsert (entry_of 69), MarkExit 5 100, Evict 200 99, Upsert (entry_of 5)]"

theorem sharded_cache_refines_map_witness:
  "cache_get (fst (cache_run sample_ops newProcCache)) 69 = fst (map_run sample_ops Map.empty) 69 \<and>
   cache_get (fst (cache_run sample_ops newProcCache)) 69 = Some (entry_of 69) \<and>
   snd (map_run sample_ops Map.empty) = [1]"
proof -
  have ok: "list_all op_ok sample_ops" by code_simp
  have "cache_get (fst (cache_run sample_ops newProcCache)) 69 = Some (entry_of 69)"
    "snd (cache_run sample_ops newProcCache) = [1]" by code_simp+
  then show ?thesis using sharded_cache_refines_map [OF ok] by simp
qed

end
