(* ===== verification/Enricher_Proc.thy ===== *)
theory Enricher_Proc
  imports Enricher_Cache
begin

text \<open>
  \<^verbatim>\<open>agent/internal/enricher/proc.go\<close> and \<^verbatim>\<open>users.go\<close>: what the enricher reads from \<^verbatim>\<open>/proc\<close> and from the
  password file. The file system is a parameter: \<open>fs_read\<close> gives the contents of a file below
  \<^verbatim>\<open>/proc/<pid>\<close>, \<open>fs_link\<close> the target of a link, \<open>None\<close> an error. White space in status files is
  ASCII.
\<close>

section \<open>Strings\<close>

definition bytes_of :: "string \<Rightarrow> byte list" where
  "bytes_of s = map of_char s"

text \<open>\<open>bytes.Split\<close> and \<open>strings.Split\<close> at a single byte: the segments between separators.\<close>

fun split_on :: "byte \<Rightarrow> byte list \<Rightarrow> byte list list" where
  "split_on b [] = [[]]"
| "split_on b (x # xs) =
     (if x = b then [] # split_on b xs
      else case split_on b xs of [] \<Rightarrow> [[x]] | s # ss \<Rightarrow> (x # s) # ss)"

definition TrimRight :: "byte \<Rightarrow> byte list \<Rightarrow> byte list" where
  "TrimRight b s = rev (dropWhile (\<lambda>x. x = b) (rev s))"

definition HasPrefix :: "byte list \<Rightarrow> byte list \<Rightarrow> bool" where
  "HasPrefix s p \<longleftrightarrow> take (length p) s = p"

definition is_space :: "byte \<Rightarrow> bool" where
  "is_space b \<longleftrightarrow> b = 32 \<or> 9 \<le> b \<and> b \<le> 13"

definition TrimSpace :: "byte list \<Rightarrow> byte list" where
  "TrimSpace s = rev (dropWhile is_space (rev (dropWhile is_space s)))"

text \<open>\<open>strconv.ParseUint(s, 10, 32)\<close>: digits only, at least one, and the value fits.\<close>

definition ParseUint32 :: "byte list \<Rightarrow> u32 option" where
  "ParseUint32 s =
     (if s \<noteq> [] \<and> list_all (\<lambda>d. 48 \<le> d \<and> d \<le> 57) s \<and> undecimal s < 2 ^ 32 then Some (of_nat (undecimal s)) else None)"

text \<open>
  \<open>bufio.Scanner\<close> with its default split function: lines without their end, a final line only when
  it is not empty; it stops at a line that does not fit its buffer of 64 KiB.
\<close>

definition scan_line :: "byte list \<Rightarrow> byte list" where
  "scan_line l = (if l \<noteq> [] \<and> last l = 13 then butlast l else l)"

definition scan_lines :: "byte list \<Rightarrow> byte list list" where
  "scan_lines s =
     (let ls = split_on 10 s;
          ls = (if last ls = [] then butlast ls else ls)
      in map scan_line (takeWhile (\<lambda>l. length l < 65536) ls))"

section \<open>The reader\<close>

record procfs =
  fs_read :: "u32 \<Rightarrow> string \<Rightarrow> byte list option"
  fs_link :: "u32 \<Rightarrow> string \<Rightarrow> byte list option"

definition cmdlineMax :: nat where
  "cmdlineMax = 4096"

definition proc_comm :: "procfs \<Rightarrow> u32 \<Rightarrow> byte list" where
  "proc_comm P pid = (case fs_read P pid ''comm'' of None \<Rightarrow> [] | Some b \<Rightarrow> TrimRight 10 b)"

definition proc_exe :: "procfs \<Rightarrow> u32 \<Rightarrow> byte list" where
  "proc_exe P pid = (case fs_link P pid ''exe'' of None \<Rightarrow> [] | Some link \<Rightarrow> link)"

definition proc_cmdline :: "procfs \<Rightarrow> u32 \<Rightarrow> byte list" where
  "proc_cmdline P pid =
     (case fs_read P pid ''cmdline'' of
        None \<Rightarrow> []
      | Some b \<Rightarrow>
          let b = (if length b > cmdlineMax then take cmdlineMax b else b);
              b = TrimRight 0 b
          in map (\<lambda>x. if x = 0 then 32 else x) b)"

definition proc_cwd :: "procfs \<Rightarrow> u32 \<Rightarrow> byte list" where
  "proc_cwd P pid = (case fs_link P pid ''cwd'' of None \<Rightarrow> [] | Some link \<Rightarrow> link)"

fun ppid_scan :: "byte list list \<Rightarrow> u32" where
  "ppid_scan [] = 0"
| "ppid_scan (line # ls) =
     (if \<not> HasPrefix line (bytes_of ''PPid:'') then ppid_scan ls
      else case ParseUint32 (TrimSpace (drop 5 line)) of None \<Rightarrow> 0 | Some n \<Rightarrow> n)"

definition proc_ppid :: "procfs \<Rightarrow> u32 \<Rightarrow> u32" where
  "proc_ppid P pid = (case fs_read P pid ''status'' of None \<Rightarrow> 0 | Some f \<Rightarrow> ppid_scan (scan_lines f))"

definition environMax :: nat where
  "environMax = 32 * 1024"

definition envValueMax :: nat where
  "envValueMax = 512"

definition envAllowlist :: "string list" where
  "envAllowlist =
    [''LD_PRELOAD'', ''LD_LIBRARY_PATH'', ''LD_AUDIT'', ''LD_CONFIG_FILE'', ''LD_ORIGIN_PATH'', ''LD_PROFILE'',
     ''LD_DEBUG_OUTPUT'', ''GCONV_PATH'', ''GLIBC_TUNABLES'', ''BASH_ENV'', ''ENV'', ''PYTHONPATH'',
     ''PYTHONSTARTUP'', ''PERL5LIB'', ''PERL5OPT'', ''RUBYOPT'', ''RUBYLIB'', ''NODE_OPTIONS'']"

text \<open>\<open>bytes.IndexByte\<close>, with \<open>None\<close> for its -1.\<close>

fun IndexByte :: "byte list \<Rightarrow> byte \<Rightarrow> nat option" where
  "IndexByte [] b = None"
| "IndexByte (x # xs) b = (if x = b then Some 0 else map_option Suc (IndexByte xs b))"

text \<open>The loop over the entries of the block; the accumulated slice stays nil (\<open>[]\<close>) without a hit.\<close>

fun environ_loop :: "byte list list \<Rightarrow> byte list list \<Rightarrow> byte list list" where
  "environ_loop [] out = out"
| "environ_loop (kv # kvs) out =
     (if kv = [] then environ_loop kvs out
      else case IndexByte kv 61 of
        None \<Rightarrow> environ_loop kvs out
      | Some eq \<Rightarrow>
          if eq = 0 then environ_loop kvs out
          else let name = take eq kv in
            if name \<notin> set (map bytes_of envAllowlist) then environ_loop kvs out
            else let val = drop (eq + 1) kv;
                     val = (if length val > envValueMax then take envValueMax val else val)
                 in environ_loop kvs (out @ [name @ 61 # val]))"

definition proc_environ :: "procfs \<Rightarrow> u32 \<Rightarrow> byte list list option" where
  "proc_environ P pid =
     (case fs_read P pid ''environ'' of
        None \<Rightarrow> None
      | Some f \<Rightarrow>
          let buf = take environMax f in
          if buf = [] then None
          else case environ_loop (split_on 0 buf) [] of [] \<Rightarrow> None | out \<Rightarrow> Some out)"

section \<open>User names\<close>

text \<open>\<open>strings.SplitN(line, ":", 4)\<close> up to its third field.\<close>

fun passwd_entries :: "byte list list \<Rightarrow> (u32 \<rightharpoonup> byte list) \<Rightarrow> (u32 \<rightharpoonup> byte list)" where
  "passwd_entries [] m = m"
| "passwd_entries (line # ls) m =
     (let parts = split_on 58 line in
      if length parts < 3 then passwd_entries ls m
      else case ParseUint32 (parts ! 2) of
        None \<Rightarrow> passwd_entries ls m
      | Some uid \<Rightarrow> passwd_entries ls (m(uid \<mapsto> parts ! 0)))"

definition reload :: "byte list option \<Rightarrow> (u32 \<rightharpoonup> byte list)" where
  "reload file = (case file of None \<Rightarrow> Map.empty | Some f \<Rightarrow> passwd_entries (scan_lines f) Map.empty)"

definition Name :: "(u32 \<rightharpoonup> byte list) \<Rightarrow> u32 \<Rightarrow> byte list" where
  "Name users uid = (case users uid of None \<Rightarrow> [] | Some n \<Rightarrow> n)"

section \<open>What is captured of an environment\<close>

text \<open>The name of an entry is what precedes its first \<open>=\<close>.\<close>

definition env_name :: "byte list \<Rightarrow> byte list" where
  "env_name kv = takeWhile (\<lambda>x. x \<noteq> 61) kv"

definition env_allowed :: "byte list \<Rightarrow> bool" where
  "env_allowed kv \<longleftrightarrow> 61 \<in> set kv \<and> env_name kv \<in> set (map bytes_of envAllowlist)"

definition env_cut :: "byte list \<Rightarrow> byte list" where
  "env_cut kv = take (length (env_name kv) + 1 + envValueMax) kv"

lemma IndexByte_name:
  "IndexByte kv b = (if b \<in> set kv then Some (length (takeWhile (\<lambda>x. x \<noteq> b) kv)) else None)"
  by (induction kv) auto

lemma split_name:
  assumes "61 \<in> set kv"
  shows "kv = env_name kv @ 61 # drop (length (env_name kv) + 1) kv"
proof -
  have "dropWhile (\<lambda>x. x \<noteq> 61) kv \<noteq> []" using assms by (auto simp: dropWhile_eq_Nil_conv)
  then obtain y ys where d: "dropWhile (\<lambda>x. x \<noteq> 61) kv = y # ys" by (cases "dropWhile (\<lambda>x. x \<noteq> 61) kv") auto
  then have "y = 61" using hd_dropWhile [of "\<lambda>x. x \<noteq> 61" kv] by simp
  then have kv: "kv = env_name kv @ 61 # ys"
    using takeWhile_dropWhile_id [of "\<lambda>x. x \<noteq> 61" kv] d by (simp add: env_name_def)
  then have "drop (length (env_name kv) + 1) kv = ys" by (metis add.commute append_Cons append_eq_conv_conj append_Nil append_assoc length_append list.size(3,4) plus_1_eq_Suc One_nat_def Suc_eq_plus1)
  then show ?thesis using kv by simp
qed

lemma allowlist_names: "[] \<notin> set (map bytes_of envAllowlist)"
  by (simp add: envAllowlist_def bytes_of_def)

lemma env_cut_entry:
  assumes "61 \<in> set kv"
  shows "env_cut kv = env_name kv @ 61 # take envValueMax (drop (length (env_name kv) + 1) kv)"
  unfolding env_cut_def by (subst split_name [OF assms]) simp

lemma environ_loop_entries:
  "environ_loop kvs out = out @ map env_cut (filter env_allowed kvs)"
proof (induction kvs arbitrary: out)
  case (Cons kv kvs)
  show ?case
  proof (cases "61 \<in> set kv")
    case True
    let ?n = "env_name kv"
    have idx: "IndexByte kv 61 = Some (length ?n)" using True by (simp add: IndexByte_name env_name_def)
    have name: "take (length ?n) kv = ?n" by (metis env_name_def takeWhile_eq_take takeWhile_takeWhile append_eq_conv_conj takeWhile_dropWhile_id)
    show ?thesis
      using Cons.IH True idx name allowlist_names env_cut_entry [OF True]
      by (auto simp: env_allowed_def Let_def)
  next
    case False
    then show ?thesis using Cons.IH by (simp add: IndexByte_name env_allowed_def)
  qed
qed simp

lemma proc_environ_entries:
  "proc_environ P pid =
     (case fs_read P pid ''environ'' of
        None \<Rightarrow> None
      | Some f \<Rightarrow> case map env_cut (filter env_allowed (split_on 0 (take environMax f))) of [] \<Rightarrow> None | out \<Rightarrow> Some out)"
  by (simp add: proc_environ_def environ_loop_entries Let_def env_allowed_def split: option.splits)

lemma env_name_cut:
  assumes "61 \<in> set kv"
  shows "env_name (env_cut kv) = env_name kv" "length (env_cut kv) \<le> length (env_name kv) + 1 + envValueMax"
proof -
  have "env_name (env_name kv @ 61 # r) = env_name kv" for r
    unfolding env_name_def by (subst takeWhile_append2) (auto dest: set_takeWhileD)
  then show "env_name (env_cut kv) = env_name kv" using env_cut_entry [OF assms] by simp
qed (simp add: env_cut_def)

text \<open>C31. What the enricher captures of an environment is a function of the allowlisted loader and
  interpreter variables in its first 32 KiB: two processes whose environments agree on these
  variables give the same result, whatever secrets the others hold, and every captured string is
  an allowlisted name with a value of at most 512 bytes.\<close>

theorem environment_secrets_not_captured:
  assumes "fs_read P pid ''environ'' = Some f" "fs_read P' pid' ''environ'' = Some g"
    "filter env_allowed (split_on 0 (take environMax f)) = filter env_allowed (split_on 0 (take environMax g))"
  shows "proc_environ P pid = proc_environ P' pid' \<and>
    (case proc_environ P pid of
       None \<Rightarrow> True
     | Some out \<Rightarrow> list_all (\<lambda>kv. env_name kv \<in> set (map bytes_of envAllowlist) \<and>
         length kv \<le> length (env_name kv) + 1 + 512) out)"
proof
  show "proc_environ P pid = proc_environ P' pid'" using assms by (simp add: proc_environ_entries)
  let ?vars = "map env_cut (filter env_allowed (split_on 0 (take environMax f)))"
  have "list_all (\<lambda>kv. env_name kv \<in> set (map bytes_of envAllowlist) \<and> length kv \<le> length (env_name kv) + 1 + 512) ?vars"
    unfolding list_all_iff using env_name_cut by (auto simp: env_allowed_def envValueMax_def)
  then show "case proc_environ P pid of None \<Rightarrow> True
     | Some out \<Rightarrow> list_all (\<lambda>kv. env_name kv \<in> set (map bytes_of envAllowlist) \<and>
         length kv \<le> length (env_name kv) + 1 + 512) out"
    using assms(1) by (auto simp: proc_environ_entries split: list.splits)
qed

definition sample_proc :: "byte list \<Rightarrow> procfs" where
  "sample_proc env = \<lparr>fs_read = (\<lambda>pid f. if f = ''environ'' then Some env else None), fs_link = (\<lambda>pid f. None)\<rparr>"

theorem environment_secrets_not_captured_witness:
  "proc_environ (sample_proc (bytes_of ''TOKEN=s3cret'' @ 0 # bytes_of ''ENV=/x'' @ [0])) 7 =
   proc_environ (sample_proc (bytes_of ''ENV=/x'')) 8 \<and>
   proc_environ (sample_proc (bytes_of ''ENV=/x'')) 8 = Some [bytes_of ''ENV=/x'']"
proof -
  have "filter env_allowed (split_on 0 (take environMax (bytes_of ''TOKEN=s3cret'' @ 0 # bytes_of ''ENV=/x'' @ [0]))) =
      filter env_allowed (split_on 0 (take environMax (bytes_of ''ENV=/x'')))" by code_simp
  from environment_secrets_not_captured [OF _ _ this, of "sample_proc _" 7 "sample_proc _" 8]
  have "proc_environ (sample_proc (bytes_of ''TOKEN=s3cret'' @ 0 # bytes_of ''ENV=/x'' @ [0])) 7 =
      proc_environ (sample_proc (bytes_of ''ENV=/x'')) 8" by (simp add: sample_proc_def)
  moreover have "proc_environ (sample_proc (bytes_of ''ENV=/x'')) 8 = Some [bytes_of ''ENV=/x'']" by code_simp
  ultimately show ?thesis by simp
qed

end
