(* ===== verification/Enricher_Containers.thy ===== *)
theory Enricher_Containers
  imports Enricher_Proc
begin

text \<open>
  The container index of \<^verbatim>\<open>agent/internal/enricher/containers.go\<close>: the names of container cgroups, and
  the maps from cgroup ids to containers and from containers to their state. The two regular
  expressions are anchored at both ends and are matched by the functions that bear their names.
\<close>

section \<open>Names of container cgroups\<close>

definition is_hex :: "byte \<Rightarrow> bool" where
  "is_hex b \<longleftrightarrow> 48 \<le> b \<and> b \<le> 57 \<or> 97 \<le> b \<and> b \<le> 102"

text \<open>The submatches: the runtime marker, empty when the optional group is absent, and the id.\<close>

definition containerCgroupRE :: "byte list \<Rightarrow> (byte list \<times> byte list) option" where
  "containerCgroupRE p =
     (let marker = (case find (\<lambda>m. HasPrefix p (m @ bytes_of ''-''))
                      (map bytes_of [''docker'', ''cri-containerd'', ''crio'', ''libpod'', ''containerd'']) of
                      None \<Rightarrow> [] | Some m \<Rightarrow> m);
          body = (if marker = [] then p else drop (length marker + 1) p);
          cid = take 64 body
      in if length cid = 64 \<and> list_all is_hex cid \<and> (drop 64 body = [] \<or> drop 64 body = bytes_of ''.scope'')
         then Some (marker, cid) else None)"

definition no_newline :: "byte list \<Rightarrow> bool" where
  "no_newline s \<longleftrightarrow> s \<noteq> [] \<and> list_all (\<lambda>b. b \<noteq> 10) s"

definition machineCgroupRE :: "byte list \<Rightarrow> (byte list \<times> byte list) option" where
  "machineCgroupRE p =
     (let lxc = drop 12 p; machine = take (length p - 14) (drop 8 p) in
      if HasPrefix p (bytes_of ''lxc.payload.'') \<and> no_newline lxc then Some (lxc, [])
      else if HasPrefix p (bytes_of ''machine-'') \<and> 14 \<le> length p \<and> drop (length p - 6) p = bytes_of ''.scope'' \<and>
        no_newline machine then Some ([], machine)
      else None)"

fun runtimeFromAncestors :: "byte list list \<Rightarrow> byte list" where
  "runtimeFromAncestors [] = []"
| "runtimeFromAncestors (a # ancestors) =
     (if a = bytes_of ''docker'' then bytes_of ''docker''
      else if HasPrefix a (bytes_of ''kubepods'') then bytes_of ''containerd''
      else if a = bytes_of ''machine.slice'' \<or> a = bytes_of ''libpod_parent'' then bytes_of ''podman''
      else runtimeFromAncestors ancestors)"

definition normaliseRuntime :: "byte list \<Rightarrow> byte list" where
  "normaliseRuntime rt =
     (if rt = bytes_of ''cri-containerd'' then bytes_of ''containerd''
      else if rt = bytes_of ''libpod'' then bytes_of ''podman''
      else if rt = bytes_of ''crio'' then bytes_of ''cri-o''
      else rt)"

definition trim_slashes :: "byte list \<Rightarrow> byte list" where
  "trim_slashes s = TrimRight 47 (dropWhile (\<lambda>x. x = 47) s)"

text \<open>
  The loop from the last component up: its argument is the reversed list of the components not
  yet seen, so that the ancestors of a component are what follows it; \<open>lst\<close> says that none has been
  passed over.
\<close>

fun container_scan :: "bool \<Rightarrow> byte list list \<Rightarrow> (byte list \<times> byte list \<times> bool) option" where
  "container_scan lst [] = None"
| "container_scan lst (p # up) =
     (if HasPrefix p (bytes_of ''libpod-conmon-'') then container_scan False up
      else case containerCgroupRE p of
        Some (rt, cid) \<Rightarrow>
          let rt = (if rt = [] then runtimeFromAncestors (rev up) else rt) in
          if rt = [] then container_scan False up else Some (cid, normaliseRuntime rt, lst)
      | None \<Rightarrow>
          (case machineCgroupRE p of
             Some (name, machine) \<Rightarrow>
               if name = [] then Some (machine, bytes_of ''nspawn'', lst) else Some (name, bytes_of ''lxc'', lst)
           | None \<Rightarrow> container_scan False up))"

definition parseContainerCgroup :: "byte list \<Rightarrow> (byte list \<times> byte list \<times> bool) option" where
  "parseContainerCgroup path = container_scan True (rev (split_on 47 (trim_slashes path)))"

section \<open>The index\<close>

record containerState =
  cs_id :: "byte list"
  cs_runtime :: "byte list"
  cs_cgroupPath :: "byte list"
  cs_cgroupID :: u64
  cs_started :: bool

record containerIndex =
  byCgroup :: "u64 \<rightharpoonup> byte list"
  known :: "byte list \<rightharpoonup> containerState"

definition newContainerIndex :: containerIndex where
  "newContainerIndex = \<lparr>byCgroup = Map.empty, known = Map.empty\<rparr>"

text \<open>
  \<open>seed\<close>, over the directories below the mount that \<open>WalkDir\<close> visits: the path of each relative to the
  root, with a leading slash, and its inode, \<open>None\<close> when it cannot be read.
\<close>

fun seed :: "(byte list \<times> u64 option) list \<Rightarrow> containerIndex \<Rightarrow> containerIndex \<times> nat" where
  "seed [] c = (c, 0)"
| "seed ((path, ino) # ds) c =
     (case (parseContainerCgroup path, ino) of
        (Some (cid, rt, own), Some i) \<Rightarrow>
          let c = c\<lparr>byCgroup := (byCgroup c)(i \<mapsto> cid)\<rparr> in
          if own \<and> known c cid = None
          then let (c, n) = seed ds (c\<lparr>known := (known c)(cid \<mapsto> \<lparr>cs_id = cid, cs_runtime = rt, cs_cgroupPath = path,
                                       cs_cgroupID = i, cs_started = True\<rparr>)\<rparr>) in (c, Suc n)
          else seed ds c
      | _ \<Rightarrow> seed ds c)"

definition container_lookup :: "containerIndex \<Rightarrow> u64 \<Rightarrow> byte list option" where
  "container_lookup c cgroupID = (if cgroupID = 0 then None else byCgroup c cgroupID)"

definition created :: "RawCgroupEvent \<Rightarrow> containerIndex \<Rightarrow> containerIndex \<times> containerState option" where
  "created raw c =
     (case parseContainerCgroup (rc_Path raw) of
        None \<Rightarrow> (c, None)
      | Some (cid, rt, own) \<Rightarrow>
          let c = (if rc_Root raw = 0 then c\<lparr>byCgroup := (byCgroup c)(rc_ID raw \<mapsto> cid)\<rparr> else c) in
          if \<not> own then (c, None)
          else case known c cid of
            Some _ \<Rightarrow> (c, None)
          | None \<Rightarrow>
              let st = \<lparr>cs_id = cid, cs_runtime = rt, cs_cgroupPath = rc_Path raw, cs_cgroupID = 0, cs_started = False\<rparr>;
                  st = (if rc_Root raw = 0 then st\<lparr>cs_cgroupID := rc_ID raw\<rparr> else st)
              in (c\<lparr>known := (known c)(cid \<mapsto> st)\<rparr>, Some st))"

definition removed :: "RawCgroupEvent \<Rightarrow> containerIndex \<Rightarrow> containerIndex \<times> containerState option" where
  "removed raw c =
     (case parseContainerCgroup (rc_Path raw) of
        None \<Rightarrow> (c, None)
      | Some (cid, rt, own) \<Rightarrow>
          let c = (if rc_Root raw = 0 then c\<lparr>byCgroup := (byCgroup c)(rc_ID raw := None)\<rparr> else c) in
          if \<not> own then (c, None)
          else case known c cid of
            None \<Rightarrow> (c, None)
          | Some st \<Rightarrow> (c\<lparr>known := (known c)(cid := None)\<rparr>, Some st))"

definition markStarted :: "byte list \<Rightarrow> containerIndex \<Rightarrow> containerIndex \<times> containerState option" where
  "markStarted cid c =
     (case known c cid of
        None \<Rightarrow> (c, None)
      | Some st \<Rightarrow>
          if cs_started st then (c, None)
          else let st = st\<lparr>cs_started := True\<rparr> in (c\<lparr>known := (known c)(cid \<mapsto> st)\<rparr>, Some st))"

section \<open>Lifecycles\<close>

text \<open>
  The calls the enricher makes of the index and the events it derives from their results: a
  created container, a first exec in it, a removed container.
\<close>

datatype container_call = Mkdir RawCgroupEvent | Rmdir RawCgroupEvent | ExecIn "byte list"

datatype lifecycle = LCreate containerState | LStart containerState | LStop containerState

fun lifecycle_of :: "lifecycle \<Rightarrow> containerState" where
  "lifecycle_of (LCreate st) = st"
| "lifecycle_of (LStart st) = st"
| "lifecycle_of (LStop st) = st"

definition container_call_step :: "container_call \<Rightarrow> containerIndex \<Rightarrow> containerIndex \<times> lifecycle option" where
  "container_call_step call c =
     (case call of
        Mkdir raw \<Rightarrow> apsnd (map_option LCreate) (created raw c)
      | Rmdir raw \<Rightarrow> apsnd (map_option LStop) (removed raw c)
      | ExecIn cid \<Rightarrow> apsnd (map_option LStart) (markStarted cid c))"

fun container_run :: "container_call list \<Rightarrow> containerIndex \<Rightarrow> containerIndex \<times> lifecycle list" where
  "container_run [] c = (c, [])"
| "container_run (call # calls) c =
     (let (c, ev) = container_call_step call c; (c, evs) = container_run calls c
      in (c, (case ev of None \<Rightarrow> [] | Some e \<Rightarrow> [e]) @ evs))"

text \<open>The life of one container: absent, created, running. Anything else is \<open>None\<close>.\<close>

datatype phase = Absent | Created | Running

definition phase_step :: "byte list \<Rightarrow> phase option \<Rightarrow> lifecycle \<Rightarrow> phase option" where
  "phase_step cid ph ev =
     (if cs_id (lifecycle_of ev) \<noteq> cid then ph
      else case (ph, ev) of
        (Some Absent, LCreate _) \<Rightarrow> Some Created
      | (Some Created, LStart _) \<Rightarrow> Some Running
      | (Some Created, LStop _) \<Rightarrow> Some Absent
      | (Some Running, LStop _) \<Rightarrow> Some Absent
      | _ \<Rightarrow> None)"

definition phase_of :: "containerIndex \<Rightarrow> byte list \<Rightarrow> phase" where
  "phase_of c cid = (case known c cid of None \<Rightarrow> Absent | Some st \<Rightarrow> if cs_started st then Running else Created)"

definition index_ok :: "containerIndex \<Rightarrow> bool" where
  "index_ok c \<longleftrightarrow> (\<forall>cid st. known c cid = Some st \<longrightarrow> cs_id st = cid)"

lemma index_ok_new: "index_ok newContainerIndex"
  by (simp add: index_ok_def newContainerIndex_def)

lemma call_step:
  assumes "index_ok c" "container_call_step call c = (c', ev)"
  shows "index_ok c' \<and> Some (phase_of c' cid) = (case ev of None \<Rightarrow> Some (phase_of c cid) | Some e \<Rightarrow> phase_step cid (Some (phase_of c cid)) e)"
  using assms
  by (cases call)
    (auto simp: container_call_step_def created_def removed_def markStarted_def Let_def index_ok_def phase_of_def
      phase_step_def split: option.splits if_splits prod.splits)

lemma run_phase:
  assumes "index_ok c"
  shows "index_ok (fst (container_run calls c)) \<and>
    foldl (phase_step cid) (Some (phase_of c cid)) (snd (container_run calls c)) = Some (phase_of (fst (container_run calls c)) cid)"
  using assms
proof (induction calls arbitrary: c)
  case (Cons call calls)
  obtain c' ev where st: "container_call_step call c = (c', ev)" by force
  show ?case using call_step [OF Cons.prems st, of cid] Cons.IH [of c'] st
    by (cases ev) (simp_all add: Let_def case_prod_beta)
qed simp


section \<open>Recognising container cgroups\<close>

lemma split_on_no_sep: "b \<notin> set s \<Longrightarrow> split_on b s = [s]"
  by (induction s) auto

lemma split_on_nonempty: "split_on b s \<noteq> []"
  by (induction s) (auto split: list.splits)

lemma split_on_append:
  "split_on b (xs @ b # ys) = split_on b xs @ split_on b ys"
proof (induction xs)
  case (Cons x xs)
  then show ?case using split_on_nonempty [of b xs] by (cases "split_on b xs") auto
qed simp

text \<open>The components of a path, from the last one up.\<close>

lemma last_component:
  assumes "47 \<notin> set part" "part \<noteq> []"
  obtains up where "\<And>inner. 47 \<notin> set inner \<Longrightarrow> inner \<noteq> [] \<Longrightarrow>
      rev (split_on 47 (trim_slashes (pre @ 47 # part @ 47 # inner))) = inner # part # up"
    "rev (split_on 47 (trim_slashes (pre @ 47 # part))) = part # up"
proof -
  have end_trim: "TrimRight 47 (s @ c) = s @ c" if "47 \<notin> set c" "c \<noteq> []" for s c
  proof -
    from that obtain y ys where c: "rev c = y # ys" "y \<noteq> 47"
      by (metis list.exhaust rev_is_Nil_conv set_rev list.set_intros(1))
    then show ?thesis by (simp add: TrimRight_def)
  qed
  let ?d = "dropWhile (\<lambda>x. x = 47) pre"
  have start: "dropWhile (\<lambda>x. x = 47) (pre @ 47 # part @ r) = (if ?d = [] then part @ r else ?d @ 47 # part @ r)" for r
  proof (cases "?d = []")
    case True
    then have "\<forall>x \<in> set pre. x = 47" by (simp add: dropWhile_eq_Nil_conv)
    moreover have "dropWhile (\<lambda>x. x = 47) (part @ r) = part @ r" using assms by (cases part) auto
    ultimately show ?thesis using True by (simp add: dropWhile_append2)
  qed (auto simp: dropWhile_eq_Nil_conv dropWhile_append1)
  let ?up = "if ?d = [] then [] else rev (split_on 47 ?d)"
  show thesis
  proof (rule that)
    show "rev (split_on 47 (trim_slashes (pre @ 47 # part))) = part # ?up"
      using start [of "[]"] end_trim [OF assms, of "[]"] end_trim [OF assms, of "?d @ [47]"] assms
      by (simp add: trim_slashes_def split_on_append split_on_no_sep)
    fix inner :: "byte list"
    assume i: "47 \<notin> set inner" "inner \<noteq> []"
    show "rev (split_on 47 (trim_slashes (pre @ 47 # part @ 47 # inner))) = inner # part # ?up"
      using start [of "47 # inner"] end_trim [OF i, of "part @ [47]"] end_trim [OF i, of "?d @ 47 # part @ [47]"] assms i
      by (simp add: trim_slashes_def split_on_append split_on_no_sep)
  qed
qed

lemma marker_bytes:
  "bytes_of ''docker'' = [100, 111, 99, 107, 101, 114]"
  "bytes_of ''cri-containerd'' = [99, 114, 105, 45, 99, 111, 110, 116, 97, 105, 110, 101, 114, 100]"
  "bytes_of ''crio'' = [99, 114, 105, 111]"
  "bytes_of ''libpod'' = [108, 105, 98, 112, 111, 100]"
  "bytes_of ''containerd'' = [99, 111, 110, 116, 97, 105, 110, 101, 114, 100]"
  "bytes_of ''podman'' = [112, 111, 100, 109, 97, 110]"
  "bytes_of ''cri-o'' = [99, 114, 105, 45, 111]"
  "bytes_of ''-'' = [45]"
  "bytes_of ''.scope'' = [46, 115, 99, 111, 112, 101]"
  "bytes_of ''libpod-conmon-'' = [108, 105, 98, 112, 111, 100, 45, 99, 111, 110, 109, 111, 110, 45]"
  by code_simp+

definition runtime_markers :: "(string \<times> string) list" where
  "runtime_markers =
    [(''docker'', ''docker''), (''cri-containerd'', ''containerd''), (''crio'', ''cri-o''), (''libpod'', ''podman''),
     (''containerd'', ''containerd'')]"

lemma find_marker:
  assumes "(m, rt) \<in> set runtime_markers"
  shows "find (\<lambda>m'. HasPrefix (bytes_of m @ 45 # r) (m' @ bytes_of ''-''))
      (map bytes_of [''docker'', ''cri-containerd'', ''crio'', ''libpod'', ''containerd'']) = Some (bytes_of m)"
  using assms by (auto simp: runtime_markers_def HasPrefix_def marker_bytes)

lemma own_cgroup:
  assumes "length cid = 64" "list_all is_hex cid" "(m, rt) \<in> set runtime_markers"
  shows "containerCgroupRE (bytes_of m @ 45 # cid @ bytes_of ''.scope'') = Some (bytes_of m, cid)"
    "\<not> HasPrefix (bytes_of m @ 45 # cid @ bytes_of ''.scope'') (bytes_of ''libpod-conmon-'')"
    "47 \<notin> set (bytes_of m @ 45 # cid @ bytes_of ''.scope'')"
    "bytes_of m \<noteq> []" "normaliseRuntime (bytes_of m) = bytes_of rt"
proof -
  obtain x y ys where cid: "cid = x # y # ys" "is_hex y"
    using assms(1,2) by (cases cid; cases "tl cid") auto
  have y: "y \<noteq> 111" using cid(2) by (auto simp: is_hex_def)
  have ne: "bytes_of m \<noteq> []" using assms(3) by (auto simp: runtime_markers_def marker_bytes)
  then show "containerCgroupRE (bytes_of m @ 45 # cid @ bytes_of ''.scope'') = Some (bytes_of m, cid)"
    unfolding containerCgroupRE_def find_marker [OF assms(3)] using assms(1,2) by (simp add: Let_def)
  show "\<not> HasPrefix (bytes_of m @ 45 # cid @ bytes_of ''.scope'') (bytes_of ''libpod-conmon-'')"
    using assms(3) y by (auto simp: runtime_markers_def HasPrefix_def marker_bytes cid)
  show "normaliseRuntime (bytes_of m) = bytes_of rt"
    using assms(3) by (auto simp: runtime_markers_def normaliseRuntime_def marker_bytes)
  show "bytes_of m \<noteq> []" by (rule ne)
  have "47 \<notin> set cid" using assms(2) by (auto simp: list_all_iff is_hex_def)
  then show "47 \<notin> set (bytes_of m @ 45 # cid @ bytes_of ''.scope'')"
    using assms(3) by (auto simp: runtime_markers_def marker_bytes)
qed

lemma init_scope:
  "containerCgroupRE (bytes_of ''init.scope'') = None" "machineCgroupRE (bytes_of ''init.scope'') = None"
  "\<not> HasPrefix (bytes_of ''init.scope'') (bytes_of ''libpod-conmon-'')"
  "bytes_of ''init.scope'' \<noteq> []" "47 \<notin> set (bytes_of ''init.scope'')"
  by code_simp+



end
