(* ===== verification/Ocsf.thy ===== *)
theory Ocsf
  imports Drain
begin

text \<open>
  \<^verbatim>\<open>pkg/ocsf\<close>: the event classes the agent builds and their \<open>Validate\<close> methods. Labels of the code are
  strings, data of the host and texts computed from them are byte lists; members that no code of the
  agent sets are left out. A nil pointer is \<open>None\<close>.
\<close>

section \<open>Objects\<close>

record Product =
  pd_Name :: string
  pd_VendorName :: string
  pd_Version :: string
  pd_Language :: string

record Metadata =
  md_Version :: string
  md_Product :: Product
  md_LogName :: string
  md_EventCode :: string
  md_Labels :: "string list"
  md_UID :: "byte list"
  md_OriginalT :: int
  md_CorrelationUID :: "byte list"

record User =
  us_Name :: "byte list"
  us_UID :: "byte list"
  us_Type :: string

record Device =
  dv_HostID :: "byte list"
  dv_Hostname :: "byte list"
  dv_OSName :: "byte list"
  dv_OSVersion :: "byte list"
  dv_KernelVersion :: "byte list"
  dv_Arch :: "byte list"

record File =
  fi_Name :: "byte list"
  fi_Path :: "byte list"
  fi_Type :: "byte list"
  fi_HashesSHA256 :: "byte list"

datatype Process = Process
  (pr_PID: u32) (pr_UID: "byte list") (pr_Name: "byte list") (pr_Cmdline: "byte list") (pr_CreatedT: int)
  (pr_File: "File option") (pr_User: "User option") (pr_Parent: "Process option") (pr_ContainerID: "byte list")
  (pr_EnvVars: "byte list list option")

record Actor =
  ac_Process :: Process
  ac_User :: User

record Container =
  ct_UID :: "byte list"
  ct_Runtime :: "byte list"
  ct_CgroupPath :: "byte list"
  ct_CgroupID :: u64

record NetEndpoint =
  np_IP :: "byte list"
  np_Port :: u16
  np_Hostname :: "byte list"

record NetConnectionInfo =
  nc_Protocol :: string
  nc_ProtoNum :: u8
  nc_Direction :: string
  nc_DirID :: u8

record KernelObject =
  ko_Name :: "byte list"
  ko_Type :: string
  ko_Path :: "byte list"
  ko_SystemCall :: string
  ko_Taints :: "byte list list"
  ko_ProgType :: "byte list"
  ko_Offset :: "byte list"

record DnsQuery =
  dq_Name :: "byte list"
  dq_Type :: "byte list"
  dq_Class :: "byte list"
  dq_Opcode :: "byte list"

record DnsAnswer =
  da_RData :: "byte list"
  da_Type :: "byte list"
  da_TTL :: u32
  da_Class :: "byte list"

record Finding =
  fd_UID :: "byte list"
  fd_Title :: "byte list"
  fd_Desc :: "byte list"
  fd_Status :: string

record ocsf_Rule =
  or_UID :: "byte list"
  or_Name :: "byte list"
  or_Category :: "string list"
  or_Description :: "byte list"

record MitreTag =
  mt_Technique :: "byte list"
  mt_SubTech :: "byte list option"

section \<open>Event classes\<close>

text \<open>The members every class but the detection finding begins with.\<close>

record ocsf_event =
  ev_Metadata :: Metadata
  ev_ClassUID :: u32
  ev_ClassName :: string
  ev_ActivityID :: u8
  ev_TypeUID :: u64
  ev_Severity :: u8
  ev_Time :: int
  ev_Device :: Device
  ev_Actor :: Actor

record ProcessActivity = ocsf_event +
  pa_Process :: Process
  pa_ExitCode :: "u32 option"

record ContainerLifecycle = ocsf_event +
  cl_Container :: Container

record NetworkActivity = ocsf_event +
  na_Connection :: NetConnectionInfo
  na_SrcEndpoint :: NetEndpoint
  na_DstEndpoint :: NetEndpoint

record KernelActivity = ocsf_event +
  ka_Kernel :: KernelObject
  ka_Status :: string
  ka_StatusID :: u8
  ka_StatusCode :: "byte list"
  ka_StatusDetail :: "byte list"

record FileSystemActivity = ocsf_event +
  fa_File :: File
  fa_RenameTo :: "File option"

record Authentication = ocsf_event +
  au_User :: User
  au_Status :: string
  au_StatusID :: u8
  au_StatusCode :: "byte list"
  au_StatusDetail :: "byte list"
  au_AuthProto :: string
  au_LogonType :: "byte list"
  au_LogonTypeID :: u8
  au_Service :: "byte list option"
  au_TTY :: "byte list"
  au_SrcEndpoint :: "NetEndpoint option"
  au_SessionRemote :: "bool option"

record DnsActivity = ocsf_event +
  dn_Query :: DnsQuery
  dn_Answers :: "DnsAnswer list"
  dn_RCode :: "byte list"
  dn_RCodeID :: u16
  dn_SrcEndpoint :: NetEndpoint
  dn_DstEndpoint :: NetEndpoint
  dn_TransactionID :: u16

record DetectionFinding =
  df_Metadata :: Metadata
  df_ClassUID :: u32
  df_ClassName :: string
  df_ActivityID :: u8
  df_TypeUID :: u64
  df_Severity :: u8
  df_Time :: int
  df_Device :: Device
  df_Finding :: Finding
  df_RuleInfo :: ocsf_Rule
  df_MitreATTACK :: "MitreTag list"
  df_TriggeringEventIDs :: "byte list list"
  df_AutoResponseAction :: "byte list"
  df_AutoResponseExecuted :: bool
  df_AutoResponseWouldHaveExecuted :: bool
  df_SnapshotRequested :: bool
  df_SnapshotNoProviders :: bool

datatype Event =
    EvProcess ProcessActivity
  | EvFile FileSystemActivity
  | EvNet NetworkActivity
  | EvAuth Authentication
  | EvKernel KernelActivity
  | EvContainer ContainerLifecycle
  | EvDns DnsActivity
  | EvFinding DetectionFinding

fun ClassID :: "Event \<Rightarrow> u32" where
  "ClassID (EvProcess _) = 1007"
| "ClassID (EvFile _) = 1001"
| "ClassID (EvNet _) = 4001"
| "ClassID (EvAuth _) = 3002"
| "ClassID (EvKernel _) = 1003"
| "ClassID (EvContainer _) = 6000"
| "ClassID (EvDns _) = 4003"
| "ClassID (EvFinding _) = 2004"

text \<open>The parts of an event that all classes but the finding share.\<close>

fun event_common :: "Event \<Rightarrow> ocsf_event option" where
  "event_common (EvProcess v) = Some (ocsf_event.truncate v)"
| "event_common (EvFile v) = Some (ocsf_event.truncate v)"
| "event_common (EvNet v) = Some (ocsf_event.truncate v)"
| "event_common (EvAuth v) = Some (ocsf_event.truncate v)"
| "event_common (EvKernel v) = Some (ocsf_event.truncate v)"
| "event_common (EvContainer v) = Some (ocsf_event.truncate v)"
| "event_common (EvDns v) = Some (ocsf_event.truncate v)"
| "event_common (EvFinding v) = None"

section \<open>Valid events\<close>

definition Validate_process :: "ProcessActivity \<Rightarrow> bool" where
  "Validate_process p \<longleftrightarrow> ev_ClassUID p = 1007 \<and> ev_ActivityID p \<noteq> 0 \<and> ev_Time p \<noteq> 0 \<and>
     pr_PID (pa_Process p) \<noteq> 0 \<and> dv_HostID (ev_Device p) \<noteq> []"

definition Validate_file :: "FileSystemActivity \<Rightarrow> bool" where
  "Validate_file f \<longleftrightarrow> ev_ClassUID f = 1001 \<and> ev_ActivityID f \<noteq> 0 \<and> ev_Time f \<noteq> 0 \<and>
     \<not> (fi_Path (fa_File f) = [] \<and> fi_Name (fa_File f) = []) \<and> \<not> (ev_ActivityID f = 6 \<and> fa_RenameTo f = None)"

definition Validate_net :: "NetworkActivity \<Rightarrow> bool" where
  "Validate_net n \<longleftrightarrow> ev_ClassUID n = 4001 \<and> ev_ActivityID n \<noteq> 0 \<and> ev_Time n \<noteq> 0 \<and>
     nc_Protocol (na_Connection n) \<noteq> ''''"

definition Validate_auth :: "Authentication \<Rightarrow> bool" where
  "Validate_auth a \<longleftrightarrow> ev_ClassUID a = 3002 \<and> ev_ActivityID a \<noteq> 0 \<and> ev_Time a \<noteq> 0 \<and>
     \<not> (us_Name (au_User a) = [] \<and> us_UID (au_User a) = [])"

definition Validate_kernel :: "KernelActivity \<Rightarrow> bool" where
  "Validate_kernel k \<longleftrightarrow> ev_ClassUID k = 1003 \<and> ev_ActivityID k \<noteq> 0 \<and> ev_Time k \<noteq> 0 \<and>
     \<not> (ko_Name (ka_Kernel k) = [] \<and> ko_Type (ka_Kernel k) = '''')"

definition Validate_container :: "ContainerLifecycle \<Rightarrow> bool" where
  "Validate_container c \<longleftrightarrow> ev_ClassUID c = 6000 \<and> ev_ActivityID c \<noteq> 0 \<and> ev_Time c \<noteq> 0 \<and>
     ct_UID (cl_Container c) \<noteq> []"

definition Validate_dns :: "DnsActivity \<Rightarrow> bool" where
  "Validate_dns d \<longleftrightarrow> ev_ClassUID d = 4003 \<and> ev_ActivityID d \<noteq> 0 \<and> ev_Time d \<noteq> 0 \<and> dq_Name (dn_Query d) \<noteq> []"

definition Validate_finding :: "DetectionFinding \<Rightarrow> bool" where
  "Validate_finding d \<longleftrightarrow> df_ClassUID d = 2004 \<and> df_ActivityID d \<noteq> 0 \<and> df_Time d \<noteq> 0 \<and>
     fd_UID (df_Finding d) \<noteq> [] \<and> or_UID (df_RuleInfo d) \<noteq> [] \<and> df_TriggeringEventIDs d \<noteq> []"

definition Validate :: "Event \<Rightarrow> bool" where
  "Validate ev =
     (case ev of EvProcess p \<Rightarrow> Validate_process p | EvFile f \<Rightarrow> Validate_file f | EvNet n \<Rightarrow> Validate_net n
      | EvAuth a \<Rightarrow> Validate_auth a | EvKernel k \<Rightarrow> Validate_kernel k | EvContainer c \<Rightarrow> Validate_container c
      | EvDns d \<Rightarrow> Validate_dns d | EvFinding d \<Rightarrow> Validate_finding d)"

end
