(* ===== verification/Path_Glob.thy ===== *)
theory Path_Glob
  imports Enricher_Proc
begin

text \<open>
  The file filter of \<^verbatim>\<open>agent/internal/enricher/pathglob.go\<close>, with \<open>path.Match\<close> and \<open>filepath.Clean\<close> of the Go
  library as they are documented and implemented: a star stays within one path element, a class may
  match any character, an ill-formed pattern matches nothing.
\<close>

section \<open>Runes\<close>

text \<open>\<open>utf8.DecodeRuneInString\<close>: the rune and its width, 0xFFFD and 1 for an encoding error.\<close>

definition cont_byte :: "byte \<Rightarrow> bool" where
  "cont_byte b \<longleftrightarrow> 0x80 \<le> b \<and> b \<le> 0xBF"

definition low6 :: "byte \<Rightarrow> nat" where
  "low6 b = unat b mod 64"

fun DecodeRune :: "byte list \<Rightarrow> nat \<times> nat" where
  "DecodeRune [] = (0xFFFD, 0)"
| "DecodeRune (b0 # s) =
     (if b0 < 0x80 then (unat b0, 1)
      else if 0xC2 \<le> b0 \<and> b0 \<le> 0xDF then
        (case s of
           b1 # _ \<Rightarrow> if cont_byte b1 then (unat b0 mod 32 * 64 + low6 b1, 2) else (0xFFFD, 1)
         | _ \<Rightarrow> (0xFFFD, 1))
      else if 0xE0 \<le> b0 \<and> b0 \<le> 0xEF then
        (case s of
           b1 # b2 # _ \<Rightarrow>
             if (if b0 = 0xE0 then 0xA0 else 0x80) \<le> b1 \<and> b1 \<le> (if b0 = 0xED then 0x9F else 0xBF) \<and> cont_byte b2
             then ((unat b0 mod 16 * 64 + low6 b1) * 64 + low6 b2, 3) else (0xFFFD, 1)
         | _ \<Rightarrow> (0xFFFD, 1))
      else if 0xF0 \<le> b0 \<and> b0 \<le> 0xF4 then
        (case s of
           b1 # b2 # b3 # _ \<Rightarrow>
             if (if b0 = 0xF0 then 0x90 else 0x80) \<le> b1 \<and> b1 \<le> (if b0 = 0xF4 then 0x8F else 0xBF) \<and>
                cont_byte b2 \<and> cont_byte b3
             then (((unat b0 mod 8 * 64 + low6 b1) * 64 + low6 b2) * 64 + low6 b3, 4) else (0xFFFD, 1)
         | _ \<Rightarrow> (0xFFFD, 1))
      else (0xFFFD, 1))"

section \<open>Matching within path elements\<close>

definition getEsc :: "byte list \<Rightarrow> (nat \<times> byte list) option" where
  "getEsc chunk =
     (if chunk = [] \<or> hd chunk = 45 \<or> hd chunk = 93 then None
      else let chunk = (if hd chunk = 92 then tl chunk else chunk)
           in if chunk = [] then None
              else let (r, n) = DecodeRune chunk; nchunk = drop n chunk
                   in if r = 0xFFFD \<and> n = 1 \<or> nchunk = [] then None else Some (r, nchunk))"

lemma DecodeRune_width: "s \<noteq> [] \<Longrightarrow> 0 < snd (DecodeRune s)"
  by (cases s) (simp_all split: list.split)

declare DecodeRune.simps [simp del]

lemma getEsc_shorter: "getEsc chunk = Some (r, rest) \<Longrightarrow> length rest < length chunk"
proof -
  assume g: "getEsc chunk = Some (r, rest)"
  let ?c = "if hd chunk = 92 then tl chunk else chunk"
  have "rest = drop (snd (DecodeRune ?c)) ?c" "?c \<noteq> []" "chunk \<noteq> []"
    using g by (auto simp: getEsc_def Let_def case_prod_beta split: if_splits)
  then show ?thesis using DecodeRune_width [of ?c] by (cases chunk) (auto split: if_splits)
qed

text \<open>The ranges of a character class up to its closing bracket: whether one of them holds the rune, and the
  rest of the chunk.\<close>

function class_ranges :: "nat \<Rightarrow> byte list \<Rightarrow> bool \<Rightarrow> nat \<Rightarrow> (bool \<times> byte list) option" where
  "class_ranges r chunk found nrange =
     (if chunk \<noteq> [] \<and> hd chunk = 93 \<and> nrange > 0 then Some (found, tl chunk)
      else case getEsc chunk of
        None \<Rightarrow> None
      | Some (lo, chunk1) \<Rightarrow>
          if hd chunk1 = 45 then
            (case getEsc (tl chunk1) of
               None \<Rightarrow> None
             | Some (hi, chunk2) \<Rightarrow> class_ranges r chunk2 (found \<or> lo \<le> r \<and> r \<le> hi) (nrange + 1))
          else class_ranges r chunk1 (found \<or> r = lo) (nrange + 1))"
  by pat_completeness auto
termination
  by (relation "measure (\<lambda>(r, chunk, found, nrange). length chunk)")
    (auto dest!: getEsc_shorter simp: less_trans intro: le_less_trans)

declare class_ranges.simps [simp del]

lemma class_ranges_shorter:
  "class_ranges r chunk found nrange = Some (m, rest) \<Longrightarrow> length rest < length chunk"
proof (induction r chunk found nrange rule: class_ranges.induct)
  case (1 r chunk found nrange)
  show ?case
  proof (cases "chunk \<noteq> [] \<and> hd chunk = 93 \<and> nrange > 0")
    case True
    then show ?thesis using "1.prems" by (subst (asm) class_ranges.simps) auto
  next
    case False
    then obtain lo c1 where g: "getEsc chunk = Some (lo, c1)"
      using "1.prems" by (subst (asm) class_ranges.simps) (auto split: option.splits)
    note s1 = getEsc_shorter [OF g]
    show ?thesis
    proof (cases "hd c1 = 45")
      case True
      then obtain hi c2 where g2: "getEsc (tl c1) = Some (hi, c2)"
        "class_ranges r c2 (found \<or> lo \<le> r \<and> r \<le> hi) (nrange + 1) = Some (m, rest)"
        using "1.prems" False g by (subst (asm) class_ranges.simps) (auto split: option.splits)
      have "length rest < length c2" using "1.IH"(1) [OF False g refl True g2(1) refl g2(2)] .
      then show ?thesis using s1 getEsc_shorter [OF g2(1)] by simp
    next
      case n: False
      then have "class_ranges r c1 (found \<or> r = lo) (nrange + 1) = Some (m, rest)"
        using "1.prems" False g by (subst (asm) class_ranges.simps) auto
      from "1.IH"(2) [OF False g refl n this] show ?thesis using s1 by simp
    qed
  qed
qed

text \<open>\<open>matchChunk\<close>: \<open>None\<close> is a bad pattern, \<open>Some None\<close> no match, \<open>Some (Some t)\<close> a match that leaves \<open>t\<close>. The string
  becomes \<open>None\<close> once the match has failed; the rest of the chunk is still checked.\<close>

function matchChunk :: "byte list \<Rightarrow> byte list option \<Rightarrow> byte list option option" where
  "matchChunk chunk str =
     (case chunk of
        [] \<Rightarrow> Some str
      | c # cs \<Rightarrow>
          let str = (if str = Some [] then None else str)
          in if c = 91 then
               let r = (case str of None \<Rightarrow> 0 | Some s \<Rightarrow> fst (DecodeRune s));
                   str = map_option (\<lambda>s. drop (snd (DecodeRune s)) s) str;
                   (negated, cs) = (if cs \<noteq> [] \<and> hd cs = 94 then (True, tl cs) else (False, cs))
               in (case class_ranges r cs False 0 of
                     None \<Rightarrow> None
                   | Some (m, rest) \<Rightarrow> matchChunk rest (if m = negated then None else str))
             else if c = 63 then
               matchChunk cs (case str of None \<Rightarrow> None
                 | Some s \<Rightarrow> if hd s = 47 then None else Some (drop (snd (DecodeRune s)) s))
             else if c = 92 \<and> cs = [] then None
             else let (c, cs) = (if c = 92 then (hd cs, tl cs) else (c, cs))
                  in matchChunk cs (case str of None \<Rightarrow> None | Some s \<Rightarrow> if c \<noteq> hd s then None else Some (tl s)))"
  by pat_completeness auto
termination
proof (relation "measure (\<lambda>(chunk, str). length chunk)", simp, goal_cases)
  case (1 chunk str c cs str' r str'' p neg cs' mr m rest)
  then have "length rest < length cs'" by (auto dest: class_ranges_shorter)
  moreover have "length cs' \<le> length cs" using 1 by (auto split: if_splits)
  ultimately show ?case using 1 by simp
next
  case (2 chunk str c cs str')
  then show ?case by simp
next
  case (3 chunk str c cs str' p c' cs')
  then show ?case by (auto split: if_splits)
qed

declare matchChunk.simps [simp del]

text \<open>\<open>scanChunk\<close>: whether the pattern begins with stars, and where the chunk after them ends.\<close>

fun scan_end :: "byte list \<Rightarrow> bool \<Rightarrow> nat" where
  "scan_end [] inrange = 0"
| "scan_end (c # cs) inrange =
     (if c = 92 then (case cs of [] \<Rightarrow> 1 | _ # cs' \<Rightarrow> 2 + scan_end cs' inrange)
      else if c = 91 then 1 + scan_end cs True
      else if c = 93 then 1 + scan_end cs False
      else if c = 42 \<and> \<not> inrange then 0
      else 1 + scan_end cs inrange)"

definition scanChunk :: "byte list \<Rightarrow> bool \<times> byte list \<times> byte list" where
  "scanChunk pattern =
     (let rest = dropWhile (\<lambda>c. c = 42) pattern; i = scan_end rest False
      in (length rest < length pattern, take i rest, drop i rest))"

text \<open>The search of a chunk behind a star, at the later positions of the path element: the first one that
  leaves an empty rest, or any rest when more chunks follow.\<close>

fun star_search :: "byte list \<Rightarrow> bool \<Rightarrow> byte list \<Rightarrow> byte list option" where
  "star_search chunk last_chunk [] = None"
| "star_search chunk last_chunk (x # name) =
     (if x = 47 then None
      else case matchChunk chunk (Some name) of
        None \<Rightarrow> None
      | Some (Some t) \<Rightarrow> if last_chunk \<and> t \<noteq> [] then star_search chunk last_chunk name else Some t
      | Some None \<Rightarrow> star_search chunk last_chunk name)"

text \<open>\<open>path.Match\<close>, true when the pattern is well formed and matches all of the name. The fuel is the length
  of the pattern, of which every round consumes a chunk or a star.\<close>

fun match_rounds :: "nat \<Rightarrow> byte list \<Rightarrow> byte list \<Rightarrow> bool" where
  "match_rounds 0 pattern name = (pattern = [] \<and> name = [])"
| "match_rounds (Suc n) pattern name =
     (if pattern = [] then name = []
      else let (star, chunk, pattern) = scanChunk pattern
           in if star \<and> chunk = [] then 47 \<notin> set name
              else case matchChunk chunk (Some name) of
                None \<Rightarrow> False
              | Some (Some t) \<Rightarrow>
                  if t = [] \<or> pattern \<noteq> [] then match_rounds n pattern t
                  else star \<and> (case star_search chunk (pattern = []) name of None \<Rightarrow> False | Some t \<Rightarrow> match_rounds n pattern t)
              | Some None \<Rightarrow>
                  star \<and> (case star_search chunk (pattern = []) name of None \<Rightarrow> False | Some t \<Rightarrow> match_rounds n pattern t))"

definition path_Match :: "byte list \<Rightarrow> byte list \<Rightarrow> bool" where
  "path_Match pattern name = match_rounds (length pattern) pattern name"

section \<open>The filter\<close>

record pathGlob =
  pg_includes :: "byte list list"
  pg_excludes :: "byte list list"

definition newPathGlob :: "byte list list \<Rightarrow> byte list list \<Rightarrow> pathGlob" where
  "newPathGlob inc exc = \<lparr>pg_includes = inc, pg_excludes = exc\<rparr>"

definition HasSuffix :: "byte list \<Rightarrow> byte list \<Rightarrow> bool" where
  "HasSuffix s p \<longleftrightarrow> length p \<le> length s \<and> drop (length s - length p) s = p"

definition matchPattern :: "byte list \<Rightarrow> byte list \<Rightarrow> bool" where
  "matchPattern pattern p =
     (if HasSuffix pattern (bytes_of ''/**'') then
        let suffix = take (length pattern - 3) pattern
        in if suffix = [] then True else p = suffix \<or> HasPrefix p (suffix @ [47])
      else if (\<exists>c \<in> set pattern. c = 42 \<or> c = 63 \<or> c = 91) \<and> path_Match pattern p then True
      else pattern = p)"

definition allow :: "pathGlob \<Rightarrow> byte list \<Rightarrow> bool" where
  "allow g p =
     (if p = [] then False
      else if list_ex (\<lambda>pat. matchPattern pat p) (pg_excludes g) then False
      else if pg_includes g = [] then True
      else list_ex (\<lambda>pat. matchPattern pat p) (pg_includes g))"

section \<open>Clean paths\<close>

text \<open>\<open>filepath.Clean\<close>: empty and dot elements go, a dot-dot takes the element before it with it.\<close>

fun clean_elements :: "bool \<Rightarrow> byte list list \<Rightarrow> byte list list \<Rightarrow> byte list list" where
  "clean_elements rooted done [] = rev done"
| "clean_elements rooted done (p # ps) =
     (if p = [] \<or> p = [46] then clean_elements rooted done ps
      else if p = [46, 46] then
        (case done of
           [] \<Rightarrow> clean_elements rooted (if rooted then [] else [p]) ps
         | q # qs \<Rightarrow> clean_elements rooted (if q = [46, 46] then p # done else qs) ps)
      else clean_elements rooted (p # done) ps)"

fun join_slashes :: "byte list list \<Rightarrow> byte list" where
  "join_slashes [] = []"
| "join_slashes [p] = p"
| "join_slashes (p # q # ps) = p @ 47 # join_slashes (q # ps)"

definition Clean :: "byte list \<Rightarrow> byte list" where
  "Clean path =
     (if path = [] then [46]
      else let rooted = (hd path = 47);
               s = join_slashes (clean_elements rooted [] (split_on 47 path))
           in if rooted then 47 # s else if s = [] then [46] else s)"

end
