(* ===== verification/Enricher_Process.thy ===== *)
theory Enricher_Process
  imports Enricher_Containers Ocsf Path_Glob
begin

text \<open>
  The process path of \<^verbatim>\<open>agent/internal/enricher/enricher.go\<close>: the common parts of OCSF
  events (\<^verbatim>\<open>ocsf.go\<close>), the handler of process events with its process cache and container index, and
  the container events of \<^verbatim>\<open>containers.go\<close>.

  Inputs of a step are what the code takes from outside: the contents of \<^verbatim>\<open>/proc\<close>, the time, the fresh
  event ids, the answer of the hasher, and for each send what \<open>select\<close> finds.
\<close>

section \<open>Common parts\<close>

definition slitherProduct :: Product where
  "slitherProduct = \<lparr>pd_Name = ''slither-agent'', pd_VendorName = ''slither'', pd_Version = ''0.0.0-dev'',
     pd_Language = ''en''\<rparr>"

definition userType :: "u32 \<Rightarrow> string" where
  "userType uid = (if uid = 0 then ''Admin'' else ''User'')"

text \<open>\<open>Time.UnixMilli\<close>, for nanoseconds since 1970.\<close>

definition UnixMilli :: "int \<Rightarrow> int" where
  "UnixMilli t = t div 1000000"

text \<open>\<open>filepath.Base\<close>.\<close>

definition Base :: "byte list \<Rightarrow> byte list" where
  "Base path =
     (if path = [] then bytes_of ''.''
      else let p = TrimRight 47 path;
               p = rev (takeWhile (\<lambda>x. x \<noteq> 47) (rev p))
           in if p = [] then bytes_of ''/'' else p)"

definition processFromEntry :: "procEntry \<Rightarrow> byte list \<Rightarrow> Process" where
  "processFromEntry ent username =
     Process (ent_pid ent) (decimal (unat (ent_uid ent))) (ent_comm ent) (ent_cmdline ent)
       (case ent_createdAt ent of None \<Rightarrow> 0 | Some t \<Rightarrow> UnixMilli t)
       (if ent_exe ent \<noteq> [] then Some \<lparr>fi_Name = Base (ent_exe ent), fi_Path = ent_exe ent, fi_Type = [], fi_HashesSHA256 = []\<rparr> else None)
       (Some \<lparr>us_Name = username, us_UID = decimal (unat (ent_uid ent)), us_Type = userType (ent_uid ent)\<rparr>)
       None (ent_container ent) (ent_env ent)"

definition activityID :: "RawProcessKind \<Rightarrow> u8" where
  "activityID k = (case k of ProcExec \<Rightarrow> 1 | ProcFork \<Rightarrow> 1 | ProcExit \<Rightarrow> 2 | ProcUnknown \<Rightarrow> 99)"

definition eventCode :: "RawProcessKind \<Rightarrow> string" where
  "eventCode k = (case k of ProcExec \<Rightarrow> ''exec'' | ProcFork \<Rightarrow> ''fork'' | ProcExit \<Rightarrow> ''exit'' | ProcUnknown \<Rightarrow> ''unknown'')"

definition metadata :: "string \<Rightarrow> string \<Rightarrow> byte list \<Rightarrow> int \<Rightarrow> Metadata" where
  "metadata log code uid ts = \<lparr>md_Version = ''1.3.0'', md_Product = slitherProduct, md_LogName = log,
     md_EventCode = code, md_Labels = [], md_UID = uid, md_OriginalT = ts, md_CorrelationUID = []\<rparr>"

section \<open>The enricher\<close>

record options =
  ParentChainDepth :: nat
  opt_Device :: Device
  CaptureEnv :: bool
  CacheEvictionGrace :: int
  selfPID :: u32

record enricher =
  en_cache :: procCache
  en_users :: "u32 \<rightharpoonup> byte list"
  en_containers :: containerIndex
  en_fileFilter :: pathGlob
  en_reloadFilterCh :: "(byte list list \<times> byte list list) gochan"
  en_out :: "Event gochan"
  en_drops :: nat
  en_drops_enricher :: nat

text \<open>One send: the fresh id of the event, whether the context is cancelled, and which of two ready
  cases \<open>select\<close> takes.\<close>

record emission =
  em_uid :: "byte list"
  em_done :: bool
  em_send_first :: bool

definition emit :: "emission \<Rightarrow> Event \<Rightarrow> enricher \<Rightarrow> enricher" where
  "emit em ev e =
     (if length (ch_queue (en_out e)) < ch_cap (en_out e) \<and> (em_send_first em \<or> \<not> em_done em)
      then e\<lparr>en_out := (en_out e)\<lparr>ch_queue := ch_queue (en_out e) @ [ev]\<rparr>\<rparr>
      else if em_done em then e
      else e\<lparr>en_drops := en_drops e + 1, en_drops_enricher := en_drops_enricher e + 1\<rparr>)"

definition IncDrops :: "enricher \<Rightarrow> enricher" where
  "IncDrops e = e\<lparr>en_drops := en_drops e + 1\<rparr>"

text \<open>The ancestors of a process, at most \<open>depth\<close> of them.\<close>

fun buildParentChain :: "enricher \<Rightarrow> procfs \<Rightarrow> u32 \<Rightarrow> nat \<Rightarrow> Process option" where
  "buildParentChain e P pid 0 = None"
| "buildParentChain e P pid (Suc depth) =
     (if pid = 0 then None
      else case cache_get (en_cache e) pid of
        Some ent \<Rightarrow>
          let p = processFromEntry ent (Name (en_users e) (ent_uid ent)) in
          if ent_ppid ent \<noteq> 0 \<and> depth > 0
          then Some (case p of Process q u n c t f us pa ci ev \<Rightarrow>
                 Process q u n c t f us (buildParentChain e P (ent_ppid ent) depth) ci ev)
          else Some p
      | None \<Rightarrow>
          let comm = proc_comm P pid; exe = proc_exe P pid; ppid = proc_ppid P pid in
          if comm = [] \<and> exe = [] \<and> ppid = 0 then Some (Process pid [] [] [] 0 None None None [] None)
          else let file = (if exe \<noteq> [] then Some \<lparr>fi_Name = Base exe, fi_Path = exe, fi_Type = [], fi_HashesSHA256 = []\<rparr> else None)
               in Some (Process pid [] comm [] 0 file None
                    (if ppid \<noteq> 0 \<and> depth > 0 then buildParentChain e P ppid depth else None) [] None))"

definition with_parent :: "Process option \<Rightarrow> Process \<Rightarrow> Process" where
  "with_parent pa p =
     (case p of Process q u n c t f us _ ci ev \<Rightarrow> Process q u n c t f us pa ci ev)"

definition buildOCSF :: "options \<Rightarrow> enricher \<Rightarrow> procfs \<Rightarrow> byte list \<Rightarrow> RawProcessEvent \<Rightarrow> procEntry \<Rightarrow> ProcessActivity" where
  "buildOCSF opts e P uid raw ent =
     (let username = Name (en_users e) (ent_uid ent);
          proc = processFromEntry ent username;
          proc = (if ent_ppid ent \<noteq> 0 then with_parent (buildParentChain e P (ent_ppid ent) (ParentChainDepth opts)) proc
                  else proc);
          actor = \<lparr>ac_Process = (case pr_Parent proc of Some p \<Rightarrow> p | None \<Rightarrow> proc),
                   ac_User = \<lparr>us_Name = username, us_UID = pr_UID proc, us_Type = userType (ent_uid ent)\<rparr>\<rparr>;
          activity = activityID (rp_Kind raw);
          ts = UnixMilli (rp_Timestamp raw)
      in \<lparr>ev_Metadata = metadata ''process'' (eventCode (rp_Kind raw)) uid ts, ev_ClassUID = 1007,
          ev_ClassName = ''process_activity'', ev_ActivityID = activity, ev_TypeUID = 1007 * 100 + ucast activity,
          ev_Severity = 1, ev_Time = ts, ev_Device = opt_Device opts, ev_Actor = actor, pa_Process = proc,
          pa_ExitCode = (if rp_Kind raw = ProcExit then Some (rp_ExitCode raw) else None)\<rparr>)"

text \<open>\<open>buildContainerOCSF\<close> and \<open>emitContainer\<close>.\<close>

definition buildContainerOCSF ::
    "options \<Rightarrow> enricher \<Rightarrow> byte list \<Rightarrow> u8 \<Rightarrow> string \<Rightarrow> containerState \<Rightarrow> procEntry \<Rightarrow> int \<Rightarrow> ContainerLifecycle" where
  "buildContainerOCSF opts e uid activity code st actor at =
     (let username = Name (en_users e) (ent_uid actor);
          actorProc = processFromEntry actor username;
          ts = UnixMilli at
      in \<lparr>ev_Metadata = metadata ''container'' code uid ts, ev_ClassUID = 6000, ev_ClassName = ''container_lifecycle'',
          ev_ActivityID = activity, ev_TypeUID = 6000 * 100 + ucast activity, ev_Severity = 1, ev_Time = ts,
          ev_Device = opt_Device opts,
          ev_Actor = \<lparr>ac_Process = actorProc, ac_User = \<lparr>us_Name = username, us_UID = pr_UID actorProc,
            us_Type = userType (ent_uid actor)\<rparr>\<rparr>,
          cl_Container = \<lparr>ct_UID = cs_id st, ct_Runtime = cs_runtime st, ct_CgroupPath = cs_cgroupPath st,
            ct_CgroupID = cs_cgroupID st\<rparr>\<rparr>)"

definition emitContainer ::
    "options \<Rightarrow> emission \<Rightarrow> u8 \<Rightarrow> string \<Rightarrow> containerState \<Rightarrow> procEntry \<Rightarrow> int \<Rightarrow> enricher \<Rightarrow> enricher" where
  "emitContainer opts em activity code st actor at e =
     emit em (EvContainer (buildContainerOCSF opts e (em_uid em) activity code st actor at)) e"

definition actorEntry :: "enricher \<Rightarrow> procfs \<Rightarrow> u32 \<Rightarrow> u32 \<Rightarrow> byte list \<Rightarrow> procEntry" where
  "actorEntry e P pid uid comm =
     (let ent = (case cache_get (en_cache e) pid of
                   Some ent \<Rightarrow> ent
                 | None \<Rightarrow> let ent = (entry_of pid)\<lparr>ent_uid := uid, ent_comm := comm\<rparr>; exe = proc_exe P pid
                           in if exe \<noteq> [] then ent\<lparr>ent_exe := exe\<rparr> else ent)
      in if ent_comm ent = [] then ent\<lparr>ent_comm := comm\<rparr> else ent)"

definition handleCgroup :: "options \<Rightarrow> procfs \<Rightarrow> emission \<Rightarrow> RawCgroupEvent \<Rightarrow> enricher \<Rightarrow> enricher" where
  "handleCgroup opts P em raw e =
     (case rc_Kind raw of
        CgroupMkdir \<Rightarrow>
          (case created raw (en_containers e) of
             (c, Some st) \<Rightarrow>
               let e = e\<lparr>en_containers := c\<rparr> in
               emitContainer opts em 1 ''container_create'' st (actorEntry e P (rc_PID raw) (rc_UID raw) (rc_Comm raw))
                 (rc_Timestamp raw) e
           | (c, None) \<Rightarrow> e\<lparr>en_containers := c\<rparr>)
      | CgroupRmdir \<Rightarrow>
          (case removed raw (en_containers e) of
             (c, Some st) \<Rightarrow>
               let e = e\<lparr>en_containers := c\<rparr> in
               emitContainer opts em 3 ''container_stop'' st (actorEntry e P (rc_PID raw) (rc_UID raw) (rc_Comm raw))
                 (rc_Timestamp raw) e
           | (c, None) \<Rightarrow> e\<lparr>en_containers := c\<rparr>)
      | CgroupUnknown \<Rightarrow> IncDrops e)"

section \<open>Process events\<close>

text \<open>The entry of an exec: what the record lacks is read from the cache and from \<^verbatim>\<open>/proc\<close>.\<close>

definition exec_entry :: "options \<Rightarrow> enricher \<Rightarrow> procfs \<Rightarrow> RawProcessEvent \<Rightarrow> procEntry \<Rightarrow> procEntry" where
  "exec_entry opts e P raw entry =
     (let entry = (if ent_ppid entry = 0
                   then case cache_get (en_cache e) (rp_PID raw) of
                          Some prior \<Rightarrow> if ent_ppid prior \<noteq> 0 then entry\<lparr>ent_ppid := ent_ppid prior\<rparr> else entry
                        | None \<Rightarrow> entry
                   else entry);
          needPpid = (ent_ppid entry = 0); needExe = (rp_Exe raw = []); needCmdline = (rp_Cmdline raw = []);
          needEnv = CaptureEnv opts
      in if \<not> needPpid \<and> \<not> needExe \<and> \<not> needCmdline \<and> \<not> needEnv
         then entry\<lparr>ent_exe := rp_Exe raw, ent_cmdline := rp_Cmdline raw\<rparr>
         else let entry = (if needEnv then entry\<lparr>ent_env := proc_environ P (rp_PID raw)\<rparr> else entry);
                  entry = (if needPpid then entry\<lparr>ent_ppid := proc_ppid P (rp_PID raw)\<rparr> else entry);
                  entry = entry\<lparr>ent_exe := (if needExe then proc_exe P (rp_PID raw) else rp_Exe raw)\<rparr>
              in entry\<lparr>ent_cmdline := (if needCmdline then proc_cmdline P (rp_PID raw) else rp_Cmdline raw)\<rparr>)"

definition fork_entry :: "procfs \<Rightarrow> RawProcessEvent \<Rightarrow> procEntry \<Rightarrow> procEntry" where
  "fork_entry P raw entry =
     (let c = proc_comm P (rp_PID raw) in if c \<noteq> [] then entry\<lparr>ent_comm := c\<rparr> else entry)"

definition container_entry :: "enricher \<Rightarrow> RawProcessEvent \<Rightarrow> procEntry \<Rightarrow> procEntry" where
  "container_entry e raw entry =
     (case container_lookup (en_containers e) (rp_CgroupID raw) of
        Some cid \<Rightarrow> entry\<lparr>ent_container := cid\<rparr>
      | None \<Rightarrow>
          (case cache_get (en_cache e) (rp_PID raw) of
             Some prior \<Rightarrow> if ent_container prior \<noteq> [] then entry\<lparr>ent_container := ent_container prior\<rparr> else entry
           | None \<Rightarrow> entry))"

text \<open>The entry a handler builds from one event.\<close>

definition process_entry :: "options \<Rightarrow> enricher \<Rightarrow> procfs \<Rightarrow> RawProcessEvent \<Rightarrow> procEntry" where
  "process_entry opts e P raw =
     (let entry = (entry_of (rp_PID raw))\<lparr>ent_ppid := rp_PPID raw, ent_uid := rp_UID raw, ent_gid := rp_GID raw,
                    ent_comm := rp_Comm raw, ent_createdAt := Some (rp_Timestamp raw)\<rparr>;
          entry = (case rp_Kind raw of
                     ProcExec \<Rightarrow> exec_entry opts e P raw entry
                   | ProcFork \<Rightarrow> fork_entry P raw entry
                   | _ \<Rightarrow> entry)
      in container_entry e raw entry)"

text \<open>What \<open>hasher.Submit\<close> answers: nothing to wait for, a cached hash, or a channel.\<close>

datatype submit = NoHash | Cached "byte list" | Awaiting

definition set_file_hash :: "byte list \<Rightarrow> Process \<Rightarrow> Process" where
  "set_file_hash h p =
     (case p of Process q u n c t f us pa ci env \<Rightarrow>
        Process q u n c t (map_option (\<lambda>f. f\<lparr>fi_HashesSHA256 := h\<rparr>) f) us pa ci env)"

text \<open>
  The assignment to \<open>ev.Process.File.HashesSHA256\<close>. Without a visible parent the actor is a copy of the
  process that shares its file, so that the hash shows there too.
\<close>

definition set_hash :: "byte list \<Rightarrow> ProcessActivity \<Rightarrow> ProcessActivity" where
  "set_hash h ev =
     (let ev' = ev\<lparr>pa_Process := set_file_hash h (pa_Process ev)\<rparr> in
      if pr_Parent (pa_Process ev) = None
      then ev'\<lparr>ev_Actor := (ev_Actor ev)\<lparr>ac_Process := set_file_hash h (ac_Process (ev_Actor ev))\<rparr>\<rparr>
      else ev')"

record process_inputs =
  pi_proc :: procfs
  pi_now :: int
  pi_start :: emission
  pi_emit :: emission
  pi_submit :: submit

text \<open>\<open>handleProcess\<close>; the second component is the event that a goroutine of \<open>awaitHash\<close> takes over.\<close>

definition handleProcess ::
    "options \<Rightarrow> process_inputs \<Rightarrow> RawProcessEvent \<Rightarrow> enricher \<Rightarrow> enricher \<times> ProcessActivity option" where
  "handleProcess opts i raw e =
     (if rp_Kind raw = ProcUnknown then (IncDrops e, None)
      else
        let P = pi_proc i;
            entry = process_entry opts e P raw;
            e = e\<lparr>en_cache := upsert entry (en_cache e)\<rparr>;
            e = (if rp_Kind raw = ProcExit then e\<lparr>en_cache := markExit (rp_PID raw) (pi_now i) (en_cache e)\<rparr> else e);
            merged = (case cache_get (en_cache e) (rp_PID raw) of Some m \<Rightarrow> m | None \<Rightarrow> entry);
            e = (if rp_Kind raw = ProcExec \<and> ent_container merged \<noteq> []
                 then case markStarted (ent_container merged) (en_containers e) of
                   (c, Some st) \<Rightarrow> emitContainer opts (pi_start i) 2 ''container_start'' st merged (rp_Timestamp raw)
                                     (e\<lparr>en_containers := c\<rparr>)
                 | (c, None) \<Rightarrow> e\<lparr>en_containers := c\<rparr>
                 else e);
            ev = buildOCSF opts e P (em_uid (pi_emit i)) raw merged
        in if rp_Kind raw = ProcExec \<and> (case pr_File (pa_Process ev) of None \<Rightarrow> False | Some f \<Rightarrow> fi_Path f \<noteq> [])
           then case pi_submit i of
               Cached h \<Rightarrow> (emit (pi_emit i) (EvProcess (set_hash h ev)) e, None)
             | Awaiting \<Rightarrow> (e, Some ev)
             | NoHash \<Rightarrow> (emit (pi_emit i) (EvProcess ev) e, None)
           else (emit (pi_emit i) (EvProcess ev) e, None))"

text \<open>\<open>awaitHash\<close>: the hash arrives (empty when it failed or the channel closed), the budget is over, or
  the context is cancelled; after the budget \<open>followupHash\<close> sends a second event.\<close>

datatype hash_wait = Arrived "byte list" | Late "byte list option" | Stopped

definition labelFollowup :: string where
  "labelFollowup = ''followup''"

definition buildHashFollowup :: "byte list \<Rightarrow> ProcessActivity \<Rightarrow> byte list \<Rightarrow> ProcessActivity" where
  "buildHashFollowup uid orig h =
     (let md = ev_Metadata orig in
      orig\<lparr>ev_Metadata := md\<lparr>md_Version := ''1.3.0'', md_EventCode := ''hash_followup'', md_Labels := [labelFollowup],
           md_UID := uid, md_CorrelationUID := md_UID md\<rparr>, ev_ClassUID := 1007, ev_ClassName := ''process_activity'',
         pa_Process := set_file_hash h (pa_Process orig), pa_ExitCode := None\<rparr>)"

definition awaitHash :: "hash_wait \<Rightarrow> emission \<Rightarrow> emission \<Rightarrow> ProcessActivity \<Rightarrow> enricher \<Rightarrow> enricher" where
  "awaitHash w em em' ev e =
     (case w of
        Arrived h \<Rightarrow> emit em (EvProcess (if h \<noteq> [] then set_hash h ev else ev)) e
      | Late late \<Rightarrow>
          let e = emit em (EvProcess ev) e in
          (case late of
             None \<Rightarrow> e
           | Some h \<Rightarrow> if h = [] then e else emit em' (EvProcess (buildHashFollowup (em_uid em') ev h)) e)
      | Stopped \<Rightarrow> e)"

section \<open>The cache after a process event\<close>

definition enricher_ok :: "enricher \<Rightarrow> bool" where
  "enricher_ok e \<longleftrightarrow> cache_ok (en_cache e) \<and> index_ok (en_containers e) \<and>
     length (ch_queue (en_out e)) \<le> ch_cap (en_out e)"

lemma emit_fields [simp]:
  "en_cache (emit em ev e) = en_cache e" "en_users (emit em ev e) = en_users e"
  "en_containers (emit em ev e) = en_containers e" "en_fileFilter (emit em ev e) = en_fileFilter e"
  "en_reloadFilterCh (emit em ev e) = en_reloadFilterCh e" "ch_cap (en_out (emit em ev e)) = ch_cap (en_out e)"
  by (simp_all add: emit_def)

lemma emission_ok: "enricher_ok e \<Longrightarrow> enricher_ok (emit em ev e)"
  by (auto simp: enricher_ok_def emit_def)

lemma emit_sends:
  "length (ch_queue (en_out e)) < ch_cap (en_out e) \<Longrightarrow> \<not> em_done em \<Longrightarrow>
   ch_queue (en_out (emit em ev e)) = ch_queue (en_out e) @ [ev]"
  by (simp add: emit_def)

lemma exec_entry_fields [simp]:
  "ent_pid (exec_entry opts e P raw en) = ent_pid en" "ent_uid (exec_entry opts e P raw en) = ent_uid en"
  "ent_gid (exec_entry opts e P raw en) = ent_gid en" "ent_comm (exec_entry opts e P raw en) = ent_comm en"
  "ent_container (exec_entry opts e P raw en) = ent_container en"
  "ent_createdAt (exec_entry opts e P raw en) = ent_createdAt en"
  "ent_exited (exec_entry opts e P raw en) = ent_exited en" "ent_exitAt (exec_entry opts e P raw en) = ent_exitAt en"
  by (simp_all add: exec_entry_def Let_def split: option.splits)

lemma exec_entry_image:
  "rp_Exe raw \<noteq> [] \<Longrightarrow> ent_exe (exec_entry opts e P raw en) = rp_Exe raw"
  "rp_Cmdline raw \<noteq> [] \<Longrightarrow> ent_cmdline (exec_entry opts e P raw en) = rp_Cmdline raw"
  by (simp_all add: exec_entry_def Let_def split: option.splits)

lemma container_entry_fields [simp]:
  "ent_pid (container_entry e raw en) = ent_pid en" "ent_ppid (container_entry e raw en) = ent_ppid en"
  "ent_uid (container_entry e raw en) = ent_uid en" "ent_gid (container_entry e raw en) = ent_gid en"
  "ent_comm (container_entry e raw en) = ent_comm en" "ent_exe (container_entry e raw en) = ent_exe en"
  "ent_cmdline (container_entry e raw en) = ent_cmdline en" "ent_exited (container_entry e raw en) = ent_exited en"
  "ent_exitAt (container_entry e raw en) = ent_exitAt en"
  by (simp_all add: container_entry_def split: option.splits)

lemma process_entry_fields [simp]:
  "ent_pid (process_entry opts e P raw) = rp_PID raw" "ent_uid (process_entry opts e P raw) = rp_UID raw"
  "ent_gid (process_entry opts e P raw) = rp_GID raw" "entry_ok (process_entry opts e P raw)"
  by (simp_all add: process_entry_def Let_def entry_of_def fork_entry_def entry_ok_def split: RawProcessKind.splits)

text \<open>The entry after the event, and the event itself.\<close>

definition merged_entry :: "options \<Rightarrow> process_inputs \<Rightarrow> RawProcessEvent \<Rightarrow> enricher \<Rightarrow> procEntry" where
  "merged_entry opts i raw e =
     (let entry = process_entry opts e (pi_proc i) raw;
          m = (case cache_get (en_cache e) (rp_PID raw) of None \<Rightarrow> entry | Some old \<Rightarrow> upsert_existing entry old)
      in if rp_Kind raw = ProcExit then m\<lparr>ent_exited := True, ent_exitAt := Some (pi_now i)\<rparr> else m)"

definition updated_cache :: "options \<Rightarrow> process_inputs \<Rightarrow> RawProcessEvent \<Rightarrow> enricher \<Rightarrow> procCache" where
  "updated_cache opts i raw e =
     (let c = upsert (process_entry opts e (pi_proc i) raw) (en_cache e)
      in if rp_Kind raw = ProcExit then markExit (rp_PID raw) (pi_now i) c else c)"

lemma updated_cache_get:
  assumes "cache_ok (en_cache e)"
  shows "cache_ok (updated_cache opts i raw e)"
    "cache_get (updated_cache opts i raw e) = (cache_get (en_cache e))(rp_PID raw \<mapsto> merged_entry opts i raw e)"
proof -
  let ?entry = "process_entry opts e (pi_proc i) raw"
  let ?c = "upsert ?entry (en_cache e)"
  have c: "cache_ok ?c" by (rule pc.inv_put [OF assms]) simp
  then show "cache_ok (updated_cache opts i raw e)"
    by (simp add: updated_cache_def Let_def pc.inv_mark)
  show "cache_get (updated_cache opts i raw e) = (cache_get (en_cache e))(rp_PID raw \<mapsto> merged_entry opts i raw e)"
    by (simp add: updated_cache_def merged_entry_def Let_def pc.lookup_mark [OF c] pc.lookup_put [OF assms]
        map_upsert_def map_exit_def)
qed

text \<open>The state before the process event is sent: the container of a first exec is reported already.\<close>

definition after_start :: "options \<Rightarrow> process_inputs \<Rightarrow> RawProcessEvent \<Rightarrow> enricher \<Rightarrow> enricher" where
  "after_start opts i raw e =
     (let m = merged_entry opts i raw e;
          e = e\<lparr>en_cache := updated_cache opts i raw e\<rparr>
      in if rp_Kind raw = ProcExec \<and> ent_container m \<noteq> []
         then case markStarted (ent_container m) (en_containers e) of
           (c, Some st) \<Rightarrow> emitContainer opts (pi_start i) 2 ''container_start'' st m (rp_Timestamp raw) (e\<lparr>en_containers := c\<rparr>)
         | (c, None) \<Rightarrow> e\<lparr>en_containers := c\<rparr>
         else e)"

definition process_event_of :: "options \<Rightarrow> process_inputs \<Rightarrow> RawProcessEvent \<Rightarrow> enricher \<Rightarrow> ProcessActivity" where
  "process_event_of opts i raw e =
     buildOCSF opts (after_start opts i raw e) (pi_proc i) (em_uid (pi_emit i)) raw (merged_entry opts i raw e)"

lemma handleProcess_cases:
  assumes "cache_ok (en_cache e)" "rp_Kind raw \<noteq> ProcUnknown"
  shows "handleProcess opts i raw e =
    (let e' = after_start opts i raw e; ev = process_event_of opts i raw e in
     if rp_Kind raw = ProcExec \<and> (case pr_File (pa_Process ev) of None \<Rightarrow> False | Some f \<Rightarrow> fi_Path f \<noteq> [])
     then case pi_submit i of
         Cached h \<Rightarrow> (emit (pi_emit i) (EvProcess (set_hash h ev)) e', None)
       | Awaiting \<Rightarrow> (e', Some ev)
       | NoHash \<Rightarrow> (emit (pi_emit i) (EvProcess ev) e', None)
     else (emit (pi_emit i) (EvProcess ev) e', None))"
proof -
  have m: "(case cache_get (en_cache (e\<lparr>en_cache := updated_cache opts i raw e\<rparr>)) (rp_PID raw) of
        Some m \<Rightarrow> m | None \<Rightarrow> process_entry opts e (pi_proc i) raw) = merged_entry opts i raw e"
    by (simp add: updated_cache_get [OF assms(1)])
  have c: "(if rp_Kind raw = ProcExit
       then e\<lparr>en_cache := upsert (process_entry opts e (pi_proc i) raw) (en_cache e)\<rparr>
             \<lparr>en_cache := markExit (rp_PID raw) (pi_now i)
                 (en_cache (e\<lparr>en_cache := upsert (process_entry opts e (pi_proc i) raw) (en_cache e)\<rparr>))\<rparr>
       else e\<lparr>en_cache := upsert (process_entry opts e (pi_proc i) raw) (en_cache e)\<rparr>) =
     e\<lparr>en_cache := updated_cache opts i raw e\<rparr>"
    by (simp add: updated_cache_def Let_def)
  show ?thesis
    unfolding handleProcess_def Let_def c m process_event_of_def after_start_def
    by (simp only: assms(2) if_False)
qed

lemma index_steps:
  assumes "index_ok c"
  shows "index_ok (fst (created raw c))" "index_ok (fst (removed raw c))" "index_ok (fst (markStarted cid c))"
  using call_step [OF assms, of "Mkdir raw"] call_step [OF assms, of "Rmdir raw"] call_step [OF assms, of "ExecIn cid"]
  by (simp_all add: container_call_step_def apsnd_def map_prod_def case_prod_beta)

lemma after_start_fields [simp]:
  "en_cache (after_start opts i raw e) = updated_cache opts i raw e" "en_users (after_start opts i raw e) = en_users e"
  "ch_cap (en_out (after_start opts i raw e)) = ch_cap (en_out e)"
  by (auto simp: after_start_def Let_def emitContainer_def split: prod.splits option.splits)

lemma after_start_ok:
  assumes "enricher_ok e"
  shows "enricher_ok (after_start opts i raw e)"
proof -
  let ?e = "e\<lparr>en_cache := updated_cache opts i raw e\<rparr>" and ?m = "merged_entry opts i raw e"
  have ok: "enricher_ok (?e\<lparr>en_containers := c\<rparr>)" if "index_ok c" for c
    using assms that updated_cache_get(1) by (simp add: enricher_ok_def)
  have "enricher_ok (?e\<lparr>en_containers := fst (markStarted (ent_container ?m) (en_containers e))\<rparr>)"
    using assms by (intro ok index_steps) (simp add: enricher_ok_def)
  moreover have "enricher_ok ?e" using ok [of "en_containers e"] assms by (simp add: enricher_ok_def)
  ultimately show ?thesis
    by (auto simp: after_start_def Let_def emitContainer_def intro: emission_ok split: prod.splits option.splits)
qed

lemma after_start_queue:
  "length (ch_queue (en_out (after_start opts i raw e))) \<le> Suc (length (ch_queue (en_out e)))"
  by (auto simp: after_start_def Let_def emitContainer_def emit_def split: prod.splits option.splits)

lemma processFromEntry_fields [simp]:
  "pr_PID (processFromEntry ent u) = ent_pid ent" "pr_Cmdline (processFromEntry ent u) = ent_cmdline ent"
  "pr_Name (processFromEntry ent u) = ent_comm ent" "pr_ContainerID (processFromEntry ent u) = ent_container ent"
  "pr_UID (processFromEntry ent u) = decimal (unat (ent_uid ent))" "pr_Parent (processFromEntry ent u) = None"
  "pr_EnvVars (processFromEntry ent u) = ent_env ent"
  "pr_File (processFromEntry ent u) = (if ent_exe ent \<noteq> [] then Some \<lparr>fi_Name = Base (ent_exe ent), fi_Path = ent_exe ent,
     fi_Type = [], fi_HashesSHA256 = []\<rparr> else None)"
  by (simp_all add: processFromEntry_def)

lemma with_parent_fields [simp]:
  "pr_PID (with_parent pa p) = pr_PID p" "pr_Cmdline (with_parent pa p) = pr_Cmdline p"
  "pr_Name (with_parent pa p) = pr_Name p" "pr_ContainerID (with_parent pa p) = pr_ContainerID p"
  "pr_UID (with_parent pa p) = pr_UID p" "pr_Parent (with_parent pa p) = pa" "pr_EnvVars (with_parent pa p) = pr_EnvVars p"
  "pr_File (with_parent pa p) = pr_File p"
  by (cases p; simp add: with_parent_def)+

lemma buildOCSF_fields [simp]:
  "pr_PID (pa_Process (buildOCSF opts e P uid raw ent)) = ent_pid ent"
  "pr_Cmdline (pa_Process (buildOCSF opts e P uid raw ent)) = ent_cmdline ent"
  "pr_Name (pa_Process (buildOCSF opts e P uid raw ent)) = ent_comm ent"
  "pr_ContainerID (pa_Process (buildOCSF opts e P uid raw ent)) = ent_container ent"
  "pr_UID (pa_Process (buildOCSF opts e P uid raw ent)) = decimal (unat (ent_uid ent))"
  "pr_EnvVars (pa_Process (buildOCSF opts e P uid raw ent)) = ent_env ent"
  "pr_File (pa_Process (buildOCSF opts e P uid raw ent)) = (if ent_exe ent \<noteq> [] then Some \<lparr>fi_Name = Base (ent_exe ent),
     fi_Path = ent_exe ent, fi_Type = [], fi_HashesSHA256 = []\<rparr> else None)"
  "ac_User (ev_Actor (buildOCSF opts e P uid raw ent)) = \<lparr>us_Name = Name (en_users e) (ent_uid ent),
     us_UID = decimal (unat (ent_uid ent)), us_Type = userType (ent_uid ent)\<rparr>"
  "ev_Metadata (buildOCSF opts e P uid raw ent) = metadata ''process'' (eventCode (rp_Kind raw)) uid (UnixMilli (rp_Timestamp raw))"
  "ev_Time (buildOCSF opts e P uid raw ent) = UnixMilli (rp_Timestamp raw)"
  "ev_ActivityID (buildOCSF opts e P uid raw ent) = activityID (rp_Kind raw)"
  "ev_ClassUID (buildOCSF opts e P uid raw ent) = 1007" "ev_Device (buildOCSF opts e P uid raw ent) = opt_Device opts"
  by (simp_all add: buildOCSF_def Let_def)

lemma set_file_hash_fields [simp]:
  "pr_PID (set_file_hash h p) = pr_PID p" "pr_Cmdline (set_file_hash h p) = pr_Cmdline p"
  "pr_Name (set_file_hash h p) = pr_Name p" "pr_ContainerID (set_file_hash h p) = pr_ContainerID p"
  "pr_UID (set_file_hash h p) = pr_UID p" "pr_Parent (set_file_hash h p) = pr_Parent p"
  "pr_File (set_file_hash h p) = map_option (\<lambda>f. f\<lparr>fi_HashesSHA256 := h\<rparr>) (pr_File p)"
  by (cases p; simp add: set_file_hash_def)+

lemma set_hash_fields [simp]:
  "pa_Process (set_hash h ev) = set_file_hash h (pa_Process ev)" "ev_Metadata (set_hash h ev) = ev_Metadata ev"
  "ev_Time (set_hash h ev) = ev_Time ev" "ev_ActivityID (set_hash h ev) = ev_ActivityID ev"
  "ac_User (ev_Actor (set_hash h ev)) = ac_User (ev_Actor ev)" "ev_ClassUID (set_hash h ev) = ev_ClassUID ev"
  "ev_Device (set_hash h ev) = ev_Device ev"
  by (simp_all add: set_hash_def Let_def)

section \<open>What is reported\<close>

text \<open>The event a handler has sent last, or has left to the goroutine that waits for the hash.\<close>

definition reported :: "enricher \<times> ProcessActivity option \<Rightarrow> ProcessActivity option" where
  "reported r =
     (case snd r of
        Some ev \<Rightarrow> Some ev
      | None \<Rightarrow> (case last (ch_queue (en_out (fst r))) of EvProcess ev \<Rightarrow> Some ev | _ \<Rightarrow> None))"

definition sends :: "process_inputs \<Rightarrow> enricher \<Rightarrow> bool" where
  "sends i e \<longleftrightarrow> length (ch_queue (en_out e)) + 2 \<le> ch_cap (en_out e) \<and> \<not> em_done (pi_emit i)"

lemma reported_event:
  assumes "enricher_ok e" "sends i e" "rp_Kind raw \<noteq> ProcUnknown"
  obtains h where "reported (handleProcess opts i raw e) \<in>
    {Some (process_event_of opts i raw e), Some (set_hash h (process_event_of opts i raw e))}"
proof -
  have c: "cache_ok (en_cache e)" using assms(1) by (simp add: enricher_ok_def)
  have room: "length (ch_queue (en_out (after_start opts i raw e))) < ch_cap (en_out (after_start opts i raw e))"
    using assms(2) after_start_queue [of opts i raw e] by (simp add: sends_def)
  have sent: "reported (emit (pi_emit i) (EvProcess ev) (after_start opts i raw e), None) = Some ev" for ev
    using emit_sends [OF room, of "pi_emit i" "EvProcess ev"] assms(2) by (simp add: reported_def sends_def)
  have left: "reported (s, Some ev) = Some ev" for s ev by (simp add: reported_def)
  let ?ev = "process_event_of opts i raw e"
  have "reported (handleProcess opts i raw e) \<in>
      {Some ?ev, Some (set_hash (case pi_submit i of Cached h \<Rightarrow> h | _ \<Rightarrow> []) ?ev)}"
    unfolding handleProcess_cases [OF c assms(3)] Let_def by (cases "pi_submit i") (simp_all add: sent left)
  then show thesis by (rule that)
qed

text \<open>The event of an exec: the program and command line of this exec.\<close>

definition exec_described :: "RawProcessEvent \<Rightarrow> ProcessActivity \<Rightarrow> bool" where
  "exec_described raw ev \<longleftrightarrow>
     pr_PID (pa_Process ev) = rp_PID raw \<and> pr_Cmdline (pa_Process ev) = rp_Cmdline raw \<and>
     (case pr_File (pa_Process ev) of None \<Rightarrow> False | Some f \<Rightarrow> fi_Path f = rp_Exe raw \<and> fi_Name f = Base (rp_Exe raw)) \<and>
     (if rp_Comm raw = [] then True else pr_Name (pa_Process ev) = rp_Comm raw) \<and>
     ev_ClassUID ev = 1007 \<and> ev_ActivityID ev = 1 \<and> md_EventCode (ev_Metadata ev) = ''exec'' \<and>
     ev_Time ev = UnixMilli (rp_Timestamp raw)"

lemma upsert_existing_data [simp]:
  "ent_exe (upsert_existing inc x) = (if ent_exe inc \<noteq> [] then ent_exe inc else ent_exe x)"
  "ent_cmdline (upsert_existing inc x) = (if ent_cmdline inc \<noteq> [] then ent_cmdline inc else ent_cmdline x)"
  "ent_comm (upsert_existing inc x) = (if ent_comm inc \<noteq> [] then ent_comm inc else ent_comm x)"
  "ent_ppid (upsert_existing inc x) = (if ent_ppid inc \<noteq> 0 then ent_ppid inc else ent_ppid x)"
  "ent_uid (upsert_existing inc x) = (if ent_uid inc \<noteq> 0 \<or> ent_gid inc \<noteq> 0 then ent_uid inc else ent_uid x)"
  by (simp_all add: upsert_existing_def Let_def)

lemma process_entry_image:
  assumes "rp_Kind raw = ProcExec"
  shows "rp_Exe raw \<noteq> [] \<Longrightarrow> ent_exe (process_entry opts e P raw) = rp_Exe raw"
    "rp_Cmdline raw \<noteq> [] \<Longrightarrow> ent_cmdline (process_entry opts e P raw) = rp_Cmdline raw"
    "ent_comm (process_entry opts e P raw) = rp_Comm raw"
  using assms by (simp_all add: process_entry_def Let_def exec_entry_image)

lemma merged_exec:
  assumes "cache_ok (en_cache e)" "rp_Kind raw = ProcExec"
  shows "ent_pid (merged_entry opts i raw e) = rp_PID raw"
    "rp_Exe raw \<noteq> [] \<Longrightarrow> ent_exe (merged_entry opts i raw e) = rp_Exe raw"
    "rp_Cmdline raw \<noteq> [] \<Longrightarrow> ent_cmdline (merged_entry opts i raw e) = rp_Cmdline raw"
    "rp_Comm raw \<noteq> [] \<Longrightarrow> ent_comm (merged_entry opts i raw e) = rp_Comm raw"
  using cache_get_entry [OF assms(1)] assms(2)
  by (simp_all add: merged_entry_def Let_def process_entry_image split: option.split)

lemma exec_reported:
  assumes "enricher_ok e" "sends i e" "rp_Kind raw = ProcExec" "rp_Exe raw \<noteq> []" "rp_Cmdline raw \<noteq> []"
  shows "case reported (handleProcess opts i raw e) of None \<Rightarrow> False | Some ev \<Rightarrow> exec_described raw ev"
proof -
  have c: "cache_ok (en_cache e)" using assms(1) by (simp add: enricher_ok_def)
  have k: "rp_Kind raw \<noteq> ProcUnknown" using assms(3) by simp
  note m = merged_exec [OF c assms(3), of opts i]
  have "exec_described raw (process_event_of opts i raw e)"
    using assms(3-5) m by (simp add: exec_described_def process_event_of_def eventCode_def activityID_def metadata_def)
  moreover have "exec_described raw (set_hash h ev) = exec_described raw ev" for h ev
    by (auto simp: exec_described_def split: option.splits)
  moreover obtain h where "reported (handleProcess opts i raw e) \<in>
      {Some (process_event_of opts i raw e), Some (set_hash h (process_event_of opts i raw e))}"
    by (rule reported_event [OF assms(1,2) k])
  ultimately show ?thesis by auto
qed

section \<open>Ancestors\<close>

fun chain_pids :: "Process option \<Rightarrow> u32 list" where
  "chain_pids None = []"
| "chain_pids (Some (Process q u n c t f us pa ci ev)) = q # chain_pids pa"

definition parent_of :: "enricher \<Rightarrow> procfs \<Rightarrow> u32 \<Rightarrow> u32" where
  "parent_of e P pid = (case cache_get (en_cache e) pid of Some ent \<Rightarrow> ent_ppid ent | None \<Rightarrow> proc_ppid P pid)"

fun ancestors :: "enricher \<Rightarrow> procfs \<Rightarrow> u32 \<Rightarrow> nat \<Rightarrow> u32 list" where
  "ancestors e P pid 0 = []"
| "ancestors e P pid (Suc n) = (if pid = 0 then [] else pid # ancestors e P (parent_of e P pid) n)"

lemma chain_pids_with:
  "chain_pids (Some p) = pr_PID p # chain_pids (pr_Parent p)"
  by (cases p) simp

lemma length_ancestors: "length (ancestors e P pid n) \<le> n"
  by (induction n arbitrary: pid) (auto simp: le_SucI)

lemma ancestors_zero: "ancestors e P 0 n = []"
  by (cases n) auto


text \<open>\<open>New\<close>, for the lists of the file filter, a user table and a seeded container index.\<close>

definition New :: "byte list list \<times> byte list list \<Rightarrow> (u32 \<rightharpoonup> byte list) \<Rightarrow> containerIndex \<Rightarrow> enricher" where
  "New flt users containers = \<lparr>en_cache = newProcCache, en_users = users, en_containers = containers,
     en_fileFilter = newPathGlob (fst flt) (snd flt), en_reloadFilterCh = \<lparr>ch_cap = 1, ch_queue = []\<rparr>,
     en_out = \<lparr>ch_cap = 16384, ch_queue = []\<rparr>, en_drops = 0, en_drops_enricher = 0\<rparr>"

lemma New_ok: "index_ok c \<Longrightarrow> enricher_ok (New flt users c)"
  by (simp add: enricher_ok_def New_def pc.inv_init)

definition no_proc :: procfs where
  "no_proc = \<lparr>fs_read = (\<lambda>_ _. None), fs_link = (\<lambda>_ _. None)\<rparr>"

text \<open>Two processes that name each other as parent.\<close>

definition circular_cache :: procCache where
  "circular_cache = upsert ((entry_of 6)\<lparr>ent_ppid := 5\<rparr>) (upsert ((entry_of 5)\<lparr>ent_ppid := 6\<rparr>) newProcCache)"


section \<open>Facts of a cached process\<close>

lemma exec_event:
  assumes "enricher_ok e" "sends i e" "rp_Kind raw \<noteq> ProcUnknown"
    "\<And>h ev. Q (set_hash h ev) = Q ev" "Q (process_event_of opts i raw e)"
  shows "case reported (handleProcess opts i raw e) of None \<Rightarrow> False | Some ev \<Rightarrow> Q ev"
proof -
  obtain h where "reported (handleProcess opts i raw e) \<in>
      {Some (process_event_of opts i raw e), Some (set_hash h (process_event_of opts i raw e))}"
    by (rule reported_event [OF assms(1-3)])
  then show ?thesis using assms(4,5) by auto
qed

definition is_container_event :: "Event \<Rightarrow> bool" where
  "is_container_event ev = (case ev of EvContainer _ \<Rightarrow> True | _ \<Rightarrow> False)"


definition sample_exec :: "u32 \<Rightarrow> u32 \<Rightarrow> u64 \<Rightarrow> RawProcessEvent" where
  "sample_exec pid uid cg = \<lparr>rp_Kind = ProcExec, rp_PID = pid, rp_PPID = 1, rp_TGID = pid, rp_UID = uid, rp_GID = uid,
     rp_Comm = [115, 104], rp_Exe = [47, 115, 104], rp_Cmdline = [115, 104], rp_Timestamp = 11000000000, rp_ExitCode = 0,
     rp_CgroupID = cg\<rparr>"

definition sample_inputs :: process_inputs where
  "sample_inputs = \<lparr>pi_proc = no_proc, pi_now = 0, pi_start = \<lparr>em_uid = [1], em_done = False, em_send_first = True\<rparr>,
     pi_emit = \<lparr>em_uid = [2], em_done = False, em_send_first = True\<rparr>, pi_submit = NoHash\<rparr>"

definition sample_container :: containerState where
  "sample_container = \<lparr>cs_id = [97], cs_runtime = bytes_of ''docker'', cs_cgroupPath = [47], cs_cgroupID = 777,
     cs_started = False\<rparr>"

definition sample_known :: "procEntry \<Rightarrow> enricher" where
  "sample_known old = New ([], []) Map.empty \<lparr>byCgroup = [777 \<mapsto> [97]], known = [[97] \<mapsto> sample_container]\<rparr>
     \<lparr>en_cache := upsert old newProcCache\<rparr>"

lemma sample_known:
  assumes "entry_ok old"
  shows "enricher_ok (sample_known old)" "sends sample_inputs (sample_known old)"
    "cache_get (en_cache (sample_known old)) (ent_pid old) = Some old"
proof -
  show "enricher_ok (sample_known old)" "sends sample_inputs (sample_known old)"
    using assms by (simp_all add: sample_known_def enricher_ok_def New_def pc.inv_put pc.inv_init index_ok_def
        sample_container_def sends_def sample_inputs_def)
  show "cache_get (en_cache (sample_known old)) (ent_pid old) = Some old"
    by (simp add: sample_known_def pc.put_lookup [OF pc.inv_init] pc.lookup_init)
qed


text \<open>C35. The user of a cached process never becomes root: the merge takes the ids 0 and 0 for missing ones.
  An exec by a process that turned into root since it was cached is reported with the user it
  had before.\<close>

theorem root_exec_reported_as_cached_user:
  assumes "enricher_ok e" "sends i e" "rp_Kind raw = ProcExec" "rp_UID raw = 0" "rp_GID raw = 0"
    "cache_get (en_cache e) (rp_PID raw) = Some old"
  shows "case reported (handleProcess opts i raw e) of
      None \<Rightarrow> False
    | Some ev \<Rightarrow> ac_User (ev_Actor ev) = \<lparr>us_Name = Name (en_users e) (ent_uid old), us_UID = decimal (unat (ent_uid old)),
        us_Type = userType (ent_uid old)\<rparr>"
proof -
  have k: "rp_Kind raw \<noteq> ProcUnknown" using assms(3) by simp
  have m: "ent_uid (merged_entry opts i raw e) = ent_uid old"
    using assms(3-6) by (simp add: merged_entry_def Let_def)
  show ?thesis by (rule exec_event [OF assms(1,2) k]) (simp_all add: process_event_of_def m)
qed

theorem root_exec_reported_as_cached_user_witness:
  "case reported (handleProcess undefined sample_inputs (sample_exec 301 0 0)
      (sample_known ((entry_of 301)\<lparr>ent_uid := 1000, ent_gid := 1000\<rparr>))) of
     None \<Rightarrow> False
   | Some ev \<Rightarrow> ac_User (ev_Actor ev) = \<lparr>us_Name = [], us_UID = bytes_of ''1000'', us_Type = ''User''\<rparr>"
proof -
  let ?old = "(entry_of 301)\<lparr>ent_uid := 1000, ent_gid := 1000\<rparr>"
  have ok: "entry_ok ?old" by (simp add: entry_ok_def entry_of_def)
  have g: "cache_get (en_cache (sample_known ?old)) (rp_PID (sample_exec 301 0 0)) = Some ?old"
    using sample_known(3) [OF ok] by (simp add: sample_exec_def entry_of_def)
  have "decimal (unat (1000 :: u32)) = bytes_of ''1000''" by code_simp
  then have u: "\<lparr>us_Name = Name (en_users (sample_known ?old)) (ent_uid ?old), us_UID = decimal (unat (ent_uid ?old)),
      us_Type = userType (ent_uid ?old)\<rparr> = \<lparr>us_Name = [], us_UID = bytes_of ''1000'', us_Type = ''User''\<rparr>"
    by (simp add: userType_def Name_def sample_known_def New_def)
  have "rp_Kind (sample_exec 301 0 0) = ProcExec" "rp_UID (sample_exec 301 0 0) = 0" "rp_GID (sample_exec 301 0 0) = 0"
    by (simp_all add: sample_exec_def)
  from root_exec_reported_as_cached_user [OF sample_known(1,2) [OF ok] this g, of undefined]
  show ?thesis unfolding u .
qed

end
