(* ===== verification/Enricher_Net.thy ===== *)
theory Enricher_Net
  imports Enricher_Process
begin

text \<open>
  \<^verbatim>\<open>agent/internal/enricher/net.go\<close>: connections become network events whose source is the side that
  opened the connection.
\<close>

definition netActivityID :: "RawNetKind \<Rightarrow> u8" where
  "netActivityID k = (case k of NetTCPConnect \<Rightarrow> 1 | NetTCPAccept \<Rightarrow> 1 | NetUDPSend \<Rightarrow> 6 | NetUnknown \<Rightarrow> 99)"

definition netDirection :: "RawNetKind \<Rightarrow> string \<times> u8" where
  "netDirection k =
     (case k of NetTCPConnect \<Rightarrow> (''outbound'', 2) | NetUDPSend \<Rightarrow> (''outbound'', 2) | NetTCPAccept \<Rightarrow> (''inbound'', 1)
      | NetUnknown \<Rightarrow> ('''', 0))"

definition netEventCode :: "RawNetKind \<Rightarrow> string" where
  "netEventCode k =
     (case k of NetTCPConnect \<Rightarrow> ''tcp_connect'' | NetTCPAccept \<Rightarrow> ''tcp_accept'' | NetUDPSend \<Rightarrow> ''udp_send''
      | NetUnknown \<Rightarrow> ''unknown'')"

definition protoName :: "u8 \<Rightarrow> string" where
  "protoName p = (if p = 6 then ''tcp'' else if p = 17 then ''udp'' else if p = 1 then ''icmp'' else '''')"

definition buildNetOCSF :: "options \<Rightarrow> enricher \<Rightarrow> byte list \<Rightarrow> RawNetEvent \<Rightarrow> procEntry \<Rightarrow> NetworkActivity" where
  "buildNetOCSF opts e uid raw ent =
     (let username = Name (en_users e) (ent_uid ent);
          actorProc = processFromEntry ent username;
          activity = netActivityID (rn_Kind raw);
          (direction, directionID) = netDirection (rn_Kind raw);
          ts = UnixMilli (rn_Timestamp raw);
          src = \<lparr>np_IP = rn_SrcAddr raw, np_Port = rn_SrcPort raw, np_Hostname = []\<rparr>;
          dst = \<lparr>np_IP = rn_DstAddr raw, np_Port = rn_DstPort raw, np_Hostname = []\<rparr>;
          (src, dst) = (if rn_Kind raw = NetTCPAccept then (dst, src) else (src, dst))
      in \<lparr>ev_Metadata = metadata ''net'' (netEventCode (rn_Kind raw)) uid ts, ev_ClassUID = 4001,
          ev_ClassName = ''network_activity'', ev_ActivityID = activity, ev_TypeUID = 4001 * 100 + ucast activity,
          ev_Severity = 1, ev_Time = ts, ev_Device = opt_Device opts,
          ev_Actor = \<lparr>ac_Process = actorProc, ac_User = \<lparr>us_Name = username, us_UID = pr_UID actorProc,
            us_Type = userType (ent_uid ent)\<rparr>\<rparr>,
          na_Connection = \<lparr>nc_Protocol = protoName (rn_Proto raw), nc_ProtoNum = rn_Proto raw, nc_Direction = direction,
            nc_DirID = directionID\<rparr>,
          na_SrcEndpoint = src, na_DstEndpoint = dst\<rparr>)"

text \<open>The entry of a process the cache does not know, from \<^verbatim>\<open>/proc\<close>.\<close>

definition net_entry :: "enricher \<Rightarrow> procfs \<Rightarrow> u32 \<Rightarrow> procEntry" where
  "net_entry e P pid =
     (case cache_get (en_cache e) pid of
        Some ent \<Rightarrow> ent
      | None \<Rightarrow>
          let ent = entry_of pid;
              ent = (if proc_comm P pid \<noteq> [] then ent\<lparr>ent_comm := proc_comm P pid\<rparr> else ent)
          in if proc_exe P pid \<noteq> [] then ent\<lparr>ent_exe := proc_exe P pid\<rparr> else ent)"

definition handleNet :: "options \<Rightarrow> procfs \<Rightarrow> emission \<Rightarrow> RawNetEvent \<Rightarrow> enricher \<Rightarrow> enricher" where
  "handleNet opts P em raw e =
     (if rn_Kind raw = NetUnknown then IncDrops e
      else emit em (EvNet (buildNetOCSF opts e (em_uid em) raw (net_entry e P (rn_PID raw)))) e)"

text \<open>The endpoints and the direction of the event for each kind of connection.\<close>

lemma net_endpoints:
  "rn_Kind raw = NetTCPConnect \<or> rn_Kind raw = NetUDPSend \<Longrightarrow>
     na_SrcEndpoint (buildNetOCSF opts e uid raw ent) = \<lparr>np_IP = rn_SrcAddr raw, np_Port = rn_SrcPort raw, np_Hostname = []\<rparr> \<and>
     na_DstEndpoint (buildNetOCSF opts e uid raw ent) = \<lparr>np_IP = rn_DstAddr raw, np_Port = rn_DstPort raw, np_Hostname = []\<rparr> \<and>
     nc_Direction (na_Connection (buildNetOCSF opts e uid raw ent)) = ''outbound''"
  "rn_Kind raw = NetTCPAccept \<Longrightarrow>
     na_SrcEndpoint (buildNetOCSF opts e uid raw ent) = \<lparr>np_IP = rn_DstAddr raw, np_Port = rn_DstPort raw, np_Hostname = []\<rparr> \<and>
     na_DstEndpoint (buildNetOCSF opts e uid raw ent) = \<lparr>np_IP = rn_SrcAddr raw, np_Port = rn_SrcPort raw, np_Hostname = []\<rparr> \<and>
     nc_Direction (na_Connection (buildNetOCSF opts e uid raw ent)) = ''inbound''"
  by (auto simp: buildNetOCSF_def Let_def netDirection_def)

end
