(* ===== verification/Enricher_File.thy ===== *)
theory Enricher_File
  imports Enricher_Process
begin

text \<open>
  \<^verbatim>\<open>agent/internal/enricher/file.go\<close>: file calls become file-system events unless the configured path filter
  refuses them; the filter can be replaced while the agent runs.
\<close>

section \<open>Operations\<close>

definition fileActivityID :: "RawFileKind \<Rightarrow> u8" where
  "fileActivityID k =
     (case k of FileOpenCreate \<Rightarrow> 1 | FileOpenWrite \<Rightarrow> 3 | FileUnlink \<Rightarrow> 4 | FileRename \<Rightarrow> 6 | FileChmod \<Rightarrow> 5
      | FileChown \<Rightarrow> 7 | FileUnknown \<Rightarrow> 99)"

definition fileEventCode :: "RawFileKind \<Rightarrow> string" where
  "fileEventCode k =
     (case k of FileOpenCreate \<Rightarrow> ''open_create'' | FileOpenWrite \<Rightarrow> ''open_write'' | FileUnlink \<Rightarrow> ''unlink''
      | FileRename \<Rightarrow> ''rename'' | FileChmod \<Rightarrow> ''chmod'' | FileChown \<Rightarrow> ''chown'' | FileUnknown \<Rightarrow> ''unknown'')"

definition resolvePath :: "procfs \<Rightarrow> u32 \<Rightarrow> byte list \<Rightarrow> byte list" where
  "resolvePath P pid rawPath =
     (if rawPath = [] \<or> HasPrefix rawPath [47] then rawPath
      else let cwd = proc_cwd P pid in if cwd = [] then rawPath else Clean (cwd @ 47 # rawPath))"

text \<open>\<open>strconv.FormatUint(n, 8)\<close>.\<close>

fun octal :: "nat \<Rightarrow> byte list" where
  "octal n = (if n < 8 then [48 + of_nat n] else octal (n div 8) @ [48 + of_nat (n mod 8)])"

declare octal.simps [simp del]

definition buildFileOCSF ::
    "options \<Rightarrow> enricher \<Rightarrow> byte list \<Rightarrow> RawFileEvent \<Rightarrow> procEntry \<Rightarrow> byte list \<Rightarrow> byte list \<Rightarrow> FileSystemActivity" where
  "buildFileOCSF opts e uid raw ent path newPath =
     (let username = Name (en_users e) (ent_uid ent);
          actorProc = processFromEntry ent username;
          activity = fileActivityID (rf_Kind raw);
          ts = UnixMilli (rf_Timestamp raw);
          f = \<lparr>fi_Name = Base path, fi_Path = path, fi_Type = [], fi_HashesSHA256 = []\<rparr>;
          f = (if rf_Kind raw = FileChmod then f\<lparr>fi_Type := bytes_of ''mode:0'' @ octal (unat (rf_Mode raw))\<rparr> else f)
      in \<lparr>ev_Metadata = metadata ''file'' (fileEventCode (rf_Kind raw)) uid ts, ev_ClassUID = 1001,
          ev_ClassName = ''file_system_activity'', ev_ActivityID = activity, ev_TypeUID = 1001 * 100 + ucast activity,
          ev_Severity = 1, ev_Time = ts, ev_Device = opt_Device opts,
          ev_Actor = \<lparr>ac_Process = actorProc, ac_User = \<lparr>us_Name = username, us_UID = pr_UID actorProc,
            us_Type = userType (ent_uid ent)\<rparr>\<rparr>,
          fa_File = f,
          fa_RenameTo = (if rf_Kind raw = FileRename \<and> newPath \<noteq> []
            then Some \<lparr>fi_Name = Base newPath, fi_Path = newPath, fi_Type = [], fi_HashesSHA256 = []\<rparr> else None)\<rparr>)"

definition file_entry :: "enricher \<Rightarrow> procfs \<Rightarrow> RawFileEvent \<Rightarrow> procEntry" where
  "file_entry e P raw =
     (case cache_get (en_cache e) (rf_PID raw) of
        Some ent \<Rightarrow> ent
      | None \<Rightarrow>
          let ent = (entry_of (rf_PID raw))\<lparr>ent_uid := rf_UID raw\<rparr>;
              ent = (if proc_comm P (rf_PID raw) \<noteq> [] then ent\<lparr>ent_comm := proc_comm P (rf_PID raw)\<rparr> else ent)
          in if proc_exe P (rf_PID raw) \<noteq> [] then ent\<lparr>ent_exe := proc_exe P (rf_PID raw)\<rparr> else ent)"

definition handleFile :: "options \<Rightarrow> procfs \<Rightarrow> emission \<Rightarrow> RawFileEvent \<Rightarrow> enricher \<Rightarrow> enricher" where
  "handleFile opts P em raw e =
     (if rf_Kind raw = FileUnknown then IncDrops e
      else
        let path = resolvePath P (rf_PID raw) (rf_Path raw);
            newPath = (if rf_NewPath raw \<noteq> [] then resolvePath P (rf_PID raw) (rf_NewPath raw) else [])
        in if \<not> allow (en_fileFilter e) path \<and> (newPath = [] \<or> \<not> allow (en_fileFilter e) newPath) then e
           else emit em (EvFile (buildFileOCSF opts e (em_uid em) raw (file_entry e P raw) path newPath)) e)"

text \<open>\<open>ReloadFileFilter\<close> leaves the newest lists in the channel of capacity one, from which the loop takes
  them.\<close>

definition try_send :: "'a \<Rightarrow> 'a gochan \<Rightarrow> 'a gochan option" where
  "try_send x c = (if length (ch_queue c) < ch_cap c then Some (c\<lparr>ch_queue := ch_queue c @ [x]\<rparr>) else None)"

definition try_receive :: "'a gochan \<Rightarrow> 'a gochan" where
  "try_receive c = c\<lparr>ch_queue := tl (ch_queue c)\<rparr>"

definition ReloadFileFilter :: "byte list list \<times> byte list list \<Rightarrow> enricher \<Rightarrow> enricher" where
  "ReloadFileFilter fc e =
     e\<lparr>en_reloadFilterCh :=
         (case try_send fc (en_reloadFilterCh e) of
            Some c \<Rightarrow> c
          | None \<Rightarrow>
              let c = try_receive (en_reloadFilterCh e)
              in (case try_send fc c of Some c \<Rightarrow> c | None \<Rightarrow> c))\<rparr>"

text \<open>The loop's case for that channel.\<close>

definition swapFilter :: "enricher \<Rightarrow> enricher" where
  "swapFilter e =
     (case ch_queue (en_reloadFilterCh e) of
        [] \<Rightarrow> e
      | fc # _ \<Rightarrow> e\<lparr>en_fileFilter := newPathGlob (fst fc) (snd fc), en_reloadFilterCh := try_receive (en_reloadFilterCh e)\<rparr>)"

section \<open>Reloading\<close>

lemma reload_latest:
  assumes "ch_cap (en_reloadFilterCh e) = 1" "length (ch_queue (en_reloadFilterCh e)) \<le> 1"
  shows "en_fileFilter (swapFilter (ReloadFileFilter fc e)) = newPathGlob (fst fc) (snd fc)"
    "length (ch_queue (en_reloadFilterCh (ReloadFileFilter fc e))) = 1"
  using assms
  by (cases "ch_queue (en_reloadFilterCh e)";
      simp add: swapFilter_def ReloadFileFilter_def try_send_def try_receive_def Let_def)+

lemma filter_steps [simp]:
  "en_cache (ReloadFileFilter fc e) = en_cache e" "en_users (ReloadFileFilter fc e) = en_users e"
  "en_containers (ReloadFileFilter fc e) = en_containers e" "en_out (ReloadFileFilter fc e) = en_out e"
  "en_cache (swapFilter e) = en_cache e" "en_users (swapFilter e) = en_users e"
  "en_containers (swapFilter e) = en_containers e" "en_out (swapFilter e) = en_out e"
  by (simp_all add: ReloadFileFilter_def swapFilter_def split: list.split)

section \<open>What is reported\<close>

lemma Base_named: "Base path \<noteq> []"
  by (simp add: Base_def Let_def bytes_of_def)

lemma file_event_valid:
  assumes "rf_Kind raw \<noteq> FileUnknown" "UnixMilli (rf_Timestamp raw) \<noteq> 0" "rf_Kind raw = FileRename \<Longrightarrow> newPath \<noteq> []"
  shows "Validate (EvFile (buildFileOCSF opts e uid raw ent path newPath))"
  using assms Base_named by (cases "rf_Kind raw") (simp_all add: Validate_def Validate_file_def buildFileOCSF_def Let_def fileActivityID_def)

lemma resolvePath_empty [simp]: "resolvePath P pid [] = []"
  by (simp add: resolvePath_def)

lemma Clean_nonempty: "Clean p \<noteq> []"
  by (simp add: Clean_def Let_def)

lemma resolvePath_nonempty: "resolvePath P pid p = [] \<longleftrightarrow> p = []"
  by (auto simp: resolvePath_def Let_def Clean_nonempty)

text \<open>The paths an event names.\<close>

definition named_paths :: "FileSystemActivity \<Rightarrow> byte list list" where
  "named_paths f = fi_Path (fa_File f) # (case fa_RenameTo f of None \<Rightarrow> [] | Some t \<Rightarrow> [fi_Path t])"

lemma handleFile_cases:
  assumes "rf_Kind raw \<noteq> FileUnknown"
  shows "handleFile opts P em raw e =
    (let path = resolvePath P (rf_PID raw) (rf_Path raw); newPath = resolvePath P (rf_PID raw) (rf_NewPath raw) in
     if allow (en_fileFilter e) path \<or> allow (en_fileFilter e) newPath
     then emit em (EvFile (buildFileOCSF opts e (em_uid em) raw (file_entry e P raw) path newPath)) e else e)"
  using assms by (auto simp: handleFile_def Let_def allow_def)

section \<open>Directories of the filter\<close>

lemma HasSuffix_append [simp]: "HasSuffix (d @ s) s"
  by (simp add: HasSuffix_def)

lemma matchPattern_dir:
  "matchPattern (d @ bytes_of ''/**'') p \<longleftrightarrow> d = [] \<or> p = d \<or> HasPrefix p (d @ [47])"
proof -
  have "take (length (d @ bytes_of ''/**'') - 3) (d @ bytes_of ''/**'') = d" by (simp add: bytes_of_def)
  then show ?thesis unfolding matchPattern_def Let_def by simp
qed

text \<open>A pattern for a directory below the root, such as \<^verbatim>\<open>/etc/**\<close>.\<close>

definition watched_dir :: "byte list \<Rightarrow> bool" where
  "watched_dir pat \<longleftrightarrow> HasSuffix pat (bytes_of ''/**'') \<and> 4 < length pat \<and> hd pat = 47 \<and> pat ! 1 \<noteq> 47"

lemma doubled_slash_unmatched:
  assumes "watched_dir pat" "HasPrefix p [47, 47]"
  shows "\<not> matchPattern pat p"
proof -
  let ?d = "take (length pat - 3) pat"
  have "length (bytes_of ''/**'') = 3" by (simp add: bytes_of_def)
  then have pat: "pat = ?d @ bytes_of ''/**''"
    using assms(1) by (metis HasSuffix_def watched_dir_def append_take_drop_id)
  have d: "1 < length ?d" "?d ! 1 \<noteq> 47" using assms(1) by (auto simp: watched_dir_def)
  obtain q where p: "p = 47 # 47 # q"
    using assms(2) by (cases p; cases "tl p") (auto simp: HasPrefix_def)
  have "\<not> HasPrefix p (?d @ [47])"
  proof
    assume "HasPrefix p (?d @ [47])"
    then have "p ! 1 = (?d @ [47]) ! 1" using d(1) by (metis HasPrefix_def length_append_singleton less_SucI nth_take)
    then show False using d p by (simp add: nth_append)
  qed
  moreover have "p \<noteq> ?d" using d(2) p by (metis One_nat_def nth_Cons_0 nth_Cons_Suc)
  moreover have "?d \<noteq> []" using d(1) by auto
  ultimately show ?thesis using matchPattern_dir [of ?d p] pat by simp
qed

lemma Clean_doubled: "Clean (47 # 47 # q) = Clean (47 # q)"
  by (simp add: Clean_def)

text \<open>C36. A path with a second leading slash names the same file, but no pattern for a directory matches
  it: with a filter that includes directories only, as the documented configuration does, a call
  on \<^verbatim>\<open>//etc/passwd\<close> leaves no event, while the same call on \<^verbatim>\<open>/etc/passwd\<close> is reported whenever the
  channel has room.\<close>

theorem doubled_slash_evades_filter:
  assumes "list_all watched_dir (pg_includes (en_fileFilter e))" "pg_includes (en_fileFilter e) \<noteq> []"
    "rf_Kind raw \<noteq> FileUnknown" "rf_Path raw = 47 # 47 # q" "rf_NewPath raw = []"
    "allow (en_fileFilter e) (47 # q)" "length (ch_queue (en_out e)) < ch_cap (en_out e)" "\<not> em_done em"
  shows "handleFile opts P em raw e = e \<and> Clean (47 # 47 # q) = Clean (47 # q) \<and>
    length (ch_queue (en_out (handleFile opts P em (raw\<lparr>rf_Path := 47 # q\<rparr>) e))) = length (ch_queue (en_out e)) + 1"
proof -
  have abs: "resolvePath P pid (47 # r) = 47 # r" for pid r by (simp add: resolvePath_def HasPrefix_def)
  have "\<not> matchPattern pat (47 # 47 # q)" if "pat \<in> set (pg_includes (en_fileFilter e))" for pat
    using doubled_slash_unmatched [of pat "47 # 47 # q"] that assms(1) by (simp add: list_all_iff HasPrefix_def)
  then have "\<not> allow (en_fileFilter e) (47 # 47 # q)" using assms(2) by (auto simp: allow_def list_ex_iff)
  moreover have "\<not> allow (en_fileFilter e) []" by (simp add: allow_def)
  ultimately have "handleFile opts P em raw e = e"
    using assms(4,5) by (simp add: handleFile_cases [OF assms(3)] abs)
  moreover have "rf_Kind (raw\<lparr>rf_Path := 47 # q\<rparr>) \<noteq> FileUnknown" using assms(3) by simp
  ultimately show ?thesis
    using assms(6) emit_sends [OF assms(7,8)] by (simp add: handleFile_cases abs Clean_doubled Let_def)
qed

definition sample_filter :: "byte list list \<times> byte list list" where
  "sample_filter = (map bytes_of [''/etc/**'', ''/usr/bin/**'', ''/usr/sbin/**'', ''/root/**'', ''/home/**''],
     map bytes_of [''/proc/**'', ''/sys/**''])"

definition sample_write :: "byte list \<Rightarrow> RawFileEvent" where
  "sample_write path = \<lparr>rf_Kind = FileOpenWrite, rf_PID = 301, rf_UID = 0, rf_Path = path, rf_NewPath = [], rf_Flags = 1,
     rf_Mode = 0, rf_Timestamp = 12000000000\<rparr>"

theorem doubled_slash_evades_filter_witness:
  "handleFile undefined no_proc (pi_emit sample_inputs) (sample_write (bytes_of ''//etc/passwd'')) (New sample_filter Map.empty newContainerIndex) =
     New sample_filter Map.empty newContainerIndex"
proof -
  let ?e = "New sample_filter Map.empty newContainerIndex"
  have "list_all watched_dir (fst sample_filter)" "fst sample_filter \<noteq> []"
    "allow (newPathGlob (fst sample_filter) (snd sample_filter)) (47 # bytes_of ''etc/passwd'')" by code_simp+
  moreover have "rf_Path (sample_write (bytes_of ''//etc/passwd'')) = 47 # 47 # bytes_of ''etc/passwd''"
    by (simp add: sample_write_def bytes_of_def)
  ultimately show ?thesis
    using doubled_slash_evades_filter [of ?e "sample_write (bytes_of ''//etc/passwd'')" "bytes_of ''etc/passwd''"
        "pi_emit sample_inputs" undefined no_proc]
    by (simp add: New_def newPathGlob_def sample_write_def sample_inputs_def)
qed

end
