(* ===== verification/Netip.thy ===== *)
theory Netip
  imports Collector
begin

text \<open>
  The addresses of Go's \<^verbatim>\<open>net/netip\<close> as the enricher and the rules use them: \<open>ParseAddr\<close>, \<open>ParsePrefix\<close>,
  \<open>Unmap\<close>, \<open>String\<close> and \<open>Prefix.Contains\<close>. What an address prints, and what the collectors print for an
  address, parses back to it.
\<close>

section \<open>Addresses\<close>

text \<open>An IPv4 address is its four bytes, an IPv6 address its sixteen bytes and its zone.\<close>

datatype Addr = Addr4 "byte list" | Addr6 "byte list" "byte list"

record Prefix =
  pf_ip :: Addr
  pf_bits :: nat

fun Is4In6 :: "Addr \<Rightarrow> bool" where
  "Is4In6 (Addr4 b) = False"
| "Is4In6 (Addr6 b z) = (take 12 b = replicate 10 0 @ [255, 255])"

fun Unmap :: "Addr \<Rightarrow> Addr" where
  "Unmap (Addr4 b) = Addr4 b"
| "Unmap (Addr6 b z) = (if Is4In6 (Addr6 b z) then Addr4 (drop 12 b) else Addr6 b z)"

fun BitLen :: "Addr \<Rightarrow> nat" where
  "BitLen (Addr4 b) = 32"
| "BitLen (Addr6 b z) = 128"

definition address_bits :: "byte list \<Rightarrow> bool list" where
  "address_bits bs = concat (map (\<lambda>b. rev (map (bit b) [0..<8])) bs)"

fun Contains :: "Prefix \<Rightarrow> Addr \<Rightarrow> bool" where
  "Contains p (Addr4 b) =
     (case pf_ip p of Addr4 c \<Rightarrow> take (pf_bits p) (address_bits b) = take (pf_bits p) (address_bits c) | Addr6 _ _ \<Rightarrow> False)"
| "Contains p (Addr6 b z) =
     (z = [] \<and> (case pf_ip p of Addr4 _ \<Rightarrow> False
                 | Addr6 c _ \<Rightarrow> take (pf_bits p) (address_bits b) = take (pf_bits p) (address_bits c)))"

section \<open>Parsing\<close>

text \<open>\<open>parseIPv4Fields\<close>: the loop over the characters, with the value and the number of digits of the current
  field and the fields before it.\<close>

fun ipv4_loop :: "byte list \<Rightarrow> nat \<Rightarrow> nat \<Rightarrow> byte list \<Rightarrow> byte list option" where
  "ipv4_loop [] val digLen fs = (if length fs < 3 then None else Some (fs @ [of_nat val]))"
| "ipv4_loop (c # s) val digLen fs =
     (if 48 \<le> c \<and> c \<le> 57 then
        if digLen = 1 \<and> val = 0 then None
        else let val = val * 10 + (unat c - 48)
             in if val > 255 then None else ipv4_loop s val (digLen + 1) fs
      else if c = 46 then
        if digLen = 0 \<or> s = [] then None
        else if length fs = 3 then None
        else ipv4_loop s 0 0 (fs @ [of_nat val])
      else None)"

definition parseIPv4Fields :: "byte list \<Rightarrow> byte list option" where
  "parseIPv4Fields s = ipv4_loop s 0 0 []"

definition hex_val :: "byte \<Rightarrow> nat option" where
  "hex_val c =
     (if 48 \<le> c \<and> c \<le> 57 then Some (unat c - 48)
      else if 97 \<le> c \<and> c \<le> 102 then Some (unat c - 87)
      else if 65 \<le> c \<and> c \<le> 70 then Some (unat c - 55)
      else None)"

text \<open>One group of hexadecimal digits: its value, the rest of the string and the number of digits.\<close>

fun hex_run :: "byte list \<Rightarrow> nat \<Rightarrow> nat \<Rightarrow> (nat \<times> byte list \<times> nat) option" where
  "hex_run [] acc off = Some (acc, [], off)"
| "hex_run (c # s) acc off =
     (case hex_val c of
        None \<Rightarrow> Some (acc, c # s, off)
      | Some d \<Rightarrow> if off > 3 then None else if acc * 16 + d > 65535 then None else hex_run s (acc * 16 + d) (off + 1))"

lemma hex_run_length:
  "hex_run s acc off = Some (acc', rest, off') \<Longrightarrow> length rest + off' = length s + off"
  by (induction s acc off rule: hex_run.induct) (auto split: option.splits if_splits)

text \<open>The loop of \<open>parseIPv6\<close>: the rest of the string, the bytes so far and the place of the ellipsis.\<close>

function ipv6_loop :: "byte list \<Rightarrow> byte list \<Rightarrow> nat option \<Rightarrow> (byte list \<times> byte list \<times> nat option) option" where
  "ipv6_loop s ip ell =
     (if length ip \<ge> 16 then Some (s, ip, ell)
      else case hex_run s 0 0 of
        None \<Rightarrow> None
      | Some (acc, rest, off) \<Rightarrow>
          if off = 0 then None
          else if rest \<noteq> [] \<and> hd rest = 46 then
            if ell = None \<and> length ip \<noteq> 12 then None
            else if length ip + 4 > 16 then None
            else (case parseIPv4Fields s of None \<Rightarrow> None | Some b \<Rightarrow> Some ([], ip @ b, ell))
          else let ip = ip @ [of_nat (acc div 256), of_nat (acc mod 256)] in
            case rest of
              [] \<Rightarrow> Some ([], ip, ell)
            | c # s1 \<Rightarrow>
                if c \<noteq> 58 then None
                else (case s1 of
                  [] \<Rightarrow> None
                | c' # s2 \<Rightarrow>
                    if c' = 58 then
                      if ell \<noteq> None then None
                      else if s2 = [] then Some ([], ip, Some (length ip))
                      else ipv6_loop s2 ip (Some (length ip))
                    else ipv6_loop s1 ip ell))"
  by pat_completeness auto
termination
  by (relation "measure (\<lambda>(s, ip, ell). length s)") (auto dest!: hex_run_length)

declare ipv6_loop.simps [simp del]

definition ipv6_body :: "byte list \<Rightarrow> byte list \<Rightarrow> Addr option" where
  "ipv6_body s zone =
     (let (lead, s) = (case s of c # c' # s' \<Rightarrow> if c = 58 \<and> c' = 58 then (True, s') else (False, s) | _ \<Rightarrow> (False, s))
      in if lead \<and> s = [] then Some (Addr6 (replicate 16 0) zone)
         else case ipv6_loop s [] (if lead then Some 0 else None) of
           None \<Rightarrow> None
         | Some (s, ip, ell) \<Rightarrow>
             if s \<noteq> [] then None
             else if length ip < 16 then
               (case ell of
                  None \<Rightarrow> None
                | Some k \<Rightarrow> Some (Addr6 (take k ip @ replicate (16 - length ip) 0 @ drop k ip) zone))
             else if ell \<noteq> None then None
             else Some (Addr6 ip zone))"

text \<open>\<open>parseIPv6\<close> splits off the zone, which must not be empty when there is a percent sign.\<close>

definition parseIPv6 :: "byte list \<Rightarrow> Addr option" where
  "parseIPv6 str =
     (let s = takeWhile (\<lambda>c. c \<noteq> 37) str; zone = drop (Suc (length s)) str
      in if length s < length str \<and> zone = [] then None else ipv6_body s zone)"

definition ParseAddr :: "byte list \<Rightarrow> Addr option" where
  "ParseAddr s =
     (case find (\<lambda>c. c = 46 \<or> c = 58 \<or> c = 37) s of
        None \<Rightarrow> None
      | Some c \<Rightarrow>
          if c = 46 then map_option Addr4 (parseIPv4Fields s)
          else if c = 58 then parseIPv6 s
          else None)"

definition digit :: "byte \<Rightarrow> bool" where
  "digit c \<longleftrightarrow> 48 \<le> c \<and> c \<le> 57"

text \<open>\<open>ParsePrefix\<close>: the address before the last slash and a bit count without sign or leading zero.\<close>

definition ParsePrefix :: "byte list \<Rightarrow> Prefix option" where
  "ParsePrefix s =
     (if 47 \<notin> set s then None
      else let bitsStr = rev (takeWhile (\<lambda>c. c \<noteq> 47) (rev s));
               addrStr = take (length s - Suc (length bitsStr)) s
           in case ParseAddr addrStr of
                None \<Rightarrow> None
              | Some ip \<Rightarrow>
                  if (case ip of Addr6 _ z \<Rightarrow> z \<noteq> [] | Addr4 _ \<Rightarrow> False) then None
                  else if bitsStr = [] \<or> \<not> list_all digit bitsStr then None
                  else if length bitsStr > 1 \<and> hd bitsStr = 48 then None
                  else if undecimal bitsStr > BitLen ip then None
                  else Some \<lparr>pf_ip = ip, pf_bits = undecimal bitsStr\<rparr>)"

section \<open>Printing\<close>

text \<open>\<open>strconv.FormatUint(n, 16)\<close>, and \<open>appendHex\<close> of a 16-bit group.\<close>

fun hexadecimal :: "nat \<Rightarrow> byte list" where
  "hexadecimal n = (if n < 16 then [hex_table ! n] else hexadecimal (n div 16) @ [hex_table ! (n mod 16)])"

declare hexadecimal.simps [simp del]

fun join_colons :: "byte list list \<Rightarrow> byte list" where
  "join_colons [] = []"
| "join_colons [t] = t"
| "join_colons (t # u # ts) = t @ 58 # join_colons (u # ts)"

definition string4 :: "byte list \<Rightarrow> byte list" where
  "string4 b = decimal (unat (b ! 0)) @ [46] @ decimal (unat (b ! 1)) @ [46] @
     decimal (unat (b ! 2)) @ [46] @ decimal (unat (b ! 3))"

fun groups :: "byte list \<Rightarrow> nat list" where
  "groups (a # b # bs) = (256 * unat a + unat b) # groups bs"
| "groups _ = []"

definition zeros_from :: "nat list \<Rightarrow> nat \<Rightarrow> nat" where
  "zeros_from gs i = length (takeWhile (\<lambda>g. g = 0) (drop i gs))"

text \<open>The first of the longest runs of at least two zero groups.\<close>

definition zero_run :: "nat list \<Rightarrow> (nat \<times> nat) option" where
  "zero_run gs =
     foldl (\<lambda>r i. let l = zeros_from gs i
        in if l \<ge> 2 \<and> l > (case r of None \<Rightarrow> 0 | Some (a, b) \<Rightarrow> b - a) then Some (i, i + l) else r)
       None [0..<8]"

definition string6 :: "byte list \<Rightarrow> byte list" where
  "string6 b =
     (let gs = groups b
      in case zero_run gs of
           None \<Rightarrow> join_colons (map hexadecimal gs)
         | Some (i, j) \<Rightarrow> join_colons (map hexadecimal (take i gs)) @ [58, 58] @ join_colons (map hexadecimal (drop j gs)))"

fun Addr_String :: "Addr \<Rightarrow> byte list" where
  "Addr_String (Addr4 b) = string4 b"
| "Addr_String (Addr6 b z) =
     (if Is4In6 (Addr6 b z) then [58, 58, 102, 102, 102, 102, 58] @ string4 (drop 12 b) else string6 b) @
     (if z = [] then [] else 37 # z)"

text \<open>The addresses the constructors of \<^verbatim>\<open>netip\<close> produce.\<close>

fun wf_addr :: "Addr \<Rightarrow> bool" where
  "wf_addr (Addr4 b) = (length b = 4)"
| "wf_addr (Addr6 b z) = (length b = 16)"

section \<open>Numbers read back\<close>

lemma digit_byte: "n < 10 \<Longrightarrow> 48 \<le> (of_nat (48 + n) :: byte) \<and> (of_nat (48 + n) :: byte) \<le> 57"
  by (simp only: word_le_nat_alt unat_digit) simp

lemma ipv4_digit:
  assumes "n < 10" "\<not> (digLen = 1 \<and> val = 0)" "val * 10 + n \<le> 255"
  shows "ipv4_loop (of_nat (48 + n) # s) val digLen fs = ipv4_loop s (val * 10 + n) (Suc digLen) fs"
  using assms digit_byte [OF assms(1)] unat_digit [OF assms(1)] by (auto simp del: of_nat_add)

lemma decimal_step: "10 \<le> n \<Longrightarrow> decimal n = decimal (n div 10) @ [of_nat (48 + n mod 10)]"
  by (subst decimal.simps) simp

lemma decimal_one: "n < 10 \<Longrightarrow> decimal n = [of_nat (48 + n)]"
  by (subst decimal.simps) simp

lemma decimal_two: "10 \<le> n \<Longrightarrow> n < 100 \<Longrightarrow> decimal n = [of_nat (48 + n div 10), of_nat (48 + n mod 10)]"
  using decimal_step [of n] decimal_one [of "n div 10"] by simp

lemma decimal_three:
  assumes "100 \<le> n" "n < 1000"
  shows "decimal n = [of_nat (48 + n div 100), of_nat (48 + n div 10 mod 10), of_nat (48 + n mod 10)]"
proof -
  have "n div 10 div 10 = n div (10 * 10)" by (rule div_mult2_eq [symmetric])
  then have q: "n div 10 div 10 = n div 100" by simp
  have "decimal n = decimal (n div 10) @ [of_nat (48 + n mod 10)]" using assms(1) by (intro decimal_step) simp
  also have "decimal (n div 10) = [of_nat (48 + n div 10 div 10), of_nat (48 + n div 10 mod 10)]"
    using assms by (intro decimal_two) linarith+
  finally show ?thesis unfolding q by (simp only: append_Cons append_Nil)
qed

lemma ipv4_decimal:
  assumes "n \<le> 255"
  shows "\<exists>k. ipv4_loop (decimal n @ s) 0 0 fs = ipv4_loop s n (Suc k) fs"
proof -
  note digit = ipv4_digit [where fs = fs]
  consider "n < 10" | "10 \<le> n" "n < 100" | "100 \<le> n" "n < 1000" using assms by linarith
  then show ?thesis
  proof cases
    case 1
    have "ipv4_loop (decimal n @ s) 0 0 fs = ipv4_loop s (0 * 10 + n) (Suc 0) fs"
      unfolding decimal_one [OF 1] append_Cons append_Nil by (rule digit) (use 1 in simp_all)
    then show ?thesis by auto
  next
    case 2
    have "ipv4_loop (decimal n @ s) 0 0 fs = ipv4_loop (of_nat (48 + n mod 10) # s) (0 * 10 + n div 10) (Suc 0) fs"
      unfolding decimal_two [OF 2] append_Cons append_Nil by (rule digit) (use 2 assms in simp_all)
    also have "\<dots> = ipv4_loop s ((0 * 10 + n div 10) * 10 + n mod 10) (Suc (Suc 0)) fs"
      by (rule digit) (use 2 assms in simp_all)
    also have "(0 * 10 + n div 10) * 10 + n mod 10 = n" by simp
    finally show ?thesis by blast
  next
    case 3
    define a b c where abc: "a = n div 100" "b = n div 10 mod 10" "c = n mod 10"
    have "a = n div 10 div 10" using div_mult2_eq [of n 10 10] by (simp add: abc)
    then have "(a * 10 + b) * 10 + c = n" unfolding abc by (simp only: div_mult_mod_eq)
    moreover have "a < 10" "a \<noteq> 0" "b < 10" "c < 10" using 3 by (simp_all add: abc)
    ultimately have e: "a < 10" "b < 10" "c < 10" "a \<noteq> 0" "(a * 10 + b) * 10 + c = n" by simp_all
    have "ipv4_loop (decimal n @ s) 0 0 fs = ipv4_loop (of_nat (48 + b) # of_nat (48 + c) # s) (0 * 10 + a) (Suc 0) fs"
      unfolding decimal_three [OF 3] append_Cons append_Nil abc [symmetric] by (rule digit) (use e in simp_all)
    also have "\<dots> = ipv4_loop (of_nat (48 + c) # s) ((0 * 10 + a) * 10 + b) (Suc (Suc 0)) fs"
      by (rule digit) (use e assms in simp_all)
    also have "\<dots> = ipv4_loop s (((0 * 10 + a) * 10 + b) * 10 + c) (Suc (Suc (Suc 0))) fs"
      by (rule digit) (use e assms in simp_all)
    also have "((0 * 10 + a) * 10 + b) * 10 + c = n" using e(5) by simp
    finally show ?thesis by blast
  qed
qed

lemma decimal_nonempty [simp]: "decimal n \<noteq> []"
  by (subst decimal.simps) simp

lemma ipv4_field:
  assumes "length fs < 3"
  shows "ipv4_loop (decimal (unat b) @ 46 # decimal n @ s) 0 0 fs = ipv4_loop (decimal n @ s) 0 0 (fs @ [b])"
proof -
  have "unat b \<le> 255" using unat_byte [of b] by simp
  from ipv4_decimal [OF this] obtain k where
    "ipv4_loop (decimal (unat b) @ 46 # decimal n @ s) 0 0 fs = ipv4_loop (46 # decimal n @ s) (unat b) (Suc k) fs" by blast
  then show ?thesis using assms by simp
qed

lemma parse_string4:
  assumes "length b = 4"
  shows "parseIPv4Fields (string4 b) = Some b"
proof -
  obtain w x y z where b: "b = [w, x, y, z]"
    using assms by (auto simp: numeral_eq_Suc length_Suc_conv)
  have "unat z \<le> 255" using unat_byte [of z] by simp
  from ipv4_decimal [OF this, of "[]" "[w, x, y]"] have "ipv4_loop (decimal (unat z)) 0 0 [w, x, y] = Some [w, x, y, z]"
    by auto
  then show ?thesis
    using ipv4_field [of "[w, x]" y "unat z" "[]"] ipv4_field [of "[w]" x "unat y" "46 # decimal (unat z)"]
      ipv4_field [of "[]" w "unat x" "46 # decimal (unat y) @ 46 # decimal (unat z)"]
    by (simp add: b string4_def parseIPv4Fields_def)
qed

lemma decimal_range: "c \<in> set (decimal n) \<Longrightarrow> 48 \<le> unat c \<and> unat c \<le> 57"
proof (induction n rule: decimal.induct)
  case (1 n)
  show ?case
  proof (cases "n < 10")
    case True
    then have "c = of_nat (48 + n)" using "1.prems" by (simp add: decimal.simps [of n] del: of_nat_add)
    then show ?thesis using unat_digit [OF True] True by (simp del: of_nat_add)
  next
    case False
    then have "c \<in> set (decimal (n div 10)) \<or> c = of_nat (48 + n mod 10)"
      using "1.prems" by (subst (asm) decimal.simps) (auto simp del: of_nat_add)
    then show ?thesis using "1.IH" [OF False] unat_digit [of "n mod 10"] by (auto simp del: of_nat_add)
  qed
qed

lemma find_decimal: "find (\<lambda>c. c = 46 \<or> c = 58 \<or> c = 37) (decimal n @ 46 # s) = Some (46 :: byte)"
proof -
  have "\<not> (c = 46 \<or> c = 58 \<or> c = 37)" if "c \<in> set (decimal n)" for c
    using decimal_range [OF that] by auto
  then have "find (\<lambda>c. c = 46 \<or> c = 58 \<or> c = 37) (xs @ 46 # s) = Some 46" if "set xs \<subseteq> set (decimal n)" for xs
    using that by (induction xs) auto
  then show ?thesis by simp
qed

section \<open>Groups read back\<close>

text \<open>The texts that spell a group: one to four hexadecimal digits.\<close>

definition group_text :: "byte list \<Rightarrow> nat \<Rightarrow> bool" where
  "group_text t g \<longleftrightarrow>
     (\<exists>ds. t = map ((!) hex_table) ds \<and> ds \<noteq> [] \<and> length ds \<le> 4 \<and> list_all (\<lambda>d. d < 16) ds \<and>
        g = foldl (\<lambda>n d. n * 16 + d) 0 ds)"

definition group_bytes :: "nat \<Rightarrow> byte list" where
  "group_bytes g = [of_nat (g div 256), of_nat (g mod 256)]"

lemma hex_table_digit:
  assumes "d < 16"
  shows "hex_val (hex_table ! d) = Some d" "hex_table ! d \<noteq> 58" "hex_table ! d \<noteq> 46" "hex_table ! d \<noteq> 37"
proof -
  have "list_all (\<lambda>d. hex_val (hex_table ! d) = Some d \<and> hex_table ! d \<notin> {58, 46, 37}) [0..<16]"
    by (simp add: upt_rec hex_table_def hex_val_def word_le_nat_alt)
  then show "hex_val (hex_table ! d) = Some d" "hex_table ! d \<noteq> 58" "hex_table ! d \<noteq> 46" "hex_table ! d \<noteq> 37"
    using assms by (simp_all add: list_all_iff)
qed

lemma hex_run_digits:
  assumes "list_all (\<lambda>d. d < 16) ds" "acc < 16 ^ off" "off + length ds \<le> 4"
  shows "hex_run (map ((!) hex_table) ds @ rest) acc off = hex_run rest (foldl (\<lambda>n d. n * 16 + d) acc ds) (off + length ds)"
  using assms
proof (induction ds arbitrary: acc off)
  case (Cons d ds)
  have lt: "acc * 16 + d < 16 ^ Suc off" using Cons.prems by simp
  moreover have "(16 :: nat) ^ Suc off \<le> 16 ^ 4" using Cons.prems(3) by (intro power_increasing) simp_all
  ultimately have "acc * 16 + d \<le> 65535" by simp
  moreover have "hex_run (map ((!) hex_table) ds @ rest) (acc * 16 + d) (Suc off) =
      hex_run rest (foldl (\<lambda>n d. n * 16 + d) (acc * 16 + d) ds) (Suc off + length ds)"
    using Cons.prems lt by (intro Cons.IH) simp_all
  ultimately show ?case using Cons.prems by (simp add: hex_table_digit)
qed simp

lemma group_run:
  assumes "group_text t g" "rest = [] \<or> hex_val (hd rest) = None"
  shows "\<exists>off. hex_run (t @ rest) 0 0 = Some (g, rest, Suc off)"
proof -
  obtain ds where ds: "t = map ((!) hex_table) ds" "ds \<noteq> []" "length ds \<le> 4" "list_all (\<lambda>d. d < 16) ds"
    "g = foldl (\<lambda>n d. n * 16 + d) 0 ds" using assms(1) unfolding group_text_def by blast
  have "hex_run rest g (length ds) = Some (g, rest, length ds)" using assms(2) by (cases rest) simp_all
  then show ?thesis using hex_run_digits [OF ds(4), of 0 0 rest] ds by (cases ds) simp_all
qed

lemma group_start:
  assumes "group_text t g"
  shows "t \<noteq> []" "hd t \<noteq> 58" "58 \<notin> set t" "46 \<notin> set t" "37 \<notin> set t"
proof -
  obtain ds where ds: "t = map ((!) hex_table) ds" "ds \<noteq> []" "list_all (\<lambda>d. d < 16) ds"
    using assms unfolding group_text_def by blast
  then show "t \<noteq> []" by simp
  show s: "58 \<notin> set t" and "46 \<notin> set t" "37 \<notin> set t" using ds hex_table_digit by (auto simp: list_all_iff)
  show "hd t \<noteq> 58" using s \<open>t \<noteq> []\<close> by (cases t) auto
qed

lemma hex_val_58: "hex_val 58 = None" "hex_val 46 = None"
  by (simp_all add: hex_val_def word_le_nat_alt)

lemma loop_last:
  assumes "group_text t g" "length ip < 16"
  shows "ipv6_loop t ip ell = Some ([], ip @ group_bytes g, ell)"
proof -
  obtain off where "hex_run t 0 0 = Some (g, [], Suc off)" using group_run [OF assms(1), of "[]"] by auto
  then show ?thesis using assms(2) by (subst ipv6_loop.simps) (simp add: group_bytes_def)
qed

lemma loop_colon:
  assumes "group_text t g" "length ip < 16" "s1 \<noteq> []" "hd s1 \<noteq> 58"
  shows "ipv6_loop (t @ 58 # s1) ip ell = ipv6_loop s1 (ip @ group_bytes g) ell"
proof -
  obtain off where "hex_run (t @ 58 # s1) 0 0 = Some (g, 58 # s1, Suc off)"
    using group_run [OF assms(1), of "58 # s1"] by (auto simp: hex_val_58)
  then show ?thesis using assms(2-4) by (subst ipv6_loop.simps) (auto simp: group_bytes_def Let_def neq_Nil_conv)
qed

lemma loop_ellipsis:
  assumes "group_text t g" "length ip < 16"
  shows "ipv6_loop (t @ 58 # 58 # s2) ip None =
    (if s2 = [] then Some ([], ip @ group_bytes g, Some (length ip + 2))
     else ipv6_loop s2 (ip @ group_bytes g) (Some (length ip + 2)))"
proof -
  obtain off where "hex_run (t @ 58 # 58 # s2) 0 0 = Some (g, 58 # 58 # s2, Suc off)"
    using group_run [OF assms(1), of "58 # 58 # s2"] by (auto simp: hex_val_58)
  then show ?thesis using assms(2) by (subst ipv6_loop.simps) (simp add: group_bytes_def Let_def)
qed

lemma join_start:
  "list_all2 group_text ts gs \<Longrightarrow> ts \<noteq> [] \<Longrightarrow> join_colons ts \<noteq> [] \<and> hd (join_colons ts) \<noteq> 58 \<and>
     37 \<notin> set (join_colons ts) \<and> 46 \<notin> set (join_colons ts)"
proof (induction ts arbitrary: gs rule: join_colons.induct)
  case (2 t)
  then show ?case using group_start by (auto simp: list_all2_Cons1)
next
  case (3 t u ts)
  then obtain g gs' where g: "gs = g # gs'" "group_text t g" "list_all2 group_text (u # ts) gs'"
    by (auto simp: list_all2_Cons1)
  then show ?case using "3.IH" [OF g(3)] group_start [OF g(2)] by (simp add: hd_append)
qed simp

lemma length_group_bytes [simp]: "length (group_bytes g) = 2"
  by (simp add: group_bytes_def)

lemma length_groups_bytes [simp]: "length (concat (map group_bytes gs)) = 2 * length gs"
  by (induction gs) simp_all

lemma loop_join:
  assumes "list_all2 group_text ts gs" "ts \<noteq> []" "length ip + 2 * length ts \<le> 16"
  shows "ipv6_loop (join_colons ts) ip ell = Some ([], ip @ concat (map group_bytes gs), ell)"
  using assms
proof (induction ts arbitrary: ip gs rule: join_colons.induct)
  case (2 t)
  then show ?case using loop_last by (auto simp: list_all2_Cons1)
next
  case (3 t u ts)
  then obtain g gs' where g: "gs = g # gs'" "group_text t g" "list_all2 group_text (u # ts) gs'"
    by (auto simp: list_all2_Cons1)
  have "ipv6_loop (join_colons (t # u # ts)) ip ell = ipv6_loop (join_colons (u # ts)) (ip @ group_bytes g) ell"
    using loop_colon [OF g(2)] join_start [OF g(3)] "3.prems"(3) by simp
  then show ?case using "3.IH" [OF g(3), of "ip @ group_bytes g"] "3.prems"(3) g(1) by simp
qed simp

lemma loop_join_ellipsis:
  assumes "list_all2 group_text ts gs" "ts \<noteq> []" "length ip + 2 * length ts \<le> 16"
  shows "ipv6_loop (join_colons ts @ 58 # 58 # s2) ip None =
    (if s2 = [] then Some ([], ip @ concat (map group_bytes gs), Some (length ip + 2 * length ts))
     else ipv6_loop s2 (ip @ concat (map group_bytes gs)) (Some (length ip + 2 * length ts)))"
  using assms
proof (induction ts arbitrary: ip gs rule: join_colons.induct)
  case (2 t)
  then show ?case using loop_ellipsis by (auto simp: list_all2_Cons1)
next
  case (3 t u ts)
  then obtain g gs' where g: "gs = g # gs'" "group_text t g" "list_all2 group_text (u # ts) gs'"
    by (auto simp: list_all2_Cons1)
  have "ipv6_loop (join_colons (t # u # ts) @ 58 # 58 # s2) ip None =
      ipv6_loop (join_colons (u # ts) @ 58 # 58 # s2) (ip @ group_bytes g) None"
    using loop_colon [OF g(2), of ip "join_colons (u # ts) @ 58 # 58 # s2"] join_start [OF g(3)] "3.prems"(3)
    by (simp add: hd_append)
  then show ?case using "3.IH" [OF g(3), of "ip @ group_bytes g"] "3.prems"(3) g(1) by simp
qed simp

section \<open>Addresses read back\<close>

fun hex_digits :: "nat \<Rightarrow> nat list" where
  "hex_digits n = (if n < 16 then [n] else hex_digits (n div 16) @ [n mod 16])"

declare hex_digits.simps [simp del]

lemma hexadecimal_digits: "hexadecimal n = map ((!) hex_table) (hex_digits n)"
  by (induction n rule: hexadecimal.induct) (subst hexadecimal.simps, subst hex_digits.simps, simp)

lemma hex_digits:
  "hex_digits n \<noteq> []" "list_all (\<lambda>d. d < 16) (hex_digits n)" "foldl (\<lambda>n d. n * 16 + d) 0 (hex_digits n) = n"
proof -
  show "hex_digits n \<noteq> []" by (subst hex_digits.simps) simp
  show "list_all (\<lambda>d. d < 16) (hex_digits n)"
    by (induction n rule: hex_digits.induct) (subst hex_digits.simps, simp)
  show "foldl (\<lambda>n d. n * 16 + d) 0 (hex_digits n) = n"
    by (induction n rule: hex_digits.induct) (subst hex_digits.simps, simp)
qed

lemma hex_digits_length: "n < 16 ^ Suc k \<Longrightarrow> length (hex_digits n) \<le> Suc k"
proof (induction k arbitrary: n)
  case 0
  then show ?case by (subst hex_digits.simps) simp
next
  case (Suc k)
  have "n div 16 < 16 ^ Suc k" using Suc.prems by (simp add: less_mult_imp_div_less)
  from Suc.IH [OF this] show ?case by (subst hex_digits.simps) simp
qed

lemma group_hexadecimal: "g < 65536 \<Longrightarrow> group_text (hexadecimal g) g"
  using hex_digits [of g] hex_digits_length [of g 3] unfolding group_text_def hexadecimal_digits by force

lemma group_decimal:
  assumes "n < 1000"
  shows "\<exists>g. group_text (decimal n) g"
proof -
  have c: "of_nat (48 + d) = hex_table ! d" if "d < 10" for d
  proof -
    have "list_all (\<lambda>d. of_nat (48 + d) = hex_table ! d) [0..<10]" by (simp add: upt_rec hex_table_def)
    then show ?thesis using that by (simp add: list_all_iff)
  qed
  consider "n < 10" | "10 \<le> n" "n < 100" | "100 \<le> n" "n < 1000" using assms by linarith
  then obtain ds where ds: "decimal n = map (\<lambda>d. of_nat (48 + d)) ds" "ds \<noteq> []" "length ds \<le> 4" "list_all (\<lambda>d. d < 10) ds"
  proof cases
    case 1
    then show ?thesis using decimal_one that [of "[n]"] by simp
  next
    case 2
    then show ?thesis using decimal_two that [of "[n div 10, n mod 10]"] by simp
  next
    case 3
    then show ?thesis using decimal_three that [of "[n div 100, n div 10 mod 10, n mod 10]"] by simp
  qed
  have "decimal n = map ((!) hex_table) ds" unfolding ds(1)
    using ds(4) by (intro map_cong refl c) (simp add: list_all_iff)
  moreover have "list_all (\<lambda>d. d < 16) ds" using ds(4) by (auto simp: list_all_iff)
  ultimately have "group_text (decimal n) (foldl (\<lambda>n d. n * 16 + d) 0 ds)"
    unfolding group_text_def using ds(2,3) by (intro exI [of _ ds]) simp
  then show ?thesis ..
qed

lemma group_bytes_groups:
  "length b = 2 * n \<Longrightarrow> concat (map group_bytes (groups b)) = b \<and> length (groups b) = n \<and> list_all (\<lambda>g. g < 65536) (groups b)"
proof (induction b arbitrary: n rule: groups.induct)
  case (1 a b bs)
  have "group_bytes (256 * unat a + unat b) = [a, b]"
    using unat_byte [of a] unat_byte [of b] by (simp add: group_bytes_def)
  moreover have "256 * unat a + unat b < 65536" using unat_byte [of a] unat_byte [of b] by simp
  ultimately show ?case using 1 by (cases n) simp_all
qed auto

lemma groups_texts: "list_all (\<lambda>g. g < 65536) gs \<Longrightarrow> list_all2 group_text (map hexadecimal gs) gs"
  by (induction gs) (simp_all add: group_hexadecimal)

lemma zero_run_zeros:
  assumes "zero_run gs = Some (i, j)"
  shows "i + 2 \<le> j \<and> j \<le> length gs \<and> gs = take i gs @ replicate (j - i) 0 @ drop j gs"
proof -
  let ?P = "\<lambda>r. case r of None \<Rightarrow> True | Some (a, b) \<Rightarrow> a + 2 \<le> b \<and> b \<le> length gs \<and> take (b - a) (drop a gs) = replicate (b - a) 0"
  let ?f = "\<lambda>r i. let l = zeros_from gs i
        in if l \<ge> 2 \<and> l > (case r of None \<Rightarrow> 0 | Some (a, b) \<Rightarrow> b - a) then Some (i, i + l) else r"
  have z: "take (zeros_from gs i) (drop i gs) = replicate (zeros_from gs i) 0" for i
  proof -
    have "takeWhile (\<lambda>g. g = 0) (drop i gs) = replicate (zeros_from gs i) 0"
      unfolding zeros_from_def by (rule sym, rule replicate_length_same) (auto dest: set_takeWhileD)
    moreover have "take (zeros_from gs i) (drop i gs) = takeWhile (\<lambda>g. g = 0) (drop i gs)"
      unfolding zeros_from_def by (rule takeWhile_eq_take [symmetric])
    ultimately show ?thesis by simp
  qed
  have l: "zeros_from gs i \<le> length gs - i" for i
    unfolding zeros_from_def using length_takeWhile_le [of "\<lambda>g. g = 0" "drop i gs"] by simp
  have step: "?P (?f r i)" if "?P r" for r i
  proof (cases "zeros_from gs i \<ge> 2")
    case True
    then have "i + zeros_from gs i \<le> length gs" using l [of i] by linarith
    then show ?thesis using that True z [of i] by (simp add: Let_def)
  qed (use that in simp)
  have "?P (foldl ?f r ks)" if "?P r" for r ks
    using that by (induction ks arbitrary: r) (simp_all only: foldl.simps step)
  from this [of None "[0..<8]"] have *: "i + 2 \<le> j" "j \<le> length gs" "take (j - i) (drop i gs) = replicate (j - i) 0"
    using assms unfolding zero_run_def by simp_all
  have "drop j gs = drop (j - i) (drop i gs)" using *(1) by simp
  then have "take (j - i) (drop i gs) @ drop j gs = drop i gs" by (simp only: append_take_drop_id)
  then show ?thesis using * by (simp add: append_take_drop_id)
qed

lemma body_unled:
  assumes "list_all2 group_text ts gs" "length ts = 8"
  shows "ipv6_body (join_colons ts) z = Some (Addr6 (concat (map group_bytes gs)) z)"
proof -
  have ne: "ts \<noteq> []" using assms(2) by auto
  note st = join_start [OF assms(1) ne]
  have lead: "(case join_colons ts of c # c' # s' \<Rightarrow> if c = 58 \<and> c' = 58 then (True, s') else (False, join_colons ts) | _ \<Rightarrow> (False, join_colons ts)) =
      (False, join_colons ts)"
    using st by (auto split: list.splits)
  have "length gs = 8" using assms by (auto dest: list_all2_lengthD)
  then show ?thesis using loop_join [OF assms(1) ne, of "[]" None] assms(2) unfolding ipv6_body_def lead by simp
qed

lemma body_led:
  assumes "list_all2 group_text ts gs" "length ts < 8"
  shows "ipv6_body (58 # 58 # join_colons ts) z =
    Some (Addr6 (replicate (16 - 2 * length ts) 0 @ concat (map group_bytes gs)) z)"
proof (cases "ts = []")
  case True
  then show ?thesis using assms by (simp add: ipv6_body_def)
next
  case False
  have "length gs = length ts" using assms by (auto dest: list_all2_lengthD)
  then show ?thesis using loop_join [OF assms(1) False, of "[]" "Some 0"] join_start [OF assms(1) False] assms(2)
    by (simp add: ipv6_body_def)
qed

lemma body_split:
  assumes "list_all2 group_text ts gs" "list_all2 group_text us hs" "ts \<noteq> []" "length ts + length us < 8"
  shows "ipv6_body (join_colons ts @ 58 # 58 # join_colons us) z =
    Some (Addr6 (concat (map group_bytes gs) @ replicate (16 - 2 * length ts - 2 * length us) 0 @ concat (map group_bytes hs)) z)"
proof -
  let ?s = "join_colons ts @ 58 # 58 # join_colons us"
  have len: "length gs = length ts" "length hs = length us" using assms(1,2) by (auto dest: list_all2_lengthD)
  obtain c cs where c: "join_colons ts = c # cs" "c \<noteq> 58"
    using join_start [OF assms(1,3)] by (cases "join_colons ts") auto
  then have lead: "(case ?s of c # c' # s' \<Rightarrow> if c = 58 \<and> c' = 58 then (True, s') else (False, ?s) | _ \<Rightarrow> (False, ?s)) = (False, ?s)"
    by (auto split: list.split)
  note ell = loop_join_ellipsis [OF assms(1,3), of "[]" "join_colons us"]
  have "ipv6_loop ?s [] None = Some ([], concat (map group_bytes gs) @ concat (map group_bytes hs), Some (2 * length ts))"
  proof (cases "us = []")
    case True
    then show ?thesis using ell assms(2,4) by simp
  next
    case False
    then show ?thesis using ell join_start [OF assms(2) False] loop_join [OF assms(2) False] assms(4) len by simp
  qed
  then show ?thesis unfolding ipv6_body_def lead using assms(4) len by simp
qed

lemma body_string6:
  assumes "length b = 16"
  shows "ipv6_body (string6 b) z = Some (Addr6 b z)"
proof -
  let ?gs = "groups b"
  have g: "concat (map group_bytes ?gs) = b" "length ?gs = 8" "list_all (\<lambda>g. g < 65536) ?gs"
    using group_bytes_groups [of b 8] assms by simp_all
  have texts: "list_all2 group_text (map hexadecimal (take i ?gs)) (take i ?gs)"
    "list_all2 group_text (map hexadecimal (drop i ?gs)) (drop i ?gs)" for i
    using g(3) by (intro groups_texts; auto simp: list_all_iff dest: in_set_takeD in_set_dropD)+
  show ?thesis
  proof (cases "zero_run ?gs")
    case None
    then show ?thesis using body_unled [OF groups_texts [OF g(3)]] g by (simp add: string6_def)
  next
    case (Some r)
    obtain i j where r: "r = (i, j)" by force
    note z = zero_run_zeros [OF Some [unfolded r]]
    have zeros: "concat (map group_bytes (replicate n 0)) = replicate (2 * n) 0" for n
      by (induction n) (simp_all add: group_bytes_def)
    have "concat (map group_bytes (take i ?gs @ replicate (j - i) 0 @ drop j ?gs)) = b" using z g(1) by simp
    then have b: "concat (map group_bytes (take i ?gs)) @ replicate (2 * (j - i)) 0 @ concat (map group_bytes (drop j ?gs)) = b"
      unfolding map_append concat_append zeros .
    have n: "16 - 2 * i - 2 * (8 - j) = 2 * (j - i)" "i + (8 - j) < 8" "min 8 i = i" using z g(2) by auto
    show ?thesis
    proof (cases "i = 0")
      case True
      then show ?thesis using body_led [OF texts(2) [of j], of z] b n g(2) z Some r by (simp add: string6_def)
    next
      case False
      moreover have "?gs \<noteq> []" using g(2) by auto
      ultimately show ?thesis using body_split [OF texts(1) [of i] texts(2) [of j], of z] b n g(2) Some r
        by (simp add: string6_def Let_def)
    qed
  qed
qed

lemma string4_chars: "37 \<notin> set (string4 b)" "58 \<notin> set (string4 b)"
proof -
  have "37 \<notin> set (decimal n)" "58 \<notin> set (decimal n)" for n
    using decimal_range [of 37 n] decimal_range [of 58 n] by auto
  then show "37 \<notin> set (string4 b)" "58 \<notin> set (string4 b)" by (simp_all add: string4_def)
qed

lemma body_mapped:
  assumes "length b = 4"
  shows "ipv6_body ([58, 58, 102, 102, 102, 102, 58] @ string4 b) z = Some (Addr6 (replicate 10 0 @ [255, 255] @ b) z)"
proof -
  have "hexadecimal 65535 = [102, 102, 102, 102]"
    by (simp add: hexadecimal.simps [of 65535] hexadecimal.simps [of 4095] hexadecimal.simps [of 255]
        hexadecimal.simps [of 15] hex_table_def)
  then have ff: "group_text [102, 102, 102, 102] 65535" using group_hexadecimal [of 65535] by simp
  let ?rest = "46 # decimal (unat (b ! 1)) @ [46] @ decimal (unat (b ! 2)) @ [46] @ decimal (unat (b ! 3))"
  have "unat (b ! 0) < 1000" using unat_byte [of "b ! 0"] by simp
  then obtain g where g: "group_text (decimal (unat (b ! 0))) g" using group_decimal by blast
  have s: "string4 b = decimal (unat (b ! 0)) @ ?rest" by (simp add: string4_def)
  then have ne: "string4 b \<noteq> []" "hd (string4 b) \<noteq> 58" using group_start [OF g] by (simp_all add: hd_append)
  obtain off where "hex_run (string4 b) 0 0 = Some (g, ?rest, Suc off)"
    using group_run [OF g, of ?rest] unfolding s by (auto simp: hex_val_58)
  then have "ipv6_loop (string4 b) [255, 255] (Some 0) = Some ([], [255, 255] @ b, Some 0)"
    using parse_string4 [OF assms] by (subst ipv6_loop.simps) simp
  moreover have "ipv6_loop ([102, 102, 102, 102] @ 58 # string4 b) [] (Some 0) = ipv6_loop (string4 b) [255, 255] (Some 0)"
    using loop_colon [OF ff _ ne, of "[]" "Some 0"] by (simp add: group_bytes_def)
  ultimately show ?thesis using assms by (simp add: ipv6_body_def)
qed

text \<open>Splitting off the zone.\<close>

lemma parse_zone:
  "37 \<notin> set t \<Longrightarrow> parseIPv6 (t @ (if z = [] then [] else 37 # z)) = ipv6_body t z"
proof -
  assume "37 \<notin> set t"
  then have "takeWhile (\<lambda>c. c \<noteq> 37) (t @ 37 # z) = t" "takeWhile (\<lambda>c. c \<noteq> 37) t = t"
    by (induction t) auto
  then show ?thesis by (simp add: parseIPv6_def Let_def)
qed

lemma find_colon:
  "58 \<in> set t \<Longrightarrow> 46 \<notin> set t \<Longrightarrow> 37 \<notin> set t \<Longrightarrow> find (\<lambda>c. c = 46 \<or> c = 58 \<or> c = 37) (t @ s) = Some (58 :: byte)"
  by (induction t) auto

lemma join_colon: "2 \<le> length ts \<Longrightarrow> 58 \<in> set (join_colons ts)"
  by (induction ts rule: join_colons.induct) auto

lemma join_chars:
  "list_all2 group_text ts gs \<Longrightarrow> 46 \<notin> set (join_colons ts) \<and> 37 \<notin> set (join_colons ts)"
  using join_start [of ts gs] by (cases "ts = []") auto

lemma string6_chars:
  assumes "length b = 16"
  shows "58 \<in> set (string6 b)" "46 \<notin> set (string6 b)" "37 \<notin> set (string6 b)"
proof -
  let ?gs = "groups b"
  have g: "length ?gs = 8" "list_all (\<lambda>g. g < 65536) ?gs" using group_bytes_groups [of b 8] assms by simp_all
  have "list_all2 group_text (map hexadecimal xs) xs" if "set xs \<subseteq> set ?gs" for xs
    using g(2) that by (intro groups_texts) (auto simp: list_all_iff)
  then have no: "46 \<notin> set (join_colons (map hexadecimal xs)) \<and> 37 \<notin> set (join_colons (map hexadecimal xs))"
    if "set xs \<subseteq> set ?gs" for xs using join_chars that by blast
  show "58 \<in> set (string6 b)" "46 \<notin> set (string6 b)" "37 \<notin> set (string6 b)"
    using join_colon [of "map hexadecimal ?gs"] g(1) no [of ?gs] no [OF set_take_subset] no [OF set_drop_subset]
    by (auto simp: string6_def Let_def split: option.splits)
qed

text \<open>The text of an address parses to that address.\<close>

lemma parse_string:
  assumes "wf_addr a"
  shows "ParseAddr (Addr_String a) = Some a"
proof (cases a)
  case (Addr4 b)
  have "find (\<lambda>c. c = 46 \<or> c = 58 \<or> c = 37) (string4 b) = Some 46"
    using find_decimal by (simp add: string4_def)
  then show ?thesis using parse_string4 assms Addr4 by (simp add: ParseAddr_def)
next
  case (Addr6 b z)
  then have b: "length b = 16" using assms by simp
  let ?zone = "if z = [] then [] else 37 # z"
  show ?thesis
  proof (cases "Is4In6 a")
    case True
    let ?t = "[58, 58, 102, 102, 102, 102, 58] @ string4 (drop 12 b)"
    have d: "length (drop 12 b) = 4" using b by simp
    have "take 12 b = replicate 10 0 @ [255, 255]" using True Addr6 by simp
    then have e: "replicate 10 0 @ [255, 255] @ drop 12 b = b" using append_take_drop_id [of 12 b] by simp
    have "parseIPv6 (?t @ ?zone) = Some a"
      using parse_zone [of ?t z] body_mapped [OF d, of z] string4_chars(1) e Addr6 by simp
    then show ?thesis using True Addr6 by (simp add: ParseAddr_def)
  next
    case False
    have "parseIPv6 (string6 b @ ?zone) = Some a"
      using parse_zone [of "string6 b" z] string6_chars(3) [OF b] body_string6 [OF b] Addr6 by simp
    then show ?thesis using False Addr6 find_colon [OF string6_chars [OF b]] by (simp add: ParseAddr_def)
  qed
qed

section \<open>The addresses the collectors print\<close>

lemma unat_pair: "unat (push_bit 8 (ucast (a :: byte)) OR ucast (b :: byte) :: u16) = 256 * unat a + unat b"
  using unat_le_word_pair [of b a] by (simp only: le_word_pair or.commute [of _ "ucast b"] add.commute)

lemma nibbles_value:
  assumes "n < 65536"
  shows "foldl (\<lambda>n d. n * 16 + d) 0 [n div 4096 mod 16, n div 256 mod 16, n div 16 mod 16, n mod 16] = (n :: nat)"
proof -
  define p q r where pqr: "p = n div 16" "q = p div 16" "r = q div 16"
  have "q = n div (16 * 16)" "r = n div (16 * 16 * 16)" unfolding pqr div_mult2_eq by simp_all
  then have e: "n div 4096 = r" "n div 256 = q" "n div 16 = p" by (simp_all add: pqr)
  have "r mod 16 = r" using assms by (simp add: e [symmetric])
  moreover have "r * 16 + q mod 16 = q" "q * 16 + p mod 16 = p" "p * 16 + n mod 16 = n" unfolding pqr by (rule div_mult_mod_eq)+
  ultimately show ?thesis unfolding e by simp
qed

lemma hex4_text: "group_text (hex4 a b) (256 * unat a + unat b)"
proof -
  define n where n: "n = 256 * unat a + unat b"
  let ?w = "push_bit 8 (ucast a) OR ucast b :: u16"
  let ?ds = "[n div 4096 mod 16, n div 256 mod 16, n div 16 mod 16, n mod 16]"
  have m: "unat (x AND 0xf :: u16) = unat x mod 16" for x
  proof -
    have "x AND 0xf = take_bit 4 x" by (simp add: take_bit_eq_mask mask_eq_exp_minus_1)
    then show ?thesis by (simp add: take_bit_eq_mod unat_mod)
  qed
  have d: "hex_digit (drop_bit k ?w AND 0xf) = hex_table ! (n div 2 ^ k mod 16)" for k
    unfolding hex_digit_def m unat_drop_bit_eq unat_pair n by (simp add: drop_bit_eq_div)
  have h: "hex4 a b = map ((!) hex_table) ?ds"
    using d [of 12] d [of 8] d [of 4] d [of 0] by (simp add: hex4_def Let_def)
  have "n < 65536" using unat_byte [of a] unat_byte [of b] by (simp add: n)
  then have v: "foldl (\<lambda>n d. n * 16 + d) 0 ?ds = n" by (rule nibbles_value)
  have "group_text (hex4 a b) n"
    unfolding group_text_def by (intro exI [of _ ?ds] conjI; (rule h | rule v [symmetric] | simp))
  then show ?thesis unfolding n .
qed

lemma formatIPv6_join:
  assumes "length b = 16"
  shows "\<exists>ts. formatIPv6 b = join_colons ts \<and> list_all2 group_text ts (groups b)"
proof -
  obtain b0 b1 b2 b3 b4 b5 b6 b7 b8 b9 b10 b11 b12 b13 b14 b15 where
    b: "b = [b0, b1, b2, b3, b4, b5, b6, b7, b8, b9, b10, b11, b12, b13, b14, b15]"
    using assms by (auto simp: numeral_eq_Suc length_Suc_conv)
  let ?ts = "[hex4 b0 b1, hex4 b2 b3, hex4 b4 b5, hex4 b6 b7, hex4 b8 b9, hex4 b10 b11, hex4 b12 b13, hex4 b14 b15]"
  have "formatIPv6 b = join_colons ?ts" unfolding formatIPv6_groups b by simp
  moreover have "list_all2 group_text ?ts (groups b)" unfolding b by (simp add: hex4_text)
  ultimately show ?thesis by blast
qed

lemma parse_formatAddr:
  assumes "length b = 16"
  shows "ParseAddr (formatAddr 2 b) = Some (Addr4 (take 4 b))" "ParseAddr (formatAddr 10 b) = Some (Addr6 b [])"
proof -
  have "formatAddr 2 b = string4 (take 4 b)" by (simp add: formatAddr_def string4_def)
  moreover have "find (\<lambda>c. c = 46 \<or> c = 58 \<or> c = 37) (string4 c) = Some 46" for c
    using find_decimal by (simp add: string4_def)
  moreover have "parseIPv4Fields (string4 (take 4 b)) = Some (take 4 b)" using assms by (intro parse_string4) simp
  ultimately show "ParseAddr (formatAddr 2 b) = Some (Addr4 (take 4 b))" by (simp add: ParseAddr_def)
  obtain ts where ts: "formatIPv6 b = join_colons ts" "list_all2 group_text ts (groups b)"
    using formatIPv6_join [OF assms] by blast
  have "length ts = 8" using ts(2) group_bytes_groups [of b 8] assms by (auto dest: list_all2_lengthD)
  moreover have "concat (map group_bytes (groups b)) = b" using group_bytes_groups [of b 8] assms by simp
  ultimately have "parseIPv6 (join_colons ts) = Some (Addr6 b [])"
    using parse_zone [of "join_colons ts" "[]"] join_chars [OF ts(2)] body_unled [OF ts(2)] by simp
  then show "ParseAddr (formatAddr 10 b) = Some (Addr6 b [])"
    using find_colon [of "join_colons ts" "[]"] join_chars [OF ts(2)] join_colon [of ts] \<open>length ts = 8\<close> ts(1)
    by (simp add: ParseAddr_def formatAddr_def)
qed

end
