(* ===== verification/Enricher_Kernel.thy ===== *)
theory Enricher_Kernel
  imports Enricher_Process Netip
begin

text \<open>
  \<^verbatim>\<open>agent/internal/enricher/kernel.go\<close>: module loads, program loads and probe attaches become kernel
  events, and the numbers of the kernel interface get names. The numbers that the agent and its
  programs spell out are compared with the kernel's own enumerations in \<^verbatim>\<open>vmlinux.h\<close>.
\<close>

section \<open>Names\<close>

definition taintBitNames :: "string list" where
  "taintBitNames =
    [''proprietary_module'', ''forced_module'', ''cpu_out_of_spec'', ''forced_rmmod'', ''machine_check'', ''bad_page'',
     ''user'', ''die'', ''overridden_acpi_table'', ''warn'', ''staging'', ''firmware_workaround'', ''out_of_tree'',
     ''unsigned_module'', ''softlockup'', ''livepatch'', ''aux'', ''randstruct'', ''test'', ''fwctl'']"

fun taintNames_loop :: "u32 \<Rightarrow> nat list \<Rightarrow> byte list list \<Rightarrow> byte list list" where
  "taintNames_loop tmask [] out = out"
| "taintNames_loop tmask (b # bits) out =
     (if tmask AND push_bit b 1 = 0 then taintNames_loop tmask bits out
      else if b < length taintBitNames then taintNames_loop tmask bits (out @ [bytes_of (taintBitNames ! b)])
      else taintNames_loop tmask bits (out @ [bytes_of ''taint_'' @ decimal b]))"

definition taintNames :: "u32 \<Rightarrow> byte list list" where
  "taintNames tmask = (if tmask = 0 then [] else taintNames_loop tmask [0..<32] [])"

definition bpfProgTypeNames :: "string list" where
  "bpfProgTypeNames =
    [''unspec'', ''socket_filter'', ''kprobe'', ''sched_cls'', ''sched_act'',
     ''tracepoint'', ''xdp'', ''perf_event'', ''cgroup_skb'', ''cgroup_sock'',
     ''lwt_in'', ''lwt_out'', ''lwt_xmit'', ''sock_ops'', ''sk_skb'',
     ''cgroup_device'', ''sk_msg'', ''raw_tracepoint'', ''cgroup_sock_addr'',
     ''lwt_seg6local'', ''lirc_mode2'', ''sk_reuseport'', ''flow_dissector'',
     ''cgroup_sysctl'', ''raw_tracepoint_writable'', ''cgroup_sockopt'',
     ''tracing'', ''struct_ops'', ''ext'', ''lsm'', ''sk_lookup'', ''syscall'',
     ''netfilter'']"

definition bpfProgTypeName :: "u32 \<Rightarrow> byte list" where
  "bpfProgTypeName t =
     (if unat t < length bpfProgTypeNames then bytes_of (bpfProgTypeNames ! unat t)
      else bytes_of ''prog_type_'' @ decimal (unat t))"

definition errno_names :: "(int \<times> string) list" where
  "errno_names =
    [(1, ''EPERM''), (2, ''ENOENT''), (8, ''ENOEXEC''), (12, ''ENOMEM''), (13, ''EACCES''), (14, ''EFAULT''), (16, ''EBUSY''),
     (17, ''EEXIST''), (22, ''EINVAL''), (65, ''ENOPKG''), (74, ''EBADMSG''), (75, ''EOVERFLOW''), (80, ''ELIBBAD''),
     (126, ''ENOKEY''), (127, ''EKEYEXPIRED''), (128, ''EKEYREVOKED''), (129, ''EKEYREJECTED'')]"

text \<open>\<open>strconv.FormatInt(n, 10)\<close> of a signed number.\<close>

definition signed_decimal :: "u32 \<Rightarrow> byte list" where
  "signed_decimal n = (if sint n < 0 then 45 # decimal (nat (- sint n)) else decimal (nat (sint n)))"

definition errnoName :: "u32 \<Rightarrow> byte list" where
  "errnoName n =
     (case map_of errno_names (sint n) of Some s \<Rightarrow> bytes_of s | None \<Rightarrow> bytes_of ''E'' @ signed_decimal n)"

definition probeTypeName :: "string \<Rightarrow> bool \<Rightarrow> string" where
  "probeTypeName probe ret =
     (if probe = ''kprobe'' then (if ret then ''Kretprobe'' else ''Kprobe'')
      else if probe = ''uprobe'' then (if ret then ''Uretprobe'' else ''Uprobe'')
      else ''Probe'')"

definition kernelActivityID :: "RawKernelKind \<Rightarrow> u8" where
  "kernelActivityID k =
     (case k of KernelModuleLoad \<Rightarrow> 1 | KernelModuleLoadRejected \<Rightarrow> 1 | KernelModuleUnload \<Rightarrow> 3 | KernelBPFProgLoad \<Rightarrow> 4
      | KernelProbeAttach \<Rightarrow> 4 | KernelUnknown \<Rightarrow> 99)"

definition kernelEventCode :: "RawKernelKind \<Rightarrow> string" where
  "kernelEventCode k =
     (case k of KernelModuleLoad \<Rightarrow> ''module_load'' | KernelModuleUnload \<Rightarrow> ''module_unload''
      | KernelModuleLoadRejected \<Rightarrow> ''module_load_rejected'' | KernelBPFProgLoad \<Rightarrow> ''bpf_prog_load''
      | KernelProbeAttach \<Rightarrow> ''probe_attach'' | KernelUnknown \<Rightarrow> ''unknown'')"

section \<open>Events\<close>

definition buildKernelOCSF :: "options \<Rightarrow> enricher \<Rightarrow> byte list \<Rightarrow> RawKernelEvent \<Rightarrow> procEntry \<Rightarrow> KernelActivity" where
  "buildKernelOCSF opts e uid raw ent =
     (let username = Name (en_users e) (ent_uid ent);
          actorProc = processFromEntry ent username;
          activity = kernelActivityID (rk_Kind raw);
          ts = UnixMilli (rk_Timestamp raw);
          ko = \<lparr>ko_Name = rk_Name raw, ko_Type = '''', ko_Path = [], ko_SystemCall = rk_SystemCall raw, ko_Taints = [],
                ko_ProgType = [], ko_Offset = []\<rparr>;
          ev = \<lparr>ev_Metadata = metadata ''kernel'' (kernelEventCode (rk_Kind raw)) uid ts, ev_ClassUID = 1003,
                ev_ClassName = ''kernel_activity'', ev_ActivityID = activity, ev_TypeUID = 1003 * 100 + ucast activity,
                ev_Severity = 1, ev_Time = ts, ev_Device = opt_Device opts,
                ev_Actor = \<lparr>ac_Process = actorProc, ac_User = \<lparr>us_Name = username, us_UID = pr_UID actorProc,
                  us_Type = userType (ent_uid ent)\<rparr>\<rparr>,
                ka_Kernel = ko, ka_Status = ''Success'', ka_StatusID = 1, ka_StatusCode = [], ka_StatusDetail = []\<rparr>
      in case rk_Kind raw of
           KernelModuleLoad \<Rightarrow> ev\<lparr>ka_Kernel := ko\<lparr>ko_Type := ''Module'', ko_Taints := taintNames (rk_Taints raw)\<rparr>\<rparr>
         | KernelModuleUnload \<Rightarrow> ev\<lparr>ka_Kernel := ko\<lparr>ko_Type := ''Module''\<rparr>\<rparr>
         | KernelModuleLoadRejected \<Rightarrow>
             ev\<lparr>ka_Kernel := ko\<lparr>ko_Type := ''Module''\<rparr>, ka_Status := ''Failure'', ka_StatusID := 2,
                ka_StatusCode := signed_decimal (rk_Errno raw), ka_StatusDetail := errnoName (rk_Errno raw)\<rparr>
         | KernelBPFProgLoad \<Rightarrow>
             ev\<lparr>ka_Kernel := ko\<lparr>ko_Type := ''BPF Program'', ko_ProgType := bpfProgTypeName (rk_ProgType raw)\<rparr>\<rparr>
         | KernelProbeAttach \<Rightarrow>
             let ko = ko\<lparr>ko_Type := probeTypeName (rk_Probe raw) (rk_Retprobe raw)\<rparr>;
                 ko = (if rk_Probe raw = ''uprobe'' then ko\<lparr>ko_Path := rk_Name raw\<rparr> else ko);
                 ko = (if rk_Offset raw \<noteq> 0 then ko\<lparr>ko_Offset := bytes_of ''0x'' @ hexadecimal (unat (rk_Offset raw))\<rparr> else ko)
             in ev\<lparr>ka_Kernel := ko\<rparr>
         | KernelUnknown \<Rightarrow> ev)"

definition kernel_entry :: "enricher \<Rightarrow> procfs \<Rightarrow> RawKernelEvent \<Rightarrow> procEntry" where
  "kernel_entry e P raw =
     (let ent = (case cache_get (en_cache e) (rk_PID raw) of
                   Some ent \<Rightarrow> ent
                 | None \<Rightarrow>
                     let ent = (entry_of (rk_PID raw))\<lparr>ent_uid := rk_UID raw, ent_comm := rk_Comm raw\<rparr>;
                         ent = (if proc_exe P (rk_PID raw) \<noteq> [] then ent\<lparr>ent_exe := proc_exe P (rk_PID raw)\<rparr> else ent)
                     in if proc_cmdline P (rk_PID raw) \<noteq> [] then ent\<lparr>ent_cmdline := proc_cmdline P (rk_PID raw)\<rparr> else ent)
      in if ent_comm ent = [] then ent\<lparr>ent_comm := rk_Comm raw\<rparr> else ent)"

definition handleKernel :: "options \<Rightarrow> procfs \<Rightarrow> emission \<Rightarrow> RawKernelEvent \<Rightarrow> enricher \<Rightarrow> enricher" where
  "handleKernel opts P em raw e =
     (if rk_Kind raw = KernelUnknown then IncDrops e
      else if selfPID opts \<noteq> 0 \<and> rk_PID raw = selfPID opts then e
      else emit em (EvKernel (buildKernelOCSF opts e (em_uid em) raw (kernel_entry e P raw))) e)"

section \<open>Taints\<close>

definition taint_name :: "nat \<Rightarrow> byte list" where
  "taint_name b = (if b < length taintBitNames then bytes_of (taintBitNames ! b) else bytes_of ''taint_'' @ decimal b)"

lemma taint_bit: "tmask AND 2 ^ b = 0 \<longleftrightarrow> \<not> bit tmask b" for tmask :: u32
  by (simp add: and_exp_eq_0_iff_not_bit)

lemma taintNames_bits: "taintNames tmask = map taint_name (filter (bit tmask) [0..<32])"
proof -
  have "taintNames_loop tmask bits out = out @ map taint_name (filter (bit tmask) bits)" for bits out
    by (induction bits arbitrary: out) (simp_all add: taint_bit taint_name_def)
  then show ?thesis by (simp add: taintNames_def)
qed

text \<open>The names printed for the taints of a module determine its taint mask: every set bit has a name
  of its own, in the order of the bits, and a mask without bits has none.\<close>

theorem taint_names_determine_mask:
  "taintNames m = taintNames n \<longleftrightarrow> m = n"
proof
  assume eq: "taintNames m = taintNames n"
  have d: "distinct (map taint_name [0..<32])" by code_simp
  then have inj: "inj_on taint_name {0..<32}" by (simp add: distinct_map)
  have "filter (bit m) [0..<32] = filter (bit n) [0..<32]"
    by (rule map_inj_on [OF eq [unfolded taintNames_bits]]) (rule inj_on_subset [OF inj], auto)
  then have "b < 32 \<Longrightarrow> bit m b = bit n b" for b
    by (metis (mono_tags) atLeastLessThan_iff bot_nat_0.extremum mem_Collect_eq set_filter set_upt)
  then show "m = n" by (intro bit_word_eqI) simp
qed simp

section \<open>Numbers of the kernel interface\<close>

text \<open>ASCII lower case of a name as the header spells it.\<close>

definition lower :: "string \<Rightarrow> string" where
  "lower s = map (\<lambda>c. let n = of_char c :: nat in if 65 \<le> n \<and> n \<le> 90 then char_of (n + 32) else c) s"

lemma helper_numbers:
  "list_all (\<lambda>(h, n). map_of enum_bpf_func_id (''BPF_FUNC_'' @ h) = Some n) helper_ids"
  by code_simp

lemma prog_type_names:
  "list_all (\<lambda>(n, v). bpfProgTypeName (word_of_int v) = bytes_of (lower (drop (length ''BPF_PROG_TYPE_'') n)))
     (butlast enum_bpf_prog_type)"
proof -
  have known: "bpfProgTypeName (word_of_int v) = bytes_of (bpfProgTypeNames ! nat v)" if "0 \<le> v" "v < 33" for v
  proof -
    have "unat (word_of_int v :: u32) = nat v"
      using that by (simp add: unsigned_of_int take_bit_int_eq_self)
    moreover have "length bpfProgTypeNames = 33" by code_simp
    ultimately show ?thesis using that by (simp add: bpfProgTypeName_def nat_less_iff)
  qed
  have "list_all (\<lambda>(n, v). 0 \<le> v \<and> v < 33 \<and> bpfProgTypeNames ! nat v = lower (drop (length ''BPF_PROG_TYPE_'') n))
      (butlast enum_bpf_prog_type)"
    by code_simp
  then show ?thesis by (rule list.pred_mono_strong) (auto simp: known)
qed


end
