(* ===== verification/Enricher_Auth.thy ===== *)
theory Enricher_Auth
  imports Enricher_Kernel
begin

text \<open>
  \<^verbatim>\<open>agent/internal/enricher/auth.go\<close>: the calls of the PAM library become authentication events.
\<close>

section \<open>Operations\<close>

definition authActivityID :: "RawAuthKind \<Rightarrow> u8" where
  "authActivityID k = (case k of AuthAttempt \<Rightarrow> 1 | AuthSessionOpen \<Rightarrow> 1 | AuthSessionClose \<Rightarrow> 2 | AuthUnknown \<Rightarrow> 99)"

definition authEventCode :: "RawAuthKind \<Rightarrow> string" where
  "authEventCode k =
     (case k of AuthAttempt \<Rightarrow> ''auth_attempt'' | AuthSessionOpen \<Rightarrow> ''session_open'' | AuthSessionClose \<Rightarrow> ''session_close''
      | AuthUnknown \<Rightarrow> ''unknown'')"

definition authStatus :: "u32 \<Rightarrow> string \<times> u8" where
  "authStatus result = (if result = 0 then (''Success'', 1) else (''Failure'', 2))"

definition authLogonType :: "RawAuthEvent \<Rightarrow> byte list \<times> u8" where
  "authLogonType raw =
     (if ra_RemoteHost raw \<noteq> [] then (bytes_of ''Remote Interactive'', 10)
      else if ra_TTY raw \<noteq> [] \<and> ra_Service raw \<noteq> bytes_of ''sudo'' \<and> ra_Service raw \<noteq> bytes_of ''su'' \<and>
              ra_Service raw \<noteq> bytes_of ''su-l'' then (bytes_of ''Interactive'', 2)
      else if ra_Service raw \<noteq> [] then (ra_Service raw, 99)
      else (bytes_of ''Other'', 99))"

definition authUserType :: "byte list \<Rightarrow> string" where
  "authUserType name = (if name = bytes_of ''root'' then ''Admin'' else if name = [] then '''' else ''User'')"

definition authEndpoint :: "byte list \<Rightarrow> NetEndpoint" where
  "authEndpoint rhost =
     (case ParseAddr rhost of
        Some addr \<Rightarrow> \<lparr>np_IP = Addr_String (Unmap addr), np_Port = 0, np_Hostname = []\<rparr>
      | None \<Rightarrow> \<lparr>np_IP = [], np_Port = 0, np_Hostname = rhost\<rparr>)"

definition pamResultNames :: "string list" where
  "pamResultNames =
    [''PAM_SUCCESS'', ''PAM_OPEN_ERR'', ''PAM_SYMBOL_ERR'', ''PAM_SERVICE_ERR'', ''PAM_SYSTEM_ERR'', ''PAM_BUF_ERR'',
     ''PAM_PERM_DENIED'', ''PAM_AUTH_ERR'', ''PAM_CRED_INSUFFICIENT'', ''PAM_AUTHINFO_UNAVAIL'', ''PAM_USER_UNKNOWN'',
     ''PAM_MAXTRIES'', ''PAM_NEW_AUTHTOK_REQD'', ''PAM_ACCT_EXPIRED'', ''PAM_SESSION_ERR'', ''PAM_CRED_UNAVAIL'',
     ''PAM_CRED_EXPIRED'', ''PAM_CRED_ERR'', ''PAM_NO_MODULE_DATA'', ''PAM_CONV_ERR'', ''PAM_AUTHTOK_ERR'',
     ''PAM_AUTHTOK_RECOVERY_ERR'', ''PAM_AUTHTOK_LOCK_BUSY'', ''PAM_AUTHTOK_DISABLE_AGING'', ''PAM_TRY_AGAIN'',
     ''PAM_IGNORE'', ''PAM_ABORT'', ''PAM_AUTHTOK_EXPIRED'', ''PAM_MODULE_UNKNOWN'', ''PAM_BAD_ITEM'', ''PAM_CONV_AGAIN'',
     ''PAM_INCOMPLETE'']"

definition pamResultName :: "u32 \<Rightarrow> byte list" where
  "pamResultName code =
     (if 0 \<le> sint code \<and> sint code < int (length pamResultNames) then bytes_of (pamResultNames ! nat (sint code))
      else bytes_of ''PAM_'' @ signed_decimal code)"

definition buildAuthOCSF :: "options \<Rightarrow> enricher \<Rightarrow> byte list \<Rightarrow> RawAuthEvent \<Rightarrow> procEntry \<Rightarrow> Authentication" where
  "buildAuthOCSF opts e uid raw ent =
     (let actorName = Name (en_users e) (ent_uid ent);
          actorProc = processFromEntry ent actorName;
          activity = authActivityID (ra_Kind raw);
          (status, statusID) = authStatus (ra_Result raw);
          (logonType, logonTypeID) = authLogonType raw;
          ts = UnixMilli (ra_Timestamp raw)
      in \<lparr>ev_Metadata = metadata ''auth'' (authEventCode (ra_Kind raw)) uid ts, ev_ClassUID = 3002,
          ev_ClassName = ''authentication'', ev_ActivityID = activity, ev_TypeUID = 3002 * 100 + ucast activity,
          ev_Severity = 1, ev_Time = ts, ev_Device = opt_Device opts,
          ev_Actor = \<lparr>ac_Process = actorProc, ac_User = \<lparr>us_Name = actorName, us_UID = pr_UID actorProc,
            us_Type = userType (ent_uid ent)\<rparr>\<rparr>,
          au_User = \<lparr>us_Name = ra_User raw, us_UID = [], us_Type = authUserType (ra_User raw)\<rparr>,
          au_Status = status, au_StatusID = statusID, au_StatusCode = signed_decimal (ra_Result raw),
          au_StatusDetail = pamResultName (ra_Result raw), au_AuthProto = ''pam'', au_LogonType = logonType,
          au_LogonTypeID = logonTypeID,
          au_Service = (if ra_Service raw \<noteq> [] then Some (ra_Service raw) else None), au_TTY = ra_TTY raw,
          au_SrcEndpoint = (if ra_RemoteHost raw \<noteq> [] then Some (authEndpoint (ra_RemoteHost raw)) else None),
          au_SessionRemote = (if ra_RemoteHost raw \<noteq> [] then Some True else None)\<rparr>)"

definition handleAuth :: "options \<Rightarrow> procfs \<Rightarrow> emission \<Rightarrow> RawAuthEvent \<Rightarrow> enricher \<Rightarrow> enricher" where
  "handleAuth opts P em raw e =
     (if ra_Kind raw = AuthUnknown then IncDrops e
      else emit em (EvAuth (buildAuthOCSF opts e (em_uid em) raw
             (actorEntry e P (ra_PID raw) (ra_UID raw) (ra_Comm raw)))) e)"

section \<open>What is reported\<close>

lemma auth_event_valid:
  assumes "ra_Kind raw \<noteq> AuthUnknown" "UnixMilli (ra_Timestamp raw) \<noteq> 0" "ra_User raw \<noteq> []"
  shows "Validate (EvAuth (buildAuthOCSF opts e uid raw ent))"
  using assms by (cases "ra_Kind raw")
    (simp_all add: Validate_def Validate_auth_def buildAuthOCSF_def Let_def authActivityID_def case_prod_beta)

end
