(* ===== verification/Enricher_Dns.thy ===== *)
theory Enricher_Dns
  imports Enricher_Kernel
begin

text \<open>
  \<^verbatim>\<open>agent/internal/enricher/dns.go\<close>: datagrams on port 53 become DNS events. The parser
  \<^verbatim>\<open>golang.org/x/net/dns/dnsmessage\<close> is not part of the repository: it is the parameter \<open>D\<close>, a record of the
  four calls the code makes, over a state of its own.
\<close>

section \<open>The parser\<close>

record dns_Header =
  dh_ID :: u16
  dh_Response :: bool
  dh_OpCode :: u16
  dh_RCode :: u16

record dns_Question =
  qu_Name :: "byte list"
  qu_Type :: u16
  qu_Class :: u16

text \<open>The bodies of resource records, by the types the code distinguishes; \<open>OtherRes\<close> are all others.\<close>

datatype dns_Body =
    ARes "byte list" | AAAARes "byte list" | CNAMERes "byte list" | NSRes "byte list" | PTRRes "byte list"
  | MXRes "byte list" | SRVRes "byte list" | TXTRes "byte list list" | SOARes "byte list" | OtherRes

record dns_Resource =
  rr_Type :: u16
  rr_Class :: u16
  rr_TTL :: u32
  rr_Body :: dns_Body

datatype section_error = ErrSectionDone | ParseError

record 'p dnsmessage =
  Start :: "byte list \<Rightarrow> (dns_Header \<times> 'p) option"
  Question :: "'p \<Rightarrow> (section_error + dns_Question) \<times> 'p"
  SkipAllQuestions :: "'p \<Rightarrow> 'p option"
  Answer :: "'p \<Rightarrow> (dns_Resource \<times> 'p) option"

section \<open>Names\<close>

definition dnsOpcodeName :: "u16 \<Rightarrow> byte list" where
  "dnsOpcodeName opc =
     (case map_of [(0, ''QUERY''), (1, ''IQUERY''), (2, ''STATUS''), (4, ''NOTIFY''), (5, ''UPDATE'')] opc of
        Some n \<Rightarrow> bytes_of n
      | None \<Rightarrow> bytes_of ''OPCODE'' @ decimal (unat opc))"

definition dnsRCodeName :: "u16 \<Rightarrow> byte list" where
  "dnsRCodeName rc =
     (case map_of [(0, ''NOERROR''), (1, ''FORMERR''), (2, ''SERVFAIL''), (3, ''NXDOMAIN''), (4, ''NOTIMP''), (5, ''REFUSED'')] rc of
        Some n \<Rightarrow> bytes_of n
      | None \<Rightarrow> bytes_of ''RCODE'' @ decimal (unat rc))"

definition dns_types :: "(u16 \<times> string) list" where
  "dns_types =
    [(1, ''A''), (2, ''NS''), (5, ''CNAME''), (6, ''SOA''), (12, ''PTR''), (15, ''MX''), (16, ''TXT''), (28, ''AAAA''), (33, ''SRV''),
     (41, ''OPT''), (252, ''AXFR''), (255, ''ANY''), (65, ''HTTPS''), (64, ''SVCB''), (35, ''NAPTR''), (43, ''DS''), (46, ''RRSIG''),
     (48, ''DNSKEY''), (257, ''CAA'')]"

definition dnsTypeName :: "u16 \<Rightarrow> byte list" where
  "dnsTypeName t = (case map_of dns_types t of Some n \<Rightarrow> bytes_of n | None \<Rightarrow> bytes_of ''TYPE'' @ decimal (unat t))"

definition dnsClassName :: "u16 \<Rightarrow> byte list" where
  "dnsClassName c =
     (case map_of [(1, ''IN''), (3, ''CH''), (255, ''ANY'')] c of
        Some n \<Rightarrow> bytes_of n
      | None \<Rightarrow> bytes_of ''CLASS'' @ decimal (unat c))"

section \<open>Messages\<close>

record dnsMessage =
  dm_id :: u16
  dm_response :: bool
  dm_opcode :: "byte list"
  dm_rcode :: "byte list"
  dm_rcodeID :: u16
  dm_name :: "byte list"
  dm_qtype :: "byte list"
  dm_qclass :: "byte list"
  dm_answers :: "DnsAnswer list"

text \<open>\<open>strings.TrimSuffix(s, ".")\<close>.\<close>

definition trim_dot :: "byte list \<Rightarrow> byte list" where
  "trim_dot s = (if s \<noteq> [] \<and> last s = 46 then butlast s else s)"

fun join_sp :: "byte list list \<Rightarrow> byte list" where
  "join_sp [] = []"
| "join_sp [x] = x"
| "join_sp (x # y # xs) = x @ 32 # join_sp (y # xs)"

definition rdata :: "dns_Body \<Rightarrow> byte list" where
  "rdata b =
     (case b of
        ARes a \<Rightarrow> Addr_String (Addr4 a)
      | AAAARes a \<Rightarrow> Addr_String (Addr6 a [])
      | CNAMERes n \<Rightarrow> trim_dot n
      | NSRes n \<Rightarrow> trim_dot n
      | PTRRes n \<Rightarrow> trim_dot n
      | MXRes n \<Rightarrow> trim_dot n
      | SRVRes n \<Rightarrow> trim_dot n
      | TXTRes ts \<Rightarrow> let s = join_sp ts in if length s > 512 then take 512 s else s
      | SOARes n \<Rightarrow> trim_dot n
      | OtherRes \<Rightarrow> [])"

definition dnsAnswerFrom :: "dns_Resource \<Rightarrow> DnsAnswer" where
  "dnsAnswerFrom rr = \<lparr>da_RData = rdata (rr_Body rr), da_Type = dnsTypeName (rr_Type rr), da_TTL = rr_TTL rr,
     da_Class = dnsClassName (rr_Class rr)\<rparr>"

text \<open>The loop over the answers: every round appends one, and it stops at 32, so the first argument counts
  the rounds that are left.\<close>

fun answer_loop :: "nat \<Rightarrow> 'p dnsmessage \<Rightarrow> 'p \<Rightarrow> DnsAnswer list \<Rightarrow> DnsAnswer list" where
  "answer_loop 0 D p out = out"
| "answer_loop (Suc n) D p out =
     (case Answer D p of None \<Rightarrow> out | Some (rr, p) \<Rightarrow> answer_loop n D p (out @ [dnsAnswerFrom rr]))"

definition parseDNS :: "'p dnsmessage \<Rightarrow> byte list \<Rightarrow> dnsMessage option" where
  "parseDNS D payload =
     (case Start D payload of
        None \<Rightarrow> None
      | Some (hdr, p) \<Rightarrow>
          let m = \<lparr>dm_id = dh_ID hdr, dm_response = dh_Response hdr, dm_opcode = dnsOpcodeName (dh_OpCode hdr),
                   dm_rcode = dnsRCodeName (dh_RCode hdr), dm_rcodeID = dh_RCode hdr, dm_name = [], dm_qtype = [],
                   dm_qclass = [], dm_answers = []\<rparr>;
              (q, p) = Question D p
          in if q = Inl ParseError then None
             else
               let m = (case q of
                          Inr q \<Rightarrow> m\<lparr>dm_name := trim_dot (qu_Name q), dm_qtype := dnsTypeName (qu_Type q),
                                     dm_qclass := dnsClassName (qu_Class q)\<rparr>
                        | Inl _ \<Rightarrow> m)
               in if dm_name m = [] \<and> \<not> dm_response m then None
                  else if \<not> dm_response m then Some m
                  else (case SkipAllQuestions D p of
                          None \<Rightarrow> Some m
                        | Some p \<Rightarrow> Some (m\<lparr>dm_answers := answer_loop 32 D p []\<rparr>)))"

definition buildDNSOCSF :: "options \<Rightarrow> enricher \<Rightarrow> byte list \<Rightarrow> RawDNSEvent \<Rightarrow> dnsMessage \<Rightarrow> procEntry \<Rightarrow> DnsActivity" where
  "buildDNSOCSF opts e uid raw m ent =
     (let username = Name (en_users e) (ent_uid ent);
          actorProc = processFromEntry ent username;
          (activity, code) = (if rd_Kind raw = DNSResponse then (2, ''dns_response'') else (1, ''dns_query''));
          ts = UnixMilli (rd_Timestamp raw);
          ev = \<lparr>ev_Metadata = metadata ''dns'' code uid ts, ev_ClassUID = 4003, ev_ClassName = ''dns_activity'',
            ev_ActivityID = activity, ev_TypeUID = 4003 * 100 + ucast activity, ev_Severity = 1, ev_Time = ts,
            ev_Device = opt_Device opts,
            ev_Actor = \<lparr>ac_Process = actorProc, ac_User = \<lparr>us_Name = username, us_UID = pr_UID actorProc,
              us_Type = userType (ent_uid ent)\<rparr>\<rparr>,
            dn_Query = \<lparr>dq_Name = dm_name m, dq_Type = dm_qtype m, dq_Class = dm_qclass m, dq_Opcode = dm_opcode m\<rparr>,
            dn_Answers = [], dn_RCode = [], dn_RCodeID = 0,
            dn_SrcEndpoint = \<lparr>np_IP = rd_SrcAddr raw, np_Port = rd_SrcPort raw, np_Hostname = []\<rparr>,
            dn_DstEndpoint = \<lparr>np_IP = rd_DstAddr raw, np_Port = rd_DstPort raw, np_Hostname = []\<rparr>,
            dn_TransactionID = dm_id m\<rparr>
      in if rd_Kind raw = DNSResponse
         then ev\<lparr>dn_RCode := dm_rcode m, dn_RCodeID := dm_rcodeID m, dn_Answers := dm_answers m\<rparr> else ev)"

definition handleDNS :: "'p dnsmessage \<Rightarrow> options \<Rightarrow> procfs \<Rightarrow> emission \<Rightarrow> RawDNSEvent \<Rightarrow> enricher \<Rightarrow> enricher" where
  "handleDNS D opts P em raw e =
     (if rd_Kind raw = DNSUnknown then IncDrops e
      else case parseDNS D (rd_Payload raw) of
        None \<Rightarrow> IncDrops e
      | Some m \<Rightarrow> emit em (EvDns (buildDNSOCSF opts e (em_uid em) raw m
               (actorEntry e P (rd_PID raw) (rd_UID raw) (rd_Comm raw)))) e)"

section \<open>What is reported\<close>

lemma dns_event_valid:
  assumes "dm_name m \<noteq> []" "UnixMilli (rd_Timestamp raw) \<noteq> 0"
  shows "Validate (EvDns (buildDNSOCSF opts e uid raw m ent))"
  using assms by (simp add: Validate_def Validate_dns_def buildDNSOCSF_def Let_def)

text \<open>The parser yields these answers and then none.\<close>

fun yields :: "'p dnsmessage \<Rightarrow> 'p \<Rightarrow> dns_Resource list \<Rightarrow> bool" where
  "yields D p [] = (Answer D p = None)"
| "yields D p (r # rs) = (case Answer D p of None \<Rightarrow> False | Some (r', p') \<Rightarrow> r' = r \<and> yields D p' rs)"

lemma answer_loop_yields:
  "yields D p rs \<Longrightarrow> answer_loop n D p out = out @ map dnsAnswerFrom (take n rs)"
proof (induction n arbitrary: p rs out)
  case (Suc n)
  then show ?case by (cases rs) (auto split: option.splits)
qed simp

lemma rdata_address:
  "length a = 4 \<Longrightarrow> ParseAddr (rdata (ARes a)) = Some (Addr4 a)"
  "length a = 16 \<Longrightarrow> ParseAddr (rdata (AAAARes a)) = Some (Addr6 a [])"
  using parse_string [of "Addr4 a"] parse_string [of "Addr6 a []"] by (simp_all add: rdata_def)

text \<open>The address a record holds.\<close>

definition record_addr :: "dns_Resource \<Rightarrow> Addr option" where
  "record_addr rr = (case rr_Body rr of ARes a \<Rightarrow> Some (Addr4 a) | AAAARes a \<Rightarrow> Some (Addr6 a []) | _ \<Rightarrow> None)"

definition wf_body :: "dns_Resource \<Rightarrow> bool" where
  "wf_body rr = (case rr_Body rr of ARes a \<Rightarrow> length a = 4 | AAAARes a \<Rightarrow> length a = 16 | _ \<Rightarrow> True)"

definition answer_faithful :: "dns_Resource \<Rightarrow> DnsAnswer \<Rightarrow> bool" where
  "answer_faithful rr a \<longleftrightarrow> da_TTL a = rr_TTL rr \<and> da_Type a = dnsTypeName (rr_Type rr) \<and>
     (case record_addr rr of None \<Rightarrow> True | Some ip \<Rightarrow> ParseAddr (da_RData a) = Some ip)"

lemma answer_from: "wf_body rr \<Longrightarrow> answer_faithful rr (dnsAnswerFrom rr)"
  using rdata_address by (auto simp: answer_faithful_def dnsAnswerFrom_def record_addr_def wf_body_def split: dns_Body.splits)

text \<open>C32. The event of a DNS response lists the first 32 answers of the message in their order: each with its
  type and time to live, and for an address record with a text that reads back as that address;
  the name in the question loses its final dot.\<close>

theorem dns_answers_reported:
  assumes "rd_Kind raw = DNSResponse" "Start D (rd_Payload raw) = Some (hdr, p)" "dh_Response hdr"
    "Question D p = (Inr q, p1)" "SkipAllQuestions D p1 = Some p2" "yields D p2 rs" "list_all wf_body rs"
    "length (ch_queue (en_out e)) < ch_cap (en_out e)" "\<not> em_done em"
  shows "case drop (length (ch_queue (en_out e))) (ch_queue (en_out (handleDNS D opts P em raw e))) of
      [EvDns ev] \<Rightarrow> list_all2 answer_faithful (take 32 rs) (dn_Answers ev) \<and> dq_Name (dn_Query ev) = trim_dot (qu_Name q) \<and>
        dn_TransactionID ev = dh_ID hdr \<and> dn_RCodeID ev = dh_RCode hdr \<and> md_EventCode (ev_Metadata ev) = ''dns_response''
    | _ \<Rightarrow> False"
proof -
  have "list_all2 answer_faithful (take 32 rs) (map dnsAnswerFrom (take 32 rs))"
    using assms(7) answer_from by (auto simp: list_all2_conv_all_nth list_all_length)
  then show ?thesis
    using assms(1-5) answer_loop_yields [OF assms(6)] emit_sends [OF assms(8,9)]
    by (simp add: handleDNS_def parseDNS_def buildDNSOCSF_def metadata_def Let_def)
qed

text \<open>A parser whose state is the list of answers that are left, for one fixed message.\<close>

definition sample_parser :: "dns_Resource list dnsmessage" where
  "sample_parser = \<lparr>
     Start = (\<lambda>b. if b = [] then None else Some (\<lparr>dh_ID = 7, dh_Response = True, dh_OpCode = 0, dh_RCode = 0\<rparr>,
       [\<lparr>rr_Type = 1, rr_Class = 1, rr_TTL = 60, rr_Body = ARes [1, 2, 3, 4]\<rparr>])),
     Question = (\<lambda>p. (Inr \<lparr>qu_Name = bytes_of ''a.b.'', qu_Type = 1, qu_Class = 1\<rparr>, p)),
     SkipAllQuestions = Some,
     Answer = (\<lambda>p. case p of [] \<Rightarrow> None | r # rs \<Rightarrow> Some (r, rs))\<rparr>"

definition sample_response :: RawDNSEvent where
  "sample_response = \<lparr>rd_Kind = DNSResponse, rd_PID = 301, rd_UID = 0, rd_SrcAddr = [], rd_SrcPort = 53, rd_DstAddr = [],
     rd_DstPort = 4000, rd_Payload = [0], rd_Comm = [], rd_Timestamp = 12000000000\<rparr>"

theorem dns_answers_reported_witness:
  "case drop 0 (ch_queue (en_out (handleDNS sample_parser undefined no_proc (pi_emit sample_inputs) sample_response
      (New ([], []) Map.empty newContainerIndex)))) of
     [EvDns ev] \<Rightarrow> length (dn_Answers ev) = 1 \<and> dq_Name (dn_Query ev) = bytes_of ''a.b''
   | _ \<Rightarrow> False"
proof -
  let ?e = "New ([], []) Map.empty newContainerIndex"
  let ?r = "\<lparr>rr_Type = 1, rr_Class = 1, rr_TTL = 60, rr_Body = ARes [1, 2, 3, 4]\<rparr>"
  let ?h = "\<lparr>dh_ID = 7, dh_Response = True, dh_OpCode = 0, dh_RCode = 0\<rparr>"
  let ?q = "\<lparr>qu_Name = bytes_of ''a.b.'', qu_Type = 1, qu_Class = 1\<rparr>"
  have t: "trim_dot (qu_Name ?q) = bytes_of ''a.b''" by code_simp
  have e: "ch_queue (en_out ?e) = []" by (simp add: New_def)
  have "rd_Kind sample_response = DNSResponse" "Start sample_parser (rd_Payload sample_response) = Some (?h, [?r])"
    "dh_Response ?h" "Question sample_parser [?r] = (Inr ?q, [?r])" "SkipAllQuestions sample_parser [?r] = Some [?r]"
    "yields sample_parser [?r] [?r]" "list_all wf_body [?r]" "length (ch_queue (en_out ?e)) < ch_cap (en_out ?e)"
    "\<not> em_done (pi_emit sample_inputs)"
    by (simp_all add: sample_response_def sample_parser_def wf_body_def New_def sample_inputs_def)
  from dns_answers_reported [OF this, of undefined no_proc, unfolded t e list.size]
  show ?thesis by (auto simp: list_all2_conv_all_nth split: list.splits Event.splits)
qed

text \<open>A query for the root of the name space has the name \<^verbatim>\<open>.\<close>, which becomes empty, and is dropped like a
  query without a question.\<close>

lemma root_queries_dropped:
  assumes "Start D (rd_Payload raw) = Some (hdr, p)" "\<not> dh_Response hdr" "Question D p = (Inr q, p1)" "qu_Name q = [46]"
  shows "handleDNS D opts P em raw e = IncDrops e"
  using assms by (simp add: handleDNS_def parseDNS_def trim_dot_def Let_def)

end
