(* ===== verification/Enricher_Hash.thy ===== *)
theory Enricher_Hash
  imports Enricher_Process "HOL-Library.Multiset"
begin

text \<open>
  \<^verbatim>\<open>agent/internal/enricher/hasher.go\<close>: the pool that computes the hashes of executables. Its goroutines
  interleave between the sections that hold the lock, so an operation is split where it releases
  it: \<open>Submit\<close> into its locked part and its send on the job channel, a worker into taking a job and
  completing it. The result of \<open>stat\<close> and the contents of files are inputs of these steps.
\<close>

section \<open>Operations\<close>

record hashKey =
  hk_dev :: u64
  hk_inode :: u64
  hk_mtime :: u64

record hashJob =
  hj_path :: "byte list"
  hj_key :: hashKey

text \<open>
  The struct, and next to it what its goroutines hold: \<open>hs_sending\<close> are the jobs of submitters between
  the lock and the send, \<open>hs_working\<close> those of the workers. \<open>hs_chans\<close> are the reply channels made so
  far, by number, each with the values sent to it.
\<close>

record hasher =
  hs_workers :: nat
  hs_jobCh :: "hashJob gochan"
  hs_cache :: "hashKey \<rightharpoonup> byte list"
  hs_pending :: "hashKey \<rightharpoonup> nat list"
  hs_closed :: bool
  hs_sending :: "hashJob list"
  hs_working :: "hashJob list"
  hs_chans :: "byte list list list"

definition newHasher :: "nat \<Rightarrow> hasher" where
  "newHasher n =
     (let workers = (if n = 0 then 4 else n)
      in \<lparr>hs_workers = workers, hs_jobCh = \<lparr>ch_cap = workers * 4, ch_queue = []\<rparr>, hs_cache = Map.empty, hs_pending = Map.empty,
          hs_closed = False, hs_sending = [], hs_working = [], hs_chans = []\<rparr>)"

definition notify :: "nat list \<Rightarrow> byte list \<Rightarrow> byte list list list \<Rightarrow> byte list list list" where
  "notify subs v chans = fold (\<lambda>c cs. cs[c := cs ! c @ [v]]) subs chans"

datatype submission = NotSubmitted | CachedHash "byte list" | Subscribed nat

definition Submit :: "byte list \<Rightarrow> hashKey option \<Rightarrow> hasher \<Rightarrow> submission \<times> hasher" where
  "Submit path st h =
     (case st of
        None \<Rightarrow> (NotSubmitted, h)
      | Some key \<Rightarrow>
          (case hs_cache h key of
             Some hash \<Rightarrow> (CachedHash hash, h)
           | None \<Rightarrow>
               let ch = length (hs_chans h); h = h\<lparr>hs_chans := hs_chans h @ [[]]\<rparr>
               in (case hs_pending h key of
                     Some subs \<Rightarrow> (Subscribed ch, h\<lparr>hs_pending := (hs_pending h)(key \<mapsto> subs @ [ch])\<rparr>)
                   | None \<Rightarrow>
                       let h = h\<lparr>hs_pending := (hs_pending h)(key \<mapsto> [ch])\<rparr>
                       in (Subscribed ch,
                           if hs_closed h then h\<lparr>hs_chans := notify [ch] [] (hs_chans h)\<rparr>
                           else h\<lparr>hs_sending := \<lparr>hj_path = path, hj_key = key\<rparr> # hs_sending h\<rparr>))))"

definition failPending :: "hashKey \<Rightarrow> hasher \<Rightarrow> hasher" where
  "failPending key h =
     (let subs = (case hs_pending h key of None \<Rightarrow> [] | Some s \<Rightarrow> s)
      in h\<lparr>hs_pending := (hs_pending h)(key := None), hs_chans := notify subs [] (hs_chans h)\<rparr>)"

definition complete :: "hashKey \<Rightarrow> byte list \<Rightarrow> hasher \<Rightarrow> hasher" where
  "complete key hash h =
     (let subs = (case hs_pending h key of None \<Rightarrow> [] | Some s \<Rightarrow> s);
          h = h\<lparr>hs_pending := (hs_pending h)(key := None)\<rparr>;
          h = (if hash \<noteq> [] then h\<lparr>hs_cache := (hs_cache h)(key \<mapsto> hash)\<rparr> else h)
      in h\<lparr>hs_chans := notify subs hash (hs_chans h)\<rparr>)"

definition send_job :: "nat \<Rightarrow> hasher \<Rightarrow> hasher" where
  "send_job i h =
     (let job = hs_sending h ! i; h = h\<lparr>hs_sending := take i (hs_sending h) @ drop (Suc i) (hs_sending h)\<rparr>
      in if length (ch_queue (hs_jobCh h)) < ch_cap (hs_jobCh h)
         then h\<lparr>hs_jobCh := (hs_jobCh h)\<lparr>ch_queue := ch_queue (hs_jobCh h) @ [job]\<rparr>\<rparr>
         else failPending (hj_key job) h)"

definition take_job :: "hasher \<Rightarrow> hasher" where
  "take_job h = h\<lparr>hs_working := hd (ch_queue (hs_jobCh h)) # hs_working h,
     hs_jobCh := (hs_jobCh h)\<lparr>ch_queue := tl (ch_queue (hs_jobCh h))\<rparr>\<rparr>"

text \<open>A worker ends its job with what \<open>sha256File\<close> returned, the empty string for an error.\<close>

definition finish_job :: "nat \<Rightarrow> byte list \<Rightarrow> hasher \<Rightarrow> hasher" where
  "finish_job i hash h =
     complete (hj_key (hs_working h ! i)) hash (h\<lparr>hs_working := take i (hs_working h) @ drop (Suc i) (hs_working h)\<rparr>)"

definition Close :: "hasher \<Rightarrow> hasher" where
  "Close h = h\<lparr>hs_closed := True\<rparr>"

text \<open>
  The steps of the pool inside the enricher. \<open>Run\<close> waits for the goroutines that submit before it
  closes the hasher, so submissions come before and none is under way at the close.
\<close>

datatype hasher_event = HSubmit "byte list" "hashKey option" | HSend nat | HTake | HDone nat "byte list" | HClose

inductive hasher_step :: "hasher \<Rightarrow> hasher_event \<Rightarrow> hasher \<Rightarrow> bool" where
  step_submit: "\<not> hs_closed h \<Longrightarrow> hasher_step h (HSubmit path st) (snd (Submit path st h))"
| step_send: "i < length (hs_sending h) \<Longrightarrow> hasher_step h (HSend i) (send_job i h)"
| step_take: "ch_queue (hs_jobCh h) \<noteq> [] \<Longrightarrow> length (hs_working h) < hs_workers h \<Longrightarrow> hasher_step h HTake (take_job h)"
| step_done: "i < length (hs_working h) \<Longrightarrow> hasher_step h (HDone i hash) (finish_job i hash h)"
| step_close: "hs_sending h = [] \<Longrightarrow> hasher_step h HClose (Close h)"

inductive hasher_steps :: "hasher \<Rightarrow> hasher_event list \<Rightarrow> hasher \<Rightarrow> bool" where
  steps_none: "hasher_steps h [] h"
| steps_more: "hasher_step h ev h1 \<Longrightarrow> hasher_steps h1 evs h2 \<Longrightarrow> hasher_steps h (ev # evs) h2"

inductive_cases hasher_step_cases: "hasher_step h ev h'"

section \<open>Invariant\<close>

definition outstanding :: "hasher \<Rightarrow> hashJob list" where
  "outstanding h = hs_sending h @ ch_queue (hs_jobCh h) @ hs_working h"

text \<open>Every key that someone waits for has exactly one job, and every channel has had its value or is in
  exactly one list of waiting ones.\<close>

definition subscribers :: "hasher \<Rightarrow> hashKey \<Rightarrow> nat list" where
  "subscribers h k = (case hs_pending h k of None \<Rightarrow> [] | Some s \<Rightarrow> s)"

definition hasher_ok :: "hasher \<Rightarrow> bool" where
  "hasher_ok h \<longleftrightarrow>
     distinct (map hj_key (outstanding h)) \<and> dom (hs_pending h) = set (map hj_key (outstanding h)) \<and>
     (\<forall>k. distinct (subscribers h k)) \<and>
     (\<forall>k c. c \<in> set (subscribers h k) \<longrightarrow> c < length (hs_chans h) \<and> hs_chans h ! c = []) \<and>
     (\<forall>k k' c. c \<in> set (subscribers h k) \<longrightarrow> c \<in> set (subscribers h k') \<longrightarrow> k = k') \<and>
     (\<forall>c < length (hs_chans h). if hs_chans h ! c = [] then \<exists>k. c \<in> set (subscribers h k) else length (hs_chans h ! c) = 1) \<and>
     0 < hs_workers h \<and> length (ch_queue (hs_jobCh h)) \<le> ch_cap (hs_jobCh h) \<and> length (hs_working h) \<le> hs_workers h"

lemma length_notify [simp]: "length (notify subs v chans) = length chans"
  unfolding notify_def by (induction subs arbitrary: chans) simp_all

lemma nth_notify:
  assumes "distinct subs" "\<forall>c \<in> set subs. c < length chans" "c < length chans"
  shows "notify subs v chans ! c = (if c \<in> set subs then chans ! c @ [v] else chans ! c)"
  using assms unfolding notify_def
proof (induction subs arbitrary: chans)
  case (Cons s subs)
  have "fold (\<lambda>c cs. cs[c := cs ! c @ [v]]) subs (chans[s := chans ! s @ [v]]) ! c =
      (if c \<in> set subs then chans[s := chans ! s @ [v]] ! c @ [v] else chans[s := chans ! s @ [v]] ! c)"
    using Cons.prems by (intro Cons.IH) simp_all
  then show ?case using Cons.prems by (cases "c = s") auto
qed simp

text \<open>Removing the job of a key together with its subscribers, who get one value each.\<close>

lemma answer_ok:
  assumes ok: "hasher_ok h" and jobs: "mset (outstanding h) = add_mset j (mset (outstanding h'))"
    and pend: "hs_pending h' = (hs_pending h)(hj_key j := None)"
    and chans: "hs_chans h' = notify (subscribers h (hj_key j)) v (hs_chans h)"
    and rest: "0 < hs_workers h'" "length (ch_queue (hs_jobCh h')) \<le> ch_cap (hs_jobCh h')" "length (hs_working h') \<le> hs_workers h'"
  shows "hasher_ok h'"
proof -
  let ?k = "hj_key j"
  have s: "subscribers h' k = (if k = ?k then [] else subscribers h k)" for k
    using pend by (simp add: subscribers_def)
  have c: "hs_chans h' ! c = (if c \<in> set (subscribers h ?k) then hs_chans h ! c @ [v] else hs_chans h ! c)"
    if "c < length (hs_chans h)" for c
    unfolding chans using ok that by (intro nth_notify) (auto simp: hasher_ok_def)
  have l: "length (hs_chans h') = length (hs_chans h)" unfolding chans by simp
  have m: "mset (map hj_key (outstanding h)) = add_mset ?k (mset (map hj_key (outstanding h')))"
    using jobs by simp
  then have d: "distinct (map hj_key (outstanding h'))" "?k \<notin> set (map hj_key (outstanding h'))"
    "set (map hj_key (outstanding h)) = insert ?k (set (map hj_key (outstanding h')))"
    using ok unfolding hasher_ok_def by (metis distinct.simps(2) mset.simps(2) mset_eq_imp_distinct_iff,
        metis distinct.simps(2) mset.simps(2) mset_eq_imp_distinct_iff, metis list.simps(15) mset.simps(2) mset_eq_setD)
  have "dom (hs_pending h') = set (map hj_key (outstanding h'))"
    using ok d pend by (auto simp: hasher_ok_def)
  moreover have "if hs_chans h' ! x = [] then \<exists>k. x \<in> set (subscribers h' k) else length (hs_chans h' ! x) = 1"
    if x: "x < length (hs_chans h')" for x
  proof -
    have "if hs_chans h ! x = [] then \<exists>k. x \<in> set (subscribers h k) else length (hs_chans h ! x) = 1"
      "x \<in> set (subscribers h ?k) \<Longrightarrow> hs_chans h ! x = []"
      using ok x l by (simp_all add: hasher_ok_def)
    moreover have "y \<noteq> ?k \<Longrightarrow> x \<in> set (subscribers h y) \<Longrightarrow> x \<in> set (subscribers h' y)" for y using s by simp
    ultimately show ?thesis using c [of x] x l by (cases "x \<in> set (subscribers h ?k)") (simp_all, metis)
  qed
  moreover have "x < length (hs_chans h') \<and> hs_chans h' ! x = []" if "x \<in> set (subscribers h' k)" for k x
  proof -
    have k: "k \<noteq> ?k" "x \<in> set (subscribers h k)" using that s [of k] by (auto split: if_splits)
    then have "x < length (hs_chans h)" "hs_chans h ! x = []" "x \<notin> set (subscribers h ?k)"
      using ok unfolding hasher_ok_def by blast+
    then show ?thesis using c [of x] l by simp
  qed
  moreover have "k = k'" if "x \<in> set (subscribers h' k)" "x \<in> set (subscribers h' k')" for k k' x
    using ok that unfolding hasher_ok_def s by (metis empty_iff list.set(1))
  moreover have "distinct (subscribers h' k)" for k using ok unfolding hasher_ok_def s by simp
  ultimately show ?thesis using d(1) rest unfolding hasher_ok_def by blast
qed

lemma subscribe_ok:
  assumes ok: "hasher_ok h" and p: "hs_pending h' = (hs_pending h)(k \<mapsto> subscribers h k @ [length (hs_chans h)])"
    and c: "hs_chans h' = hs_chans h @ [[]]"
    and o: "distinct (map hj_key (outstanding h'))" "set (map hj_key (outstanding h')) = insert k (set (map hj_key (outstanding h)))"
    and r: "hs_workers h' = hs_workers h" "hs_jobCh h' = hs_jobCh h" "hs_working h' = hs_working h"
  shows "hasher_ok h'"
proof -
  let ?n = "length (hs_chans h)"
  have s: "subscribers h' x = (if x = k then subscribers h k @ [?n] else subscribers h x)" for x
    using p by (simp add: subscribers_def)
  have old: "x \<in> set (subscribers h y) \<Longrightarrow> x < ?n \<and> hs_chans h ! x = []"
    "x \<in> set (subscribers h y) \<Longrightarrow> x \<in> set (subscribers h z) \<Longrightarrow> y = z" "distinct (subscribers h y)" for x y z
    using ok unfolding hasher_ok_def by blast+
  have "if hs_chans h' ! x = [] then \<exists>y. x \<in> set (subscribers h' y) else length (hs_chans h' ! x) = 1"
    if "x < length (hs_chans h')" for x
  proof (cases "x = ?n")
    case True
    then show ?thesis using c s [of k] by (auto intro!: exI [of _ k])
  next
    case False
    then have x: "x < ?n" using that c by simp
    then have "if hs_chans h ! x = [] then \<exists>y. x \<in> set (subscribers h y) else length (hs_chans h ! x) = 1"
      using ok unfolding hasher_ok_def by blast
    moreover have "x \<in> set (subscribers h y) \<Longrightarrow> x \<in> set (subscribers h' y)" for y using s by auto
    ultimately show ?thesis using x c by (simp add: nth_append split: if_splits) blast
  qed
  moreover have "x < length (hs_chans h') \<and> hs_chans h' ! x = []" if "x \<in> set (subscribers h' y)" for x y
    using that old(1) [of x y] old(1) [of x k] c s [of y] by (auto simp: nth_append split: if_splits)
  moreover have "y = z" if "x \<in> set (subscribers h' y)" "x \<in> set (subscribers h' z)" for x y z
    using that old(1) [of x] old(2) [of x] unfolding s by (auto split: if_splits)
  moreover have "distinct (subscribers h' y)" for y using old(1,3) unfolding s by auto
  moreover have "dom (hs_pending h') = set (map hj_key (outstanding h'))" using ok o(2) p by (auto simp: hasher_ok_def)
  ultimately show ?thesis using ok o(1) r unfolding hasher_ok_def by auto
qed

lemma subscribers_none: "hs_pending h k = None \<Longrightarrow> subscribers h k = []"
  by (simp add: subscribers_def)

lemma submit_ok:
  assumes "hasher_ok h" "\<not> hs_closed h"
  shows "hasher_ok (snd (Submit path st h))"
proof (cases st)
  case (Some key)
  show ?thesis
  proof (cases "hs_cache h key")
    case None
    note new = Some None
    have d: "distinct (map hj_key (outstanding h))" "dom (hs_pending h) = set (map hj_key (outstanding h))"
      using assms(1) by (simp_all add: hasher_ok_def)
    show ?thesis
    proof (cases "hs_pending h key")
      case None
      then have k: "key \<notin> set (map hj_key (outstanding h))" using d(2) by blast
      show ?thesis using new None assms(2) d(1) k
        by (intro subscribe_ok [OF assms(1), of _ key]) (auto simp: Submit_def Let_def subscribers_none outstanding_def)
    next
      case (Some subs)
      then have k: "key \<in> set (map hj_key (outstanding h))" using d(2) by blast
      show ?thesis using new Some d(1) k
        by (intro subscribe_ok [OF assms(1), of _ key]) (auto simp: Submit_def Let_def subscribers_def outstanding_def)
    qed
  qed (use Some assms in \<open>simp add: Submit_def\<close>)
qed (use assms in \<open>simp add: Submit_def\<close>)

lemma mset_without: "i < length xs \<Longrightarrow> mset xs = add_mset (xs ! i) (mset (take i xs @ drop (Suc i) xs))"
  by (metis Cons_nth_drop_Suc append_take_drop_id mset.simps(2) mset_append union_mset_add_mset_right)

lemma failPending_subscribers:
  "failPending k h = h\<lparr>hs_pending := (hs_pending h)(k := None), hs_chans := notify (subscribers h k) [] (hs_chans h)\<rparr>"
  by (simp add: failPending_def Let_def subscribers_def)

lemma send_ok:
  assumes "hasher_ok h" "i < length (hs_sending h)"
  shows "hasher_ok (send_job i h)"
proof (cases "length (ch_queue (hs_jobCh h)) < ch_cap (hs_jobCh h)")
  case True
  have "mset (outstanding (send_job i h)) = mset (outstanding h)"
    using True mset_without [OF assms(2)] by (simp add: send_job_def outstanding_def Let_def)
  then have m: "mset (map hj_key (outstanding (send_job i h))) = mset (map hj_key (outstanding h))" by simp
  have "subscribers (send_job i h) = subscribers h" "hs_chans (send_job i h) = hs_chans h" "hs_pending (send_job i h) = hs_pending h"
    using True by (auto simp: send_job_def subscribers_def Let_def)
  then show ?thesis
    using assms(1) True mset_eq_setD [OF m] mset_eq_imp_distinct_iff [OF m]
    unfolding hasher_ok_def by (auto simp: send_job_def Let_def)
next
  case False
  have "subscribers (h\<lparr>hs_sending := x\<rparr>) = subscribers h" for x by (auto simp: subscribers_def)
  then show ?thesis
    using assms(1) False mset_without [OF assms(2)]
    by (intro answer_ok [OF assms(1), of "hs_sending h ! i" _ "[]"])
      (auto simp: send_job_def Let_def failPending_subscribers outstanding_def hasher_ok_def)
qed

lemma take_ok:
  assumes "hasher_ok h" "ch_queue (hs_jobCh h) \<noteq> []" "length (hs_working h) < hs_workers h"
  shows "hasher_ok (take_job h)"
proof -
  obtain j q where q: "ch_queue (hs_jobCh h) = j # q" using assms(2) by (cases "ch_queue (hs_jobCh h)") auto
  have "subscribers (take_job h) = subscribers h" by (auto simp: take_job_def subscribers_def)
  then show ?thesis using assms(1,3) q unfolding hasher_ok_def by (auto simp: take_job_def outstanding_def)
qed

lemma finish_ok:
  assumes "hasher_ok h" "i < length (hs_working h)"
  shows "hasher_ok (finish_job i hash h)"
proof -
  have "subscribers (h\<lparr>hs_working := x\<rparr>) = subscribers h" for x by (auto simp: subscribers_def)
  then show ?thesis
    using assms(1) mset_without [OF assms(2)] assms(2)
    by (intro answer_ok [OF assms(1), of "hs_working h ! i" _ hash])
      (auto simp: finish_job_def complete_def Let_def subscribers_def outstanding_def hasher_ok_def split: option.splits)
qed

lemma close_ok: "hasher_ok h \<Longrightarrow> hasher_ok (Close h)"
proof -
  have "subscribers (Close h) = subscribers h" by (auto simp: Close_def subscribers_def)
  then show "hasher_ok h \<Longrightarrow> hasher_ok (Close h)" by (simp add: hasher_ok_def Close_def outstanding_def)
qed

lemma hasher_step_ok: "hasher_step h ev h' \<Longrightarrow> hasher_ok h \<Longrightarrow> hasher_ok h'"
  by (induction rule: hasher_step.induct) (simp_all add: submit_ok send_ok take_ok finish_ok close_ok)

lemma hasher_steps_ok: "hasher_steps h evs h' \<Longrightarrow> hasher_ok h \<Longrightarrow> hasher_ok h'"
  by (induction rule: hasher_steps.induct) (simp_all add: hasher_step_ok)

lemma newHasher_ok: "hasher_ok (newHasher n)"
  by (simp add: hasher_ok_def newHasher_def outstanding_def subscribers_def Let_def)

section \<open>Every submission is answered\<close>

text \<open>The steps that are not up to the callers: sends, takes and completions.\<close>

definition pool_event :: "hasher_event \<Rightarrow> bool" where
  "pool_event ev = (case ev of HSend _ \<Rightarrow> True | HTake \<Rightarrow> True | HDone _ _ \<Rightarrow> True | _ \<Rightarrow> False)"

definition pool_work :: "hasher \<Rightarrow> nat" where
  "pool_work h = 3 * length (hs_sending h) + 2 * length (ch_queue (hs_jobCh h)) + length (hs_working h)"

lemma failPending_jobs [simp]:
  "hs_sending (failPending k h) = hs_sending h" "hs_jobCh (failPending k h) = hs_jobCh h" "hs_working (failPending k h) = hs_working h"
  by (simp_all add: failPending_def Let_def)

lemma complete_jobs [simp]:
  "hs_sending (complete k v h) = hs_sending h" "hs_jobCh (complete k v h) = hs_jobCh h" "hs_working (complete k v h) = hs_working h"
  by (simp_all add: complete_def Let_def)

lemma pool_step_work:
  assumes "hasher_step h ev h'" "pool_event ev"
  shows "pool_work h' < pool_work h"
  using assms
proof (induction rule: hasher_step.induct)
  case (step_take h)
  then show ?case by (cases "ch_queue (hs_jobCh h)") (simp_all add: pool_work_def take_job_def)
qed (auto simp: pool_event_def pool_work_def send_job_def finish_job_def Let_def)

lemma pool_progress:
  assumes "outstanding h \<noteq> []" "0 < hs_workers h"
  shows "\<exists>ev h'. pool_event ev \<and> hasher_step h ev h'"
proof -
  consider "hs_sending h \<noteq> []" | "hs_working h \<noteq> []" | "ch_queue (hs_jobCh h) \<noteq> []" "length (hs_working h) < hs_workers h"
    using assms by (cases "hs_working h") (auto simp: outstanding_def)
  then show ?thesis
  proof cases
    case 1
    then have "hasher_step h (HSend 0) (send_job 0 h)" by (intro step_send) simp
    moreover have "pool_event (HSend 0)" by (simp add: pool_event_def)
    ultimately show ?thesis by blast
  next
    case 2
    then have "hasher_step h (HDone 0 []) (finish_job 0 [] h)" by (intro step_done) simp
    moreover have "pool_event (HDone 0 [])" by (simp add: pool_event_def)
    ultimately show ?thesis by blast
  next
    case 3
    moreover have "pool_event HTake" by (simp add: pool_event_def)
    ultimately show ?thesis using step_take [of h] by blast
  qed
qed

lemma answered:
  assumes "hasher_ok h"
  shows "list_all (\<lambda>vs. length vs \<le> 1) (hs_chans h)" "outstanding h = [] \<Longrightarrow> list_all (\<lambda>vs. length vs = 1) (hs_chans h)"
proof -
  have c: "if hs_chans h ! c = [] then \<exists>k. c \<in> set (subscribers h k) else length (hs_chans h ! c) = 1" if "c < length (hs_chans h)" for c
    using assms that unfolding hasher_ok_def by blast
  then show "list_all (\<lambda>vs. length vs \<le> 1) (hs_chans h)" by (fastforce simp: list_all_length split: if_splits)
  assume "outstanding h = []"
  then have "subscribers h k = []" for k using assms by (auto simp: hasher_ok_def subscribers_def)
  then show "list_all (\<lambda>vs. length vs = 1) (hs_chans h)" using c by (fastforce simp: list_all_length split: if_splits)
qed

text \<open>C28. Whatever the interleaving of submitters, workers and the close, every channel that \<open>Submit\<close> hands out
  receives its value exactly once: never a second one, while channels are unanswered the pool has a
  step to take, every step of the pool lowers the work that is left, and when none is left all
  channels are answered.\<close>

theorem submissions_answered_once:
  assumes "hasher_steps (newHasher n) evs h"
  shows "list_all (\<lambda>vs. length vs \<le> 1) (hs_chans h) \<and>
    (if outstanding h = [] then list_all (\<lambda>vs. length vs = 1) (hs_chans h) else \<exists>ev h'. pool_event ev \<and> hasher_step h ev h') \<and>
    (\<forall>ev h'. pool_event ev \<and> hasher_step h ev h' \<longrightarrow> pool_work h' < pool_work h)"
proof -
  have ok: "hasher_ok h" by (rule hasher_steps_ok [OF assms newHasher_ok])
  then have "0 < hs_workers h" by (simp add: hasher_ok_def)
  then show ?thesis using answered [OF ok] pool_progress [of h] pool_step_work by auto
qed

definition sample_key :: hashKey where
  "sample_key = \<lparr>hk_dev = 1, hk_inode = 2, hk_mtime = 3\<rparr>"

lemma hash_read_late:
  assumes "hs_cache h key = None" "hs_pending h key = None" "\<not> hs_closed h" "hs_sending h = []" "hs_working h = []"
    "ch_queue (hs_jobCh h) = []" "0 < ch_cap (hs_jobCh h)" "0 < hs_workers h" "v \<noteq> []"
  shows "\<exists>h'. hasher_steps h [HSubmit path (Some key), HSend 0, HTake, HDone 0 v] h' \<and>
    hs_cache h' = (hs_cache h)(key \<mapsto> v) \<and> hs_chans h' = hs_chans h @ [[v]] \<and> outstanding h' = []"
proof -
  let ?h1 = "snd (Submit path (Some key) h)"
  let ?h2 = "send_job 0 ?h1"
  let ?h3 = "take_job ?h2"
  let ?h4 = "finish_job 0 v ?h3"
  have h1: "hs_sending ?h1 = [\<lparr>hj_path = path, hj_key = key\<rparr>]" "hs_jobCh ?h1 = hs_jobCh h" "hs_working ?h1 = []"
    "hs_workers ?h1 = hs_workers h" "hs_pending ?h1 key = Some [length (hs_chans h)]" "hs_chans ?h1 = hs_chans h @ [[]]"
    "hs_cache ?h1 = hs_cache h"
    using assms by (simp_all add: Submit_def Let_def)
  have h2: "hs_sending ?h2 = []" "ch_queue (hs_jobCh ?h2) = [\<lparr>hj_path = path, hj_key = key\<rparr>]" "hs_working ?h2 = []"
    "hs_workers ?h2 = hs_workers h" "hs_pending ?h2 key = Some [length (hs_chans h)]" "hs_chans ?h2 = hs_chans h @ [[]]"
    "hs_cache ?h2 = hs_cache h"
    using assms h1 by (simp_all add: send_job_def Let_def)
  have h3: "hs_sending ?h3 = []" "ch_queue (hs_jobCh ?h3) = []" "hs_working ?h3 = [\<lparr>hj_path = path, hj_key = key\<rparr>]"
    "hs_pending ?h3 key = Some [length (hs_chans h)]" "hs_chans ?h3 = hs_chans h @ [[]]" "hs_cache ?h3 = hs_cache h"
    using h2 by (simp_all add: take_job_def)
  have h4: "hs_cache ?h4 = (hs_cache h)(key \<mapsto> v)" "hs_chans ?h4 = hs_chans h @ [[v]]" "outstanding ?h4 = []"
    using h3 assms(9) by (simp_all add: finish_job_def complete_def notify_def outstanding_def Let_def)
  have s: "hasher_step h (HSubmit path (Some key)) ?h1" "hasher_step ?h1 (HSend 0) ?h2" "hasher_step ?h2 HTake ?h3"
    "hasher_step ?h3 (HDone 0 v) ?h4"
    using h1 h2 h3 assms(3,8) step_submit step_send step_take step_done by simp_all
  have "hasher_steps h [HSubmit path (Some key), HSend 0, HTake, HDone 0 v] ?h4"
    by (rule steps_more [OF s(1) steps_more [OF s(2) steps_more [OF s(3) steps_more [OF s(4) steps_none]]]])
  then show ?thesis using h4 by blast
qed

theorem submissions_answered_once_witness:
  "\<exists>h. hasher_steps (newHasher 2) [HSubmit [47] (Some sample_key), HSend 0, HTake, HDone 0 [97]] h \<and>
     hs_chans h = [[[97]]] \<and> list_all (\<lambda>vs. length vs = 1) (hs_chans h)"
proof -
  obtain h where h: "hasher_steps (newHasher 2) [HSubmit [47] (Some sample_key), HSend 0, HTake, HDone 0 [97]] h"
    "hs_chans h = hs_chans (newHasher 2) @ [[[97]]]" "outstanding h = []"
    using hash_read_late [of "newHasher 2" sample_key "[97]" "[47]"] by (auto simp: newHasher_def Let_def)
  from submissions_answered_once [OF h(1)] h show ?thesis by (auto simp: newHasher_def Let_def)
qed



text \<open>A submission after the close leaves its channel in the waiting list although it has been answered, so
  that a second one for the same file joins the list and is never answered.\<close>

lemma submit_after_close_unanswered:
  assumes "hs_closed h" "hs_cache h key = None" "hs_pending h key = None"
  shows "case Submit path (Some key) h of (_, h1) \<Rightarrow> case Submit path (Some key) h1 of (r, h2) \<Rightarrow>
    r = Subscribed (Suc (length (hs_chans h))) \<and> hs_chans h2 = hs_chans h @ [[[]], []] \<and> outstanding h2 = outstanding h"
  using assms by (simp add: Submit_def notify_def outstanding_def Let_def)

end
