(* ===== verification/Enricher_Run.thy ===== *)
theory Enricher_Run
  imports Enricher_Net Enricher_File Enricher_Auth Enricher_Dns Enricher_Hash
begin

text \<open>
  The loop of the enricher (\<open>Run\<close> of \<^verbatim>\<open>agent/internal/enricher/enricher.go\<close>) over its inputs: the seven kinds
  of raw events, hashes that arrive, sweeps of the cache, reloads of the user table and of the file
  filter, and the rule engine that takes events from the channel; the checks of \<^verbatim>\<open>pkg/ocsf\<close> on what
  it sends; and the dispatch of process events to the workers. A worker handles one event at a time, and what two workers do at once
  concerns different pids, so that handlers are single steps.
\<close>

section \<open>The loop\<close>

datatype enricher_input =
    InProcess process_inputs RawProcessEvent
  | InHash nat hash_wait emission emission
  | InNet procfs emission RawNetEvent
  | InKernel procfs emission RawKernelEvent
  | InCgroup procfs emission RawCgroupEvent
  | InFile procfs emission RawFileEvent
  | InAuth procfs emission RawAuthEvent
  | InDns procfs emission RawDNSEvent
  | InReloadFilter "byte list list \<times> byte list list"
  | InSwapFilter
  | InSweep int
  | InReload "byte list option"
  | InTake nat

type_synonym enricher_state = "enricher \<times> ProcessActivity list"

text \<open>The second component of the state holds the events whose goroutines wait for a hash.\<close>

definition enricher_step :: "'p dnsmessage \<Rightarrow> options \<Rightarrow> enricher_input \<Rightarrow> enricher_state \<Rightarrow> enricher_state" where
  "enricher_step D opts inp s =
     (let (e, waiting) = s in
      case inp of
        InProcess i raw \<Rightarrow>
          let (e, ev) = handleProcess opts i raw e
          in (e, waiting @ (case ev of None \<Rightarrow> [] | Some ev \<Rightarrow> [ev]))
      | InHash k w em em' \<Rightarrow>
          if k < length waiting then (awaitHash w em em' (waiting ! k) e, take k waiting @ drop (Suc k) waiting)
          else (e, waiting)
      | InNet P em raw \<Rightarrow> (handleNet opts P em raw e, waiting)
      | InKernel P em raw \<Rightarrow> (handleKernel opts P em raw e, waiting)
      | InCgroup P em raw \<Rightarrow> (handleCgroup opts P em raw e, waiting)
      | InFile P em raw \<Rightarrow> (handleFile opts P em raw e, waiting)
      | InAuth P em raw \<Rightarrow> (handleAuth opts P em raw e, waiting)
      | InDns P em raw \<Rightarrow> (handleDNS D opts P em raw e, waiting)
      | InReloadFilter fc \<Rightarrow> (ReloadFileFilter fc e, waiting)
      | InSwapFilter \<Rightarrow> (swapFilter e, waiting)
      | InSweep now \<Rightarrow> (e\<lparr>en_cache := fst (evictExpired now (CacheEvictionGrace opts) (en_cache e))\<rparr>, waiting)
      | InReload file \<Rightarrow> (e\<lparr>en_users := reload file\<rparr>, waiting)
      | InTake k \<Rightarrow> (e\<lparr>en_out := (en_out e)\<lparr>ch_queue := drop k (ch_queue (en_out e))\<rparr>\<rparr>, waiting))"

definition enricher_run :: "'p dnsmessage \<Rightarrow> options \<Rightarrow> enricher_input list \<Rightarrow> enricher_state \<Rightarrow> enricher_state" where
  "enricher_run D opts inps s = foldl (\<lambda>s inp. enricher_step D opts inp s) s inps"

section \<open>Invariant\<close>

text \<open>
  The cache and the index are well-formed, every container has a name, the channel keeps its
  bound, and everything sent or waiting for its hash is valid.
\<close>

definition index_named :: "containerIndex \<Rightarrow> bool" where
  "index_named c \<longleftrightarrow> index_ok c \<and> known c [] = None"

definition run_ok :: "options \<Rightarrow> enricher_state \<Rightarrow> bool" where
  "run_ok opts s \<longleftrightarrow> enricher_ok (fst s) \<and> index_named (en_containers (fst s)) \<and> dv_HostID (opt_Device opts) \<noteq> [] \<and>
     list_all Validate (ch_queue (en_out (fst s))) \<and> list_all Validate_process (snd s)"

definition input_ok :: "'p dnsmessage \<Rightarrow> enricher_input \<Rightarrow> bool" where
  "input_ok D inp =
     (case inp of
        InProcess i raw \<Rightarrow> rp_PID raw \<noteq> 0 \<and> UnixMilli (rp_Timestamp raw) \<noteq> 0
      | InNet P em raw \<Rightarrow> protoName (rn_Proto raw) \<noteq> '''' \<and> UnixMilli (rn_Timestamp raw) \<noteq> 0
      | InKernel P em raw \<Rightarrow> UnixMilli (rk_Timestamp raw) \<noteq> 0
      | InCgroup P em raw \<Rightarrow> UnixMilli (rc_Timestamp raw) \<noteq> 0
      | InFile P em raw \<Rightarrow> (rf_Kind raw = FileRename \<longrightarrow> rf_NewPath raw \<noteq> []) \<and> UnixMilli (rf_Timestamp raw) \<noteq> 0
      | InAuth P em raw \<Rightarrow> ra_User raw \<noteq> [] \<and> UnixMilli (ra_Timestamp raw) \<noteq> 0
      | InDns P em raw \<Rightarrow> pred_option (\<lambda>m. dm_name m \<noteq> []) (parseDNS D (rd_Payload raw)) \<and> UnixMilli (rd_Timestamp raw) \<noteq> 0
      | _ \<Rightarrow> True)"

lemma scan_named: "container_scan lst ps = Some (cid, rt, own) \<Longrightarrow> cid \<noteq> []"
proof (induction ps arbitrary: lst)
  case (Cons p up)
  have len: "(if length (take 64 b) = 64 \<and> Q then Some (m', take 64 b) else None) = Some (m, cid') \<Longrightarrow> cid' \<noteq> []"
    for b :: "byte list" and Q and m' m cid' :: "byte list" by (auto split: if_splits)
  have "cid' \<noteq> []" if "containerCgroupRE p = Some (m, cid')" for m cid'
    using that unfolding containerCgroupRE_def Let_def by (rule len)
  moreover have "m \<noteq> []" if "machineCgroupRE p = Some ([], m)" for m
    using that by (auto simp: machineCgroupRE_def Let_def no_newline_def split: if_splits)
  ultimately show ?case using Cons by (auto simp: Let_def split: if_splits option.splits)
qed simp

lemma index_calls:
  assumes "index_named c"
  shows "index_named (fst (created raw c))" "index_named (fst (removed raw c))" "index_named (fst (markStarted cid c))"
    "created raw c = (c', Some st) \<Longrightarrow> cs_id st \<noteq> []" "removed raw c = (c', Some st) \<Longrightarrow> cs_id st \<noteq> []"
    "markStarted cid c = (c', Some st) \<Longrightarrow> cs_id st \<noteq> []"
proof -
  have ok: "index_ok c" "known c [] = None" using assms by (simp_all add: index_named_def)
  have named: "k \<noteq> []" if "parseContainerCgroup (rc_Path raw) = Some (k, rt, own)" for k rt own
    using that scan_named by (auto simp: parseContainerCgroup_def)
  have stored: "cs_id st \<noteq> []" if "known c k = Some st" for k st
    using ok that by (auto simp: index_ok_def)
  show "index_named (fst (created raw c))"
    using index_steps(1) [OF ok(1)] ok named
    by (auto simp: index_named_def created_def Let_def split: option.splits)
  show "index_named (fst (removed raw c))"
    using index_steps(2) [OF ok(1)] ok by (auto simp: index_named_def removed_def Let_def split: option.splits)
  show "index_named (fst (markStarted cid c))"
    using index_steps(3) [OF ok(1)] ok by (auto simp: index_named_def markStarted_def Let_def split: option.splits)
  show "created raw c = (c', Some st) \<Longrightarrow> cs_id st \<noteq> []"
    using named by (auto simp: created_def Let_def split: option.splits if_splits)
  show "removed raw c = (c', Some st) \<Longrightarrow> cs_id st \<noteq> []"
    using stored by (auto simp: removed_def Let_def split: option.splits if_splits)
  show "markStarted cid c = (c', Some st) \<Longrightarrow> cs_id st \<noteq> []"
    using stored by (auto simp: markStarted_def Let_def split: option.splits if_splits)
qed

lemma emit_valid:
  "Validate ev \<Longrightarrow> list_all Validate (ch_queue (en_out e)) \<Longrightarrow> list_all Validate (ch_queue (en_out (emit em ev e)))"
  by (simp add: emit_def)

lemma IncDrops_fields [simp]:
  "en_cache (IncDrops e) = en_cache e" "en_containers (IncDrops e) = en_containers e" "en_out (IncDrops e) = en_out e"
  by (simp_all add: IncDrops_def)

lemma container_event_valid:
  assumes "cs_id st \<noteq> []" "UnixMilli at \<noteq> 0" "act \<noteq> 0"
  shows "Validate (EvContainer (buildContainerOCSF opts e uid act code st actor at))"
  using assms by (simp add: Validate_def Validate_container_def buildContainerOCSF_def Let_def)

lemma hash_valid [simp]: "Validate_process (set_hash h ev) = Validate_process ev"
  by (simp add: Validate_process_def)

lemma followup_valid: "Validate_process ev \<Longrightarrow> Validate_process (buildHashFollowup uid ev h)"
  by (simp add: Validate_process_def buildHashFollowup_def Let_def)

text \<open>One lemma for each handler.\<close>

lemma process_event_valid:
  assumes "cache_ok (en_cache e)" "rp_PID raw \<noteq> 0" "UnixMilli (rp_Timestamp raw) \<noteq> 0" "dv_HostID (opt_Device opts) \<noteq> []"
    "rp_Kind raw \<noteq> ProcUnknown"
  shows "Validate_process (process_event_of opts i raw e)"
proof -
  have "ent_pid (merged_entry opts i raw e) = rp_PID raw"
    using cache_get_entry [OF assms(1)] by (auto simp: merged_entry_def Let_def split: option.split)
  then show ?thesis using assms(2-5)
    by (cases "rp_Kind raw") (simp_all add: Validate_process_def process_event_of_def activityID_def)
qed

lemma after_start_run:
  assumes "enricher_ok e" "index_named (en_containers e)" "list_all Validate (ch_queue (en_out e))"
    "UnixMilli (rp_Timestamp raw) \<noteq> 0"
  shows "index_named (en_containers (after_start opts i raw e)) \<and> list_all Validate (ch_queue (en_out (after_start opts i raw e)))"
proof -
  let ?k = "ent_container (merged_entry opts i raw e)"
  obtain c r where ms: "markStarted ?k (en_containers e) = (c, r)" by force
  have named: "index_named c" using index_calls(3) [OF assms(2), of ?k] ms by simp
  show ?thesis
  proof (cases r)
    case None
    then show ?thesis using assms ms named by (simp add: after_start_def Let_def)
  next
    case (Some st)
    have "cs_id st \<noteq> []" using index_calls(6) [OF assms(2)] ms Some by blast
    then show ?thesis using assms ms Some named
      by (simp add: after_start_def Let_def emitContainer_def emit_valid container_event_valid)
  qed
qed

lemma handleProcess_run:
  assumes "run_ok opts (e, waiting)" "rp_PID raw \<noteq> 0" "UnixMilli (rp_Timestamp raw) \<noteq> 0"
  shows "run_ok opts (fst (handleProcess opts i raw e), case snd (handleProcess opts i raw e) of None \<Rightarrow> [] | Some ev \<Rightarrow> [ev])"
proof (cases "rp_Kind raw = ProcUnknown")
  case True
  then show ?thesis using assms by (simp add: run_ok_def handleProcess_def enricher_ok_def)
next
  case False
  have a: "enricher_ok e" "index_named (en_containers e)" "list_all Validate (ch_queue (en_out e))" "cache_ok (en_cache e)"
    "dv_HostID (opt_Device opts) \<noteq> []" using assms(1) by (simp_all add: run_ok_def enricher_ok_def)
  note v = process_event_valid [OF a(4) assms(2,3) a(5) False]
  note s = after_start_run [OF a(1-3) assms(3)] after_start_ok [OF a(1)]
  have "list_all Validate (ch_queue (en_out (emit em (EvProcess ev) (after_start opts i raw e))))" if "Validate_process ev" for em ev
    using that s by (intro emit_valid) (simp_all add: Validate_def)
  then show ?thesis
    unfolding handleProcess_cases [OF a(4) False] Let_def run_ok_def using v s a(5) emission_ok
    by (cases "pi_submit i") simp_all
qed

lemma handleCgroup_run:
  assumes "run_ok opts (e, waiting)" "UnixMilli (rc_Timestamp raw) \<noteq> 0"
  shows "run_ok opts (handleCgroup opts P em raw e, waiting)"
proof -
  have a: "enricher_ok e" "index_named (en_containers e)" using assms(1) by (simp_all add: run_ok_def)
  have ok: "run_ok opts (e\<lparr>en_containers := c\<rparr>, waiting)" if "index_named c" for c
    using assms(1) that by (simp add: run_ok_def enricher_ok_def index_named_def)
  have sent: "run_ok opts (emitContainer opts em act code st en (rc_Timestamp raw) (e\<lparr>en_containers := c\<rparr>), waiting)"
    if "index_named c" "cs_id st \<noteq> []" "act \<noteq> 0" for c st act code en
    using ok [OF that(1)] container_event_valid [OF that(2) assms(2) that(3)]
    by (simp add: run_ok_def emitContainer_def emission_ok emit_valid)
  obtain c r c' r' where cr: "created raw (en_containers e) = (c, r)" "removed raw (en_containers e) = (c', r')" by fastforce
  have "index_named c" "index_named c'" using index_calls(1,2) [OF a(2), of raw] cr by simp_all
  moreover have "r = Some st \<Longrightarrow> cs_id st \<noteq> []" "r' = Some st \<Longrightarrow> cs_id st \<noteq> []" for st
    using index_calls(4,5) [OF a(2), of raw] cr by blast+
  moreover have "run_ok opts (IncDrops e, waiting)" using assms(1) by (simp add: run_ok_def enricher_ok_def)
  ultimately show ?thesis using cr ok sent
    by (auto simp: handleCgroup_def Let_def split: RawCgroupKind.split option.split)
qed

lemma awaitHash_run:
  assumes "run_ok opts (e, waiting)" "Validate_process ev"
  shows "run_ok opts (awaitHash w em em' ev e, waiting)"
proof -
  have sent: "run_ok opts (emit em (EvProcess ev) e, waiting)" if "Validate_process ev" "run_ok opts (e, waiting)" for em ev e
    using that by (simp add: run_ok_def emission_ok emit_valid Validate_def)
  show ?thesis using assms
    by (auto simp: awaitHash_def Let_def followup_valid intro!: sent split: hash_wait.split option.split)
qed

lemma net_event_valid:
  assumes "protoName (rn_Proto raw) \<noteq> ''''" "UnixMilli (rn_Timestamp raw) \<noteq> 0" "rn_Kind raw \<noteq> NetUnknown"
  shows "Validate (EvNet (buildNetOCSF opts e uid raw ent))"
  using assms by (cases "rn_Kind raw")
    (simp_all add: Validate_def Validate_net_def buildNetOCSF_def Let_def netActivityID_def case_prod_beta)

lemma kernel_event_valid:
  assumes "UnixMilli (rk_Timestamp raw) \<noteq> 0" "rk_Kind raw \<noteq> KernelUnknown"
  shows "Validate (EvKernel (buildKernelOCSF opts e uid raw ent))"
  using assms by (cases "rk_Kind raw")
    (simp_all add: Validate_def Validate_kernel_def buildKernelOCSF_def Let_def kernelActivityID_def probeTypeName_def)

lemma step_run:
  assumes "run_ok opts s" "input_ok D inp"
  shows "run_ok opts (enricher_step D opts inp s)"
proof -
  obtain e waiting where s: "s = (e, waiting)" by force
  have keep: "run_ok opts (e', waiting')" if "run_ok opts (e', w)" "list_all Validate_process waiting'" for e' w waiting'
    using that by (simp add: run_ok_def)
  have w: "list_all Validate_process waiting" using assms(1) s by (simp add: run_ok_def)
  have sent: "run_ok opts (emit em ev e, waiting)" if "Validate ev" for em ev
    using assms(1) s that by (simp add: run_ok_def emission_ok emit_valid)
  have drop: "run_ok opts (IncDrops e, waiting)" using assms(1) s by (simp add: run_ok_def enricher_ok_def)
  show ?thesis
  proof (cases inp)
    case (InProcess i raw)
    have "run_ok opts (fst (handleProcess opts i raw e), case snd (handleProcess opts i raw e) of None \<Rightarrow> [] | Some ev \<Rightarrow> [ev])"
      using assms s InProcess by (intro handleProcess_run [where waiting = waiting]) (simp_all add: input_ok_def)
    then show ?thesis using InProcess s w
      by (auto simp: enricher_step_def case_prod_beta Let_def run_ok_def)
  next
    case (InHash k h em em')
    have "list_all Validate_process (take k waiting @ drop (Suc k) waiting)"
      using w by (auto simp: list_all_iff dest: in_set_takeD in_set_dropD)
    moreover have "k < length waiting \<Longrightarrow> Validate_process (waiting ! k)" using w by (simp add: list_all_length)
    ultimately show ?thesis using InHash s assms(1) keep awaitHash_run
      by (simp add: enricher_step_def)
  next
    case (InCgroup P em raw)
    then show ?thesis using assms s handleCgroup_run by (simp add: enricher_step_def input_ok_def)
  next
    case (InSweep now)
    then show ?thesis using assms s pc.inv_evict by (simp add: enricher_step_def run_ok_def enricher_ok_def)
  next
    case (InReload f)
    then show ?thesis using assms s by (simp add: enricher_step_def run_ok_def enricher_ok_def)
  next
    case (InTake k)
    then show ?thesis using assms s
      by (auto simp: enricher_step_def run_ok_def enricher_ok_def list_all_iff dest: in_set_dropD)
  next
    case (InNet P em raw)
    then show ?thesis using assms(2) s drop sent net_event_valid by (simp add: enricher_step_def handleNet_def input_ok_def)
  next
    case (InKernel P em raw)
    then show ?thesis using assms s drop sent kernel_event_valid by (simp add: enricher_step_def handleKernel_def input_ok_def)
  next
    case (InFile P em raw)
    have r: "run_ok opts (handleFile opts P em raw e, waiting)" if k: "rf_Kind raw \<noteq> FileUnknown"
    proof -
      have "Validate (EvFile (buildFileOCSF opts e uid raw ent path (resolvePath P (rf_PID raw) (rf_NewPath raw))))" for uid ent path
        using assms(2) InFile k by (intro file_event_valid) (auto simp: input_ok_def resolvePath_nonempty)
      then show ?thesis using assms(1) s sent by (simp add: handleFile_cases [OF k] Let_def)
    qed
    then show ?thesis using InFile s drop by (cases "rf_Kind raw = FileUnknown") (simp_all add: enricher_step_def handleFile_def)
  next
    case (InAuth P em raw)
    then show ?thesis using assms s drop sent auth_event_valid by (simp add: enricher_step_def handleAuth_def input_ok_def)
  next
    case (InDns P em raw)
    then show ?thesis using assms(2) s drop sent dns_event_valid
      by (auto simp: enricher_step_def handleDNS_def input_ok_def split: option.split)
  next
    case (InReloadFilter fc)
    then show ?thesis using assms s by (simp add: enricher_step_def run_ok_def enricher_ok_def)
  next
    case InSwapFilter
    then show ?thesis using assms s by (simp add: enricher_step_def run_ok_def enricher_ok_def)
  qed
qed

lemma run_keeps:
  "run_ok opts s \<Longrightarrow> list_all (input_ok D) inps \<Longrightarrow> run_ok opts (enricher_run D opts inps s)"
  unfolding enricher_run_def by (induction inps arbitrary: s) (simp_all add: step_run)


definition sample_options :: options where
  "sample_options = \<lparr>ParentChainDepth = 8,
     opt_Device = \<lparr>dv_HostID = [104], dv_Hostname = [], dv_OSName = [], dv_OSVersion = [], dv_KernelVersion = [], dv_Arch = []\<rparr>,
     CaptureEnv = False, CacheEvictionGrace = 30000000000, selfPID = 0\<rparr>"

definition sample_connect :: RawNetEvent where
  "sample_connect = \<lparr>rn_Kind = NetTCPConnect, rn_PID = 301, rn_Proto = 6, rn_SrcAddr = [49], rn_SrcPort = 40000,
     rn_DstAddr = [50], rn_DstPort = 443, rn_Timestamp = 12000000000\<rparr>"

definition sample_feed :: "enricher_input list" where
  "sample_feed = [InProcess sample_inputs (sample_exec 301 0 0), InNet no_proc (pi_emit sample_inputs) sample_connect,
     InFile no_proc (pi_emit sample_inputs) (sample_write [47, 120]), InSweep 13000000000, InTake 1]"


section \<open>The life of a process\<close>

definition concerns :: "u32 \<Rightarrow> enricher_input \<Rightarrow> bool" where
  "concerns pid inp = (case inp of InProcess i raw \<Rightarrow> rp_PID raw = pid | _ \<Rightarrow> False)"

lemma handleProcess_cache:
  assumes "cache_ok (en_cache e)" "rp_Kind raw \<noteq> ProcUnknown"
  shows "cache_get (en_cache (fst (handleProcess opts i raw e))) =
    (cache_get (en_cache e))(rp_PID raw \<mapsto> merged_entry opts i raw e)"
  unfolding handleProcess_cases [OF assms] Let_def
  by (simp add: updated_cache_get [OF assms(1)] split: submit.split)

lemma step_cache:
  assumes "enricher_ok (fst s)" "\<not> concerns pid inp" "cache_get (en_cache (fst s)) pid = Some ent" "\<not> ent_exited ent"
  shows "cache_get (en_cache (fst (enricher_step D opts inp s))) pid = Some ent"
proof -
  obtain e waiting where s: "s = (e, waiting)" by force
  have c: "cache_ok (en_cache e)" using assms(1) s by (simp add: enricher_ok_def)
  show ?thesis
  proof (cases inp)
    case (InProcess i raw)
    then have "rp_PID raw \<noteq> pid" using assms(2) by (simp add: concerns_def)
    then have "cache_get (en_cache (fst (handleProcess opts i raw e))) pid = Some ent"
      using assms(3) s handleProcess_cache [OF c] by (cases "rp_Kind raw = ProcUnknown") (simp_all add: handleProcess_def)
    then show ?thesis using InProcess s by (simp add: enricher_step_def case_prod_beta Let_def)
  next
    case (InSweep now)
    have "\<not> expired now (CacheEvictionGrace opts) ent" using assms(4) by (simp add: expired_def)
    then show ?thesis using InSweep assms(3) s pc.evict_keeps [OF c] by (simp add: enricher_step_def)
  next
    case (InHash k h em em')
    have "en_cache (awaitHash h em em' ev e) = en_cache e" for ev
      by (simp add: awaitHash_def Let_def split: hash_wait.split option.split)
    then show ?thesis using InHash assms(3) s by (simp add: enricher_step_def)
  next
    case (InCgroup P em raw)
    have "en_cache (handleCgroup opts P em raw e) = en_cache e"
      by (simp add: handleCgroup_def emitContainer_def Let_def split: RawCgroupKind.split prod.split option.split)
    then show ?thesis using InCgroup assms(3) s by (simp add: enricher_step_def)
  qed (use assms(3) s in \<open>simp_all add: enricher_step_def handleNet_def handleKernel_def handleFile_def handleAuth_def handleDNS_def
    Let_def split: option.split\<close>)
qed

lemma run_cache:
  assumes "run_ok opts s" "list_all (input_ok D) inps" "list_all (\<lambda>inp. \<not> concerns pid inp) inps"
    "cache_get (en_cache (fst s)) pid = Some ent" "\<not> ent_exited ent"
  shows "cache_get (en_cache (fst (enricher_run D opts inps s))) pid = Some ent"
  using assms
proof (induction inps arbitrary: s)
  case (Cons inp inps)
  have "enricher_ok (fst s)" using Cons.prems(1) by (simp add: run_ok_def)
  then have "cache_get (en_cache (fst (enricher_step D opts inp s))) pid = Some ent"
    by (rule step_cache) (use Cons.prems in simp_all)
  then show ?case using Cons.IH [of "enricher_step D opts inp s"] Cons.prems
    by (simp add: enricher_run_def step_run)
qed (simp add: enricher_run_def)

lemma merged_exit:
  assumes "cache_ok (en_cache e)" "rp_Kind raw = ProcExit" "cache_get (en_cache e) (rp_PID raw) = Some old"
  shows "ent_pid (merged_entry opts i raw e) = rp_PID raw" "ent_exe (merged_entry opts i raw e) = ent_exe old"
    "ent_cmdline (merged_entry opts i raw e) = ent_cmdline old"
    "ent_container (merged_entry opts i raw e) = ent_container old"
proof -
  have "ent_exe (process_entry opts e (pi_proc i) raw) = []" "ent_cmdline (process_entry opts e (pi_proc i) raw) = []"
    using assms(2) by (simp_all add: process_entry_def Let_def entry_of_def)
  then show "ent_pid (merged_entry opts i raw e) = rp_PID raw" "ent_exe (merged_entry opts i raw e) = ent_exe old"
    "ent_cmdline (merged_entry opts i raw e) = ent_cmdline old"
    "ent_container (merged_entry opts i raw e) = ent_container old"
    using assms cache_get_entry [OF assms(1,3)] by (simp_all add: merged_entry_def Let_def)
qed

text \<open>C26. The event of an exit names the program that exited: whatever happens to other processes between
  the exec of a process and its exit, sweeps of the cache included, the exit event carries the
  executable and the command line of that exec, although the exit record itself has neither.\<close>

theorem exit_event_names_program:
  assumes "run_ok opts s" "input_ok D (InProcess i raw)" "rp_Kind raw = ProcExec" "rp_Exe raw \<noteq> []" "rp_Cmdline raw \<noteq> []"
    "list_all (input_ok D) inps" "list_all (\<lambda>inp. \<not> concerns (rp_PID raw) inp) inps"
    "rp_Kind rawx = ProcExit" "rp_PID rawx = rp_PID raw"
    "sends i' (fst (enricher_run D opts inps (enricher_step D opts (InProcess i raw) s)))"
  shows "case reported (handleProcess opts i' rawx (fst (enricher_run D opts inps (enricher_step D opts (InProcess i raw) s)))) of
      None \<Rightarrow> False
    | Some ev \<Rightarrow> pr_PID (pa_Process ev) = rp_PID raw \<and> pr_Cmdline (pa_Process ev) = rp_Cmdline raw \<and>
        (case pr_File (pa_Process ev) of None \<Rightarrow> False | Some f \<Rightarrow> fi_Path f = rp_Exe raw) \<and>
        md_EventCode (ev_Metadata ev) = ''exit'' \<and> pr_ContainerID (pa_Process ev) = ent_container (merged_entry opts i raw (fst s))"
proof -
  let ?s1 = "enricher_step D opts (InProcess i raw) s"
  let ?e2 = "fst (enricher_run D opts inps ?s1)" and ?old = "merged_entry opts i raw (fst s)"
  have c: "cache_ok (en_cache (fst s))" using assms(1) by (simp add: run_ok_def enricher_ok_def)
  have s1: "run_ok opts ?s1" by (rule step_run [OF assms(1,2)])
  have k: "rp_Kind raw \<noteq> ProcUnknown" "rp_Kind rawx \<noteq> ProcUnknown" using assms(3,8) by simp_all
  have "cache_get (en_cache (fst ?s1)) (rp_PID raw) = Some ?old"
    using handleProcess_cache [OF c k(1)] by (simp add: enricher_step_def case_prod_beta Let_def)
  moreover have "\<not> ent_exited ?old"
    using assms(3) by (simp add: merged_entry_def Let_def process_entry_def entry_of_def split: option.split)
  ultimately have old: "cache_get (en_cache ?e2) (rp_PID rawx) = Some ?old"
    unfolding assms(9) by (rule run_cache [OF s1 assms(6,7)])
  have ok: "enricher_ok ?e2" using run_keeps [OF s1 assms(6)] by (simp add: run_ok_def)
  then have c2: "cache_ok (en_cache ?e2)" by (simp add: enricher_ok_def)
  note m = merged_exit [OF c2 assms(8) old, of opts i'] merged_exec [OF c assms(3), of opts i]
  show ?thesis
    by (rule exec_event [OF ok assms(10) k(2)])
      (use assms m in \<open>auto simp: process_event_of_def metadata_def eventCode_def split: option.splits\<close>)
qed

lemma handleProcess_queue:
  assumes "cache_ok (en_cache e)"
  shows "length (ch_queue (en_out (fst (handleProcess opts i raw e)))) \<le> length (ch_queue (en_out e)) + 2"
    "ch_cap (en_out (fst (handleProcess opts i raw e))) = ch_cap (en_out e)"
proof (atomize (full), cases "rp_Kind raw = ProcUnknown")
  case False
  have "length (ch_queue (en_out (emit em ev e'))) \<le> Suc (length (ch_queue (en_out e')))" for em ev e'
    by (simp add: emit_def)
  then have "length (ch_queue (en_out (emit em ev (after_start opts i raw e)))) \<le> length (ch_queue (en_out e)) + 2" for em ev
    using after_start_queue [of opts i raw e] by (metis add_2_eq_Suc' le_trans Suc_le_mono)
  then show "length (ch_queue (en_out (fst (handleProcess opts i raw e)))) \<le> length (ch_queue (en_out e)) + 2 \<and>
      ch_cap (en_out (fst (handleProcess opts i raw e))) = ch_cap (en_out e)"
    unfolding handleProcess_cases [OF assms False] Let_def using after_start_queue [of opts i raw e]
    by (simp add: le_SucI split: submit.split)
qed (simp add: handleProcess_def)

theorem exit_event_names_program_witness:
  "case reported (handleProcess sample_options sample_inputs (sample_exec 301 0 0\<lparr>rp_Kind := ProcExit\<rparr>)
      (fst (enricher_run sample_parser sample_options [InSweep 99000000000]
        (enricher_step sample_parser sample_options (InProcess sample_inputs (sample_exec 301 0 0)) (New ([], []) Map.empty newContainerIndex, []))))) of
     None \<Rightarrow> False
   | Some ev \<Rightarrow> pr_Cmdline (pa_Process ev) = [115, 104] \<and> md_EventCode (ev_Metadata ev) = ''exit''"
proof -
  let ?s = "(New ([], []) Map.empty newContainerIndex, [])" and ?raw = "sample_exec 301 0 0"
  let ?s2 = "enricher_run sample_parser sample_options [InSweep 99000000000] (enricher_step sample_parser sample_options (InProcess sample_inputs ?raw) ?s)"
  have ok: "run_ok sample_options ?s"
    using New_ok [OF index_ok_new, of "([], [])" Map.empty] index_ok_new
    by (simp add: run_ok_def index_named_def New_def newContainerIndex_def sample_options_def)
  have raw: "input_ok sample_parser (InProcess sample_inputs ?raw)" "rp_Kind ?raw = ProcExec" "rp_Exe ?raw \<noteq> []" "rp_Cmdline ?raw = [115, 104]"
    "rp_Cmdline ?raw \<noteq> []" by (simp_all add: input_ok_def sample_exec_def UnixMilli_def)
  have mid: "list_all (input_ok sample_parser) [InSweep 99000000000]" "list_all (\<lambda>inp. \<not> concerns (rp_PID ?raw) inp) [InSweep 99000000000]"
    by (simp_all add: input_ok_def concerns_def)
  have c: "cache_ok (en_cache (New ([], []) Map.empty newContainerIndex))" using New_ok [OF index_ok_new] by (simp add: enricher_ok_def)
  have "sends sample_inputs (fst ?s2)"
    using handleProcess_queue [OF c, of sample_options sample_inputs ?raw]
    by (simp add: enricher_run_def enricher_step_def case_prod_beta Let_def sends_def sample_inputs_def New_def)
  from exit_event_names_program [OF ok raw(1-3,5) mid _ _ this, of "?raw\<lparr>rp_Kind := ProcExit\<rparr>"] raw(4)
  show ?thesis by (auto split: option.splits)
qed

section \<open>Dispatch to the workers\<close>

text \<open>The inboxes of the workers, the drops, and the events in the order in which workers took them.\<close>

record pool =
  po_inboxes :: "RawProcessEvent gochan list"
  po_drops :: nat
  po_handled :: "RawProcessEvent list"

definition new_pool :: "nat \<Rightarrow> nat \<Rightarrow> pool" where
  "new_pool workers cap = \<lparr>po_inboxes = replicate workers \<lparr>ch_cap = cap, ch_queue = []\<rparr>, po_drops = 0, po_handled = []\<rparr>"

definition inbox_of :: "pool \<Rightarrow> u32 \<Rightarrow> nat" where
  "inbox_of p pid = unat pid mod length (po_inboxes p)"

definition dispatchProcess :: "bool \<Rightarrow> bool \<Rightarrow> RawProcessEvent \<Rightarrow> pool \<Rightarrow> pool" where
  "dispatchProcess dn send_first raw p =
     (let k = inbox_of p (rp_PID raw); c = po_inboxes p ! k in
      if length (ch_queue c) < ch_cap c \<and> (send_first \<or> \<not> dn)
      then p\<lparr>po_inboxes := (po_inboxes p)[k := c\<lparr>ch_queue := ch_queue c @ [raw]\<rparr>]\<rparr>
      else if dn then p
      else p\<lparr>po_drops := po_drops p + 1\<rparr>)"

text \<open>A worker takes the first event of its inbox.\<close>

definition work :: "nat \<Rightarrow> pool \<Rightarrow> pool" where
  "work k p =
     (if k < length (po_inboxes p)
      then case ch_queue (po_inboxes p ! k) of
          [] \<Rightarrow> p
        | raw # rest \<Rightarrow> p\<lparr>po_inboxes := (po_inboxes p)[k := (po_inboxes p ! k)\<lparr>ch_queue := rest\<rparr>],
                           po_handled := po_handled p @ [raw]\<rparr>
      else p)"

datatype pool_step = Dispatch bool bool RawProcessEvent | Work nat

fun pool_do :: "pool_step \<Rightarrow> pool \<Rightarrow> pool" where
  "pool_do (Dispatch dn send_first raw) p = dispatchProcess dn send_first raw p"
| "pool_do (Work k) p = work k p"

definition pool_run :: "pool_step list \<Rightarrow> pool \<Rightarrow> pool" where
  "pool_run steps p = foldl (\<lambda>p st. pool_do st p) p steps"

definition dispatched :: "pool_step list \<Rightarrow> RawProcessEvent list" where
  "dispatched steps = List.map_filter (\<lambda>st. case st of Dispatch _ _ raw \<Rightarrow> Some raw | Work _ \<Rightarrow> None) steps"

definition of_pid :: "u32 \<Rightarrow> RawProcessEvent list \<Rightarrow> RawProcessEvent list" where
  "of_pid pid raws = filter (\<lambda>raw. rp_PID raw = pid) raws"

text \<open>The events of a pid that workers took or that wait in its inbox.\<close>

definition pid_events :: "u32 \<Rightarrow> pool \<Rightarrow> RawProcessEvent list" where
  "pid_events pid p = of_pid pid (po_handled p) @ of_pid pid (ch_queue (po_inboxes p ! inbox_of p pid))"

definition pool_ok :: "pool \<Rightarrow> bool" where
  "pool_ok p \<longleftrightarrow> 0 < length (po_inboxes p) \<and>
     (\<forall>k < length (po_inboxes p). \<forall>raw \<in> set (ch_queue (po_inboxes p ! k)). inbox_of p (rp_PID raw) = k)"

lemma inbox_less: "pool_ok p \<Longrightarrow> inbox_of p pid < length (po_inboxes p)"
  by (simp add: pool_ok_def inbox_of_def)

lemma work_events:
  assumes "pool_ok p"
  shows "pool_ok (work k p) \<and> pid_events pid (work k p) = pid_events pid p \<and> po_drops (work k p) = po_drops p"
proof (cases "k < length (po_inboxes p) \<and> ch_queue (po_inboxes p ! k) \<noteq> []")
  case False
  then show ?thesis using assms by (auto simp: work_def split: list.split)
next
  case True
  then obtain raw rest where q: "ch_queue (po_inboxes p ! k) = raw # rest" by (cases "ch_queue (po_inboxes p ! k)") auto
  have k: "k < length (po_inboxes p)" using True by simp
  have sh: "inbox_of p (rp_PID raw) = k" using assms q k by (auto simp: pool_ok_def)
  have w: "work k p = p\<lparr>po_inboxes := (po_inboxes p)[k := (po_inboxes p ! k)\<lparr>ch_queue := rest\<rparr>], po_handled := po_handled p @ [raw]\<rparr>"
    using k q by (simp add: work_def)
  have i: "inbox_of (work k p) = inbox_of p" by (simp add: w inbox_of_def fun_eq_iff)
  have "pool_ok (work k p)"
    using assms q k by (auto simp: pool_ok_def i nth_list_update) (auto simp: w nth_list_update split: if_splits)
  moreover have "pid_events pid (work k p) = pid_events pid p"
    unfolding pid_events_def i using q k sh by (cases "inbox_of p pid = k") (auto simp: w of_pid_def)
  ultimately show ?thesis by (simp add: w)
qed

lemma dispatch_events:
  assumes "pool_ok p"
  shows "pool_ok (dispatchProcess dn send_first raw p) \<and>
    pid_events pid (dispatchProcess dn send_first raw p) \<in> {pid_events pid p, pid_events pid p @ of_pid pid [raw]} \<and>
    (if dn \<or> po_drops (dispatchProcess dn send_first raw p) \<noteq> po_drops p then True
     else pid_events pid (dispatchProcess dn send_first raw p) = pid_events pid p @ of_pid pid [raw]) \<and>
    po_drops p \<le> po_drops (dispatchProcess dn send_first raw p)"
proof -
  let ?k = "inbox_of p (rp_PID raw)"
  let ?c = "po_inboxes p ! ?k"
  let ?p = "p\<lparr>po_inboxes := (po_inboxes p)[?k := ?c\<lparr>ch_queue := ch_queue ?c @ [raw]\<rparr>]\<rparr>"
  have k: "?k < length (po_inboxes p)" by (rule inbox_less [OF assms])
  have i: "inbox_of ?p = inbox_of p" by (simp add: inbox_of_def fun_eq_iff)
  have ok: "pool_ok ?p"
    using assms k by (auto simp: pool_ok_def i nth_list_update)
  have ev: "pid_events pid ?p = pid_events pid p @ of_pid pid [raw]"
    using k by (cases "inbox_of p pid = ?k") (auto simp: pid_events_def i of_pid_def)
  have dr: "pool_ok (p\<lparr>po_drops := n\<rparr>)" "pid_events pid (p\<lparr>po_drops := n\<rparr>) = pid_events pid p" for n
    using assms by (simp_all add: pool_ok_def pid_events_def inbox_of_def)
  show ?thesis using assms ok ev dr by (simp add: dispatchProcess_def Let_def)
qed

lemma pool_order:
  assumes "pool_ok p"
  shows "pool_ok (pool_run steps p) \<and> po_drops p \<le> po_drops (pool_run steps p) \<and>
    (\<exists>new. pid_events pid (pool_run steps p) = pid_events pid p @ new \<and> subseq new (of_pid pid (dispatched steps)) \<and>
      (po_drops (pool_run steps p) = po_drops p \<and> list_all (\<lambda>st. case st of Dispatch dn _ _ \<Rightarrow> \<not> dn | _ \<Rightarrow> True) steps \<longrightarrow>
       new = of_pid pid (dispatched steps)))"
  using assms
proof (induction steps arbitrary: p)
  case Nil
  then show ?case by (simp add: pool_run_def dispatched_def of_pid_def map_filter_simps)
next
  case (Cons st steps)
  show ?case
  proof (cases st)
    case (Work k)
    then show ?thesis using Cons.IH [of "work k p"] work_events [OF Cons.prems, of k pid]
      by (simp add: pool_run_def dispatched_def map_filter_simps)
  next
    case (Dispatch dn sf raw)
    let ?p = "dispatchProcess dn sf raw p"
    have d: "of_pid pid (dispatched (st # steps)) = of_pid pid [raw] @ of_pid pid (dispatched steps)"
      by (simp add: Dispatch dispatched_def map_filter_simps of_pid_def)
    note e = dispatch_events [OF Cons.prems, of dn sf raw pid]
    obtain new where new: "pool_ok (pool_run steps ?p)" "po_drops ?p \<le> po_drops (pool_run steps ?p)"
      "pid_events pid (pool_run steps ?p) = pid_events pid ?p @ new" "subseq new (of_pid pid (dispatched steps))"
      "po_drops (pool_run steps ?p) = po_drops ?p \<and> list_all (\<lambda>st. case st of Dispatch dn _ _ \<Rightarrow> \<not> dn | _ \<Rightarrow> True) steps \<longrightarrow>
        new = of_pid pid (dispatched steps)"
      using Cons.IH [of ?p] e by blast
    have r: "pool_run (st # steps) p = pool_run steps ?p" by (simp add: pool_run_def Dispatch)
    from e consider (kept) "pid_events pid ?p = pid_events pid p @ of_pid pid [raw]"
      | (lost) "pid_events pid ?p = pid_events pid p" "dn \<or> po_drops ?p \<noteq> po_drops p" by (auto split: if_splits)
    then show ?thesis
    proof cases
      case kept
      have "subseq (of_pid pid [raw] @ new) (of_pid pid (dispatched (st # steps)))"
        unfolding d using new(4) by (simp add: list_emb_append_mono)
      then show ?thesis unfolding r d using new e kept Dispatch by (intro conjI exI [of _ "of_pid pid [raw] @ new"]) auto
    next
      case lost
      have "subseq new (of_pid pid (dispatched (st # steps)))"
        unfolding d by (rule list_emb_append2 [OF new(4)])
      then show ?thesis unfolding r d using new e lost Dispatch by (intro conjI exI [of _ new]) auto
    qed
  qed
qed

text \<open>C27. The worker pool keeps the order of the events of each pid: for any interleaving of dispatches and
  workers, the events of a pid that workers took, followed by those that still wait, are a
  subsequence of the dispatched ones, and all of them when none was dropped and the context was
  not cancelled.\<close>

theorem workers_keep_pid_order:
  assumes "0 < workers"
  shows "subseq (pid_events pid (pool_run steps (new_pool workers cap))) (of_pid pid (dispatched steps)) \<and>
    (if po_drops (pool_run steps (new_pool workers cap)) = 0 \<and> list_all (\<lambda>st. case st of Dispatch dn _ _ \<Rightarrow> \<not> dn | _ \<Rightarrow> True) steps
     then pid_events pid (pool_run steps (new_pool workers cap)) = of_pid pid (dispatched steps) else True)"
proof -
  have "pool_ok (new_pool workers cap)" using assms by (simp add: pool_ok_def new_pool_def)
  moreover have "pid_events pid (new_pool workers cap) = []" "po_drops (new_pool workers cap) = 0"
    using assms by (simp_all add: pid_events_def new_pool_def of_pid_def inbox_of_def)
  ultimately show ?thesis using pool_order [of "new_pool workers cap" steps pid] by auto
qed

theorem workers_keep_pid_order_witness:
  "po_handled (pool_run [Dispatch False True (sample_exec 7 0 0), Dispatch False True (sample_exec 7 1 0), Work 1] (new_pool 2 8)) =
     [sample_exec 7 0 0] \<and>
   pid_events 7 (pool_run [Dispatch False True (sample_exec 7 0 0), Dispatch False True (sample_exec 7 1 0), Work 1] (new_pool 2 8)) =
     [sample_exec 7 0 0, sample_exec 7 1 0]"
proof -
  let ?steps = "[Dispatch False True (sample_exec 7 0 0), Dispatch False True (sample_exec 7 1 0), Work 1]"
  have run: "po_handled (pool_run ?steps (new_pool 2 8)) = [sample_exec 7 0 0]" "po_drops (pool_run ?steps (new_pool 2 8)) = 0"
    by code_simp+
  have d: "of_pid 7 (dispatched ?steps) = [sample_exec 7 0 0, sample_exec 7 1 0]"
    by (simp add: of_pid_def dispatched_def map_filter_simps sample_exec_def)
  show ?thesis using workers_keep_pid_order [of 2 7 ?steps 8] run d by simp
qed

end
