(* ===== verification/Float32.thy ===== *)
theory Float32
  imports Complex_Main "HOL-Library.Log_Nat"
begin

text \<open>
  Go's \<open>float32\<close> as rational numbers: a result is the exact one rounded to 24 significant bits, to
  nearest and ties to even. Overflow and subnormal numbers do not occur in the sources that use
  it, which divide event counts.
\<close>

text \<open>The exponent of a positive number: \<open>2 powi binade x \<le> x < 2 powi (binade x + 1)\<close>.\<close>

definition binade :: "rat \<Rightarrow> int" where
  "binade x =
     (let (a, b) = quotient_of x;
          p = int (floorlog 2 (nat a)) - int (floorlog 2 (nat b))
      in if 2 powi p \<le> x then p else p - 1)"

definition round_even :: "rat \<Rightarrow> int" where
  "round_even x =
     (let f = \<lfloor>x\<rfloor>; d = x - of_int f
      in if d < 1 / 2 then f else if d > 1 / 2 then f + 1 else if even f then f else f + 1)"

definition round_positive :: "rat \<Rightarrow> rat" where
  "round_positive x = (let u = 2 powi (binade x - 23) in of_int (round_even (x / u)) * u)"

definition float32 :: "rat \<Rightarrow> rat" where
  "float32 x = (if x = 0 then 0 else if x < 0 then - round_positive (- x) else round_positive x)"

lemma floorlog_powi:
  assumes "0 < a"
  shows "2 powi (int (floorlog 2 (nat a)) - 1) \<le> (of_int a :: rat)" "(of_int a :: rat) < 2 powi int (floorlog 2 (nat a))"
proof -
  let ?n = "floorlog 2 (nat a)"
  have f: "2 ^ (?n - 1) \<le> nat a" "nat a < 2 ^ ?n" using floorlog_bounds [of "nat a" 2] assms by simp_all
  then have n: "0 < ?n" using assms by (cases ?n) auto
  have a: "(of_int a :: rat) = of_nat (nat a)" using assms by simp
  have p: "of_nat (2 ^ k) = (2 :: rat) ^ k" for k by simp
  show "(of_int a :: rat) < 2 powi int ?n"
    unfolding a power_int_of_nat p [symmetric] of_nat_less_iff by (rule f(2))
  have e: "int ?n - 1 = int (?n - 1)" using n by simp
  show "2 powi (int ?n - 1) \<le> (of_int a :: rat)"
    unfolding a e power_int_of_nat p [symmetric] of_nat_le_iff by (rule f(1))
qed

lemma powi_less_cancel: "(2 :: rat) powi a < 2 powi b \<Longrightarrow> a < b"
  by (metis linorder_not_less one_le_numeral power_int_increasing)

lemma binade_bounds:
  assumes "0 < x"
  shows "2 powi binade x \<le> x" "x < 2 powi (binade x + 1)"
proof -
  obtain a b where q: "quotient_of x = (a, b)" by force
  have b: "0 < b" using quotient_of_denom_pos [OF q] .
  have x: "x = of_int a / of_int b" by (rule quotient_of_div [OF q])
  have a: "0 < a" using assms b by (simp add: x zero_less_divide_iff)
  let ?A = "int (floorlog 2 (nat a))" and ?B = "int (floorlog 2 (nat b))"
  let ?p = "?A - ?B"
  have "(of_int a / of_int b :: rat) < 2 powi ?A / 2 powi (?B - 1)"
    by (rule frac_less) (use floorlog_powi [OF a] floorlog_powi [OF b] a b in simp_all)
  also have "\<dots> = (2 :: rat) powi (?p + 1)" by (subst power_int_diff [symmetric]) (simp_all add: algebra_simps)
  finally have up: "x < 2 powi (?p + 1)" unfolding x .
  have "2 powi (?A - 1) / 2 powi ?B < (of_int a / of_int b :: rat)"
    by (rule frac_less2) (use floorlog_powi [OF a] floorlog_powi [OF b] a b in simp_all)
  moreover have "(2 :: rat) powi (?A - 1) / 2 powi ?B = 2 powi (?p - 1)"
    by (subst power_int_diff [symmetric]) (simp_all add: algebra_simps)
  ultimately have lo: "2 powi (?p - 1) < x" unfolding x by simp
  have bin: "binade x = (if 2 powi ?p \<le> x then ?p else ?p - 1)" by (simp add: binade_def q)
  show "2 powi binade x \<le> x" "x < 2 powi (binade x + 1)"
    unfolding bin using up lo by auto
qed

lemma round_even_ge:
  assumes "of_int n \<le> x"
  shows "n \<le> round_even x"
proof -
  have "n \<le> \<lfloor>x\<rfloor>" using assms by (simp add: le_floor_iff)
  then show ?thesis by (simp add: round_even_def Let_def)
qed

lemma round_even_int [simp]: "round_even (of_int n) = n"
  by (simp add: round_even_def)

text \<open>A number of 24 significant bits is not changed, and rounding does not fall below one.\<close>

lemma binade_unique:
  assumes "0 < x" "2 powi p \<le> x" "x < 2 powi (p + 1)"
  shows "binade x = p"
proof -
  have "2 powi binade x < (2 :: rat) powi (p + 1)" using binade_bounds(1) [OF assms(1)] assms(3) by simp
  moreover have "2 powi p < (2 :: rat) powi (binade x + 1)" using binade_bounds(2) [OF assms(1)] assms(2) by simp
  ultimately show ?thesis using powi_less_cancel [of "binade x" "p + 1"] powi_less_cancel [of p "binade x + 1"] by simp
qed

lemma round_above:
  assumes "0 < r" "r = of_int m * 2 powi (binade r - 23)" "r \<le> x"
  shows "r \<le> round_positive x"
proof -
  have x: "0 < x" using assms by simp
  let ?u = "2 powi (binade x - 23) :: rat"
  have u: "0 < ?u" by simp
  have "(2 :: rat) powi (binade x - 23 + 23) = ?u * 2 powi 23" by (rule power_int_add) simp
  then have top: "(2 :: rat) powi binade x = of_int (2 ^ 23) * ?u" by simp
  have "2 powi binade r < (2 :: rat) powi (binade x + 1)"
    using binade_bounds(1) [OF assms(1)] binade_bounds(2) [OF x] assms(3) by simp
  from powi_less_cancel [OF this] have le: "binade r \<le> binade x" by simp
  show ?thesis
  proof (cases "binade r = binade x")
    case True
    then have "of_int m \<le> x / ?u" using assms(2,3) u by (simp add: pos_le_divide_eq)
    from round_even_ge [OF this] have "of_int m * ?u \<le> of_int (round_even (x / ?u)) * ?u" using u by simp
    then show ?thesis using assms(2) True by (simp add: round_positive_def Let_def)
  next
    case False
    have "r < 2 powi (binade r + 1)" by (rule binade_bounds(2) [OF assms(1)])
    also have "\<dots> \<le> 2 powi binade x" using le False by (intro power_int_increasing) simp_all
    also have "\<dots> = of_int (2 ^ 23) * ?u" by (rule top)
    also have "\<dots> \<le> round_positive x"
    proof -
      have "of_int (2 ^ 23) \<le> x / ?u"
        unfolding pos_le_divide_eq [OF u] using binade_bounds(1) [OF x] unfolding top .
      from round_even_ge [OF this] have "(of_int (2 ^ 23) :: rat) \<le> of_int (round_even (x / ?u))" by (simp only: of_int_le_iff)
      then show ?thesis unfolding round_positive_def Let_def by (rule mult_right_mono) simp
    qed
    finally show ?thesis by simp
  qed
qed

lemma float32_count:
  assumes "0 \<le> n" "n < 2 ^ 24"
  shows "float32 (of_int n) = of_int n"
proof (cases "n = 0")
  case False
  let ?x = "of_int n :: rat"
  have x: "0 < ?x" using False assms by simp
  have "2 powi binade ?x \<le> ?x" by (rule binade_bounds [OF x])
  also have "\<dots> < of_int (2 ^ 24)" using assms(2) by (simp only: of_int_less_iff)
  also have "of_int (2 ^ 24) = (2 :: rat) powi 24" by simp
  finally have "binade ?x < 24" by (rule powi_less_cancel)
  then obtain j where j: "binade ?x - 23 = - int j" using that [of "nat (23 - binade ?x)"] by simp
  have u: "(2 :: rat) powi (binade ?x - 23) = inverse (2 ^ j)"
    unfolding j power_int_minus power_int_of_nat ..
  have "?x / inverse (2 ^ j) = of_int (n * 2 ^ j)" by (simp add: divide_inverse)
  then have "round_even (?x / inverse (2 ^ j)) = n * 2 ^ j" by (simp only: round_even_int)
  then show ?thesis using x unfolding float32_def round_positive_def Let_def u by simp
qed (simp add: float32_def)

end
