(* ===== verification/Backpressure.thy ===== *)
theory Backpressure
  imports Enricher_Run Float32
begin

text \<open>
  \<^verbatim>\<open>agent/internal/backpressure\<close>: the pressure cache (\<^verbatim>\<open>backpressure.go\<close>), the watcher that derives the
  agent's own pressure from its counters (\<^verbatim>\<open>selfwatch.go\<close>), and the place in the sink that asks the
  cache about every event (\<^verbatim>\<open>output/grpc/sink.go\<close>). The clock and the random number of a decision are
  parameters; a nil cache is \<open>None\<close>.
\<close>

section \<open>The cache\<close>

datatype Level = LevelNormal | LevelElevated | LevelCritical

fun level_num :: "Level \<Rightarrow> nat" where
  "level_num LevelNormal = 0"
| "level_num LevelElevated = 1"
| "level_num LevelCritical = 2"

instantiation Level :: linorder
begin

definition less_eq_Level :: "Level \<Rightarrow> Level \<Rightarrow> bool" where
  "less_eq_Level a b \<longleftrightarrow> level_num a \<le> level_num b"

definition less_Level :: "Level \<Rightarrow> Level \<Rightarrow> bool" where
  "less_Level a b \<longleftrightarrow> level_num a < level_num b"

instance
proof
  fix a b :: Level
  show "a \<le> b \<Longrightarrow> b \<le> a \<Longrightarrow> a = b"
    by (cases a; cases b) (simp_all add: less_eq_Level_def)
qed (auto simp: less_eq_Level_def less_Level_def)

end

datatype source = srcNone | srcServer | srcSelf

record pressure_state =
  st_level :: Level
  st_since :: "int option"
  st_source :: source
  st_dropPct :: rat

definition zero_state :: pressure_state where
  "zero_state = \<lparr>st_level = LevelNormal, st_since = None, st_source = srcNone, st_dropPct = 0\<rparr>"

record Cache =
  c_server :: pressure_state
  c_self :: pressure_state
  c_merged :: pressure_state

definition New_cache :: Cache where
  "New_cache = \<lparr>c_server = zero_state, c_self = zero_state, c_merged = zero_state\<rparr>"

text \<open>Five minutes, in nanoseconds.\<close>

definition ttl :: int where
  "ttl = 5 * 60 * 1000000000"

definition recomputeLocked :: "int \<Rightarrow> Cache \<Rightarrow> Cache" where
  "recomputeLocked now c =
     (let pickServer = (if st_since (c_server c) \<noteq> None \<and> Sub now (st_since (c_server c)) > ttl then zero_state else c_server c);
          pickSelf = (if st_since (c_self c) \<noteq> None \<and> Sub now (st_since (c_self c)) > ttl then zero_state else c_self c);
          winner = (if st_level pickSelf > st_level pickServer then pickSelf else pickServer)
      in c\<lparr>c_merged := winner\<rparr>)"

datatype BackpressureSignal_Level = LEVEL_UNSPECIFIED | LEVEL_NORMAL | LEVEL_ELEVATED | LEVEL_CRITICAL

definition levelFromProto :: "BackpressureSignal_Level \<Rightarrow> Level" where
  "levelFromProto l =
     (case l of LEVEL_NORMAL \<Rightarrow> LevelNormal | LEVEL_ELEVATED \<Rightarrow> LevelElevated | LEVEL_CRITICAL \<Rightarrow> LevelCritical
      | LEVEL_UNSPECIFIED \<Rightarrow> LevelNormal)"

definition SetServer :: "int \<Rightarrow> BackpressureSignal_Level \<Rightarrow> rat \<Rightarrow> int option \<Rightarrow> Cache \<Rightarrow> Cache" where
  "SetServer now level dropPct since c =
     recomputeLocked now (c\<lparr>c_server := \<lparr>st_level = levelFromProto level, st_since = since, st_source = srcServer,
       st_dropPct = dropPct\<rparr>\<rparr>)"

definition SetSelf :: "int \<Rightarrow> Level \<Rightarrow> rat \<Rightarrow> Cache \<Rightarrow> Cache" where
  "SetSelf now level dropPct c =
     recomputeLocked now (c\<lparr>c_self := \<lparr>st_level = level, st_since = Some now, st_source = srcSelf, st_dropPct = dropPct\<rparr>\<rparr>)"

definition Level :: "int \<Rightarrow> Cache option \<Rightarrow> Level" where
  "Level now c =
     (case c of
        None \<Rightarrow> LevelNormal
      | Some c \<Rightarrow>
          let s = c_merged c in
          if st_since s \<noteq> None \<and> Sub now (st_since s) > ttl then LevelNormal else st_level s)"

definition keepFraction :: "Level \<Rightarrow> rat" where
  "keepFraction l = (case l of LevelElevated \<Rightarrow> float32 (1 / 2) | LevelCritical \<Rightarrow> float32 (1 / 10) | LevelNormal \<Rightarrow> 1)"

text \<open>Class ids: network activity is 4001, file system activity 1001.\<close>

definition isLowPriority :: "u32 \<Rightarrow> bool" where
  "isLowPriority cls \<longleftrightarrow> cls = 4001 \<or> cls = 1001"

definition ShouldSample :: "rat \<Rightarrow> int \<Rightarrow> Cache option \<Rightarrow> u32 \<Rightarrow> bool" where
  "ShouldSample rng now c cls =
     (case c of
        None \<Rightarrow> True
      | Some _ \<Rightarrow>
          let level = Level now c in
          if level = LevelNormal then True
          else if \<not> isLowPriority cls then True
          else rng < keepFraction level)"

section \<open>The watcher\<close>

record SelfWatchOptions =
  ElevatedThreshold :: rat
  CriticalThreshold :: rat

definition withDefaults :: "SelfWatchOptions \<Rightarrow> SelfWatchOptions" where
  "withDefaults o' =
     (let o' = (if ElevatedThreshold o' \<le> 0 then o'\<lparr>ElevatedThreshold := float32 (1 / 20)\<rparr> else o')
      in if CriticalThreshold o' \<le> 0 then o'\<lparr>CriticalThreshold := float32 (1 / 5)\<rparr> else o')"

record Snapshot =
  EventsProduced :: u64
  EventsDropped :: u64

definition classify :: "Snapshot \<Rightarrow> Snapshot \<Rightarrow> SelfWatchOptions \<Rightarrow> Level \<times> rat" where
  "classify prev cur opts =
     (let opts = withDefaults opts;
          dEvents = sint (EventsProduced cur - EventsProduced prev);
          dDrops = sint (EventsDropped cur - EventsDropped prev)
      in if dEvents \<le> 0 then (LevelNormal, 0)
         else let frac = float32 (float32 (of_int dDrops) / float32 (of_int dEvents)) in
           if frac \<ge> CriticalThreshold opts then (LevelCritical, frac)
           else if frac \<ge> ElevatedThreshold opts then (LevelElevated, frac)
           else (LevelNormal, frac))"

text \<open>One tick of \<open>RunSelfWatch\<close>.\<close>

definition watch_tick :: "int \<Rightarrow> SelfWatchOptions \<Rightarrow> Snapshot \<Rightarrow> Snapshot \<Rightarrow> Cache \<Rightarrow> Cache" where
  "watch_tick now opts prev cur c = (let (level, dropPct) = classify prev cur opts in SetSelf now level dropPct c)"

section \<open>The sink\<close>

text \<open>The sink asks about each event before it encodes it, and counts what it sheds as dropped.\<close>

definition sink_admit :: "rat \<Rightarrow> int \<Rightarrow> Cache option \<Rightarrow> u32 \<Rightarrow> Snapshot \<Rightarrow> Snapshot \<times> bool" where
  "sink_admit rng now c cls t =
     (if \<not> ShouldSample rng now c cls then (t\<lparr>EventsDropped := EventsDropped t + 1\<rparr>, False) else (t, True))"

section \<open>The level\<close>

text \<open>A signal counts while it is no older than five minutes.\<close>

definition fresh :: "int \<Rightarrow> pressure_state \<Rightarrow> Level" where
  "fresh now s = (if st_since s \<noteq> None \<and> Sub now (st_since s) > ttl then LevelNormal else st_level s)"

lemma Sub_ttl: "Sub now (Some t) > ttl \<longleftrightarrow> now - t > ttl"
  by (auto simp: Sub_def ttl_def)

lemma normal_least: "LevelNormal \<le> l"
  by (simp add: less_eq_Level_def)

lemma recompute_level:
  "Level now (Some (recomputeLocked now c)) = max (fresh now (c_server c)) (fresh now (c_self c))"
proof -
  have z: "fresh now zero_state = LevelNormal" "st_level zero_state = LevelNormal" by (simp_all add: fresh_def zero_state_def)
  define pick where "pick s = (if st_since s \<noteq> None \<and> Sub now (st_since s) > ttl then zero_state else s)" for s
  have p: "fresh now (pick s) = fresh now s" "st_level (pick s) = fresh now s" for s
    using z by (simp_all add: fresh_def pick_def)
  have m: "c_merged (recomputeLocked now c) =
      (if fresh now (c_self c) > fresh now (c_server c) then pick (c_self c) else pick (c_server c))"
    unfolding recomputeLocked_def Let_def pick_def [symmetric] p by simp
  have "fresh now (c_merged (recomputeLocked now c)) =
      (if fresh now (c_self c) > fresh now (c_server c) then fresh now (c_self c) else fresh now (c_server c))"
    by (simp add: m p)
  also have "\<dots> = max (fresh now (c_server c)) (fresh now (c_self c))" by (auto simp: max_def)
  finally show ?thesis by (simp add: Level_def fresh_def Let_def)
qed

lemma recompute_inputs [simp]: "c_server (recomputeLocked now c) = c_server c" "c_self (recomputeLocked now c) = c_self c"
  by (simp_all add: recomputeLocked_def Let_def)

text \<open>C38. When a signal is set, the level becomes the higher of the two signals, the server's and the
  agent's own, a signal older than five minutes counting as normal; between updates the level
  only ever falls back to normal.\<close>

theorem level_is_max_of_fresh_signals:
  "Level now (Some (SetSelf now l pct c)) = max (fresh now (c_server c)) l \<and>
   Level now (Some (SetServer now pl pct since c)) =
     max (fresh now \<lparr>st_level = levelFromProto pl, st_since = since, st_source = srcServer, st_dropPct = pct\<rparr>)
       (fresh now (c_self c)) \<and>
   Level later (Some c) \<in> {LevelNormal, st_level (c_merged c)}"
proof -
  have "fresh now \<lparr>st_level = l, st_since = Some now, st_source = srcSelf, st_dropPct = pct\<rparr> = l"
    by (simp add: fresh_def Sub_ttl) (simp add: ttl_def)
  moreover have "Level later (Some c) \<in> {LevelNormal, st_level (c_merged c)}" by (simp add: Level_def Let_def)
  ultimately show ?thesis unfolding SetSelf_def SetServer_def recompute_level by simp
qed

text \<open>Only network and file events are ever shed, and only under pressure: every event of another
  class passes whatever the level and the random number, and at the normal level everything
  passes. Under pressure a network or file event passes exactly when the random number lies below
  the fraction to keep.\<close>

theorem only_noisy_classes_shed:
  "ShouldSample rng now (Some c) cls =
     (if cls \<noteq> 4001 \<and> cls \<noteq> 1001 \<or> Level now (Some c) = LevelNormal then True
      else rng < (if Level now (Some c) = LevelElevated then float32 (1 / 2) else float32 (1 / 10)))"
  by (cases "Level now (Some c)") (auto simp: ShouldSample_def isLowPriority_def keepFraction_def Let_def)

text \<open>C39. A stale signal hides a fresh one from readers: when a critical server signal outweighs an elevated
  signal of the agent and then grows older than five minutes, the level reads normal until the
  next update, although the agent's signal is still in force.\<close>

theorem stale_signal_hides_fresh_one:
  assumes "t0 \<le> t1" "t1 - t0 \<le> ttl" "ttl < now - t0" "now - t1 \<le> ttl" "t1 \<le> now"
  shows "Level now (Some (SetSelf t1 LevelElevated p (SetServer t1 LEVEL_CRITICAL q (Some t0) c))) = LevelNormal \<and>
    fresh now (c_self (SetSelf t1 LevelElevated p (SetServer t1 LEVEL_CRITICAL q (Some t0) c))) = LevelElevated"
proof -
  let ?server = "\<lparr>st_level = LevelCritical, st_since = Some t0, st_source = srcServer, st_dropPct = q\<rparr>"
  let ?self = "\<lparr>st_level = LevelElevated, st_since = Some t1, st_source = srcSelf, st_dropPct = p\<rparr>"
  have "c_merged (recomputeLocked t1 (c'\<lparr>c_self := ?self\<rparr>)) = ?server" if "c_server c' = ?server" for c'
    using assms that by (simp add: recomputeLocked_def Let_def Sub_ttl less_Level_def)
  then have "c_merged (SetSelf t1 LevelElevated p (SetServer t1 LEVEL_CRITICAL q (Some t0) c)) = ?server"
    by (simp add: SetSelf_def SetServer_def levelFromProto_def)
  then show ?thesis using assms by (simp add: Level_def Let_def Sub_ttl fresh_def SetSelf_def)
qed

theorem stale_signal_hides_fresh_one_witness:
  "Level 361000000000 (Some (SetSelf 240000000000 LevelElevated 0 (SetServer 240000000000 LEVEL_CRITICAL 0 (Some 0) New_cache))) =
     LevelNormal"
  using stale_signal_hides_fresh_one [of 0 240000000000 361000000000 0 0 New_cache] by (simp add: ttl_def)

section \<open>Shed events as pressure\<close>

lemma float32_positive: "0 < x \<Longrightarrow> float32 x = round_positive x"
  by (simp add: float32_def)

lemma float32_fifth: "float32 (1 / 5) = 13421773 / 67108864" "binade (13421773 / 67108864) = -3"
proof -
  have p: "(2 :: rat) powi (-3) = 1 / 8" "(2 :: rat) powi (-2) = 1 / 4" "(2 :: rat) powi (-26) = 1 / 67108864"
    by (simp_all add: power_int_minus)
  have b: "binade (1 / 5) = -3" by (rule binade_unique) (simp_all add: p)
  have "\<lfloor>67108864 / 5 :: rat\<rfloor> = 13421772" by (rule floor_unique) simp_all
  then have "round_even (1 / 5 / 2 powi (-26)) = 13421773" by (simp add: round_even_def p Let_def)
  then show "float32 (1 / 5) = 13421773 / 67108864" by (simp add: float32_def round_positive_def b p)
  show "binade (13421773 / 67108864) = -3" by (rule binade_unique) (simp_all add: p)
qed

lemma float32_tenth: "float32 (1 / 10) = 13421773 / 134217728"
proof -
  have p: "(2 :: rat) powi (-4) = 1 / 16" "(2 :: rat) powi (-3) = 1 / 8" "(2 :: rat) powi (-27) = 1 / 134217728"
    by (simp_all add: power_int_minus)
  have b: "binade (1 / 10) = -4" by (rule binade_unique) (simp_all add: p)
  have "\<lfloor>67108864 / 5 :: rat\<rfloor> = 13421772" by (rule floor_unique) simp_all
  then have "round_even (1 / 10 / 2 powi (-27)) = 13421773" by (simp add: round_even_def p Let_def)
  then show ?thesis by (simp add: float32_def round_positive_def b p)
qed

text \<open>One window of the watcher: every event is produced and then offered to the sink.\<close>

fun sink_window :: "Cache \<Rightarrow> (u32 \<times> rat \<times> int) list \<Rightarrow> Snapshot \<Rightarrow> Snapshot" where
  "sink_window c [] t = t"
| "sink_window c ((cls, rng, now) # evs) t =
     sink_window c evs (fst (sink_admit rng now (Some c) cls (t\<lparr>EventsProduced := EventsProduced t + 1\<rparr>)))"

lemma window_counts:
  assumes "list_all (\<lambda>(cls, rng, t). Level t (Some c) = LevelCritical) evs"
  shows "EventsProduced (sink_window c evs s) = EventsProduced s + of_nat (length evs)"
    "EventsDropped (sink_window c evs s) = EventsDropped s +
       of_nat (length (filter (\<lambda>(cls, rng, t). isLowPriority cls \<and> keepFraction LevelCritical \<le> rng) evs))"
proof -
  have "EventsProduced (sink_window c evs s) = EventsProduced s + of_nat (length evs) \<and>
      EventsDropped (sink_window c evs s) = EventsDropped s +
        of_nat (length (filter (\<lambda>(cls, rng, t). isLowPriority cls \<and> keepFraction LevelCritical \<le> rng) evs))"
    using assms
  proof (induction evs arbitrary: s)
    case (Cons ev evs)
    obtain cls rng t where ev: "ev = (cls, rng, t)" by (cases ev)
    show ?case using Cons ev
      by (auto simp: sink_admit_def ShouldSample_def Let_def not_less)
  qed simp
  then show "EventsProduced (sink_window c evs s) = EventsProduced s + of_nat (length evs)"
    "EventsDropped (sink_window c evs s) = EventsDropped s +
       of_nat (length (filter (\<lambda>(cls, rng, t). isLowPriority cls \<and> keepFraction LevelCritical \<le> rng) evs))" by simp_all
qed

lemma sint_count: "n < 2 ^ 24 \<Longrightarrow> sint (of_nat n :: u64) = int n"
  by (simp add: signed_of_nat signed_take_bit_int_eq_self)



end
