(* ===== verification/Spec2Isabelle.thy ===== *)
theory Spec2Isabelle
  imports Backpressure
begin

text \<open>
  Slither is an endpoint sensor: eBPF programs in the kernel observe processes, files, sockets,
  logins, kernel extensions, control groups and DNS traffic, and write fixed-size records to
  ring buffers; an agent in Go drains the rings, decodes the records and passes events on.
  This development models that path from the hook in the kernel to the channel in the agent.

  \<^bold>\<open>Parts and theories.\<close>

  \<^item> \<open>Prelude\<close>: little-endian words, C strings in buffers, the theorem collections.
  \<^item> \<open>C_Layout\<close>: C types with the layout rule of the ABI (\<open>sizeof\<close>, \<open>offsetof\<close>, bit fields, unions,
    anonymous members), the bytes of a struct (\<open>image\<close>) and of a field in them.
  \<^item> \<open>Vmlinux_Base\<close>, \<open>Vmlinux_Enums\<close>, \<open>Vmlinux_Net\<close>, \<open>Vmlinux_Attr\<close>, \<open>Vmlinux_Task\<close>: the types and enumerations
    of \<^verbatim>\<open>agent/internal/bpf/src/headers/vmlinux.h\<close> that the programs name, with everything those
    types embed by value, member by member.
  \<^item> \<open>Bpf_Helpers\<close>: \<^verbatim>\<open>headers/bpf_helpers.h\<close>. The helpers themselves are kernel code: the reading ones
    are the fields of \<open>bpf_env\<close>, the ring buffer and the hash map are the records \<open>bpf_ringbuf\<close> and
    \<open>bpf_hash\<close>, and what the helpers document is assumed in the locales \<open>bpf_reads\<close>, \<open>ringbuf_laws\<close>
    and \<open>hash_laws\<close>. \<open>Kernel_Instance\<close> implements all three and discharges the assumptions.
  \<^item> \<open>Process_Bpf\<close>, \<open>File_Bpf\<close>, \<open>Net_Bpf\<close>, \<open>Auth_Bpf\<close>, \<open>Kernel_Bpf\<close>, \<open>Cgroup_Bpf\<close>, \<open>Dns_Bpf\<close>: one theory for each
    \<^verbatim>\<open>agent/internal/bpf/src/*.bpf.c\<close>. The record of the ring is a \<open>record\<close> (\<open>process_event\<close>) and a field
    list for its layout (\<open>struct_process_event\<close>); every program is a function of the same name
    (\<open>handle_exec\<close>, \<open>handle_openat\<close>) in the state monad over the ring, and, for the PAM probes, over
    the map \<open>pam_ctx\<close> and the ring. Names that several files share carry the file as a suffix
    (\<open>fill_common_process\<close>, \<open>emit_dns\<close>).
  \<^item> \<open>Go_Wire\<close>: the structs of \<^verbatim>\<open>agent/internal/bpf/*_bpfel.go\<close> and the pointer casts of the collectors.
  \<^item> \<open>Collector\<close>: the decoders of \<^verbatim>\<open>agent/internal/collector/*.go\<close> into the raw events of
    \<^verbatim>\<open>agent/internal/pipeline/types.go\<close>, and the printing of addresses and command lines.
  \<^item> \<open>Drain\<close>: the seven drain loops, the channels, and the wiring of the group (\<^verbatim>\<open>collector.go\<close>). What
    the scheduler decides in an iteration is input of that iteration.

  \<^bold>\<open>What a run of a program is.\<close> A program reads through the helpers of one \<open>bpf_env\<close>, reserves a
  record, fills it and submits or discards it. The memory a reservation hands out is arbitrary,
  so a theorem about a record also shows what the program overwrites. \<open>skips\<close>, \<open>emits\<close> and \<open>discards\<close>
  are the three outcomes, and each handler has a lemma that says when it has which; the
  lemmas of \<open>ringbuf_laws\<close> turn them into statements about the ring.

  \<^bold>\<open>What is shown.\<close> Every program: what it reports and when, with the fields of the record taken from
  the registers, tracepoint arguments and memory it reads (theorems \<open>*_reported\<close>); that its
  records have their declared shape whatever memory holds (\<open>*_well_formed\<close>); that it returns 0 and
  leaves no reservation open. The PAM probes: they refine an abstract machine with one session
  per process, sessions do not influence each other, items other than user, terminal and
  remote host are never read. The DNS probes: lengths are bounded, the payload of a query
  lies inside its packet, and no old ring memory reaches the agent. Both sides of the ring:
  the C and Go structs agree field by field, the casts invert the images, the kind numbers
  agree. The agent: command lines, addresses and kernel records are decoded as documented;
  a loop accounts for every sample, delivers in order and returns when its ring is closed.
  The theorems of this theory join the parts.

  \<^bold>\<open>Where code and documents differ.\<close> \<open>NewGroup\<close> makes no channel for kernel, control-group and DNS
  events, so their loops drop everything (\<open>group_drops_kernel_cgroup_dns\<close>); an unreadable argument
  area becomes a command line of spaces (\<open>unreadable_arguments_become_spaces\<close>); the exit code of an
  exit record is always 0 (\<open>fork_and_exit_reports\<close>).

  \<^bold>\<open>Bounds and termination.\<close> Machine integers are words of their width, and addresses wrap as they do in
  C. All functions are total: the loop of \<open>formatIPv6\<close> has a termination proof, a drain loop is a
  recursion over the iterations that happen. There is no fuel. The samples of the witnesses use
  rings of 1024 or 4096 bytes, which hold one record of any stream.

  \<^bold>\<open>Not modelled.\<close> The kernel, the verifier, the loader and CO-RE relocation (\<open>field_off\<close> is a parameter);
  concurrent runs of programs on one ring beyond the order of their submissions; the loading
  and attaching of programs in Go, which only calls the eBPF library; the arm64 register
  accessors; and everything after the channels: enricher, rule engine, queues, output, server
  and the other packages.
\<close>

section \<open>Structs on both sides of the ring\<close>

text \<open>C16. The C structs the programs fill and the Go structs the collectors cast to agree in all seven
  records: the same size, and every named field at the same offset with the same size.\<close>

theorem record_layouts_agree:
  "list_all (\<lambda>(c, go, fields). sizeof (CStruct c) = sizeof (CStruct go) \<and> list_all (same_place c go) fields)
    [(struct_process_event, ProcessProcessEvent, process_fields), (struct_file_event, FileFileEvent, file_fields),
     (struct_net_event, NetNetEvent, net_fields), (struct_auth_event, AuthAuthEvent, auth_fields),
     (struct_kernel_event, KernelKernelEvent, kernel_fields), (struct_cgroup_event, CgroupCgroupEvent, cgroup_fields),
     (struct_dns_event, DnsDnsEvent, dns_fields)]"
  by (simp only: list.pred_inject prod.case process_layout file_layout net_layout auth_layout kernel_layout
      cgroup_layout dns_layout simp_thms)

text \<open>Records the programs submit have the arrays the casts need.\<close>

lemma wf_arrays:
  "wf_process e \<Longrightarrow> wf_process_arrays e" "wf_file f \<Longrightarrow> wf_file_arrays f" "wf_kernel k \<Longrightarrow> wf_kernel_arrays k"
  "wf_cgroup c \<Longrightarrow> wf_cgroup_arrays c" "wf_dns d \<Longrightarrow> length (de_payload d) = 1024 \<Longrightarrow> wf_dns_arrays d"
  by (simp_all add: wf_process_def wf_process_arrays_def wf_file_def wf_file_arrays_def wf_kernel_def wf_kernel_arrays_def
      wf_cgroup_def wf_cgroup_arrays_def wf_dns_def wf_dns_arrays_def)

lemma net_record_arrays:
  assumes "bpf_reads K umem kmem"
  shows "wf_net_arrays (net_record K kind proto sk)"
proof -
  have "length (sk_field K sk n f) = unat n" for n f
    using bpf_reads.kernel_length [OF assms] by (simp add: sk_field_def prog_defs)
  then show ?thesis
    by (simp add: wf_net_arrays_def net_record_def sk_addr_def bpf_reads.comm_length [OF assms])
qed

text \<open>C9. Whatever the padding holds, the bytes of a record that a program submitted, read through the Go
  struct, give back that record: nothing is lost or shifted on the way from the programs to
  the collectors.\<close>

theorem records_cross_the_ring:
  assumes "wf_process p" "wf_file f" "wf_auth_event a" "wf_kernel k" "wf_cgroup c" "wf_dns d"
    "length (de_payload d) = 1024" "bpf_reads K umem kmem"
  shows "cast_process (image g struct_process_event (process_val p)) = p \<and>
    cast_file (image g struct_file_event (file_val f)) = f \<and>
    cast_net (image g struct_net_event (net_val (net_record K kind proto sk))) = net_record K kind proto sk \<and>
    cast_auth (image g struct_auth_event (auth_val a)) = a \<and>
    cast_kernel (image g struct_kernel_event (kernel_val k)) = k \<and>
    cast_cgroup (image g struct_cgroup_event (cgroup_val c)) = c \<and>
    cast_dns (image g struct_dns_event (dns_val d)) = d"
  using assms net_record_arrays [OF assms(8)]
  by (simp add: wf_arrays cast_process_image cast_file_image cast_net_image cast_auth_image cast_kernel_image
      cast_cgroup_image cast_dns_image)

definition sample_auth_event :: auth_event where
  "sample_auth_event = \<lparr>ae_ts_ns = 1, ae_kind = SL_AUTH_ATTEMPT, ae_pid = 2, ae_tgid = 2, ae_uid = 0, ae_gid = 0,
     ae_result = 7, ae_pad0 = 0, ae_service = replicate 32 0, ae_user = replicate 64 0, ae_rhost = replicate 64 0,
     ae_tty = replicate 32 0, ae_comm = replicate 16 0\<rparr>"

definition sample_dns_event :: dns_event where
  "sample_dns_event = \<lparr>de_ts_ns = 1, de_kind = SL_DNS_QUERY, de_pid = 2, de_tgid = 2, de_uid = 0, de_gid = 0,
     de_family = 4, de_sport = 4660, de_dport = 53, de_pad0 = 0, de_payload_len = 12, de_saddr = replicate 16 0,
     de_daddr = replicate 16 0, de_comm = replicate 16 0, de_payload = replicate 1024 0\<rparr>"

theorem records_cross_the_ring_witness:
  "cast_auth (image (\<lambda>_. 0) struct_auth_event (auth_val sample_auth_event)) = sample_auth_event \<and>
   cast_dns (image (\<lambda>_. 0) struct_dns_event (dns_val sample_dns_event)) = sample_dns_event"
proof -
  let ?K = "sample_env (mem_at 0 []) (mem_at 0 [])"
  have "wf_auth_event sample_auth_event" by (simp add: wf_auth_event_def sample_auth_event_def)
  moreover have "wf_dns sample_dns_event" "length (de_payload sample_dns_event) = 1024"
    by (simp_all add: wf_dns_def sample_dns_event_def)
  moreover have "wf_process ((blank_process ?K)\<lparr>pe_kind := SL_PROC_EXEC\<rparr>)"
    by (rule wf_blank_process [OF sample_env_reads]) simp
  moreover have "wf_file (file_record ?K SL_FILE_UNLINK 0 0 0 (replicate 256 0) (replicate 256 0))"
    by (rule wf_file_record [OF sample_env_reads]) simp_all
  moreover have "wf_kernel (blank_kernel ?K SL_KERNEL_MODULE_LOAD)"
    by (rule wf_blank_kernel [OF sample_env_reads]) simp
  moreover have "wf_cgroup (cgroup_record ?K undefined SL_CGROUP_MKDIR)"
    by (rule wf_cgroup_record [OF sample_env_reads]) simp
  ultimately show ?thesis
    using records_cross_the_ring [OF _ _ _ _ _ _ _ sample_env_reads, where g = "\<lambda>_. 0"] by blast
qed

section \<open>Command lines from the program to the agent\<close>

text \<open>The process event the agent receives for a record.\<close>

definition agent_process :: "(nat \<Rightarrow> byte) \<Rightarrow> int \<Rightarrow> process_event \<Rightarrow> RawProcessEvent" where
  "agent_process g now e = decodeProcessEvent now (cast_process (image g struct_process_event (process_val e)))"

lemma agent_exec:
  assumes "ringbuf_laws R contents busy" "grants R 456 r" "bpf_reads K umem kmem"
  shows "contents (snd (run_state (handle_exec R K ctx) r)) = contents r @ [exec_record K ctx] \<and>
    agent_process g now (exec_record K ctx) = decodeProcessEvent now (exec_record K ctx)"
  using ringbuf_laws.emits_grants_const [OF assms(1) handle_exec_emits [unfolded process_size] assms(2)]
    cast_process_image [OF wf_arrays(1) [OF wf_exec_record [OF assms(3)]]]
  by (simp add: agent_process_def)

lemma exec_record_args:
  assumes "bpf_reads K umem kmem" "args_at K kmem a b" "a < b"
  shows "pe_cmdline (exec_record K ctx) =
      overwrite (snd (bpf_probe_read_user K (of_nat (args_len a b)) a)) (replicate 256 0)"
    "pe_cmdline_len (exec_record K ctx) = of_nat (args_len a b)"
  by (simp_all add: exec_record_def exec_cmdline_args [OF assms])

lemma unat_args_len: "unat (of_nat (args_len a b) :: u32) = args_len a b"
  using args_len_bounds(2) [of a b] by (simp add: unat_of_nat)

text \<open>
  When the ring has room, an exec reaches the agent with the program's path (cut to 127 bytes) and
  its arguments joined by spaces; of an argument area longer than 256 bytes the command line keeps
  the first 256, without a terminator at the cut.
\<close>

lemma agent_exec_arguments:
  assumes "ringbuf_laws R contents busy" "grants R 456 r" "bpf_reads K umem kmem" "str_at kmem (exec_filename ctx) path"
    and "args_at K kmem a b" "a < b" "list_all (\<lambda>x. 0 \<notin> set x) args" "length (argv_bytes args) = unat (b - a)"
    and "mem_bytes umem a (args_len a b) = Some (take 256 (argv_bytes args))"
  shows "\<exists>e. contents (snd (run_state (handle_exec R K ctx) r)) = contents r @ [e] \<and>
    rp_Kind (agent_process g now e) = ProcExec \<and> rp_Exe (agent_process g now e) = take 127 path \<and>
    rp_PID (agent_process g now e) = lo32 (bpf_get_current_pid_tgid K) \<and>
    rp_Cmdline (agent_process g now e) =
      take (if argv_bytes args ! (args_len a b - 1) = 0 then args_len a b - 1 else args_len a b) (join_spaces args)"
proof -
  let ?k = "args_len a b" and ?e = "exec_record K ctx"
  have k: "0 < ?k" "?k \<le> 256" "?k \<le> length (argv_bytes args)" "take 256 (argv_bytes args) = take ?k (argv_bytes args)"
    using args_len_bounds(1) [OF assms(6)] args_len_bounds(2) assms(8) by (auto simp: args_len_def min_def)
  have "bpf_probe_read_user K (of_nat ?k) a = (0, take ?k (argv_bytes args))"
    using bpf_reads.user_value [OF assms(3), of a "of_nat ?k"] assms(9) k(4) by (simp add: unat_args_len)
  then have "decodeCmdline (pe_cmdline ?e) (pe_cmdline_len ?e) =
      take (if argv_bytes args ! (?k - 1) = 0 then ?k - 1 else ?k) (join_spaces args)"
    unfolding exec_record_args [OF assms(3,5,6)] overwrite_def
    using decodeCmdline_argv [OF assms(7) k(1,3)] k(2) by simp
  moreover have "c_string (pe_exe ?e) = take 127 path"
    using bpf_reads.kernel_str_array [OF assms(3) _ assms(4), of 128] by (simp add: exec_record_def exec_cmdline_frame)
  moreover have "pe_kind ?e = SL_PROC_EXEC" "pe_pid ?e = lo32 (bpf_get_current_pid_tgid K)"
    by (simp_all add: exec_record_def exec_cmdline_frame blank_process_def)
  ultimately show ?thesis
    using agent_exec [OF assms(1-3), of ctx g now] by (auto simp: decodeProcessEvent_def decodeKind_def SL_PROC_EXEC_def)
qed

lemma join_spaces_length: "length (argv_bytes args) \<le> Suc (length (join_spaces args))"
  by (induction args rule: join_spaces.induct) (simp_all add: argv_bytes_def)

text \<open>C1. An exec becomes an event that describes it: while the ring and the channel have room, the program
  path (cut to 127 bytes) and the arguments joined by spaces (of the first 256 bytes of the
  argument area) go from the memory of the process through the ring, the collector and the
  enricher into the event of the exec, whatever the cache holds about an earlier process with the
  same pid.\<close>

theorem exec_arguments_reach_the_event:
  assumes "ringbuf_laws R contents busy" "grants R 456 r" "bpf_reads K umem kmem" "str_at kmem (exec_filename ctx) path"
    and "args_at K kmem a b" "a < b" "list_all (\<lambda>x. 0 \<notin> set x) args" "length (argv_bytes args) = unat (b - a)"
    and "mem_bytes umem a (args_len a b) = Some (take 256 (argv_bytes args))"
    and "path \<noteq> []" "1 < args_len a b" "enricher_ok en" "sends i en"
  shows "\<exists>e. contents (snd (run_state (handle_exec R K ctx) r)) = contents r @ [e] \<and>
    (case reported (handleProcess opts i (agent_process g now e) en) of
       None \<Rightarrow> False
     | Some ev \<Rightarrow>
         (case pr_File (pa_Process ev) of None \<Rightarrow> False | Some f \<Rightarrow> fi_Path f = take 127 path \<and> fi_Name f = Base (take 127 path)) \<and>
         pr_Cmdline (pa_Process ev) =
           take (if argv_bytes args ! (args_len a b - 1) = 0 then args_len a b - 1 else args_len a b) (join_spaces args) \<and>
         pr_PID (pa_Process ev) = lo32 (bpf_get_current_pid_tgid K) \<and> md_EventCode (ev_Metadata ev) = ''exec'' \<and> ev_Time ev = UnixMilli now)"
proof -
  let ?k = "args_len a b"
  obtain e where e: "contents (snd (run_state (handle_exec R K ctx) r)) = contents r @ [e]"
    "rp_Kind (agent_process g now e) = ProcExec" "rp_Exe (agent_process g now e) = take 127 path"
    "rp_PID (agent_process g now e) = lo32 (bpf_get_current_pid_tgid K)"
    "rp_Cmdline (agent_process g now e) = take (if argv_bytes args ! (?k - 1) = 0 then ?k - 1 else ?k) (join_spaces args)"
    using agent_exec_arguments [OF assms(1-9), of g now] by blast
  have "?k \<le> length (argv_bytes args)" using assms(6,8) by (simp add: args_len_def)
  then have "join_spaces args \<noteq> []" using assms(11) join_spaces_length [of args] by auto
  then have "rp_Cmdline (agent_process g now e) \<noteq> []" using e(5) assms(11) by auto
  moreover have "rp_Exe (agent_process g now e) \<noteq> []" using e(3) assms(10) by simp
  ultimately have "case reported (handleProcess opts i (agent_process g now e) en) of None \<Rightarrow> False
      | Some ev \<Rightarrow> exec_described (agent_process g now e) ev"
    by (intro exec_reported [OF assms(12,13) e(2)])
  moreover have "rp_Timestamp (agent_process g now e) = now" by (simp add: agent_process_def decodeProcessEvent_def)
  ultimately show ?thesis using e by (auto simp: exec_described_def split: option.splits)
qed

theorem exec_arguments_reach_the_event_witness:
  "\<exists>e. ring_out (snd (run_state (handle_exec ring_buffer (sample_env exec_sample_umem exec_sample_kmem) exec_sample_ctx)
        (empty_ring undefined 1024))) = [e] \<and>
    (case reported (handleProcess undefined sample_inputs (agent_process (\<lambda>_. 0) 0 e) (sample_known (entry_of 301))) of
       None \<Rightarrow> False | Some ev \<Rightarrow> pr_Cmdline (pa_Process ev) = [105, 100, 32, 45])"
proof -
  have g: "grants ring_buffer 456 (empty_ring undefined 1024)"
    by (rule empty_ring_grants) (simp_all add: round_up_def)
  have "mem_bytes exec_sample_umem 0x5000 (args_len 0x5000 0x5005) = Some (take 256 (argv_bytes [[105, 100], [45]]))"
    using exec_sample(3) by (simp add: argv_bytes_def)
  moreover have "entry_ok (entry_of 301)" by (simp add: entry_ok_def entry_of_def)
  ultimately show ?thesis
    using exec_arguments_reach_the_event [OF ring_buffer.ringbuf_laws_axioms g sample_env_reads exec_sample(1,2),
        where args = "[[105, 100], [45]]" and en = "sample_known (entry_of 301)" and i = sample_inputs and opts = undefined
          and g = "\<lambda>_. 0" and now = 0]
    by (fastforce simp: argv_bytes_def args_len_def sample_known split: option.splits)
qed

text \<open>C18. When the argument area is there but its bytes cannot be read, the program still records its
  length, so that the agent's event carries a command line of spaces, one fewer than the bytes
  of the area (256 at most), instead of none; only without an area is the command line empty.\<close>

theorem unreadable_arguments_become_spaces:
  assumes "ringbuf_laws R contents busy" "grants R 456 r" "bpf_reads K umem kmem" "args_at K kmem a b"
    and "mem_bytes umem a (args_len a b) = None"
  shows "\<exists>e. contents (snd (run_state (handle_exec R K ctx) r)) = contents r @ [e] \<and>
    rp_Cmdline (agent_process g now e) = (if a < b then replicate (args_len a b - 1) 32 else [])"
proof (cases "a < b")
  case True
  let ?k = "args_len a b"
  note k = args_len_bounds(1) [OF True] args_len_bounds(2) [of a b]
  have "snd (bpf_probe_read_user K (of_nat ?k) a) = replicate ?k 0"
    using bpf_reads.user_fault [OF assms(3), of a "of_nat ?k"] assms(5) by (simp add: unat_args_len)
  then have "decodeCmdline (pe_cmdline (exec_record K ctx)) (pe_cmdline_len (exec_record K ctx)) = replicate (?k - 1) 32"
    unfolding exec_record_args [OF assms(3,4) True] overwrite_def
    using decodeCmdline_prefix [of "replicate ?k 0"] k by (simp add: spaced_def butlast_conv_take min_def)
  then show ?thesis using True agent_exec [OF assms(1-3), of ctx g now] by (auto simp: decodeProcessEvent_def)
next
  case False
  then have "exec_cmdline K x = x" for x
    by (intro exec_cmdline_none [OF assms(3), of a b]) (simp add: assms(4) not_less)
  then have "pe_cmdline_len (exec_record K ctx) = 0" by (simp add: exec_record_def blank_process_def)
  then show ?thesis using False agent_exec [OF assms(1-3), of ctx g now]
    by (auto simp: decodeProcessEvent_def decodeCmdline_def)
qed

theorem unreadable_arguments_become_spaces_witness:
  "\<exists>e. ring_out (snd (run_state (handle_exec ring_buffer (sample_env (mem_at 0 []) exec_sample_kmem) exec_sample_ctx)
        (empty_ring undefined 1024))) = [e] \<and> rp_Cmdline (agent_process (\<lambda>_. 0) 0 e) = [32, 32, 32, 32]"
proof -
  have g: "grants ring_buffer 456 (empty_ring undefined 1024)"
    by (rule empty_ring_grants) (simp_all add: round_up_def)
  have "args_at (sample_env (mem_at 0 []) exec_sample_kmem) exec_sample_kmem 0x5000 0x5005"
    using exec_sample(2) by (simp add: args_at_def)
  moreover have len: "args_len 0x5000 0x5005 = Suc (Suc (Suc (Suc (Suc 0))))" by (simp add: args_len_def)
  moreover have "mem_bytes (mem_at 0 []) 0x5000 (args_len 0x5000 0x5005) = None"
    by (simp add: len mem_at_def)
  ultimately show ?thesis
    using unreadable_arguments_become_spaces [OF ring_buffer.ringbuf_laws_axioms g sample_env_reads,
        of "mem_at 0 []" exec_sample_kmem "0x5000" "0x5005" exec_sample_ctx "\<lambda>_. 0" 0] by auto
qed

section \<open>File calls from the program to the event\<close>

definition agent_file :: "(nat \<Rightarrow> byte) \<Rightarrow> int \<Rightarrow> file_event \<Rightarrow> RawFileEvent" where
  "agent_file g now e = decodeFileEvent now (cast_file (image g struct_file_event (file_val e)))"

text \<open>What a handler has added to the output channel.\<close>

definition sent_since :: "enricher \<Rightarrow> enricher \<Rightarrow> Event list" where
  "sent_since e e' = drop (length (ch_queue (en_out e))) (ch_queue (en_out e'))"

lemma sent_since_emit:
  "length (ch_queue (en_out e)) < ch_cap (en_out e) \<Longrightarrow> \<not> em_done em \<Longrightarrow> sent_since e (emit em ev e) = [ev]"
  by (simp add: sent_since_def emit_sends)

lemma agent_open:
  assumes "ringbuf_laws R contents busy" "grants R 576 r" "bpf_reads K umem kmem"
    and "str_at umem (enter_args ctx ! 1) path" "write_intent (ucast (enter_args ctx ! 2))"
  shows "\<exists>e. contents (snd (run_state (handle_openat R K ctx) r)) = contents r @ [e] \<and>
    rf_Kind (agent_file g now e) = (if bit (ucast (enter_args ctx ! 2) :: u32) 6 then FileOpenCreate else FileOpenWrite) \<and>
    rf_Path (agent_file g now e) = take 255 path \<and> rf_NewPath (agent_file g now e) = [] \<and>
    rf_PID (agent_file g now e) = lo32 (bpf_get_current_pid_tgid K) \<and> rf_Timestamp (agent_file g now e) = now"
proof -
  let ?flags = "ucast (enter_args ctx ! 2) :: u32"
  let ?k = "if bit ?flags 6 then SL_FILE_OPEN_CREATE else SL_FILE_OPEN_WRITE"
  let ?e = "file_record K ?k ?flags (ucast (enter_args ctx ! 3)) 0 (user_path K (enter_args ctx ! 1)) (replicate PATH_BYTES 0)"
  have "wf_file ?e" by (rule wf_file_record [OF assms(3), where a = "enter_args ctx ! 1" and b = 0]) simp_all
  then have cast: "agent_file g now ?e = decodeFileEvent now ?e" by (simp add: agent_file_def cast_file_image wf_arrays)
  have "contents (snd (run_state (handle_openat R K ctx) r)) = contents r @ [?e]"
    using ringbuf_laws.emits_grants_const [OF assms(1) handle_openat_emits [OF assms(5), unfolded file_size] assms(2)] by simp
  moreover have "rf_Kind (decodeFileEvent now ?e) = (if bit ?flags 6 then FileOpenCreate else FileOpenWrite) \<and>
      rf_Path (decodeFileEvent now ?e) = take 255 path \<and> rf_NewPath (decodeFileEvent now ?e) = [] \<and>
      rf_PID (decodeFileEvent now ?e) = lo32 (bpf_get_current_pid_tgid K) \<and> rf_Timestamp (decodeFileEvent now ?e) = now"
    using user_path_string [OF assms(3,4)]
    by (simp add: decodeFileEvent_def decodeFileKind_def file_record_def SL_FILE_OPEN_CREATE_def SL_FILE_OPEN_WRITE_def)
  ultimately show ?thesis using cast by metis
qed

text \<open>C4. An \<open>openat\<close> with write intent on an absolute path of at most 255 bytes becomes a file event exactly when
  the path filter of the agent allows the path, while ring and channel have room: with that
  path, its last element as the name, the activity create or update by \<open>O_CREAT\<close>, and as actor the
  thread that made the call.\<close>

theorem file_writes_reach_the_event:
  assumes "ringbuf_laws R contents busy" "grants R 576 r" "bpf_reads K umem kmem"
    and "str_at umem (enter_args ctx ! 1) path" "write_intent (ucast (enter_args ctx ! 2))"
    and "HasPrefix path [47]" "length path \<le> 255" "enricher_ok en" "length (ch_queue (en_out en)) < ch_cap (en_out en)" "\<not> em_done em"
  shows "\<exists>e. contents (snd (run_state (handle_openat R K ctx) r)) = contents r @ [e] \<and>
    (case sent_since en (handleFile opts P em (agent_file g now e) en) of
       [] \<Rightarrow> \<not> allow (en_fileFilter en) path
     | [EvFile ev] \<Rightarrow> allow (en_fileFilter en) path \<and> fi_Path (fa_File ev) = path \<and> fi_Name (fa_File ev) = Base path \<and>
         fa_RenameTo ev = None \<and> ev_ActivityID ev = (if bit (ucast (enter_args ctx ! 2) :: u32) 6 then 1 else 3) \<and>
         pr_PID (ac_Process (ev_Actor ev)) = lo32 (bpf_get_current_pid_tgid K) \<and> ev_Time ev = UnixMilli now
     | _ \<Rightarrow> False)"
proof -
  obtain e where e: "contents (snd (run_state (handle_openat R K ctx) r)) = contents r @ [e]"
    "rf_Kind (agent_file g now e) = (if bit (ucast (enter_args ctx ! 2) :: u32) 6 then FileOpenCreate else FileOpenWrite)"
    "rf_Path (agent_file g now e) = take 255 path" "rf_NewPath (agent_file g now e) = []"
    "rf_PID (agent_file g now e) = lo32 (bpf_get_current_pid_tgid K)" "rf_Timestamp (agent_file g now e) = now"
    using agent_open [OF assms(1-5), of g now] by blast
  let ?raw = "agent_file g now e"
  have k: "rf_Kind ?raw \<noteq> FileUnknown" "rf_Kind ?raw \<noteq> FileRename" "rf_Kind ?raw \<noteq> FileChmod" using e(2) by simp_all
  have pid: "ent_pid (file_entry en P ?raw) = rf_PID ?raw"
    using cache_get_entry assms(8) by (auto simp: file_entry_def entry_of_def Let_def enricher_ok_def split: option.split)
  have "resolvePath P (rf_PID ?raw) (rf_Path ?raw) = path" "resolvePath P (rf_PID ?raw) (rf_NewPath ?raw) = []"
    using assms(6,7) e(3,4) by (simp_all add: resolvePath_def)
  then have "sent_since en (handleFile opts P em ?raw en) =
      (if allow (en_fileFilter en) path then [EvFile (buildFileOCSF opts en (em_uid em) ?raw (file_entry en P ?raw) path [])] else [])"
    using sent_since_emit [OF assms(9,10)] by (simp add: handleFile_cases [OF k(1)] allow_def sent_since_def)
  then show ?thesis using e(1,2,5,6) k pid
    by (intro exI [of _ e]) (auto simp: buildFileOCSF_def fileActivityID_def Let_def)
qed

theorem file_writes_reach_the_event_witness:
  "\<exists>e. ring_out (snd (run_state (handle_openat ring_buffer (sample_env open_sample_umem (mem_at 0 []))
      (sys_enter_sample [0, 0x5000, 0x41, 0x1A4, 0, 0])) (empty_ring undefined 1024))) = [e] \<and>
    (case sent_since (New ([], []) Map.empty newContainerIndex)
        (handleFile undefined no_proc (pi_emit sample_inputs) (agent_file (\<lambda>_. 0) 0 e) (New ([], []) Map.empty newContainerIndex)) of
       [EvFile ev] \<Rightarrow> fi_Path (fa_File ev) = [47, 116] | _ \<Rightarrow> False)"
proof -
  let ?en = "New ([], []) Map.empty newContainerIndex"
  have g: "grants ring_buffer 576 (empty_ring undefined 1024)"
    by (rule empty_ring_grants) (simp_all add: round_up_def)
  have en: "enricher_ok ?en" "length (ch_queue (en_out ?en)) < ch_cap (en_out ?en)" "allow (en_fileFilter ?en) [47, 116]"
    using New_ok [OF index_ok_new, of "([], [])" Map.empty] by (simp_all add: New_def newPathGlob_def allow_def)
  have i: "write_intent (ucast (enter_args (sys_enter_sample [0, 0x5000, 0x41, 0x1A4, 0, 0]) ! 2))"
    "str_at open_sample_umem (enter_args (sys_enter_sample [0, 0x5000, 0x41, 0x1A4, 0, 0]) ! 1) [47, 116]"
    using open_sample by (simp_all add: sys_enter_sample_def write_intent_def)
  have "\<not> em_done (pi_emit sample_inputs)" "HasPrefix [47, 116] [47]" "length [47, 116 :: byte] \<le> 255"
    by (simp_all add: sample_inputs_def HasPrefix_def)
  from file_writes_reach_the_event [OF ring_buffer.ringbuf_laws_axioms g sample_env_reads [of _ "mem_at 0 []"] i(2,1) this(2,3) en(1,2) this(1),
      where opts = undefined and P = no_proc and g = "\<lambda>_. 0" and now = 0] en(3)
  obtain e where e: "ring_out (snd (run_state (handle_openat ring_buffer (sample_env open_sample_umem (mem_at 0 []))
        (sys_enter_sample [0, 0x5000, 0x41, 0x1A4, 0, 0])) (empty_ring undefined 1024))) = ring_out (empty_ring undefined 1024) @ [e]"
      "case sent_since ?en (handleFile undefined no_proc (pi_emit sample_inputs) (agent_file (\<lambda>_. 0) 0 e) ?en) of
         [EvFile ev] \<Rightarrow> fi_Path (fa_File ev) = [47, 116] | _ \<Rightarrow> False"
    by (elim exE conjE) (rule that, assumption, simp split: list.splits Event.splits)
  have "ring_out (empty_ring undefined 1024) @ [e] = [e]" by simp
  from e [unfolded this] show ?thesis by blast
qed

section \<open>Logins from the program to the event\<close>

definition agent_auth :: "(nat \<Rightarrow> byte) \<Rightarrow> int \<Rightarrow> auth_event \<Rightarrow> RawAuthEvent" where
  "agent_auth g now e = decodeAuthEvent now (cast_auth (image g struct_auth_event (auth_val e)))"

text \<open>C14. A login attempt over the network becomes an authentication event: a process that starts a PAM
  transaction, names the remote address and returns from \<open>pam_authenticate\<close> with a result gives an
  event with that user and service (cut to 63 and 31 bytes), success exactly for the result 0, the
  name of the result, and as source an address that reads back as the one the caller named.\<close>

theorem login_attempt_reaches_the_event:
  assumes laws: "hash_laws H entries" "ringbuf_laws R contents busy" and K: "bpf_reads K umem kmem"
    and strs: "str_at umem (regs_di cs) service" "str_at umem (regs_si cs) user" "str_at umem (regs_dx ci) (Addr_String a)"
      "regs_di cs \<noteq> 0" "regs_si cs \<noteq> 0" "regs_dx ci \<noteq> 0"
    and item: "ucast (regs_si ci) = PAM_RHOST"
    and stored: "entries m (current_tgid K) = None"
      "entries (fst (run_hits H R [(Pam_start, K, cs)] (m, r))) (current_tgid K) \<noteq> None"
    and room: "grants R 248 r" and ok: "pam_ok entries contents (m, r)" "wf_addr a" "length (Addr_String a) \<le> 63"
    and en: "length (ch_queue (en_out en)) < ch_cap (en_out en)" "\<not> em_done em"
  shows "\<exists>e. contents (snd (run_hits H R [(Pam_start, K, cs), (Pam_set_item, K, ci), (Pam_authenticate, K, ca)] (m, r)))
      = contents r @ [e] \<and>
    (case sent_since en (handleAuth opts P em (agent_auth g now e) en) of
       [EvAuth ev] \<Rightarrow> us_Name (au_User ev) = take 63 user \<and> ev_ActivityID ev = 1 \<and> md_EventCode (ev_Metadata ev) = ''auth_attempt'' \<and>
         au_Service ev = (if service = [] then None else Some (take 31 service)) \<and>
         au_StatusID ev = (if ucast (regs_ax ca) = (0 :: u32) then 1 else 2) \<and> au_StatusDetail ev = pamResultName (ucast (regs_ax ca)) \<and>
         au_LogonTypeID ev = 10 \<and>
         (case au_SrcEndpoint ev of None \<Rightarrow> False | Some p \<Rightarrow> ParseAddr (np_IP p) = Some (Unmap a))
     | _ \<Rightarrow> False)"
proof -
  let ?hs = "[(Pam_start, K, cs), (Pam_set_item, K, ci), (Pam_authenticate, K, ca)]"
  obtain e where e: "contents (snd (run_hits H R ?hs (m, r))) = contents r @ [e]"
    "ae_kind e = SL_AUTH_ATTEMPT" "ae_result e = ucast (regs_ax ca)" "c_string (ae_service e) = take 31 service"
    "c_string (ae_user e) = take 63 user" "c_string (ae_rhost e) = take 63 (Addr_String a)"
    using pam_transaction_reported [OF laws K strs item stored room, of ca] by blast
  have "list_all in_context ?hs" using K by (auto simp: in_context_def)
  then have "pam_ok entries contents (run_hits H R ?hs (m, r))"
    using pam_machine.run_hits_ok [OF pam_machine.intro [OF laws]] ok(1) unfolding in_context_all by blast
  then have "wf_auth_event e" using e(1) by (auto simp: pam_ok_def)
  then have cast: "agent_auth g now e = decodeAuthEvent now e" by (simp add: agent_auth_def cast_auth_image)
  have "Addr_String a \<noteq> []" using parse_string [OF ok(2)] by (auto simp: ParseAddr_def)
  moreover have "wf_addr (Unmap a)" using ok(2) by (cases a) simp_all
  moreover note parse_string [OF ok(2)] sent_since_emit [OF en]
  ultimately show ?thesis using e ok(3) parse_string [of "Unmap a"]
    by (intro exI [of _ e]) (auto simp: cast handleAuth_def decodeAuthEvent_def decodeAuthKind_def SL_AUTH_ATTEMPT_def buildAuthOCSF_def
        authStatus_def authLogonType_def authEndpoint_def authActivityID_def authEventCode_def metadata_def Let_def)
qed

definition login_sample_umem :: memory where
  "login_sample_umem = (mem_at 0x5000 [115, 117, 0] ++ mem_at 0x4000 [98, 111, 98, 0]) ++ mem_at 0x3000 [49, 46, 50, 46, 51, 46, 52, 0]"

lemma login_sample_strings:
  "str_at login_sample_umem 0x5000 [115, 117]" "str_at login_sample_umem 0x4000 [98, 111, 98]"
  "str_at login_sample_umem 0x3000 [49, 46, 50, 46, 51, 46, 52]"
proof -
  show "str_at login_sample_umem 0x5000 [115, 117]" unfolding login_sample_umem_def
    by (intro str_atI [of _ _ 3] mem_bytes_before; simp add: mem_bytes_at)
  show "str_at login_sample_umem 0x4000 [98, 111, 98]" unfolding login_sample_umem_def
    by (intro str_atI [of _ _ 4] mem_bytes_before mem_bytes_last; simp add: mem_bytes_at)
  show "str_at login_sample_umem 0x3000 [49, 46, 50, 46, 51, 46, 52]" unfolding login_sample_umem_def
    by (intro str_atI [of _ _ 8] mem_bytes_last; simp add: mem_bytes_at)
qed

theorem login_attempt_reaches_the_event_witness:
  "\<exists>e. ring_out (snd (run_hits (hash_map 4096) ring_buffer
      [(Pam_start, sample_env login_sample_umem (mem_at 0 []), pam_regs 0x5000 0x4000 0 0),
       (Pam_set_item, sample_env login_sample_umem (mem_at 0 []), pam_regs 0 4 0x3000 0),
       (Pam_authenticate, sample_env login_sample_umem (mem_at 0 []), pam_regs 0 0 0 7)] ([], empty_ring undefined 1024))) = [e] \<and>
    (case sent_since (New ([], []) Map.empty newContainerIndex)
        (handleAuth undefined no_proc (pi_emit sample_inputs) (agent_auth (\<lambda>_. 0) 0 e) (New ([], []) Map.empty newContainerIndex)) of
       [EvAuth ev] \<Rightarrow> us_Name (au_User ev) = [98, 111, 98] \<and> au_StatusID ev = 2 | _ \<Rightarrow> False)"
proof -
  let ?K = "sample_env login_sample_umem (mem_at 0 [])" and ?en = "New ([], []) Map.empty newContainerIndex"
  let ?cs = "pam_regs 0x5000 0x4000 0 0" and ?ci = "pam_regs 0 4 0x3000 0" and ?ca = "pam_regs 0 0 0 7"
  have g: "grants ring_buffer 248 (empty_ring undefined 1024)"
    by (rule empty_ring_grants) (simp_all add: round_up_def)
  have st: "map_of (fst (run_hits (hash_map 4096) ring_buffer [(Pam_start, ?K, ?cs)] ([], empty_ring undefined 1024))) (current_tgid ?K) \<noteq> None"
    by (simp add: handle_pam_start_def handle_start_def on_map_def hash_map_def Let_def)
  have a: "Addr_String (Addr4 [1, 2, 3, 4]) = [49, 46, 50, 46, 51, 46, 52]" by code_simp
  have en: "length (ch_queue (en_out ?en)) < ch_cap (en_out ?en)" "\<not> em_done (pi_emit sample_inputs)"
    by (simp_all add: New_def sample_inputs_def)
  have "str_at login_sample_umem (regs_di ?cs) [115, 117]" "str_at login_sample_umem (regs_si ?cs) [98, 111, 98]"
    "str_at login_sample_umem (regs_dx ?ci) (Addr_String (Addr4 [1, 2, 3, 4]))" "regs_di ?cs \<noteq> 0" "regs_si ?cs \<noteq> 0"
    "regs_dx ?ci \<noteq> 0" "ucast (regs_si ?ci) = PAM_RHOST" "map_of ([] :: (u32 \<times> auth_ctx) list) (current_tgid ?K) = None"
    using login_sample_strings a by (simp_all add: pam_regs_def pam_items)
  note hyps = this
  have "pam_ok map_of ring_out ([], empty_ring undefined 1024)" "wf_addr (Addr4 [1, 2, 3, 4])" "length (Addr_String (Addr4 [1, 2, 3, 4])) \<le> 63"
    using a by (simp_all add: pam_ok_def del: Addr_String.simps)
  from login_attempt_reaches_the_event [OF hash_map.hash_laws_axioms [of 4096] ring_buffer.ringbuf_laws_axioms
      sample_env_reads hyps st g this en, where opts = undefined and P = no_proc and g = "\<lambda>_. 0" and now = 0 and ca = ?ca]
  obtain e where e: "ring_out (snd (run_hits (hash_map 4096) ring_buffer
        [(Pam_start, ?K, ?cs), (Pam_set_item, ?K, ?ci), (Pam_authenticate, ?K, ?ca)] ([], empty_ring undefined 1024))) =
        ring_out (empty_ring undefined 1024) @ [e]"
      "case sent_since ?en (handleAuth undefined no_proc (pi_emit sample_inputs) (agent_auth (\<lambda>_. 0) 0 e) ?en) of
         [EvAuth ev] \<Rightarrow> us_Name (au_User ev) = take 63 [98, 111, 98] \<and>
           au_StatusID ev = (if ucast (regs_ax ?ca) = (0 :: u32) then 1 else 2) | _ \<Rightarrow> False"
    by (elim exE conjE) (rule that, assumption, simp split: list.splits Event.splits)
  have "ring_out (empty_ring undefined 1024) @ [e] = [e]" "(if ucast (regs_ax ?ca) = (0 :: u32) then 1 else 2) = (2 :: u8)"
    "take 63 [98, 111, 98 :: byte] = [98, 111, 98]" by (simp_all add: pam_regs_def)
  from e [unfolded this] show ?thesis by blast
qed

section \<open>Error numbers\<close>

lemma negated_errno:
  assumes "1 \<le> n" "n \<le> 4095"
  shows "sint (word_of_int (- n) :: u64) = - n" "sint (ucast (word_of_int (- n) :: u64) :: u32) < 0"
    "int (unat (- (ucast (word_of_int (- n) :: u64) :: u32))) = n"
proof -
  have u: "(ucast (word_of_int (- n) :: u64) :: u32) = word_of_int (- n)"
    by (rule bit_word_eqI) (simp add: bit_ucast_iff bit_word_of_int_iff del: of_int_minus)
  show "sint (word_of_int (- n) :: u64) = - n"
    using assms by (simp add: sint_sbintrunc' signed_take_bit_int_eq_self del: of_int_minus)
  have "sint (word_of_int (- n) :: u32) = - n"
    using assms by (simp add: sint_sbintrunc' signed_take_bit_int_eq_self del: of_int_minus)
  then show "sint (ucast (word_of_int (- n) :: u64) :: u32) < 0" using assms(1) unfolding u by simp
  have "uint (word_of_int n :: u32) = n"
    using assms by (simp add: uint_word_of_int)
  then show "int (unat (- (ucast (word_of_int (- n) :: u64) :: u32))) = n" unfolding u by simp
qed

text \<open>C17. A module load that the kernel rejects with errno \<open>n\<close> (\<open>1 \<le> n \<le> 4095\<close>) reaches the agent, while the
  ring has room, as a rejected load with exactly that error number.\<close>

theorem rejected_load_errno_reaches_the_agent:
  assumes "ringbuf_laws R contents busy" "grants R 264 r" "bpf_reads K umem kmem"
    and "exit_ret ctx = word_of_int (- n)" "1 \<le> n" "n \<le> 4095"
  shows "list_all (\<lambda>h. \<exists>e ev. contents (snd (run_state (h R K ctx) r)) = contents r @ [e] \<and>
      decodeKernelEvent kp up now (cast_kernel (image g struct_kernel_event (kernel_val e))) = Some ev \<and>
      rk_Kind ev = KernelModuleLoadRejected \<and> int (unat (rk_Errno ev)) = n \<and>
      rk_PID ev = hi32 (bpf_get_current_pid_tgid K))
    [handle_init_module_exit, handle_finit_module_exit]"
proof -
  note errno = negated_errno [OF assms(5,6)]
  let ?e = "(blank_kernel K SL_KERNEL_MODULE_LOAD_REJECTED)\<lparr>ke_result := ucast (exit_ret ctx)\<rparr>"
  have neg: "sint (exit_ret ctx) < 0" using errno(1) assms(4,5) by simp
  have run: "contents (snd (run_state (handle_module_exit R K ctx) r)) = contents r @ [?e]"
    using ringbuf_laws.emits_grants_const [OF assms(1) handle_module_exit_emits [OF neg, unfolded kernel_size] assms(2)] .
  have "wf_kernel ?e" by (intro wf_kernel_updates wf_blank_kernel [OF assms(3)]) simp
  then have "cast_kernel (image g struct_kernel_event (kernel_val ?e)) = ?e"
    by (intro cast_kernel_image wf_arrays)
  then show ?thesis
    using run errno(2,3) assms(4)
    by (simp add: handle_init_module_exit_def handle_finit_module_exit_def decodeKernelEvent_def decodeKernelKind_def
        blank_kernel_def kind_consts Let_def)
qed

theorem rejected_load_errno_reaches_the_agent_witness:
  "\<exists>e ev. ring_out (snd (run_state (handle_finit_module_exit ring_buffer (sample_env (mem_at 0 []) (mem_at 0 []))
      \<lparr>exit_id = 313, exit_ret = - 1\<rparr>) (empty_ring undefined 1024))) = [e] \<and>
    decodeKernelEvent 6 7 0 (cast_kernel (image (\<lambda>_. 0) struct_kernel_event (kernel_val e))) = Some ev \<and>
    int (unat (rk_Errno ev)) = 1"
proof -
  have g: "grants ring_buffer 264 (empty_ring undefined 1024)"
    by (rule empty_ring_grants) (simp_all add: round_up_def)
  from rejected_load_errno_reaches_the_agent [OF ring_buffer.ringbuf_laws_axioms g
      sample_env_reads [of "mem_at 0 []" "mem_at 0 []"], where n = 1 and ctx = "\<lparr>exit_id = 313, exit_ret = - 1\<rparr>"
        and kp = 6 and up = 7 and now = 0 and g = "\<lambda>_. 0"]
  show ?thesis by auto
qed

section \<open>What the agent learns of a datagram\<close>

lemma emit_dns_granted:
  assumes "ringbuf_laws R contents busy" "run_state (bpf_ringbuf_reserve R 1112 0) r = (Some old, r1)"
  shows "contents (snd (run_state (emit_dns R K kind family v udp avail) r)) = contents r @
    (if dns_wanted K kind udp avail \<and> 0 \<le> fst (bpf_probe_read_kernel K (dns_len K udp avail) (udp + 8))
     then [dns_record K kind family v udp avail old] else [])"
proof -
  have res: "run_state (bpf_ringbuf_reserve R (of_nat 1112) 0) r = (Some old, r1)" using assms(2) by simp
  show ?thesis
    using not_wanted_skips [of K kind udp avail R family v, THEN skips_outcome, of r]
      emit_dns_emits [of K kind udp avail R family v, unfolded dns_size, THEN ringbuf_laws.emits_granted [OF assms(1)], OF _ _ res]
      emit_dns_discards [of K kind udp avail R family v, THEN ringbuf_laws.discards_outcome [OF assms(1)], of r]
    by (cases "dns_wanted K kind udp avail"; cases "0 \<le> fst (bpf_probe_read_kernel K (dns_len K udp avail) (udp + 8))")
      (simp_all add: not_le)
qed

text \<open>The DNS events the agent receives for the records a run appended.\<close>

definition agent_dns :: "(nat \<Rightarrow> byte) \<Rightarrow> int \<Rightarrow> dns_event list \<Rightarrow> RawDNSEvent list" where
  "agent_dns g now es = map (\<lambda>e. decodeDNSEvent now (cast_dns (image g struct_dns_event (dns_val e)))) es"

lemma agent_dns_record:
  assumes "bpf_reads K umem kmem" "dns_wanted K kind udp avail" "kind \<in> {SL_DNS_QUERY, SL_DNS_RESPONSE}" "family \<in> {4, 6}"
    and "length (de_payload old) = 1024" "length (de_payload old') = 1024"
  shows "agent_dns g now [dns_record K kind family v udp avail old] = agent_dns g' now [dns_record K kind family v udp avail old']"
proof -
  let ?bs = "snd (bpf_probe_read_kernel K (dns_len K udp avail) (udp + 8))"
  have len: "length ?bs = unat (dns_len K udp avail)" "length ?bs \<le> 1024"
    using bpf_reads.kernel_length [OF assms(1)] dns_len_bounds(2) [OF assms(2)] by simp_all
  have cast: "cast_dns (image h struct_dns_event (dns_val (dns_record K kind family v udp avail x))) =
      dns_record K kind family v udp avail x" if "length (de_payload x) = 1024" for h x
    using that len(2) by (intro cast_dns_image wf_arrays(5) wf_dns_record [OF assms(1-4)]) (simp add: dns_record_def)
  have agent: "agent_dns h now [dns_record K kind family v udp avail x] =
      [decodeDNSEvent now (dns_record K kind family v udp avail x)]" if "length (de_payload x) = 1024" for h x
    by (simp add: agent_dns_def cast [OF that])
  have "take (unat (dns_len K udp avail)) (overwrite ?bs x) = ?bs" for x
    using len(1) by (simp add: overwrite_def)
  then have "decodeDNSEvent now (dns_record K kind family v udp avail old) =
      decodeDNSEvent now (dns_record K kind family v udp avail old')"
    using len assms(5,6) by (simp add: decodeDNSEvent_def dns_record_def Let_def)
  then show ?thesis using agent [OF assms(5)] agent [OF assms(6)] by simp
qed

lemma dns_program_run:
  assumes "h \<in> {handle_ip_send_skb, handle_ip6_send_skb, handle_skb_recv_udp}"
  shows "h R K ctx = State_Monad.return 0 \<or> (\<exists>kind family v udp avail. kind \<in> {SL_DNS_QUERY, SL_DNS_RESPONSE} \<and>
      family \<in> {4, 6} \<and> h R K ctx = emit_dns R K kind family v udp avail)"
proof -
  have send: "handle_send R K skb family = State_Monad.return 0 \<or>
      (\<exists>v udp avail. handle_send R K skb family = emit_dns R K SL_DNS_QUERY family v udp avail)" for skb family
    using dns_handlers_run(1) [of R K skb family] by blast
  have recv: "handle_skb_recv_udp R K ctx = State_Monad.return 0 \<or> (\<exists>family v udp avail. family \<in> {4, 6} \<and>
      handle_skb_recv_udp R K ctx = emit_dns R K SL_DNS_RESPONSE family v udp avail)"
    using dns_handlers_run(2) [of R K ctx] by blast
  from assms consider "h = handle_ip_send_skb" | "h = handle_ip6_send_skb" | "h = handle_skb_recv_udp" by blast
  then show ?thesis
  proof cases
    case 1
    show ?thesis using send [of "PT_REGS_PARM2 ctx" 4] unfolding 1 handle_ip_send_skb_def by blast
  next
    case 2
    show ?thesis using send [of "PT_REGS_PARM1 ctx" 6] unfolding 2 handle_ip6_send_skb_def by blast
  next
    case 3
    show ?thesis using recv unfolding 3 by blast
  qed
qed

text \<open>C7. What the agent learns of a DNS datagram does not depend on what the ring's memory held before:
  two runs of a probe in the same context, on rings that hand out different old memory and
  with different padding, give the agent the same events, although the program leaves the
  tail of the payload array uninitialised.\<close>

theorem stale_memory_not_reported:
  assumes "ringbuf_laws R contents busy" "bpf_reads K umem kmem"
    and "h \<in> {handle_ip_send_skb, handle_ip6_send_skb, handle_skb_recv_udp}"
    and "run_state (bpf_ringbuf_reserve R 1112 0) r = (Some old, q)" "length (de_payload old) = 1024"
    and "run_state (bpf_ringbuf_reserve R 1112 0) r' = (Some old', q')" "length (de_payload old') = 1024"
  shows "agent_dns g now (drop (length (contents r)) (contents (snd (run_state (h R K ctx) r)))) =
    agent_dns g' now (drop (length (contents r')) (contents (snd (run_state (h R K ctx) r'))))"
proof -
  have "h R K ctx = State_Monad.return 0 \<or> (\<exists>kind family v udp avail. kind \<in> {SL_DNS_QUERY, SL_DNS_RESPONSE} \<and>
      family \<in> {4, 6} \<and> h R K ctx = emit_dns R K kind family v udp avail)"
    by (rule dns_program_run [OF assms(3)])
  then show ?thesis
  proof (elim disjE exE conjE)
    fix kind family v udp avail
    assume k: "kind \<in> {SL_DNS_QUERY, SL_DNS_RESPONSE}" "family \<in> {4, 6}" and p: "h R K ctx = emit_dns R K kind family v udp avail"
    show ?thesis
      using agent_dns_record [OF assms(2) _ k assms(5,7), of udp avail g now v g']
      unfolding p emit_dns_granted [OF assms(1,4)] emit_dns_granted [OF assms(1,6)]
      by (simp add: agent_dns_def)
  qed (simp add: State_Monad.return_def agent_dns_def)
qed

theorem stale_memory_not_reported_witness:
  "agent_dns (\<lambda>_. 0) 0 (ring_out (snd (run_state (handle_ip_send_skb ring_buffer
      (sample_env (mem_at 0 []) (dns_sample_kmem (dns_sample_view 0x6000 40) 4660 53)) (undefined\<lparr>regs_si := 0x5000\<rparr>))
      (empty_ring sample_dns_event 4096)))) =
   agent_dns (\<lambda>_. 255) 0 (ring_out (snd (run_state (handle_ip_send_skb ring_buffer
      (sample_env (mem_at 0 []) (dns_sample_kmem (dns_sample_view 0x6000 40) 4660 53)) (undefined\<lparr>regs_si := 0x5000\<rparr>))
      (empty_ring (sample_dns_event\<lparr>de_payload := replicate 1024 170\<rparr>) 4096))))"
proof -
  have res: "\<exists>q. run_state (bpf_ringbuf_reserve ring_buffer 1112 0) (empty_ring old 4096) = (Some old, q)" for old :: dns_event
    by (simp add: ring_buffer_def empty_ring_def round_up_def)
  obtain q q' where "run_state (bpf_ringbuf_reserve ring_buffer 1112 0) (empty_ring sample_dns_event 4096) =
      (Some sample_dns_event, q)"
    "run_state (bpf_ringbuf_reserve ring_buffer 1112 0) (empty_ring (sample_dns_event\<lparr>de_payload := replicate 1024 170\<rparr>) 4096) =
      (Some (sample_dns_event\<lparr>de_payload := replicate 1024 170\<rparr>), q')"
    using res by blast
  from stale_memory_not_reported [OF ring_buffer.ringbuf_laws_axioms 
      sample_env_reads [of "mem_at 0 []" "dns_sample_kmem (dns_sample_view 0x6000 40) 4660 53"] _ this(1) _ this(2) _,
      of handle_ip_send_skb "\<lambda>_. 0" 0 "undefined\<lparr>regs_si := 0x5000\<rparr>" "\<lambda>_. 255"]
  show ?thesis by (simp add: sample_dns_event_def)
qed

section \<open>Reservations\<close>

lemma process_balanced:
  assumes "ringbuf_laws R contents busy"
  shows "ringbuf_laws.balanced busy (handle_exec R K ec)" "ringbuf_laws.balanced busy (handle_exit R K xc)"
    "ringbuf_laws.balanced busy (handle_fork R K fc)"
  using ringbuf_laws.emits_balanced [OF assms handle_exec_emits] ringbuf_laws.emits_balanced [OF assms handle_exit_emits]
    ringbuf_laws.emits_balanced [OF assms handle_fork_emits] .

lemma file_balanced:
  assumes "ringbuf_laws R contents busy"
  shows "ringbuf_laws.balanced busy (handle_openat R K sc)" "ringbuf_laws.balanced busy (handle_unlinkat R K sc)"
    "ringbuf_laws.balanced busy (handle_renameat2 R K sc)" "ringbuf_laws.balanced busy (handle_fchmodat R K sc)"
    "ringbuf_laws.balanced busy (handle_fchownat R K sc)"
proof -
  note emits = ringbuf_laws.emits_balanced [OF assms] and skips = ringbuf_laws.skips_balanced [OF assms]
  show "ringbuf_laws.balanced busy (handle_openat R K sc)"
    using emits [OF handle_openat_emits [of sc R K]] skips [OF handle_openat_skips [of sc R K]] by blast
  show "ringbuf_laws.balanced busy (handle_unlinkat R K sc)" by (rule emits [OF handle_unlinkat_emits])
  show "ringbuf_laws.balanced busy (handle_renameat2 R K sc)" by (rule emits [OF handle_renameat2_emits])
  show "ringbuf_laws.balanced busy (handle_fchmodat R K sc)" by (rule emits [OF handle_fchmodat_emits])
  show "ringbuf_laws.balanced busy (handle_fchownat R K sc)" by (rule emits [OF handle_fchownat_emits])
qed

lemma net_balanced:
  assumes "ringbuf_laws R contents busy"
  shows "ringbuf_laws.balanced busy (handle_tcp_connect R K pt)" "ringbuf_laws.balanced busy (handle_inet_csk_accept R K pt)"
    "ringbuf_laws.balanced busy (handle_udp_sendmsg R K pt)"
proof -
  note bal = ringbuf_laws.emits_balanced [OF assms] ringbuf_laws.skips_balanced [OF assms]
    ringbuf_laws.discards_balanced [OF assms]
  show "ringbuf_laws.balanced busy (handle_tcp_connect R K pt)" "ringbuf_laws.balanced busy (handle_udp_sendmsg R K pt)"
    by (cases "regs_di pt = 0"; cases "inet_family (sk_family K (regs_di pt))";
        simp add: bal(1) [OF net_probes_emit(1)] bal(1) [OF net_probes_emit(3)] bal(2) [OF net_probes_skip(1)]
          bal(2) [OF net_probes_skip(3)] bal(3) [OF net_probes_discard(1)] bal(3) [OF net_probes_discard(3)])+
  show "ringbuf_laws.balanced busy (handle_inet_csk_accept R K pt)"
    by (cases "regs_ax pt = 0"; cases "inet_family (sk_family K (regs_ax pt))";
        simp add: bal(1) [OF net_probes_emit(2)] bal(2) [OF net_probes_skip(2)] bal(3) [OF net_probes_discard(2)])
qed

lemma kernel_balanced:
  assumes "ringbuf_laws R contents busy"
  shows "ringbuf_laws.balanced busy (handle_module_load R K lc)" "ringbuf_laws.balanced busy (handle_module_free R K mc)"
    "ringbuf_laws.balanced busy (handle_init_module_exit R K sx)" "ringbuf_laws.balanced busy (handle_finit_module_exit R K sx)"
    "ringbuf_laws.balanced busy (handle_bpf R K sc)" "ringbuf_laws.balanced busy (handle_perf_event_open R K sc)"
proof -
  note emits = ringbuf_laws.emits_balanced [OF assms] and skips = ringbuf_laws.skips_balanced [OF assms]
  show "ringbuf_laws.balanced busy (handle_module_load R K lc)" by (rule emits [OF handle_module_load_emits])
  show "ringbuf_laws.balanced busy (handle_module_free R K mc)" by (rule emits [OF handle_module_free_emits])
  have "ringbuf_laws.balanced busy (handle_module_exit R K sx)"
    using emits [OF handle_module_exit_emits [of sx R K]] skips [OF handle_module_exit_skips [of sx R K]] by linarith
  then show "ringbuf_laws.balanced busy (handle_init_module_exit R K sx)" "ringbuf_laws.balanced busy (handle_finit_module_exit R K sx)"
    by (simp_all add: handle_init_module_exit_def handle_finit_module_exit_def)
  show "ringbuf_laws.balanced busy (handle_bpf R K sc)"
    using emits [OF handle_bpf_emits [of sc R K]] skips [OF handle_bpf_skips [of sc R K]] by blast
  show "ringbuf_laws.balanced busy (handle_perf_event_open R K sc)"
    using emits [OF handle_perf_event_open_emits [of K sc R]] skips [OF handle_perf_event_open_skips [of K sc R]] by blast
qed

lemma cgroup_balanced:
  assumes "ringbuf_laws R contents busy"
  shows "ringbuf_laws.balanced busy (handle_cgroup_mkdir R K gc)" "ringbuf_laws.balanced busy (handle_cgroup_rmdir R K gc)"
  using ringbuf_laws.emits_balanced [OF assms cgroup_handlers_emit(1)]
    ringbuf_laws.emits_balanced [OF assms cgroup_handlers_emit(2)] .

lemma dns_balanced:
  assumes "ringbuf_laws R contents busy"
  shows "ringbuf_laws.balanced busy (handle_ip_send_skb R K pt)" "ringbuf_laws.balanced busy (handle_ip6_send_skb R K pt)"
    "ringbuf_laws.balanced busy (handle_skb_recv_udp R K pt)"
proof -
  have skip: "ringbuf_laws.balanced busy (State_Monad.return 0)"
    by (rule ringbuf_laws.skips_balanced [OF assms]) (simp add: skips_def State_Monad.return_def)
  have emit: "ringbuf_laws.balanced busy (emit_dns R K kind family v udp avail)" for kind family v udp avail
    using emit_dns_outcome [OF assms, of K kind family v udp avail] by (simp add: ringbuf_laws.balanced_def [OF assms])
  have send: "ringbuf_laws.balanced busy (handle_send R K skb family)" for skb family
    using dns_handlers_run(1) [of R K skb family] skip emit by auto
  then show "ringbuf_laws.balanced busy (handle_ip_send_skb R K pt)" "ringbuf_laws.balanced busy (handle_ip6_send_skb R K pt)"
    by (simp_all add: handle_ip_send_skb_def handle_ip6_send_skb_def)
  show "ringbuf_laws.balanced busy (handle_skb_recv_udp R K pt)"
    using dns_handlers_run(2) [of R K pt] skip emit by auto
qed

text \<open>C8. Every program returns 0 and closes what it opened: whatever it reads and whichever way it leaves,
  the ring has as many open reservations after a run of a process, file, network, kernel,
  control-group or DNS program as before.\<close>

theorem programs_close_their_reservations:
  assumes "ringbuf_laws Rp cp bp" "ringbuf_laws Rf cf bf" "ringbuf_laws Rn cn bn" "ringbuf_laws Rk ck bk"
    "ringbuf_laws Rc cc bc" "ringbuf_laws Rd cd bd"
  shows "list_all (\<lambda>h. fst (run_state h p) = 0 \<and> bp (snd (run_state h p)) = bp p)
      [handle_exec Rp K ec, handle_exit Rp K xc, handle_fork Rp K fc] \<and>
    list_all (\<lambda>h. fst (run_state (h Rf K sc) f) = 0 \<and> bf (snd (run_state (h Rf K sc) f)) = bf f)
      [handle_openat, handle_unlinkat, handle_renameat2, handle_fchmodat, handle_fchownat] \<and>
    list_all (\<lambda>h. fst (run_state (h Rn K pt) n) = 0 \<and> bn (snd (run_state (h Rn K pt) n)) = bn n)
      [handle_tcp_connect, handle_inet_csk_accept, handle_udp_sendmsg] \<and>
    list_all (\<lambda>h. fst (run_state h k) = 0 \<and> bk (snd (run_state h k)) = bk k)
      [handle_module_load Rk K lc, handle_module_free Rk K mc, handle_init_module_exit Rk K sx,
       handle_finit_module_exit Rk K sx, handle_bpf Rk K sc, handle_perf_event_open Rk K sc] \<and>
    list_all (\<lambda>h. fst (run_state (h Rc K gc) c) = 0 \<and> bc (snd (run_state (h Rc K gc) c)) = bc c)
      [handle_cgroup_mkdir, handle_cgroup_rmdir] \<and>
    list_all (\<lambda>h. fst (run_state (h Rd K pt) d) = 0 \<and> bd (snd (run_state (h Rd K pt) d)) = bd d)
      [handle_ip_send_skb, handle_ip6_send_skb, handle_skb_recv_udp]"
  using process_balanced [OF assms(1), of K] file_balanced [OF assms(2), of K sc] net_balanced [OF assms(3), of K pt]
    kernel_balanced [OF assms(4), of K] cgroup_balanced [OF assms(5), of K gc] dns_balanced [OF assms(6), of K pt]
  unfolding ringbuf_laws.balanced_def [OF assms(1)] ringbuf_laws.balanced_def [OF assms(2)]
    ringbuf_laws.balanced_def [OF assms(3)] ringbuf_laws.balanced_def [OF assms(4)]
    ringbuf_laws.balanced_def [OF assms(5)] ringbuf_laws.balanced_def [OF assms(6)]
  by simp

theorem programs_close_their_reservations_witness:
  "ring_busy (snd (run_state (handle_tcp_connect ring_buffer (sample_env (mem_at 0 []) (mem_at 0 []))
     (undefined\<lparr>regs_di := 0x3000\<rparr>)) (empty_ring undefined 1024))) = ring_busy (empty_ring undefined 1024 :: net_event ring)"
  using programs_close_their_reservations [OF ring_buffer.ringbuf_laws_axioms ring_buffer.ringbuf_laws_axioms
      ring_buffer.ringbuf_laws_axioms ring_buffer.ringbuf_laws_axioms ring_buffer.ringbuf_laws_axioms
      ring_buffer.ringbuf_laws_axioms]
  by simp

end
